(* ===== verification/Js_Prelude.thy ===== *)
theory Js_Prelude
  imports Main "HOL-Library.AList" "HOL-Library.Multiset"
begin

section \<open>JavaScript values the console code computes with\<close>

text \<open>
  What every component theory shares: thrown errors, the nullish operator, the array and
  string methods the console uses, plain objects as association lists in insertion order,
  \<open>Object.groupBy\<close> with \<open>Object.entries\<close>, and the two interfaces the components rely on:
  a string-keyed record (\<open>string_record\<close>) and a deterministic machine with an invariant
  (\<open>machine\<close>).

  Strings are \<open>char\<close> lists: every string constant and every character class of the source
  is ASCII, and one \<open>char\<close> stands for one UTF-16 code unit below 256.
\<close>

named_theorems js_simps \<open>evaluation of the JavaScript primitives\<close>

subsection \<open>Errors\<close>

text \<open>A thrown \<open>Error\<close>: constructor name, message and the optional \<open>cause\<close>.\<close>

datatype js_error = JsError (error_name: string) (error_message: string) (error_cause: "string option")

definition new_Error :: "string \<Rightarrow> js_error" where
  "new_Error msg = JsError ''Error'' msg None"

definition new_TypeError :: "string \<Rightarrow> js_error" where
  "new_TypeError msg = JsError ''TypeError'' msg None"

lemma error_message_new [simp]:
  "error_message (new_Error m) = m" "error_message (new_TypeError m) = m"
  by (simp_all add: new_Error_def new_TypeError_def)

text \<open>
  A value caught by a \<open>catch\<close> clause: an \<open>Error\<close>; a string (or the number 0 or \<open>NaN\<close>, which are shown as
  their text); null, undefined or false; or any other value but an array. The last two carry their \<open>String(e)\<close>.
\<close>

datatype thrown = ThrownError js_error | ThrownString string | ThrownEmpty string | ThrownOther string

text \<open>The state of an awaited promise. \<open>Pending\<close> is one that never settles.\<close>

datatype 'a promise = Resolved 'a | Rejected thrown | Pending

subsection \<open>Nullish values and arrays\<close>

definition nullish :: "'a option \<Rightarrow> 'a \<Rightarrow> 'a" where
  "nullish x d = (case x of None \<Rightarrow> d | Some v \<Rightarrow> v)"

lemma nullish_simps [simp, js_simps]:
  "nullish None d = d" "nullish (Some v) d = v"
  by (simp_all add: nullish_def)

text \<open>\<open>a || b\<close> where both are an error object or null.\<close>

definition js_or :: "'a option \<Rightarrow> 'a option \<Rightarrow> 'a option" where
  "js_or a b = (case a of None \<Rightarrow> b | Some v \<Rightarrow> Some v)"

lemma js_or_simps [simp, js_simps]:
  "js_or None b = b" "js_or (Some v) b = Some v"
  by (simp_all add: js_or_def)

lemma js_or_None_iff: "js_or a b = None \<longleftrightarrow> a = None \<and> b = None"
  by (simp add: js_or_def split: option.splits)

text \<open>\<open>xs[0]\<close> of an array that may be empty: \<open>None\<close> is undefined.\<close>

definition js_first :: "'a list \<Rightarrow> 'a option" where
  "js_first xs = (case xs of [] \<Rightarrow> None | x # _ \<Rightarrow> Some x)"

lemma map_filter_append: "List.map_filter f (xs @ ys) = List.map_filter f xs @ List.map_filter f ys"
  by (induction xs) (simp_all split: option.splits)

lemma js_first_simps [simp, js_simps]:
  "js_first [] = None" "js_first (x # xs) = Some x"
  by (simp_all add: js_first_def)

text \<open>\<open>Array.prototype.findIndex\<close>: \<open>-1\<close> when no element satisfies the predicate.\<close>

fun js_findIndex :: "('a \<Rightarrow> bool) \<Rightarrow> 'a list \<Rightarrow> int" where
  "js_findIndex P [] = -1"
| "js_findIndex P (x # xs) =
     (if P x then 0 else (let i = js_findIndex P xs in if i = -1 then -1 else i + 1))"

lemma js_findIndex_ge: "-1 \<le> js_findIndex P xs"
  by (induction xs) (auto simp: Let_def)

lemma js_findIndex_none: "js_findIndex P xs = -1 \<longleftrightarrow> (\<forall>x \<in> set xs. \<not> P x)"
proof (induction xs)
  case Nil
  then show ?case by simp
next
  case (Cons x xs)
  have "js_findIndex P xs + 1 \<noteq> -1"
    using js_findIndex_ge [of P xs] by linarith
  with Cons show ?case by (simp add: Let_def)
qed

lemma js_findIndex_zero: "js_findIndex P xs = 0 \<longleftrightarrow> xs \<noteq> [] \<and> P (hd xs)"
  using js_findIndex_ge [of P "tl xs"] by (cases xs) (auto simp: Let_def)

text \<open>\<open>splice(i, 1)\<close> at an index in range removes that element.\<close>

definition js_splice1 :: "nat \<Rightarrow> 'a list \<Rightarrow> 'a list" where
  "js_splice1 i xs = take i xs @ drop (Suc i) xs"

lemma find_Some_D: "find P xs = Some x \<Longrightarrow> P x \<and> x \<in> set xs"
  by (auto simp: find_Some_iff)

lemma find_not_None: "find P xs \<noteq> None \<longleftrightarrow> (\<exists>x \<in> set xs. P x)"
  by (auto simp: find_None_iff)

subsection \<open>Strings\<close>

text \<open>\<open>s.split(sep)\<close> for a one-character separator.\<close>

fun js_split :: "char \<Rightarrow> string \<Rightarrow> string list" where
  "js_split c [] = [[]]"
| "js_split c (x # xs) =
     (if x = c then [] # js_split c xs
      else (case js_split c xs of [] \<Rightarrow> [[x]] | y # ys \<Rightarrow> (x # y) # ys))"

fun js_join :: "char \<Rightarrow> string list \<Rightarrow> string" where
  "js_join c [] = []"
| "js_join c [x] = x"
| "js_join c (x # y # ys) = x @ c # js_join c (y # ys)"

lemma js_split_nonempty [simp]: "js_split c s \<noteq> []"
  by (induction s) (auto split: list.splits)

lemma js_split_no_sep: "c \<notin> set s \<Longrightarrow> js_split c s = [s]"
  by (induction s) auto

lemma js_split_append: "c \<notin> set k \<Longrightarrow> js_split c (k @ c # v) = k # js_split c v"
  by (induction k) auto

lemma js_join_split: "js_join c (js_split c s) = s"
proof (induction s)
  case Nil
  then show ?case by simp
next
  case (Cons x xs)
  obtain y ys where y: "js_split c xs = y # ys"
    by (cases "js_split c xs") auto
  with Cons show ?case by (cases ys) auto
qed

text \<open>\<open>s.includes(t)\<close>, \<open>s.startsWith(t)\<close> and the first piece of \<open>s.split(t)\<close> for a
  separator of any length (the whole string when it does not occur).\<close>

definition js_startsWith :: "string \<Rightarrow> string \<Rightarrow> bool" where
  "js_startsWith s t \<longleftrightarrow> take (length t) s = t"

fun js_includes :: "string \<Rightarrow> string \<Rightarrow> bool" where
  "js_includes [] t = (t = [])"
| "js_includes (x # xs) t = (js_startsWith (x # xs) t \<or> js_includes xs t)"

fun js_before :: "string \<Rightarrow> string \<Rightarrow> string" where
  "js_before [] t = []"
| "js_before (x # xs) t = (if js_startsWith (x # xs) t then [] else x # js_before xs t)"

subsection \<open>Plain objects with string keys\<close>

text \<open>
  \<open>Record<string, T>\<close> as an association list in insertion order with distinct keys:
  reading, writing in place or at the end, \<open>delete\<close>, \<open>in\<close>, \<open>Object.fromEntries\<close>.
\<close>

type_synonym 'v js_object = "(string \<times> 'v) list"

definition obj_ok :: "'v js_object \<Rightarrow> bool" where
  "obj_ok obj \<longleftrightarrow> distinct (map fst obj)"

definition obj_get :: "'v js_object \<Rightarrow> string \<Rightarrow> 'v option" where
  "obj_get obj k = map_of obj k"

definition obj_set :: "string \<Rightarrow> 'v \<Rightarrow> 'v js_object \<Rightarrow> 'v js_object" where
  "obj_set k v obj = AList.update k v obj"

definition obj_delete :: "string \<Rightarrow> 'v js_object \<Rightarrow> 'v js_object" where
  "obj_delete k obj = filter (\<lambda>e. fst e \<noteq> k) obj"

definition obj_has :: "string \<Rightarrow> 'v js_object \<Rightarrow> bool" where
  "obj_has k obj \<longleftrightarrow> k \<in> fst ` set obj"

definition obj_from_entries :: "(string \<times> 'v) list \<Rightarrow> 'v js_object" where
  "obj_from_entries es = fold (\<lambda>(k, v). obj_set k v) es []"

lemma obj_get_Nil [simp]: "obj_get [] k = None"
  by (simp add: obj_get_def)

lemma obj_ok_Nil [simp]: "obj_ok []"
  by (simp add: obj_ok_def)

lemma obj_get_set: "obj_get (obj_set k v obj) k' = (if k' = k then Some v else obj_get obj k')"
  by (simp add: obj_get_def obj_set_def update_conv')

lemma obj_get_delete: "obj_get (obj_delete k obj) k' = (if k' = k then None else obj_get obj k')"
  unfolding obj_get_def obj_delete_def by (induction obj) auto

lemma obj_ok_set: "obj_ok obj \<Longrightarrow> obj_ok (obj_set k v obj)"
  by (simp add: obj_ok_def obj_set_def distinct_update)

lemma obj_ok_delete: "obj_ok obj \<Longrightarrow> obj_ok (obj_delete k obj)"
  unfolding obj_ok_def obj_delete_def by (induction obj) auto

lemma obj_has_iff: "obj_has k obj \<longleftrightarrow> obj_get obj k \<noteq> None"
  by (simp add: obj_has_def obj_get_def map_of_eq_None_iff image_iff)

lemma obj_set_new: "k \<notin> fst ` set obj \<Longrightarrow> obj_set k v obj = obj @ [(k, v)]"
  unfolding obj_set_def by (induction obj) auto

lemma obj_from_entries_distinct: "distinct (map fst es) \<Longrightarrow> obj_from_entries es = es"
  unfolding obj_from_entries_def
  by (induction es rule: rev_induct) (auto simp: obj_set_new)

text \<open>The contract of a string-keyed record that the label code relies on.\<close>

locale string_record =
  fixes get :: "'m \<Rightarrow> string \<Rightarrow> 'v option"
    and put :: "string \<Rightarrow> 'v \<Rightarrow> 'm \<Rightarrow> 'm"
    and del :: "string \<Rightarrow> 'm \<Rightarrow> 'm"
    and ok :: "'m \<Rightarrow> bool"
  assumes get_put: "get (put k v m) k' = (if k' = k then Some v else get m k')"
    and get_del: "get (del k m) k' = (if k' = k then None else get m k')"
    and ok_put: "ok m \<Longrightarrow> ok (put k v m)"
    and ok_del: "ok m \<Longrightarrow> ok (del k m)"
begin

text \<open>Switching one key on or off, as the storage role label is.\<close>

lemma get_switch:
  "get (if on then put k v m else if get m k \<noteq> None then del k m else m) k' =
     (if k' = k then (if on then Some v else None) else get m k')"
  by (auto simp: get_put get_del)

lemma ok_switch:
  "ok m \<Longrightarrow> ok (if on then put k v m else if get m k \<noteq> None then del k m else m)"
  by (simp add: ok_put ok_del)

end

interpretation js_obj: string_record obj_get obj_set obj_delete obj_ok
  by unfold_locales (auto simp: obj_get_set obj_get_delete obj_ok_set obj_ok_delete)

subsection \<open>Key order and grouping\<close>

text \<open>
  \<open>Object.entries\<close> and \<open>Object.keys\<close> list the array-index keys first, in ascending
  numeric order, then the other keys in insertion order. An array index is a canonical
  decimal numeral below \<open>2 ^ 32 - 1\<close>.
\<close>

definition is_digit :: "char \<Rightarrow> bool" where
  "is_digit c \<longleftrightarrow> c \<in> set ''0123456789''"

definition digit_value :: "char \<Rightarrow> int" where
  "digit_value c = of_char c - 48"

definition decimal_value :: "string \<Rightarrow> int" where
  "decimal_value s = foldl (\<lambda>n c. 10 * n + digit_value c) 0 s"

definition is_array_index :: "string \<Rightarrow> bool" where
  "is_array_index s \<longleftrightarrow>
     s \<noteq> [] \<and> list_all is_digit s \<and> (s = ''0'' \<or> hd s \<noteq> CHR ''0'') \<and>
     decimal_value s < 2 ^ 32 - 1"

definition object_entries :: "'v js_object \<Rightarrow> (string \<times> 'v) list" where
  "object_entries obj =
     sort_key (\<lambda>e. decimal_value (fst e)) (filter (\<lambda>e. is_array_index (fst e)) obj)
     @ filter (\<lambda>e. \<not> is_array_index (fst e)) obj"

lemma set_object_entries [simp]: "set (object_entries obj) = set obj"
  by (auto simp: object_entries_def)

lemma mset_object_entries: "mset (object_entries obj) = mset obj"
  by (simp add: object_entries_def)

lemma length_object_entries [simp]: "length (object_entries obj) = length obj"
  using mset_object_entries [of obj] by (rule mset_eq_length)

lemma distinct_object_entries: "obj_ok obj \<Longrightarrow> distinct (map fst (object_entries obj))"
  unfolding obj_ok_def
  by (metis mset_map mset_object_entries mset_eq_imp_distinct_iff)

text \<open>\<open>Object.groupBy\<close>: one list per key, in the order of the array, keys in the order of
  their first element.\<close>

definition group_step :: "('a \<Rightarrow> string) \<Rightarrow> 'a list js_object \<Rightarrow> 'a \<Rightarrow> 'a list js_object" where
  "group_step key g x = obj_set (key x) (nullish (obj_get g (key x)) [] @ [x]) g"

definition object_groupBy :: "'a list \<Rightarrow> ('a \<Rightarrow> string) \<Rightarrow> 'a list js_object" where
  "object_groupBy xs key = foldl (group_step key) [] xs"

lemma object_groupBy_snoc:
  "object_groupBy (xs @ [x]) key = group_step key (object_groupBy xs key) x"
  by (simp add: object_groupBy_def)

lemma obj_ok_groupBy: "obj_ok (object_groupBy xs key)"
proof (induction xs rule: rev_induct)
  case Nil
  then show ?case by (simp add: object_groupBy_def)
next
  case (snoc x xs)
  then show ?case by (simp add: object_groupBy_snoc group_step_def obj_ok_set)
qed

lemma obj_get_groupBy:
  "obj_get (object_groupBy xs key) k =
     (if \<exists>x \<in> set xs. key x = k then Some (filter (\<lambda>x. key x = k) xs) else None)"
proof (induction xs rule: rev_induct)
  case Nil
  then show ?case by (simp add: object_groupBy_def)
next
  case (snoc x xs)
  then show ?case
    by (auto simp: object_groupBy_snoc group_step_def obj_get_set filter_empty_conv)
qed

lemma groupBy_entry_iff:
  "(k, g) \<in> set (object_groupBy xs key) \<longleftrightarrow>
     (\<exists>x \<in> set xs. key x = k) \<and> g = filter (\<lambda>x. key x = k) xs"
proof -
  have "(k, g) \<in> set (object_groupBy xs key) \<longleftrightarrow> obj_get (object_groupBy xs key) k = Some g"
    using obj_ok_groupBy [of xs key] unfolding obj_get_def obj_ok_def
    by (simp add: map_of_eq_Some_iff)
  then show ?thesis by (auto simp: obj_get_groupBy)
qed

subsection \<open>Deterministic machines with an invariant\<close>

text \<open>
  A component whose state changes by a step per event, with an invariant every step keeps.
  The client is a whole run of events.
\<close>

locale machine =
  fixes step :: "'s \<Rightarrow> 'e \<Rightarrow> 's"
    and inv :: "'s \<Rightarrow> bool"
  assumes step_inv: "inv s \<Longrightarrow> inv (step s e)"
begin

lemma run_inv: "inv s \<Longrightarrow> inv (foldl step s es)"
  by (induction es arbitrary: s) (auto intro: step_inv)

end

text \<open>
  A machine that implements an abstract one: on states with the invariant a step, seen through
  the abstraction, is a step of the specification. Then every run is a run of the specification.
\<close>

locale refined_machine = machine step inv
  for step :: "'s \<Rightarrow> 'e \<Rightarrow> 's" and inv :: "'s \<Rightarrow> bool" +
  fixes abs :: "'s \<Rightarrow> 'a"
    and spec_step :: "'a \<Rightarrow> 'e \<Rightarrow> 'a"
  assumes abs_step: "inv s \<Longrightarrow> abs (step s e) = spec_step (abs s) e"
begin

lemma abs_run: "inv s \<Longrightarrow> abs (foldl step s es) = foldl spec_step (abs s) es"
  by (induction es arbitrary: s) (simp_all add: abs_step step_inv)

end

end
