(* ===== verification/Console_Constants.thy ===== *)
theory Console_Constants
  imports Js_Prelude
begin

section \<open>Constants, resource kinds and plugin routes\<close>

text \<open>
  \<open>console/src/constants.ts\<close>, the \<open>groupVersionKind\<close> constants of
  \<open>console/src/data/models\<close>, \<open>UrlPaths\<close> of
  \<open>console/src/shared/utils/use_redirect_handler.ts\<close> and the extension list of
  \<open>console/config/dynamic-plugin.config.ts\<close>. The translation function of i18next is third-party
  code: a function \<open>tr\<close> from a key and its interpolation values to a text, passed to every
  definition whose source calls \<open>t\<close>.
\<close>

type_synonym translator = "string \<Rightarrow> (string \<times> string) list \<Rightarrow> string"

definition LEARN_MORE_LINK :: string where
  "LEARN_MORE_LINK = ''https://docs.redhat.com/en/documentation/openshift_container_platform/4.19/html/virtualization/virtualization-with-ibm-fusion-access-for-san''"

definition MINIMUM_AMOUNT_OF_NODES :: nat where
  "MINIMUM_AMOUNT_OF_NODES = 3"

definition MINIMUM_AMOUNT_OF_NODES_LITERAL :: "translator \<Rightarrow> string" where
  "MINIMUM_AMOUNT_OF_NODES_LITERAL tr = tr ''three'' []"

definition MINIMUM_AMOUNT_OF_SHARED_DISKS :: nat where
  "MINIMUM_AMOUNT_OF_SHARED_DISKS = 1"

definition MINIMUM_AMOUNT_OF_SHARED_DISKS_LITERAL :: "translator \<Rightarrow> string" where
  "MINIMUM_AMOUNT_OF_SHARED_DISKS_LITERAL tr = tr ''one'' []"

definition MINIMUM_AMOUNT_OF_MEMORY_GIB :: nat where
  "MINIMUM_AMOUNT_OF_MEMORY_GIB = 20"

definition MINIMUM_AMOUNT_OF_MEMORY_GIB_LITERAL :: string where
  "MINIMUM_AMOUNT_OF_MEMORY_GIB_LITERAL = ''20 GiB''"

definition VALUE_NOT_AVAILABLE :: string where
  "VALUE_NOT_AVAILABLE = ''--''"

definition STORAGE_ROLE_LABEL :: string where
  "STORAGE_ROLE_LABEL = ''scale.spectrum.ibm.com/role=storage''"

definition WORKER_NODE_ROLE_LABEL :: string where
  "WORKER_NODE_ROLE_LABEL = ''node-role.kubernetes.io/worker=''"

definition MASTER_NODE_ROLE_LABEL :: string where
  "MASTER_NODE_ROLE_LABEL = ''node-role.kubernetes.io/master=''"

definition CPLANE_NODE_ROLE_LABEL :: string where
  "CPLANE_NODE_ROLE_LABEL = ''node-role.kubernetes.io/control-plane=''"

definition FS_ALLOW_DELETE_LABEL :: string where
  "FS_ALLOW_DELETE_LABEL = ''scale.spectrum.ibm.com/allowDelete''"

definition SC_PROVISIONER :: string where
  "SC_PROVISIONER = ''spectrumscale.csi.ibm.com''"

definition FUSION_ACCESS_NAMESPACE :: string where
  "FUSION_ACCESS_NAMESPACE = ''ibm-fusion-access''"

definition SPECTRUM_SCALE_NAMESPACE :: string where
  "SPECTRUM_SCALE_NAMESPACE = ''ibm-spectrum-scale''"

definition STORAGE_CLUSTER_NAME :: string where
  "STORAGE_CLUSTER_NAME = ''ibm-spectrum-scale''"

definition IN_FLIGHT_SLEEP_MS :: nat where
  "IN_FLIGHT_SLEEP_MS = 500"

subsection \<open>Group, version and kind\<close>

record groupVersionKind =
  gvk_group :: string
  gvk_version :: string
  gvk_kind :: string

definition apiVersion_of :: "groupVersionKind \<Rightarrow> string" where
  "apiVersion_of g = gvk_group g @ ''/'' @ gvk_version g"

definition daemon_gvk :: groupVersionKind where
  "daemon_gvk = \<lparr>gvk_group = ''scale.spectrum.ibm.com'', gvk_version = ''v1beta1'', gvk_kind = ''Daemon''\<rparr>"

definition file_system_claim_gvk :: groupVersionKind where
  "file_system_claim_gvk =
     \<lparr>gvk_group = ''fusion.storage.openshift.io'', gvk_version = ''v1alpha1'', gvk_kind = ''FileSystemClaim''\<rparr>"

definition file_system_gvk :: groupVersionKind where
  "file_system_gvk =
     \<lparr>gvk_group = ''scale.spectrum.ibm.com'', gvk_version = ''v1beta1'', gvk_kind = ''Filesystem''\<rparr>"

definition fusion_access_gvk :: groupVersionKind where
  "fusion_access_gvk =
     \<lparr>gvk_group = ''fusion.storage.openshift.io'', gvk_version = ''v1alpha1'', gvk_kind = ''FusionAccess''\<rparr>"

definition local_disk_gvk :: groupVersionKind where
  "local_disk_gvk =
     \<lparr>gvk_group = ''scale.spectrum.ibm.com'', gvk_version = ''v1beta1'', gvk_kind = ''LocalDisk''\<rparr>"

definition lvdr_gvk :: groupVersionKind where
  "lvdr_gvk =
     \<lparr>gvk_group = ''fusion.storage.openshift.io'', gvk_version = ''v1alpha1'',
      gvk_kind = ''LocalVolumeDiscoveryResult''\<rparr>"

definition node_gvk :: groupVersionKind where
  "node_gvk = \<lparr>gvk_group = ''core'', gvk_version = ''v1'', gvk_kind = ''Node''\<rparr>"

definition route_gvk :: groupVersionKind where
  "route_gvk = \<lparr>gvk_group = ''route.openshift.io'', gvk_version = ''v1'', gvk_kind = ''Route''\<rparr>"

definition storage_cluster_gvk :: groupVersionKind where
  "storage_cluster_gvk =
     \<lparr>gvk_group = ''scale.spectrum.ibm.com'', gvk_version = ''v1beta1'', gvk_kind = ''Cluster''\<rparr>"

subsection \<open>Paths and plugin extensions\<close>

datatype UrlPaths =
    FusionAccessHome
  | StorageClustersHome
  | StorageClustersCreate
  | FileSystemsHome
  | FileSystemsCreate
  | FileSystemClaimsHome
  | FileSystemClaimsCreate

fun url_path :: "UrlPaths \<Rightarrow> string" where
  "url_path FusionAccessHome = ''/fusion-access''"
| "url_path StorageClustersHome = ''/fusion-access/storage-cluster''"
| "url_path StorageClustersCreate = ''/fusion-access/storage-cluster/create''"
| "url_path FileSystemsHome = ''/fusion-access/file-systems''"
| "url_path FileSystemsCreate = ''/fusion-access/file-systems/create''"
| "url_path FileSystemClaimsHome = ''/fusion-access/file-system-claims''"
| "url_path FileSystemClaimsCreate = ''/fusion-access/file-system-claims/create''"

record pluginMetadata =
  plugin_name :: string
  plugin_version :: string
  plugin_displayName :: string
  plugin_exposedModules :: "string js_object"
  plugin_dependencies :: "string js_object"

text \<open>\<open>package.json\<close> gives the name and the version.\<close>

definition plugin_metadata :: "string \<Rightarrow> string \<Rightarrow> pluginMetadata" where
  "plugin_metadata pkg_name pkg_version =
     \<lparr>plugin_name = pkg_name, plugin_version = pkg_version,
      plugin_displayName = ''Fusion Access Plugin'',
      plugin_exposedModules =
        [(''FusionAccessHomeScreen'', ''./ui/fusion-access/views/fusion_access_home_screen.tsx''),
         (''StorageClustersHomeScreen'', ''./ui/storage-clusters/views/storage_clusters_home_screen.tsx''),
         (''StorageClustersCreateScreen'', ''./ui/storage-clusters/views/storage_clusters_create_screen.tsx''),
         (''FileSystemClaimsHomeScreen'', ''./ui/file-system-claims/views/file_system_claims_home_screen.tsx''),
         (''FileSystemClaimsCreateScreen'', ''./ui/file-system-claims/views/file_system_claims_create_screen.tsx'')],
      plugin_dependencies = [(''@console/pluginAPI'', ''>=4.18.0-0'')]\<rparr>"

datatype extension =
    NavigationHref (nav_id: string) (nav_name: string) (nav_href: string) (nav_perspective: string)
      (nav_section: string) (nav_insertBefore: string)
  | PageRoute (route_exact: bool) (route_path: string) (route_codeRef: string)

definition extensions :: "string \<Rightarrow> extension list" where
  "extensions pkg_name =
     [NavigationHref ''main'' (''%plugin__'' @ pkg_name @ ''~Fusion Access for SAN%'') ''/fusion-access''
        ''admin'' ''storage'' ''persistentvolumes'',
      PageRoute True ''/fusion-access'' ''FusionAccessHomeScreen'',
      PageRoute True ''/fusion-access/storage-cluster/*'' ''StorageClustersHomeScreen'',
      PageRoute True ''/fusion-access/storage-cluster/create'' ''StorageClustersCreateScreen'',
      PageRoute True ''/fusion-access/file-system-claims/*'' ''FileSystemClaimsHomeScreen'',
      PageRoute True ''/fusion-access/file-system-claims/create'' ''FileSystemClaimsCreateScreen'']"

fun code_refs :: "extension list \<Rightarrow> string list" where
  "code_refs [] = []"
| "code_refs (PageRoute e p c # xs) = c # code_refs xs"
| "code_refs (x # xs) = code_refs xs"

text \<open>Every exposed module is the component of exactly one route, and every route's component is
  an exposed module.\<close>

lemma plugin_routes_expose:
  "mset (code_refs (extensions n)) = mset (map fst (plugin_exposedModules (plugin_metadata n v)))"
  by (simp add: extensions_def plugin_metadata_def)

lemma storage_role_label_split: "js_split CHR ''='' STORAGE_ROLE_LABEL = [''scale.spectrum.ibm.com/role'', ''storage'']"
  by (simp add: STORAGE_ROLE_LABEL_def)

lemma storage_role_label_has_eq: "CHR ''='' \<in> set STORAGE_ROLE_LABEL"
  by (simp add: STORAGE_ROLE_LABEL_def)

end
