(* ===== verification/Store.thy ===== *)
theory Store
  imports Console_Constants
begin

section \<open>The store: state, actions, reducer and dispatch\<close>

text \<open>
  \<open>console/src/shared/store\<close> and the \<open>Alert\<close> type of
  \<open>console/src/shared/components/ListPageAlert.tsx\<close>. The reducer mutates an Immer draft;
  the model returns the new state, or the error it throws. Every \<open>dismiss\<close> callback of the
  source dispatches \<open>global/dismissAlert\<close>, so a callback is the name of that action.
\<close>

datatype AlertVariant = AlertSuccess | AlertDanger | AlertWarning | AlertInfo | AlertCustom

text \<open>
  A description is a text or a list of texts; a cast in the code can also let in another object,
  whose \<open>String\<close> is kept here.
\<close>

datatype description = DescText string | DescList "string list" | DescOther string

datatype callback = DispatchDismissAlert

record Alert =
  alert_key :: "string option"
  alert_variant :: "AlertVariant option"
  alert_title :: string
  alert_description :: "description option"
  alert_dismiss :: "callback option"

record Cta =
  isDisabled :: "bool option"
  isLoading :: "bool option"

record State =
  docTitle :: string
  alerts :: "Alert list"
  cta :: Cta

text \<open>The actions; \<open>OtherAction\<close> is an action object whose type is none of the four.\<close>

datatype Actions =
    UpdateDocTitle string
  | AddAlert Alert
  | DismissAlert
  | UpdateCta Cta
  | OtherAction string

fun action_type :: "Actions \<Rightarrow> string" where
  "action_type (UpdateDocTitle _) = ''global/updateDocTitle''"
| "action_type (AddAlert _) = ''global/addAlert''"
| "action_type DismissAlert = ''global/dismissAlert''"
| "action_type (UpdateCta _) = ''global/updateCta''"
| "action_type (OtherAction ty) = ty"

fun run_callback :: "callback \<Rightarrow> Actions" where
  "run_callback DispatchDismissAlert = DismissAlert"

text \<open>The key of the alert about the minimum requirements, and the test the code uses.\<close>

definition minimum_key :: string where
  "minimum_key = ''minimum-shared-disks-and-nodes''"

definition is_minimum_alert :: "Alert \<Rightarrow> bool" where
  "is_minimum_alert a \<longleftrightarrow> alert_key a = Some minimum_key"

text \<open>\<open>{ ...draft.cta, ...payload }\<close>: a property present in the payload wins.\<close>

definition spread_cta :: "Cta \<Rightarrow> Cta \<Rightarrow> Cta" where
  "spread_cta old new =
     \<lparr>isDisabled = (case isDisabled new of None \<Rightarrow> isDisabled old | Some b \<Rightarrow> Some b),
      isLoading = (case isLoading new of None \<Rightarrow> isLoading old | Some b \<Rightarrow> Some b)\<rparr>"

definition add_alert :: "Alert \<Rightarrow> Alert list \<Rightarrow> Alert list" where
  "add_alert a as =
     (if is_minimum_alert a then
        (let existingAlertIndex = js_findIndex is_minimum_alert as in
         if existingAlertIndex = -1 then a # as
         else if existingAlertIndex = 0 then as[nat existingAlertIndex := a]
         else if existingAlertIndex > 0 then a # js_splice1 (nat existingAlertIndex) as
         else as)
      else as @ [a])"

fun reducer :: "State \<Rightarrow> Actions \<Rightarrow> js_error + State" where
  "reducer s (UpdateDocTitle payload) = Inr (s\<lparr>docTitle := payload\<rparr>)"
| "reducer s (AddAlert payload) = Inr (s\<lparr>alerts := add_alert payload (alerts s)\<rparr>)"
| "reducer s DismissAlert = Inr (s\<lparr>alerts := tl (alerts s)\<rparr>)"
| "reducer s (UpdateCta payload) = Inr (s\<lparr>cta := spread_cta (cta s) payload\<rparr>)"
| "reducer s (OtherAction ty) =
     Inl (new_Error (''Unhandled action type: '' @ ty @ ''. Please check the reducer.''))"

definition initialState :: "translator \<Rightarrow> State" where
  "initialState tr =
     \<lparr>docTitle = tr ''Fusion Access for SAN'' [], alerts = [],
      cta = \<lparr>isDisabled = Some True, isLoading = Some False\<rparr>\<rparr>"

text \<open>Dispatching a sequence of actions stops at the first error.\<close>

fun dispatch_all :: "State \<Rightarrow> Actions list \<Rightarrow> js_error + State" where
  "dispatch_all s [] = Inr s"
| "dispatch_all s (a # as) = (case reducer s a of Inl e \<Rightarrow> Inl e | Inr s' \<Rightarrow> dispatch_all s' as)"

subsection \<open>Provider: thunks, slices and the context\<close>

text \<open>
  \<open>useReducerWithThunk\<close>: a dispatched function is called with the dispatch function and the
  current state. A thunk is the list of actions it dispatches for that state.
\<close>

datatype ('s, 'a) dispatch_param = Thunk "'s \<Rightarrow> 'a list" | Plain 'a

fun customDispatch :: "('s \<Rightarrow> 'a \<Rightarrow> js_error + 's) \<Rightarrow> 's \<Rightarrow> ('s, 'a) dispatch_param \<Rightarrow> js_error + 's" where
  "customDispatch red s (Plain a) = red s a"
| "customDispatch red s (Thunk f) =
     fold (\<lambda>a r. case r of Inl e \<Rightarrow> Inl e | Inr s' \<Rightarrow> red s' a) (f s) (Inr s)"

definition combineReducers ::
  "('s \<Rightarrow> 'a \<Rightarrow> js_error + 's) js_object \<Rightarrow> ('a \<Rightarrow> string) \<Rightarrow> 's \<Rightarrow> 'a \<Rightarrow> js_error + 's" where
  "combineReducers slicesDef type_of draft action =
     (let prefix = hd (js_split CHR ''/'' (type_of action)) in
      if prefix = [] then
        Inl (new_Error (''action \"'' @ type_of action @ ''\" doesn't match the format \"slice/action\"''))
      else (case obj_get slicesDef prefix of
              None \<Rightarrow> Inl (new_Error (''no slice defined for action with prefix '' @ prefix))
            | Some slice \<Rightarrow> slice draft action))"

text \<open>\<open>useStore\<close>: the context is null outside a provider.\<close>

definition useStore :: "('s \<times> 'd) option \<Rightarrow> js_error + ('s \<times> 'd)" where
  "useStore context =
     (case context of
        None \<Rightarrow> Inl (new_Error ''useStoreContext hook must be used within <StoreProvider>'')
      | Some c \<Rightarrow> Inr c)"

text \<open>
  \<open>StoreProvider\<close> gives the state and the dispatch function that also takes thunks to the components
  below it; such a component is a function of the context it reads.
\<close>

definition StoreProvider ::
  "('s \<Rightarrow> 'a \<Rightarrow> js_error + 's) \<Rightarrow> 's \<Rightarrow> (('s \<times> (('s, 'a) dispatch_param \<Rightarrow> js_error + 's)) option \<Rightarrow> 'v) \<Rightarrow> 'v" where
  "StoreProvider red state children =
     (let stateAndDispatch = (state, customDispatch red state) in children (Some stateAndDispatch))"

text \<open>Below the provider \<open>useStore\<close> never throws, and what it dispatches is reduced from the current state.\<close>

lemma store_below_provider:
  "StoreProvider red s useStore = Inr (s, customDispatch red s)"
  "StoreProvider red s (\<lambda>context. case useStore context of Inl e \<Rightarrow> Inl e | Inr (_, dispatch) \<Rightarrow> dispatch (Plain act)) = red s act"
  by (simp_all add: StoreProvider_def useStore_def)

text \<open>\<open>immutableStateUpdateHelper(value, prop)\<close> with the property as a reader and a writer.\<close>

datatype 'v update_value = UpdateFn "'v \<Rightarrow> 'v" | UpdateTo 'v

definition immutableStateUpdateHelper ::
  "'v update_value \<Rightarrow> ('s \<Rightarrow> 'v) \<Rightarrow> ('v \<Rightarrow> 's \<Rightarrow> 's) \<Rightarrow> 's \<Rightarrow> 's" where
  "immutableStateUpdateHelper value get put currentState =
     put (case value of UpdateFn f \<Rightarrow> f (get currentState) | UpdateTo v \<Rightarrow> v) currentState"

subsection \<open>The alert queue invariant\<close>

text \<open>The requirements alert is only ever the first alert, and there is at most one.\<close>

definition minimum_alert_first :: "Alert list \<Rightarrow> bool" where
  "minimum_alert_first as \<longleftrightarrow> (\<forall>a \<in> set (tl as). \<not> is_minimum_alert a)"

lemma index_of_first:
  "minimum_alert_first as \<Longrightarrow> js_findIndex is_minimum_alert as \<le> 0"
proof (cases as)
  case (Cons a as')
  assume "minimum_alert_first as"
  with Cons have "js_findIndex is_minimum_alert as' = -1"
    by (simp add: js_findIndex_none minimum_alert_first_def)
  with Cons show ?thesis by simp
qed simp

lemma add_alert_first: "minimum_alert_first as \<Longrightarrow> minimum_alert_first (add_alert a as)"
proof -
  assume inv: "minimum_alert_first as"
  show ?thesis
  proof (cases "is_minimum_alert a")
    case False
    with inv show ?thesis
      by (cases as) (auto simp: add_alert_def minimum_alert_first_def)
  next
    case True
    consider "js_findIndex is_minimum_alert as = -1" | "js_findIndex is_minimum_alert as = 0"
      using index_of_first [OF inv] js_findIndex_ge [of is_minimum_alert as] by linarith
    then show ?thesis
    proof cases
      case 1
      then have "\<forall>b \<in> set as. \<not> is_minimum_alert b" by (simp add: js_findIndex_none)
      with True 1 show ?thesis by (simp add: add_alert_def Let_def minimum_alert_first_def)
    next
      case 2
      with True inv show ?thesis
        by (cases as) (simp_all add: add_alert_def Let_def minimum_alert_first_def)
    qed
  qed
qed

text \<open>The reducer as a total machine: a thrown error leaves the state unchanged.\<close>

definition reduce_or_keep :: "State \<Rightarrow> Actions \<Rightarrow> State" where
  "reduce_or_keep s a = (case reducer s a of Inl _ \<Rightarrow> s | Inr s' \<Rightarrow> s')"

lemma alerts_reduce_first:
  "minimum_alert_first (alerts s) \<Longrightarrow> minimum_alert_first (alerts (reduce_or_keep s a))"
proof (cases a)
  case DismissAlert
  assume "minimum_alert_first (alerts s)"
  then show ?thesis
    unfolding DismissAlert by (cases "alerts s"; cases "tl (alerts s)")
      (auto simp: reduce_or_keep_def minimum_alert_first_def)
qed (auto simp: reduce_or_keep_def add_alert_first)

interpretation alert_machine: machine reduce_or_keep "\<lambda>s. minimum_alert_first (alerts s)"
  by unfold_locales (rule alerts_reduce_first)

lemma add_alert_minimum:
  assumes "minimum_alert_first as" "is_minimum_alert a"
  shows "add_alert a as = a # (if as \<noteq> [] \<and> is_minimum_alert (hd as) then tl as else as)"
proof (cases as)
  case Nil
  then show ?thesis using assms by (simp add: add_alert_def)
next
  case (Cons b bs)
  with assms have "js_findIndex is_minimum_alert bs = -1"
    by (simp add: js_findIndex_none minimum_alert_first_def)
  with Cons assms show ?thesis by (simp add: add_alert_def Let_def)
qed

lemma add_alert_other: "\<not> is_minimum_alert a \<Longrightarrow> add_alert a as = as @ [a]"
  by (simp add: add_alert_def)

lemma add_alert_cases:
  "set (add_alert a as) \<subseteq> insert a (set as)" "a \<in> set (add_alert a as)"
proof -
  have sp: "set (js_splice1 i as) \<subseteq> set as" for i
    by (auto simp: js_splice1_def dest: in_set_takeD in_set_dropD)
  show "set (add_alert a as) \<subseteq> insert a (set as)"
    using sp by (auto simp: add_alert_def Let_def dest: set_update_subset_insert [THEN subsetD])
  show "a \<in> set (add_alert a as)"
  proof (cases "js_findIndex is_minimum_alert as = 0")
    case True
    then have "as \<noteq> []" by (simp add: js_findIndex_zero)
    with True show ?thesis by (cases as) (auto simp: add_alert_def Let_def)
  next
    case False
    with js_findIndex_ge [of is_minimum_alert as] show ?thesis
      by (auto simp: add_alert_def Let_def)
  qed
qed

lemma dispatch_all_run: "dispatch_all s as = Inr s' \<Longrightarrow> s' = foldl reduce_or_keep s as"
  by (induction as arbitrary: s) (auto simp: reduce_or_keep_def split: sum.splits)

lemma customDispatch_thunk:
  "customDispatch reducer s (Thunk f) = dispatch_all s (f s)"
proof -
  have err: "fold (\<lambda>a r. case r of Inl e \<Rightarrow> Inl e | Inr s' \<Rightarrow> reducer s' a) as (Inl e) = Inl e" for as and e :: js_error
    by (induction as) auto
  have "fold (\<lambda>a r. case r of Inl e \<Rightarrow> Inl e | Inr s' \<Rightarrow> reducer s' a) as (Inr s) = dispatch_all s as" for as
    by (induction as arbitrary: s) (auto simp: err split: sum.splits)
  then show ?thesis by simp
qed

subsection \<open>Properties\<close>

lemma minimum_alert_first_nth:
  "minimum_alert_first as \<Longrightarrow> i < length as \<Longrightarrow> is_minimum_alert (as ! i) \<Longrightarrow> i = 0"
proof (rule ccontr)
  assume "minimum_alert_first as" "i < length as" "is_minimum_alert (as ! i)" "i \<noteq> 0"
  moreover from this have "as ! i \<in> set (tl as)"
    by (cases as; cases i) auto
  ultimately show False by (simp add: minimum_alert_first_def)
qed

lemma minimum_alert_first_count:
  "minimum_alert_first as \<Longrightarrow> length (filter is_minimum_alert as) \<le> 1"
  by (cases as) (auto simp: minimum_alert_first_def filter_empty_conv)

text \<open>From the initial state, whatever actions are dispatched, the alert about the minimum
  requirements is in the queue at most once, and only as the first alert, the one a page shows.\<close>

lemma alert_queue_invariant:
  assumes "dispatch_all (initialState tr) acts = Inr s"
  shows "length (filter is_minimum_alert (alerts s)) \<le> 1 \<and>
     (\<forall>i < length (alerts s). is_minimum_alert (alerts s ! i) \<longrightarrow> i = 0)"
proof -
  have "minimum_alert_first (alerts (initialState tr))"
    by (simp add: initialState_def minimum_alert_first_def)
  then have "minimum_alert_first (alerts s)"
    unfolding dispatch_all_run [OF assms] by (rule alert_machine.run_inv)
  then show ?thesis using minimum_alert_first_count minimum_alert_first_nth by blast
qed

text \<open>An alert with a key and a title, for the examples.\<close>

definition keyed_alert :: "string option \<Rightarrow> string \<Rightarrow> Alert" where
  "keyed_alert k title = \<lparr>alert_key = k, alert_variant = None, alert_title = title,
     alert_description = None, alert_dismiss = None\<rparr>"

text \<open>A dispatched thunk runs its actions one after the other on the store, and it fails exactly
  when one of them is an action the reducer does not know.\<close>

lemma thunk_runs_actions:
  "customDispatch reducer s (Thunk f) = dispatch_all s (f s) \<and>
   ((\<exists>e. customDispatch reducer s (Thunk f) = Inl e) = (\<exists>ty. OtherAction ty \<in> set (f s)))"
proof -
  have "(\<exists>e. dispatch_all s as = Inl e) \<longleftrightarrow> (\<exists>ty. OtherAction ty \<in> set as)" for as
  proof (induction as arbitrary: s)
    case (Cons a as)
    then show ?case by (cases a) auto
  qed simp
  then show ?thesis by (simp only: customDispatch_thunk simp_thms)
qed

text \<open>The combined reducer of the plugin's one slice \<open>global\<close> is the reducer on the four actions
  of the store; any other action is an error, and the message tells an empty prefix, an unknown
  slice and an unknown action of the slice apart.\<close>

lemma combined_reducer:
  "combineReducers [(''global'', reducer)] action_type s a =
     (case a of
        OtherAction ty \<Rightarrow>
          (let prefix = hd (js_split CHR ''/'' ty) in
           Inl (new_Error
             (if prefix = [] then ''action \"'' @ ty @ ''\" doesn't match the format \"slice/action\"''
              else if prefix = ''global'' then ''Unhandled action type: '' @ ty @ ''. Please check the reducer.''
              else ''no slice defined for action with prefix '' @ prefix)))
      | _ \<Rightarrow> reducer s a)"
  by (cases a) (simp_all add: combineReducers_def obj_get_def Let_def)

end
