(* ===== verification/Alert_Queue.thy ===== *)
theory Alert_Queue
  imports Store
begin

section \<open>The alert queue: its specification\<close>

text \<open>
  What \<open>console/src/shared/store/reducer.ts\<close> promises of \<open>alerts\<close>, without list indices: one
  place in front for the alert about the minimum requirements, and the other alerts first in, first
  out. The reducer refines it, and an alert that waits is reached after as many dismissals as there
  are alerts before it.
\<close>

record alert_queue =
  requirement :: "Alert option"
  waiting :: "Alert list"

definition empty_queue :: alert_queue where
  "empty_queue = \<lparr>requirement = None, waiting = []\<rparr>"

fun queue_step :: "alert_queue \<Rightarrow> Actions \<Rightarrow> alert_queue" where
  "queue_step q (AddAlert a) =
     (if is_minimum_alert a then q\<lparr>requirement := Some a\<rparr> else q\<lparr>waiting := waiting q @ [a]\<rparr>)"
| "queue_step q DismissAlert =
     (if requirement q = None then q\<lparr>waiting := tl (waiting q)\<rparr> else q\<lparr>requirement := None\<rparr>)"
| "queue_step q _ = q"

text \<open>From the list of the code to the queue and back.\<close>

definition queue_abs :: "Alert list \<Rightarrow> alert_queue" where
  "queue_abs as =
     (if as \<noteq> [] \<and> is_minimum_alert (hd as) then \<lparr>requirement = Some (hd as), waiting = tl as\<rparr>
      else \<lparr>requirement = None, waiting = as\<rparr>)"

definition queue_list :: "alert_queue \<Rightarrow> Alert list" where
  "queue_list q = (case requirement q of None \<Rightarrow> waiting q | Some a \<Rightarrow> a # waiting q)"

lemma queue_list_abs [simp]: "queue_list (queue_abs as) = as"
  by (simp add: queue_list_def queue_abs_def)

lemma queue_abs_add:
  assumes "minimum_alert_first as"
  shows "queue_abs (add_alert a as) = queue_step (queue_abs as) (AddAlert a)"
proof (cases "is_minimum_alert a")
  case True
  then show ?thesis by (simp add: add_alert_minimum [OF assms] queue_abs_def)
next
  case False
  then show ?thesis by (cases as) (simp_all add: add_alert_other queue_abs_def)
qed

lemma queue_abs_dismiss:
  assumes "minimum_alert_first as"
  shows "queue_abs (tl as) = queue_step (queue_abs as) DismissAlert"
proof -
  have "\<not> (tl as \<noteq> [] \<and> is_minimum_alert (hd (tl as)))"
    using assms by (cases "tl as") (auto simp: minimum_alert_first_def)
  then show ?thesis by (auto simp: queue_abs_def)
qed

lemma queue_abs_reduce:
  "minimum_alert_first (alerts s) \<Longrightarrow>
     queue_abs (alerts (reduce_or_keep s a)) = queue_step (queue_abs (alerts s)) a"
  by (cases a) (simp_all add: reduce_or_keep_def queue_abs_add queue_abs_dismiss del: queue_step.simps(1,2))

interpretation queue: refined_machine reduce_or_keep "\<lambda>s. minimum_alert_first (alerts s)"
    "\<lambda>s. queue_abs (alerts s)" queue_step
  by unfold_locales (rule queue_abs_reduce)

subsection \<open>Waiting alerts\<close>

definition dismissals :: "Actions list \<Rightarrow> nat" where
  "dismissals acts = length (filter (\<lambda>a. a = DismissAlert) acts)"

text \<open>No action of the list adds the requirements alert, which would overtake the others.\<close>

definition no_overtaking :: "Actions list \<Rightarrow> bool" where
  "no_overtaking acts = list_all (\<lambda>act. case act of AddAlert a \<Rightarrow> \<not> is_minimum_alert a | _ \<Rightarrow> True) acts"

lemma alerts_reduce:
  "alerts (reduce_or_keep s (AddAlert a)) = add_alert a (alerts s)"
  "alerts (reduce_or_keep s DismissAlert) = tl (alerts s)"
  "alerts (reduce_or_keep s (UpdateCta c)) = alerts s"
  "alerts (reduce_or_keep s (UpdateDocTitle d)) = alerts s"
  "alerts (reduce_or_keep s (OtherAction ty)) = alerts s"
  by (simp_all add: reduce_or_keep_def)

lemma waiting_alert_moves:
  assumes "alerts s = pre @ a # post" "no_overtaking acts" "dismissals acts = length pre"
  shows "\<exists>post'. alerts (foldl reduce_or_keep s acts) = a # post'"
  using assms
proof (induction acts arbitrary: s pre post)
  case Nil
  then show ?case by (simp add: dismissals_def)
next
  case (Cons act acts)
  have IH: "\<exists>post'. alerts (foldl reduce_or_keep t acts) = a # post'"
    if "alerts t = qs @ a # rs" "dismissals acts = length qs" for t qs rs
    using Cons.IH [OF that(1) _ that(2)] Cons.prems(2) by (simp add: no_overtaking_def)
  show ?case
  proof (cases act)
    case (AddAlert b)
    with Cons.prems(2) have "\<not> is_minimum_alert b" by (simp add: no_overtaking_def)
    with AddAlert Cons.prems(1,3) show ?thesis
      using IH [of "reduce_or_keep s act" pre "post @ [b]"]
      by (simp add: alerts_reduce add_alert_other dismissals_def)
  next
    case DismissAlert
    with Cons.prems(3) obtain p pre' where "pre = p # pre'" by (cases pre) (simp_all add: dismissals_def)
    with DismissAlert Cons.prems(1,3) show ?thesis
      using IH [of "reduce_or_keep s act" pre' post] by (simp add: alerts_reduce dismissals_def)
  qed (use Cons.prems(1,3) IH [of "reduce_or_keep s act" pre post] in
        \<open>simp_all add: alerts_reduce dismissals_def\<close>)
qed

subsection \<open>Properties\<close>

text \<open>C12: The list of alerts refines the queue: whatever actions are dispatched from the initial state, the
  list is the requirements alert of the specification, if there is one, followed by the other alerts
  in the order they were added, less the dismissed ones.\<close>

theorem alerts_refine_queue:
  assumes "dispatch_all (initialState tr) acts = Inr s"
  shows "alerts s = queue_list (foldl queue_step empty_queue acts)"
proof -
  have init: "minimum_alert_first (alerts (initialState tr))" "queue_abs (alerts (initialState tr)) = empty_queue"
    by (simp_all add: initialState_def minimum_alert_first_def queue_abs_def empty_queue_def)
  have "queue_abs (alerts s) = foldl queue_step empty_queue acts"
    unfolding dispatch_all_run [OF assms] using queue.abs_run [OF init(1)] by (simp add: init(2))
  then show ?thesis by (metis queue_list_abs)
qed

theorem alerts_refine_queue_witness:
  "\<exists>s. dispatch_all (initialState (\<lambda>k _. k))
     [AddAlert (keyed_alert None ''a''), AddAlert (keyed_alert (Some minimum_key) ''b''),
      AddAlert (keyed_alert None ''c''), AddAlert (keyed_alert (Some minimum_key) ''d''), DismissAlert] = Inr s \<and>
     alerts s = [keyed_alert None ''a'', keyed_alert None ''c'']"
proof -
  let ?acts = "[AddAlert (keyed_alert None ''a''), AddAlert (keyed_alert (Some minimum_key) ''b''),
      AddAlert (keyed_alert None ''c''), AddAlert (keyed_alert (Some minimum_key) ''d''), DismissAlert]"
  obtain s where s: "dispatch_all (initialState (\<lambda>k _. k)) ?acts = Inr s" by simp
  with alerts_refine_queue [OF s] show ?thesis
    by (simp add: empty_queue_def queue_list_def is_minimum_alert_def keyed_alert_def minimum_key_def)
qed

text \<open>C31: No alert starves: an alert that is added is the one shown after as many dismissals as there were
  alerts before it, whatever other alerts are added in between, unless the requirements alert comes
  back and overtakes it.\<close>

theorem added_alert_is_shown:
  assumes "\<not> is_minimum_alert a" "no_overtaking acts" "dismissals acts = length (alerts s)"
  shows "js_first (alerts (foldl reduce_or_keep s (AddAlert a # acts))) = Some a"
proof -
  have "alerts (reduce_or_keep s (AddAlert a)) = alerts s @ a # []"
    using assms(1) by (simp add: alerts_reduce add_alert_other)
  from waiting_alert_moves [OF this assms(2,3)] show ?thesis by auto
qed

theorem added_alert_is_shown_witness:
  "js_first (alerts (foldl reduce_or_keep
     (initialState (\<lambda>k _. k)\<lparr>alerts := [keyed_alert (Some minimum_key) ''b'', keyed_alert None ''c'']\<rparr>)
     [AddAlert (keyed_alert None ''a''), DismissAlert, AddAlert (keyed_alert None ''d''), DismissAlert])) =
   Some (keyed_alert None ''a'')"
  by (rule added_alert_is_shown)
    (simp_all add: is_minimum_alert_def keyed_alert_def no_overtaking_def dismissals_def minimum_key_def)

end
