(* ===== verification/Watch_Resource.thy ===== *)
theory Watch_Resource
  imports Js_Prelude Console_Constants
begin

section \<open>Normalised watch results\<close>

text \<open>
  \<open>console/src/shared/utils/use_k8s_watch_resource.ts\<close>. \<open>useK8sWatchResource\<close> of the console
  SDK is third-party: a function from the watch options to the triple of data, loaded flag
  and error. Data is \<open>None\<close> when it is null or undefined; a resource or an array, the empty
  one included, is truthy.
\<close>

text \<open>
  The error component is untyped in the SDK: undefined, null, a string, an \<open>Error\<close>, another
  object (with its JSON text), or a boolean or number with its truth value.
\<close>

datatype watch_error =
    WatchUndefined
  | WatchNull
  | WatchString string
  | WatchError js_error
  | WatchObject string
  | WatchPrimitive bool

fun watch_error_truthy :: "watch_error \<Rightarrow> bool" where
  "watch_error_truthy WatchUndefined = False"
| "watch_error_truthy WatchNull = False"
| "watch_error_truthy (WatchString s) = (s \<noteq> [])"
| "watch_error_truthy (WatchError e) = True"
| "watch_error_truthy (WatchObject j) = True"
| "watch_error_truthy (WatchPrimitive b) = b"

type_synonym 'r WatchK8sResult = "'r option \<times> bool \<times> watch_error"

record 'r NormalizedWatchK8sResult =
  nw_data :: "'r option"
  nw_loaded :: bool
  nw_error :: "js_error option"

text \<open>\<open>typeof error === "object"\<close> holds of null too; the cause is \<open>JSON.stringify(error)\<close>.\<close>

definition normalizeResult :: "'r WatchK8sResult \<Rightarrow> 'r NormalizedWatchK8sResult" where
  "normalizeResult state =
     (let (data, loaded, error) = state;
          failed = (\<lambda>e. \<lparr>nw_data = None, nw_loaded = True, nw_error = Some e\<rparr>) in
      if \<not> loaded then \<lparr>nw_data = None, nw_loaded = False, nw_error = None\<rparr>
      else if data = None \<and> \<not> watch_error_truthy error then
        failed (new_Error ''The requested resource is not available'')
      else (case error of
              WatchError e \<Rightarrow> failed e
            | WatchString s \<Rightarrow>
                if length s > 0 then failed (new_Error s)
                else \<lparr>nw_data = data, nw_loaded = True, nw_error = None\<rparr>
            | WatchNull \<Rightarrow> failed (JsError ''Error'' ''Unknown error type'' (Some ''null''))
            | WatchObject j \<Rightarrow> failed (JsError ''Error'' ''Unknown error type'' (Some j))
            | _ \<Rightarrow> \<lparr>nw_data = data, nw_loaded = True, nw_error = None\<rparr>))"

text \<open>The options of a watch.\<close>

record watch_options =
  wo_groupVersionKind :: "groupVersionKind option"
  wo_isList :: "bool option"
  wo_namespaced :: "bool option"
  wo_namespace :: "string option"
  wo_name :: "string option"
  wo_limit :: "nat option"
  wo_matchLabels :: "string js_object option"

definition no_options :: watch_options where
  "no_options = \<lparr>wo_groupVersionKind = None, wo_isList = None, wo_namespaced = None,
     wo_namespace = None, wo_name = None, wo_limit = None, wo_matchLabels = None\<rparr>"

definition useNormalizedK8sWatchResource ::
  "(watch_options \<Rightarrow> 'r WatchK8sResult) \<Rightarrow> watch_options \<Rightarrow> 'r NormalizedWatchK8sResult" where
  "useNormalizedK8sWatchResource useK8sWatchResource options = normalizeResult (useK8sWatchResource options)"

subsection \<open>The three outcomes\<close>

text \<open>What the interface comment promises: still loading, failed, or loaded with data.\<close>

datatype 'r outcome = Loading | Failed js_error | Loaded 'r

fun outcome_of :: "'r NormalizedWatchK8sResult \<Rightarrow> 'r outcome option" where
  "outcome_of r =
     (case (nw_data r, nw_loaded r, nw_error r) of
        (None, False, None) \<Rightarrow> Some Loading
      | (None, True, Some e) \<Rightarrow> Some (Failed e)
      | (Some d, True, None) \<Rightarrow> Some (Loaded d)
      | _ \<Rightarrow> None)"

lemma normalize_not_loaded:
  "normalizeResult (d, False, e) = \<lparr>nw_data = None, nw_loaded = False, nw_error = None\<rparr>"
  by (simp add: normalizeResult_def)

lemma normalize_data: "nw_data (normalizeResult w) = Some d \<Longrightarrow> fst w = Some d \<and> fst (snd w)"
  by (cases w) (auto simp: normalizeResult_def Let_def split: if_splits watch_error.splits)

lemma normalize_loaded: "nw_loaded (normalizeResult w) = fst (snd w)"
  by (cases w) (auto simp: normalizeResult_def Let_def split: watch_error.splits)

lemma normalize_error_no_data: "nw_error (normalizeResult w) = Some e \<Longrightarrow> nw_data (normalizeResult w) = None"
  by (cases w) (auto simp: normalizeResult_def Let_def split: if_splits watch_error.splits)

lemma normalize_data_no_error: "nw_data (normalizeResult w) = Some d \<Longrightarrow> nw_error (normalizeResult w) = None"
  using normalize_error_no_data [of w] by (cases "nw_error (normalizeResult w)") auto

lemma normalize_error_loaded: "nw_error (normalizeResult w) = Some e \<Longrightarrow> nw_loaded (normalizeResult w)"
  by (cases w) (auto simp: normalizeResult_def Let_def split: if_splits watch_error.splits)

subsection \<open>Properties\<close>

text \<open>The errors that leave a loaded watch with its data as it is.\<close>

definition harmless_error :: "watch_error \<Rightarrow> bool" where
  "harmless_error e \<longleftrightarrow> e = WatchUndefined \<or> e = WatchString [] \<or> e = WatchPrimitive False"

text \<open>C28: A normalised watch result is one of the three documented outcomes (unless the SDK reports a
  true number or boolean as its error): loading exactly when the watch has not loaded, loaded with
  the watch's data exactly when there is data and no error, and failed otherwise. A null error
  counts as an error, also when there is data.\<close>

theorem watch_outcomes:
  assumes "error \<noteq> WatchPrimitive True"
  shows "outcome_of (normalizeResult (data, loaded, error)) \<noteq> None \<and>
     (outcome_of (normalizeResult (data, loaded, error)) = Some Loading \<longleftrightarrow> \<not> loaded) \<and>
     (outcome_of (normalizeResult (data, loaded, error)) = Some (Loaded d) \<longleftrightarrow>
        loaded \<and> data = Some d \<and> harmless_error error) \<and>
     ((\<exists>x. outcome_of (normalizeResult (data, loaded, error)) = Some (Failed x)) \<longleftrightarrow>
        loaded \<and> (data = None \<or> \<not> harmless_error error))"
  using assms by (cases loaded; cases data; cases error)
    (auto simp: normalizeResult_def Let_def harmless_error_def)

theorem watch_outcomes_witness:
  "outcome_of (normalizeResult (Some [1::nat], True, WatchUndefined)) = Some (Loaded [1]) \<and>
   (\<exists>x. outcome_of (normalizeResult (Some [1::nat], True, WatchNull)) = Some (Failed x))"
  using watch_outcomes [of WatchUndefined "Some [1::nat]" True "[1]"]
    watch_outcomes [of WatchNull "Some [1::nat]" True "[1]"]
  by (simp add: harmless_error_def)

end
