(* ===== verification/Js_Number.thy ===== *)
theory Js_Number
  imports Complex_Main Js_Prelude
begin

section \<open>JavaScript numbers\<close>

text \<open>
  The numbers the console computes with are non-negative: sizes, counts and quantities. A
  number is a finite double, held as the exact rational it denotes, or \<open>Infinity\<close>. Every
  arithmetic step and every numeral read from text is rounded to the nearest double, ties to
  even, with the 53-bit significand and the subnormal and overflow limits of IEEE 754.
\<close>

datatype js_number = Finite rat | Infinity

definition pow2 :: "int \<Rightarrow> rat" where
  "pow2 e = (if 0 \<le> e then 2 ^ nat e else 1 / 2 ^ nat (- e))"

text \<open>The number of binary digits of a positive integer.\<close>

function bit_count :: "int \<Rightarrow> nat" where
  "bit_count n = (if n \<le> 0 then 0 else Suc (bit_count (n div 2)))"
  by pat_completeness auto
termination
  by (relation "measure nat") auto

declare bit_count.simps [simp del]

text \<open>The exponent \<open>e\<close> with \<open>2 ^ e \<le> q < 2 ^ (e + 1)\<close>, for positive \<open>q\<close>.\<close>

definition binary_exponent :: "rat \<Rightarrow> int" where
  "binary_exponent q =
     (let (n, d) = quotient_of q; e = int (bit_count n) - int (bit_count d)
      in if pow2 e \<le> q then e else e - 1)"

definition round_half_even :: "rat \<Rightarrow> int" where
  "round_half_even q =
     (let f = \<lfloor>q\<rfloor>; r = q - of_int f
      in if r < 1 / 2 then f else if r > 1 / 2 then f + 1 else if even f then f else f + 1)"

definition double_limit :: rat where
  "double_limit = 2 ^ 1024"

definition to_double :: "rat \<Rightarrow> js_number" where
  "to_double q =
     (if q \<le> 0 then Finite 0
      else (let u = pow2 (max (binary_exponent q - 52) (-1074));
                v = of_int (round_half_even (q / u)) * u
            in if double_limit \<le> v then Infinity else Finite v))"

fun js_mult :: "js_number \<Rightarrow> js_number \<Rightarrow> js_number" where
  "js_mult (Finite a) (Finite b) = to_double (a * b)"
| "js_mult _ _ = Infinity"

fun js_less :: "js_number \<Rightarrow> js_number \<Rightarrow> bool" where
  "js_less (Finite a) (Finite b) = (a < b)"
| "js_less (Finite a) Infinity = True"
| "js_less Infinity _ = False"

subsection \<open>Decimal text\<close>

definition digit_char :: "int \<Rightarrow> char" where
  "digit_char d = ''0123456789'' ! nat d"

function int_to_string :: "int \<Rightarrow> string" where
  "int_to_string n =
     (if n < 10 then [digit_char n] else int_to_string (n div 10) @ [digit_char (n mod 10)])"
  by pat_completeness auto
termination
  by (relation "measure nat") auto

declare int_to_string.simps [simp del]

text \<open>\<open>parseInt(s, 10)\<close> of a string of digits, and \<open>parseFloat(s)\<close> of digits around one dot.\<close>

definition js_parseInt :: "string \<Rightarrow> js_number" where
  "js_parseInt s = to_double (of_int (decimal_value s))"

definition decimal_rat :: "string \<Rightarrow> rat" where
  "decimal_rat s =
     (let i = takeWhile (\<lambda>c. c \<noteq> CHR ''.'') s; f = drop (Suc (length i)) s
      in of_int (decimal_value i) + of_int (decimal_value f) / 10 ^ length f)"

definition js_parseFloat :: "string \<Rightarrow> js_number" where
  "js_parseFloat s = to_double (decimal_rat s)"

text \<open>
  \<open>Number.prototype.toFixed(2)\<close>: the integer \<open>n\<close> with \<open>n / 100\<close> closest to the value, the
  larger of two; from \<open>10 ^ 21\<close> on it is the number's default text, a parameter.
\<close>

definition js_toFixed2 :: "(js_number \<Rightarrow> string) \<Rightarrow> js_number \<Rightarrow> string" where
  "js_toFixed2 to_text x =
     (case x of
        Infinity \<Rightarrow> to_text x
      | Finite q \<Rightarrow>
          if 10 ^ 21 \<le> q then to_text x
          else (let n = \<lfloor>q * 100 + 1 / 2\<rfloor>; f = n mod 100
                in int_to_string (n div 100) @ ''.'' @ [digit_char (f div 10), digit_char (f mod 10)]))"

subsection \<open>Exactness\<close>

lemma round_half_even_int [simp]: "round_half_even (of_int z) = z"
  by (simp add: round_half_even_def)

lemma pow2_pos: "0 < pow2 e"
  by (simp add: pow2_def)

lemma pow2_minus: "pow2 (- int k) = 1 / 2 ^ k"
  by (simp add: pow2_def)

lemma bit_count_bounds: "0 < n \<Longrightarrow> 2 ^ (bit_count n - 1) \<le> n \<and> n < 2 ^ bit_count n"
proof (induction n rule: bit_count.induct)
  case (1 n)
  show ?case
  proof (cases "n div 2 \<le> 0")
    case True
    with "1.prems" have "n = 1" by linarith
    then show ?thesis by (simp add: bit_count.simps)
  next
    case False
    with 1 have IH: "2 ^ (bit_count (n div 2) - 1) \<le> n div 2" "n div 2 < 2 ^ bit_count (n div 2)"
      by auto
    obtain k where k: "bit_count (n div 2) = Suc k"
      using False by (simp add: bit_count.simps [of "n div 2"])
    have "bit_count n = Suc (Suc k)"
      using "1.prems" k by (simp add: bit_count.simps [of n])
    moreover have "2 * 2 ^ k \<le> n" "n < 2 * 2 ^ Suc k"
      using IH k by auto
    ultimately show ?thesis by simp
  qed
qed

lemma bit_count_pos: "0 < n \<Longrightarrow> 0 < bit_count n"
  by (simp add: bit_count.simps)

lemma bit_count_le: "0 < n \<Longrightarrow> n < 2 ^ k \<Longrightarrow> bit_count n \<le> k"
proof (rule ccontr)
  assume "0 < n" "n < 2 ^ k" "\<not> bit_count n \<le> k"
  then have "(2::int) ^ k \<le> 2 ^ (bit_count n - 1)"
    by (intro power_increasing) auto
  with bit_count_bounds [of n] \<open>0 < n\<close> \<open>n < 2 ^ k\<close> show False by linarith
qed

lemma binary_exponent_of_int:
  assumes "0 < n"
  shows "binary_exponent (of_int n) = int (bit_count n) - 1"
proof -
  obtain k where k: "bit_count n = Suc k"
    using bit_count_pos [OF assms] by (cases "bit_count n") auto
  have "2 ^ k \<le> n"
    using bit_count_bounds [OF assms] k by simp
  then have "(of_int (2 ^ k) :: rat) \<le> of_int n"
    by (simp only: of_int_le_iff)
  then have "pow2 (int k) \<le> of_int n"
    by (simp add: pow2_def)
  moreover have "bit_count 1 = 1"
    by (simp add: bit_count.simps)
  ultimately show ?thesis
    by (simp add: binary_exponent_def k Let_def)
qed

text \<open>Integers below \<open>2 ^ 53\<close> are doubles, so no rounding happens.\<close>

lemma to_double_small_int:
  assumes "0 \<le> n" "n < 2 ^ 53"
  shows "to_double (of_int n) = Finite (of_int n)"
proof (cases "n = 0")
  case True
  then show ?thesis by (simp add: to_double_def)
next
  case False
  define k where "k = bit_count n - 1"
  have k: "bit_count n = Suc k" "k \<le> 52"
    using bit_count_pos [of n] bit_count_le [of n 53] False assms by (auto simp: k_def)
  have e: "binary_exponent (of_int n) = int k"
    using False assms k by (simp add: binary_exponent_of_int)
  have "max (int k - 52) (-1074) = - int (52 - k)"
    using k by simp
  then have u: "pow2 (max (binary_exponent (of_int n) - 52) (-1074)) = 1 / 2 ^ (52 - k)"
    by (simp only: e pow2_minus)
  have r: "round_half_even (of_int n / (1 / 2 ^ (52 - k))) = n * 2 ^ (52 - k)"
    using round_half_even_int [of "n * 2 ^ (52 - k)"] by simp
  have "n < 2 ^ 1024" using assms(2) by (rule less_trans) simp
  then have "(of_int n :: rat) < of_int (2 ^ 1024)"
    by (simp only: of_int_less_iff)
  then have lt: "(of_int n :: rat) < double_limit"
    unfolding double_limit_def by simp
  have v: "of_int (n * 2 ^ (52 - k)) * (1 / 2 ^ (52 - k)) = (of_int n :: rat)"
    by simp
  show ?thesis
    unfolding to_double_def Let_def u r v using False assms lt by simp
qed

lemma js_parseInt_exact:
  "0 \<le> decimal_value s \<Longrightarrow> decimal_value s < 2 ^ 53 \<Longrightarrow> js_parseInt s = Finite (of_int (decimal_value s))"
  by (simp add: js_parseInt_def to_double_small_int)

end
