(* ===== verification/K8s_Types.thy ===== *)
theory K8s_Types
  imports Js_Number
begin

section \<open>Kubernetes object types\<close>

text \<open>
  The Kubernetes part of \<open>console/src/shared/types/openshift/4.19/types.ts\<close> the console uses:
  \<open>ObjectMeta\<close> and \<open>Node\<close> with every type they refer to. An interface is a record whose fields
  carry the interface's name; an optional property is an option, an index signature an object with
  string keys, a union of string literals a datatype. \<open>K8sResourceCommon\<close> is the part
  every watched resource has; each resource type extends it.
\<close>

text \<open>The literal type \<open>true\<close> and the union \<open>number | string\<close>.\<close>

datatype LiteralTrue = LiteralTrue

datatype NumberOrString = NumberValue js_number | StringValue string

record ManagedFieldsEntry =
  managedFieldsEntry_apiVersion :: "string option"
  managedFieldsEntry_fieldsType :: "string option"
  managedFieldsEntry_fieldsV1 :: "unit option"
  managedFieldsEntry_manager :: "string option"
  managedFieldsEntry_operation :: "string option"
  managedFieldsEntry_subresource :: "string option"
  managedFieldsEntry_time :: "string option"

record OwnerReference =
  ownerReference_apiVersion :: string
  ownerReference_blockOwnerDeletion :: "bool option"
  ownerReference_controller :: "bool option"
  ownerReference_kind :: string
  ownerReference_name :: string
  ownerReference_uid :: string

record ObjectMeta =
  objectMeta_annotations :: "string js_object option"
  objectMeta_creationTimestamp :: "string option"
  objectMeta_deletionGracePeriodSeconds :: "js_number option"
  objectMeta_deletionTimestamp :: "string option"
  objectMeta_finalizers :: "string list option"
  objectMeta_generateName :: "string option"
  objectMeta_generation :: "js_number option"
  objectMeta_labels :: "string js_object option"
  objectMeta_managedFields :: "ManagedFieldsEntry list option"
  objectMeta_name :: "string option"
  objectMeta_namespace :: "string option"
  objectMeta_ownerReferences :: "OwnerReference list option"
  objectMeta_resourceVersion :: "string option"
  objectMeta_selfLink :: "string option"
  objectMeta_uid :: "string option"

record K8sResourceCommon =
  apiVersion :: "string option"
  kind :: "string option"
  metadata :: "ObjectMeta option"

record ConfigMapNodeConfigSource =
  configMapNodeConfigSource_kubeletConfigKey :: string
  configMapNodeConfigSource_name :: string
  configMapNodeConfigSource_namespace :: string
  configMapNodeConfigSource_resourceVersion :: "string option"
  configMapNodeConfigSource_uid :: "string option"

record NodeConfigSource =
  nodeConfigSource_configMap :: "ConfigMapNodeConfigSource option"

datatype TaintEffectEnum =
    TaintEffectEnum_NoExecute
  | TaintEffectEnum_NoSchedule
  | TaintEffectEnum_PreferNoSchedule

record Taint =
  taint_effect :: TaintEffectEnum
  taint_key :: string
  taint_timeAdded :: "string option"
  taint_value :: "string option"

record NodeSpec =
  nodeSpec_configSource :: "NodeConfigSource option"
  nodeSpec_externalID :: "string option"
  nodeSpec_podCIDR :: "string option"
  nodeSpec_podCIDRs :: "string list option"
  nodeSpec_providerID :: "string option"
  nodeSpec_taints :: "Taint list option"
  nodeSpec_unschedulable :: "bool option"

record NodeAddress =
  nodeAddress_address :: string
  nodeAddress_type :: string

record NodeCondition =
  nodeCondition_lastHeartbeatTime :: "string option"
  nodeCondition_lastTransitionTime :: "string option"
  nodeCondition_message :: "string option"
  nodeCondition_reason :: "string option"
  nodeCondition_status :: string
  nodeCondition_type :: string

record NodeConfigStatus =
  nodeConfigStatus_active :: "NodeConfigSource option"
  nodeConfigStatus_assigned :: "NodeConfigSource option"
  nodeConfigStatus_error :: "string option"
  nodeConfigStatus_lastKnownGood :: "NodeConfigSource option"

record DaemonEndpoint =
  daemonEndpoint_port :: js_number

record NodeDaemonEndpoints =
  nodeDaemonEndpoints_kubeletEndpoint :: "DaemonEndpoint option"

record NodeFeatures =
  nodeFeatures_supplementalGroupsPolicy :: "bool option"

record ContainerImage =
  containerImage_names :: "string list option"
  containerImage_sizeBytes :: "js_number option"

record NodeSystemInfo =
  nodeSystemInfo_architecture :: string
  nodeSystemInfo_bootID :: string
  nodeSystemInfo_containerRuntimeVersion :: string
  nodeSystemInfo_kernelVersion :: string
  nodeSystemInfo_kubeProxyVersion :: string
  nodeSystemInfo_kubeletVersion :: string
  nodeSystemInfo_machineID :: string
  nodeSystemInfo_operatingSystem :: string
  nodeSystemInfo_osImage :: string
  nodeSystemInfo_systemUUID :: string

datatype NodeStatusPhaseEnum =
    NodeStatusPhaseEnum_Pending
  | NodeStatusPhaseEnum_Running
  | NodeStatusPhaseEnum_Terminated

record NodeRuntimeHandlerFeatures =
  nodeRuntimeHandlerFeatures_recursiveReadOnlyMounts :: "bool option"
  nodeRuntimeHandlerFeatures_userNamespaces :: "bool option"

record NodeRuntimeHandler =
  nodeRuntimeHandler_features :: "NodeRuntimeHandlerFeatures option"
  nodeRuntimeHandler_name :: "string option"

record AttachedVolume =
  attachedVolume_devicePath :: string
  attachedVolume_name :: string

record NodeStatus =
  nodeStatus_addresses :: "NodeAddress list option"
  nodeStatus_allocatable :: "string js_object option"
  nodeStatus_capacity :: "string js_object option"
  nodeStatus_conditions :: "NodeCondition list option"
  nodeStatus_config :: "NodeConfigStatus option"
  nodeStatus_daemonEndpoints :: "NodeDaemonEndpoints option"
  nodeStatus_features :: "NodeFeatures option"
  nodeStatus_images :: "ContainerImage list option"
  nodeStatus_nodeInfo :: "NodeSystemInfo option"
  nodeStatus_phase :: "NodeStatusPhaseEnum option"
  nodeStatus_runtimeHandlers :: "NodeRuntimeHandler list option"
  nodeStatus_volumesAttached :: "AttachedVolume list option"
  nodeStatus_volumesInUse :: "string list option"

record Node = K8sResourceCommon +
  node_spec :: "NodeSpec option"
  node_status :: "NodeStatus option"

end
