(* ===== verification/Resource_Common.thy ===== *)
theory Resource_Common
  imports K8s_Types Console_Constants
begin

section \<open>Accessors of a Kubernetes resource and the storage role label\<close>

text \<open>
  \<open>console/src/shared/utils/k8s_resource_common.ts\<close> and the label functions of
  \<open>use_nodes_repository.ts\<close> and of the node row view model.
\<close>

definition getName :: "'a K8sResourceCommon_scheme \<Rightarrow> string option" where
  "getName obj = Option.bind (metadata obj) objectMeta_name"

definition getUid :: "'a K8sResourceCommon_scheme \<Rightarrow> string option" where
  "getUid obj = Option.bind (metadata obj) objectMeta_uid"

definition getLabels :: "'a K8sResourceCommon_scheme \<Rightarrow> string js_object" where
  "getLabels obj = nullish (Option.bind (metadata obj) objectMeta_labels) []"

text \<open>\<open>const [k, v] = label.split("=")\<close>: \<open>v\<close> is undefined when there is no separator.\<close>

definition label_key :: "string \<Rightarrow> string" where
  "label_key label = hd (js_split CHR ''='' label)"

definition label_value :: "string \<Rightarrow> string option" where
  "label_value label = js_first (tl (js_split CHR ''='' label))"

definition hasLabel :: "'a K8sResourceCommon_scheme \<Rightarrow> string \<Rightarrow> bool" where
  "hasLabel obj label =
     (let k = label_key label; v = label_value label; labels = getLabels obj
      in if length labels > 0 then obj_get labels k = v else False)"

text \<open>
  \<open>toggleNodeStorageRoleLabel\<close>, which \<open>use_nodes_repository.ts\<close> and the node row view model
  both define. \<open>structuredClone\<close> of a value is the value.
\<close>

definition toggleNodeStorageRoleLabel :: "'a K8sResourceCommon_scheme \<Rightarrow> bool \<Rightarrow> string js_object" where
  "toggleNodeStorageRoleLabel node shouldBeSelected =
     (let result = getLabels node;
          storageRoleLabelKey = label_key STORAGE_ROLE_LABEL;
          storageRoleLabelValue = nullish (label_value STORAGE_ROLE_LABEL) ''undefined''
      in if shouldBeSelected then obj_set storageRoleLabelKey storageRoleLabelValue result
         else if obj_has storageRoleLabelKey result then obj_delete storageRoleLabelKey result
         else result)"

definition makeMatchLabelsSelector :: "string list \<Rightarrow> string js_object" where
  "makeMatchLabelsSelector labels =
     obj_from_entries (map (\<lambda>l. (label_key l, nullish (label_value l) ''undefined'')) labels)"

text \<open>The node after the patch \<open>replace /metadata/labels\<close>.\<close>

definition with_labels :: "'a K8sResourceCommon_scheme \<Rightarrow> string js_object \<Rightarrow> 'a K8sResourceCommon_scheme" where
  "with_labels obj ls = obj\<lparr>metadata := map_option (\<lambda>m. m\<lparr>objectMeta_labels := Some ls\<rparr>) (metadata obj)\<rparr>"

text \<open>Metadata with no property set: what an object literal's \<open>metadata\<close> starts from.\<close>

definition empty_meta :: ObjectMeta where
  "empty_meta = \<lparr>objectMeta_annotations = None, objectMeta_creationTimestamp = None,
     objectMeta_deletionGracePeriodSeconds = None, objectMeta_deletionTimestamp = None,
     objectMeta_finalizers = None, objectMeta_generateName = None, objectMeta_generation = None,
     objectMeta_labels = None, objectMeta_managedFields = None, objectMeta_name = None,
     objectMeta_namespace = None, objectMeta_ownerReferences = None,
     objectMeta_resourceVersion = None, objectMeta_selfLink = None, objectMeta_uid = None\<rparr>"

subsection \<open>Lemmas\<close>

lemma label_parts_eq:
  assumes "CHR ''='' \<notin> set k" "CHR ''='' \<notin> set v"
  shows "label_key (k @ ''='' @ v) = k" "label_value (k @ ''='' @ v) = Some v"
  using assms by (simp_all add: label_key_def label_value_def js_split_append js_split_no_sep)

lemma label_value_None_iff: "label_value label = None \<longleftrightarrow> CHR ''='' \<notin> set label"
proof
  assume "CHR ''='' \<notin> set label"
  then show "label_value label = None" by (simp add: label_value_def js_split_no_sep)
next
  assume none: "label_value label = None"
  show "CHR ''='' \<notin> set label"
  proof
    assume "CHR ''='' \<in> set label"
    then obtain k v where "label = k @ CHR ''='' # v" "CHR ''='' \<notin> set k"
      by (meson split_list_first)
    then have "label_value label \<noteq> None"
      by (cases "js_split CHR ''='' v") (simp_all add: label_value_def js_split_append)
    with none show False by simp
  qed
qed

lemma storage_role_key [simp]: "label_key STORAGE_ROLE_LABEL = ''scale.spectrum.ibm.com/role''"
  and storage_role_value [simp]: "label_value STORAGE_ROLE_LABEL = Some ''storage''"
  by (simp_all add: label_key_def label_value_def storage_role_label_split)

lemma hasLabel_eq:
  assumes "CHR ''='' \<in> set label"
  shows "hasLabel obj label \<longleftrightarrow> obj_get (getLabels obj) (label_key label) = label_value label"
proof -
  from assms have "label_value label \<noteq> None" by (simp add: label_value_None_iff)
  then show ?thesis by (cases "getLabels obj") (auto simp: hasLabel_def Let_def)
qed

lemma hasLabel_no_eq:
  assumes "CHR ''='' \<notin> set label"
  shows "hasLabel obj label \<longleftrightarrow> getLabels obj \<noteq> [] \<and> obj_get (getLabels obj) label = None"
  using assms by (auto simp: hasLabel_def Let_def label_key_def js_split_no_sep
      label_value_None_iff [THEN iffD2])

lemma getLabels_with_labels:
  "metadata obj \<noteq> None \<Longrightarrow> getLabels (with_labels obj ls) = ls"
  by (auto simp: getLabels_def with_labels_def)

lemma toggle_eq_switch:
  "toggleNodeStorageRoleLabel node b =
     (if b then obj_set (label_key STORAGE_ROLE_LABEL) ''storage'' (getLabels node)
      else if obj_get (getLabels node) (label_key STORAGE_ROLE_LABEL) \<noteq> None
      then obj_delete (label_key STORAGE_ROLE_LABEL) (getLabels node) else getLabels node)"
  by (simp add: toggleNodeStorageRoleLabel_def Let_def obj_has_iff)

lemma obj_get_toggle:
  "obj_get (toggleNodeStorageRoleLabel node b) k =
     (if k = label_key STORAGE_ROLE_LABEL then (if b then Some ''storage'' else None)
      else obj_get (getLabels node) k)"
  unfolding toggle_eq_switch by (rule js_obj.get_switch)

lemma obj_ok_toggle: "obj_ok (getLabels node) \<Longrightarrow> obj_ok (toggleNodeStorageRoleLabel node b)"
  unfolding toggle_eq_switch by (rule js_obj.ok_switch)

lemma hasLabel_toggle:
  "metadata node \<noteq> None \<Longrightarrow>
     hasLabel (with_labels node (toggleNodeStorageRoleLabel node b)) STORAGE_ROLE_LABEL = b"
  by (simp add: hasLabel_eq storage_role_label_has_eq getLabels_with_labels obj_get_toggle)

lemma hasLabel_match:
  "CHR ''='' \<in> set l \<Longrightarrow> hasLabel obj l \<longleftrightarrow> obj_get (getLabels obj) (label_key l) = Some (nullish (label_value l) ''undefined'')"
  using label_value_None_iff [of l] by (cases "label_value l") (simp_all add: hasLabel_eq)

lemma makeMatchLabelsSelector_eq:
  assumes "distinct (map label_key ls)"
  shows "makeMatchLabelsSelector ls = map (\<lambda>l. (label_key l, nullish (label_value l) ''undefined'')) ls"
  unfolding makeMatchLabelsSelector_def using assms by (intro obj_from_entries_distinct) (simp add: comp_def)

subsection \<open>Properties\<close>

text \<open>A \<open>matchLabels\<close> selector selects the objects that carry each of its labels.\<close>

definition matches_labels :: "'a K8sResourceCommon_scheme \<Rightarrow> string js_object \<Rightarrow> bool" where
  "matches_labels obj selector \<longleftrightarrow> list_all (\<lambda>(k, v). obj_get (getLabels obj) k = Some v) selector"

text \<open>A resource with a name and labels, for the examples.\<close>

definition labelled_resource :: "string \<Rightarrow> string js_object \<Rightarrow> K8sResourceCommon" where
  "labelled_resource name labels = \<lparr>apiVersion = None, kind = None,
     metadata = Some (empty_meta\<lparr>objectMeta_name := Some name, objectMeta_labels := Some labels\<rparr>)\<rparr>"

text \<open>C33: After the patch that sets the labels of \<open>toggleNodeStorageRoleLabel\<close>, a node has the
  storage role label exactly when it was to be selected, every other label is what it was, and the
  labels still have distinct keys.\<close>

theorem toggle_label_roundtrip:
  assumes "metadata node \<noteq> None" "obj_ok (getLabels node)"
  shows "let node' = with_labels node (toggleNodeStorageRoleLabel node b) in
     hasLabel node' STORAGE_ROLE_LABEL = b \<and> obj_ok (getLabels node') \<and>
     (\<forall>k. k \<noteq> label_key STORAGE_ROLE_LABEL \<longrightarrow> obj_get (getLabels node') k = obj_get (getLabels node) k)"
  using assms by (simp add: hasLabel_toggle getLabels_with_labels obj_get_toggle obj_ok_toggle)

theorem toggle_label_roundtrip_witness:
  "let n = labelled_resource ''worker-0'' [(''zone'', ''a''), (''scale.spectrum.ibm.com/role'', ''storage'')];
       n' = with_labels n (toggleNodeStorageRoleLabel n False)
   in \<not> hasLabel n' STORAGE_ROLE_LABEL \<and> obj_get (getLabels n') ''zone'' = Some ''a''"
  using toggle_label_roundtrip [of "labelled_resource ''worker-0'' [(''zone'', ''a''), (''scale.spectrum.ibm.com/role'', ''storage'')]" False]
  by (simp add: labelled_resource_def getLabels_def obj_ok_def obj_get_def Let_def)

text \<open>The selector \<open>makeMatchLabelsSelector\<close> builds for a watch selects exactly the objects for
  which \<open>hasLabel\<close> holds of every label of the list, when the labels are \<open>key=value\<close> texts with
  different keys.\<close>

lemma selector_selects_labelled:
  assumes "distinct (map label_key ls)" "\<forall>l \<in> set ls. CHR ''='' \<in> set l"
  shows "matches_labels obj (makeMatchLabelsSelector ls) \<longleftrightarrow> (\<forall>l \<in> set ls. hasLabel obj l)"
  using assms by (auto simp: matches_labels_def makeMatchLabelsSelector_eq list_all_iff hasLabel_match)

text \<open>For a label without \<open>=\<close> the value is undefined, and \<open>hasLabel\<close> answers the opposite of what
  its name says: it holds exactly of the objects that have labels, but not that one.\<close>

lemma hasLabel_without_value:
  assumes "CHR ''='' \<notin> set label"
  shows "hasLabel obj label \<longleftrightarrow> getLabels obj \<noteq> [] \<and> \<not> obj_has label (getLabels obj)"
  using hasLabel_no_eq [OF assms] by (simp add: obj_has_iff)

end
