(* ===== verification/Crd_Types.thy ===== *)
theory Crd_Types
  imports K8s_Types
begin

section \<open>Custom resources: file system claims, discovery results, local disks\<close>

text \<open>
  The interfaces of \<open>console/src/shared/types/fusion-storage-openshift-io/v1alpha1\<close> and
  \<open>LocalDisk.ts\<close> of \<open>scale-spectrum-ibm-com/v1beta1\<close>. Two interfaces with the same properties
  are one structural type in TypeScript: the second is a type synonym here.
\<close>

record FileSystemClaimSpec =
  fileSystemClaimSpec_devices :: "string list option"

datatype ConditionStatus =
    ConditionStatus_True
  | ConditionStatus_False
  | ConditionStatus_Unknown

record Condition =
  condition_lastTransitionTime :: string
  condition_message :: string
  condition_observedGeneration :: "js_number option"
  condition_reason :: string
  condition_status :: ConditionStatus
  condition_type :: string

record FileSystemClaimStatus =
  fileSystemClaimStatus_conditions :: "Condition list option"

record FileSystemClaim = K8sResourceCommon +
  fileSystemClaim_spec :: "FileSystemClaimSpec option"
  fileSystemClaim_status :: "FileSystemClaimStatus option"

record FusionAccessSpecStorageDeviceDiscovery =
  fusionAccessSpecStorageDeviceDiscovery_create :: "bool option"

datatype StorageScaleVersion =
    StorageScaleVersion_v5_2_3_5_2025_10_20_22_23_42

record FusionAccessSpec =
  fusionAccessSpec_externalManifestURL :: "string option"
  fusionAccessSpec_storageDeviceDiscovery :: "FusionAccessSpecStorageDeviceDiscovery option"
  fusionAccessSpec_storageScaleVersion :: "StorageScaleVersion option"

type_synonym FusionAccessStatusConditions = Condition

record FusionAccessStatus =
  fusionAccessStatus_conditions :: "FusionAccessStatusConditions list option"
  fusionAccessStatus_observedGeneration :: "js_number option"
  fusionAccessStatus_status :: "string option"
  fusionAccessStatus_totalProvisionedDeviceCount :: "js_number option"

record FusionAccess = K8sResourceCommon +
  fusionAccess_spec :: "FusionAccessSpec option"
  fusionAccess_status :: "FusionAccessStatus option"

record LocalVolumeDiscoveryResultSpec =
  lvdrSpec_nodeName :: string

record DiscoveredDevice =
  discoveredDevice_WWN :: string
  discoveredDevice_deviceID :: string
  discoveredDevice_model :: string
  discoveredDevice_path :: string
  discoveredDevice_size :: js_number
  discoveredDevice_type :: string
  discoveredDevice_vendor :: string

record LocalVolumeDiscoveryResultStatus =
  lvdrStatus_discoveredDevices :: "DiscoveredDevice list option"
  lvdrStatus_discoveredTimeStamp :: "string option"

record LocalVolumeDiscoveryResult = K8sResourceCommon +
  lvdr_spec :: "LocalVolumeDiscoveryResultSpec option"
  lvdr_status :: "LocalVolumeDiscoveryResultStatus option"

record LabelSelectorRequirement =
  labelSelectorRequirement_key :: string
  labelSelectorRequirement_operator :: string
  labelSelectorRequirement_values :: "string list option"

record LabelSelector =
  labelSelector_matchExpressions :: "LabelSelectorRequirement list option"
  labelSelector_matchLabels :: "string js_object option"

datatype LocalDiskSpecThinDiskType =
    LocalDiskSpecThinDiskType_no
  | LocalDiskSpecThinDiskType_nvme
  | LocalDiskSpecThinDiskType_scsi
  | LocalDiskSpecThinDiskType_auto

record LocalDiskSpec =
  localDiskSpec_device :: string
  localDiskSpec_existingDataSkipVerify :: "bool option"
  localDiskSpec_failureGroup :: "string option"
  localDiskSpec_node :: string
  localDiskSpec_nodeConnectionSelector :: "LabelSelector option"
  localDiskSpec_thinDiskType :: "LocalDiskSpecThinDiskType option"

type_synonym LocalDiskStatusConditions = Condition

record LocalDiskStatus =
  localDiskStatus_conditions :: "LocalDiskStatusConditions list option"
  localDiskStatus_failuregroup :: string
  localDiskStatus_failuregroupMapping :: "string option"
  localDiskStatus_filesystem :: string
  localDiskStatus_nodeConnections :: string
  localDiskStatus_pool :: string
  localDiskStatus_size :: string
  localDiskStatus_type :: string

record LocalDisk = K8sResourceCommon +
  localDisk_spec :: "LocalDiskSpec option"
  localDisk_status :: "LocalDiskStatus option"

end
