(* ===== verification/Crd_Scale.thy ===== *)
theory Crd_Scale
  imports Crd_Types
begin

section \<open>Custom resources: cluster, daemon and file system\<close>

text \<open>
  The interfaces of \<open>Cluster.ts\<close>, \<open>Daemon.ts\<close> and \<open>Filesystem.ts\<close> under
  \<open>console/src/shared/types/scale-spectrum-ibm-com/v1beta1\<close>.
\<close>

record ClusterSpecCsiSidecar =
  clusterSpecCsiSidecar_nodeSelector :: "string js_object option"

record ClusterSpecCsi =
  clusterSpecCsi_sidecar :: "ClusterSpecCsiSidecar option"

datatype ClusterProfileCloudEnv =
    ClusterProfileCloudEnv_general

datatype YesNo =
    YesNo_yes
  | YesNo_no

datatype ClusterProfileReadReplicaPolicy =
    ClusterProfileReadReplicaPolicy_default
  | ClusterProfileReadReplicaPolicy_local
  | ClusterProfileReadReplicaPolicy_fastest

datatype ClusterProfileTraceGenSubDir =
    ClusterProfileTraceGenSubDir_var_mmfs_tmp_traces

datatype EnableDisable =
    EnableDisable_enable
  | EnableDisable_disable

record ClusterProfile =
  clusterProfile_afmAsyncDelay :: "string option"
  clusterProfile_afmDIO :: "string option"
  clusterProfile_afmHashVersion :: "string option"
  clusterProfile_afmMaxParallelRecoveries :: "string option"
  clusterProfile_afmObjKeyExpiration :: "string option"
  clusterProfile_backgroundSpaceReclaimThreshold :: "string option"
  clusterProfile_cloudEnv :: "ClusterProfileCloudEnv option"
  clusterProfile_controlSetxattrImmutableSELinux :: "string option"
  clusterProfile_encryptionKeyCacheExpiration :: "string option"
  clusterProfile_enforceFilesetQuotaOnRoot :: "string option"
  clusterProfile_ignorePrefetchLUNCount :: "string option"
  clusterProfile_ignoreReplicaSpaceOnStat :: "YesNo option"
  clusterProfile_ignoreReplicationForQuota :: "YesNo option"
  clusterProfile_ignoreReplicationOnStatfs :: "YesNo option"
  clusterProfile_initPrefetchBuffers :: "string option"
  clusterProfile_maxBufferDescs :: "string option"
  clusterProfile_maxMBpS :: "string option"
  clusterProfile_maxTcpConnsPerNodeConn :: "string option"
  clusterProfile_maxblocksize :: "string option"
  clusterProfile_nsdMaxWorkerThreads :: "string option"
  clusterProfile_nsdMinWorkerThreads :: "string option"
  clusterProfile_nsdMultiQueue :: "string option"
  clusterProfile_nsdRAIDBlockDeviceMaxSectorsKB :: "string option"
  clusterProfile_nsdRAIDBlockDeviceNrRequests :: "string option"
  clusterProfile_nsdRAIDBlockDeviceQueueDepth :: "string option"
  clusterProfile_nsdRAIDBlockDeviceScheduler :: "string option"
  clusterProfile_nsdRAIDBufferPoolSizePct :: "string option"
  clusterProfile_nsdRAIDDefaultGeneratedFD :: "string option"
  clusterProfile_nsdRAIDDiskCheckVWCE :: "string option"
  clusterProfile_nsdRAIDEventLogToConsole :: "string option"
  clusterProfile_nsdRAIDFlusherFWLogHighWatermarkMB :: "string option"
  clusterProfile_nsdRAIDMasterBufferPoolSize :: "string option"
  clusterProfile_nsdRAIDMaxPdiskQueueDepth :: "string option"
  clusterProfile_nsdRAIDMaxRecoveryRetries :: "string option"
  clusterProfile_nsdRAIDMaxTransientStale2FT :: "string option"
  clusterProfile_nsdRAIDMaxTransientStale3FT :: "string option"
  clusterProfile_nsdRAIDNonStealableBufPct :: "string option"
  clusterProfile_nsdRAIDReadRGDescriptorTimeout :: "string option"
  clusterProfile_nsdRAIDReconstructAggressiveness :: "string option"
  clusterProfile_nsdRAIDSmallThreadRatio :: "string option"
  clusterProfile_nsdRAIDThreadsPerQueue :: "string option"
  clusterProfile_nsdRAIDTracks :: "string option"
  clusterProfile_nsdSmallThreadRatio :: "string option"
  clusterProfile_nspdBufferMemPerQueue :: "string option"
  clusterProfile_nspdQueues :: "string option"
  clusterProfile_nspdThreadsPerQueue :: "string option"
  clusterProfile_numaMemoryInterleave :: "string option"
  clusterProfile_pagepoolMaxPhysMemPct :: "string option"
  clusterProfile_panicOnIOHang :: "string option"
  clusterProfile_pitWorkerThreadsPerNode :: "string option"
  clusterProfile_prefetchPct :: "string option"
  clusterProfile_prefetchThreads :: "string option"
  clusterProfile_prefetchTimeout :: "string option"
  clusterProfile_proactiveReconnect :: "YesNo option"
  clusterProfile_qMaxBlockShare :: "string option"
  clusterProfile_qRevokeDisable :: "string option"
  clusterProfile_readReplicaPolicy :: "ClusterProfileReadReplicaPolicy option"
  clusterProfile_seqDiscardThreshold :: "string option"
  clusterProfile_traceGenSubDir :: "ClusterProfileTraceGenSubDir option"
  clusterProfile_tscCmdAllowRemoteConnections :: "YesNo option"
  clusterProfile_tscCmdPortRange :: "string option"
  clusterProfile_verbsPorts :: "string option"
  clusterProfile_verbsRdma :: "EnableDisable option"
  clusterProfile_verbsRdmaCm :: "EnableDisable option"
  clusterProfile_verbsRdmaSend :: "YesNo option"

record HostAlias =
  hostAlias_hostname :: string
  hostAlias_ip :: string

type_synonym ClusterSpecDaemonNodeSelectorExpressions = LabelSelectorRequirement

record LocalDevicePath =
  localDevicePath_devicePath :: "string option"
  localDevicePath_deviceType :: "string option"

record NsdDevicesConfig =
  nsdDevicesConfig_bypassDiscovery :: "bool option"
  nsdDevicesConfig_localDevicePaths :: "LocalDevicePath list option"

record CpuMemory =
  cpuMemory_cpu :: "string option"
  cpuMemory_memory :: "string option"

datatype DaemonRoleName =
    DaemonRoleName_afm
  | DaemonRoleName_storage
  | DaemonRoleName_client

record RoleProfile =
  roleProfile_afmMaxParallelRecoveries :: "string option"
  roleProfile_backgroundSpaceReclaimThreshold :: "string option"
  roleProfile_controlSetxattrImmutableSELinux :: "string option"
  roleProfile_ignorePrefetchLUNCount :: "string option"
  roleProfile_initPrefetchBuffers :: "string option"
  roleProfile_maxBufferDescs :: "string option"
  roleProfile_maxMBpS :: "string option"
  roleProfile_maxTcpConnsPerNodeConn :: "string option"
  roleProfile_maxblocksize :: "string option"
  roleProfile_nsdMaxWorkerThreads :: "string option"
  roleProfile_nsdMinWorkerThreads :: "string option"
  roleProfile_nsdMultiQueue :: "string option"
  roleProfile_nsdRAIDBlockDeviceMaxSectorsKB :: "string option"
  roleProfile_nsdRAIDBlockDeviceNrRequests :: "string option"
  roleProfile_nsdRAIDBlockDeviceQueueDepth :: "string option"
  roleProfile_nsdRAIDBlockDeviceScheduler :: "string option"
  roleProfile_nsdRAIDBufferPoolSizePct :: "string option"
  roleProfile_nsdRAIDDefaultGeneratedFD :: "string option"
  roleProfile_nsdRAIDDiskCheckVWCE :: "string option"
  roleProfile_nsdRAIDEventLogToConsole :: "string option"
  roleProfile_nsdRAIDFlusherFWLogHighWatermarkMB :: "string option"
  roleProfile_nsdRAIDMasterBufferPoolSize :: "string option"
  roleProfile_nsdRAIDMaxPdiskQueueDepth :: "string option"
  roleProfile_nsdRAIDMaxRecoveryRetries :: "string option"
  roleProfile_nsdRAIDMaxTransientStale2FT :: "string option"
  roleProfile_nsdRAIDMaxTransientStale3FT :: "string option"
  roleProfile_nsdRAIDNonStealableBufPct :: "string option"
  roleProfile_nsdRAIDReadRGDescriptorTimeout :: "string option"
  roleProfile_nsdRAIDReconstructAggressiveness :: "string option"
  roleProfile_nsdRAIDSmallThreadRatio :: "string option"
  roleProfile_nsdRAIDThreadsPerQueue :: "string option"
  roleProfile_nsdRAIDTracks :: "string option"
  roleProfile_nsdSmallThreadRatio :: "string option"
  roleProfile_nspdBufferMemPerQueue :: "string option"
  roleProfile_nspdQueues :: "string option"
  roleProfile_nspdThreadsPerQueue :: "string option"
  roleProfile_numaMemoryInterleave :: "string option"
  roleProfile_pagepoolMaxPhysMemPct :: "string option"
  roleProfile_panicOnIOHang :: "string option"
  roleProfile_pitWorkerThreadsPerNode :: "string option"
  roleProfile_prefetchPct :: "string option"
  roleProfile_prefetchThreads :: "string option"
  roleProfile_prefetchTimeout :: "string option"
  roleProfile_proactiveReconnect :: "YesNo option"
  roleProfile_seqDiscardThreshold :: "string option"
  roleProfile_tscCmdPortRange :: "string option"
  roleProfile_verbsPorts :: "string option"
  roleProfile_verbsRdma :: "EnableDisable option"
  roleProfile_verbsRdmaCm :: "EnableDisable option"
  roleProfile_verbsRdmaSend :: "YesNo option"

type_synonym RoleResources = CpuMemory

record DaemonRole =
  daemonRole_limits :: "CpuMemory option"
  daemonRole_name :: "DaemonRoleName option"
  daemonRole_profile :: "RoleProfile option"
  daemonRole_resources :: "RoleResources option"

record Toleration =
  toleration_effect :: "string option"
  toleration_key :: "string option"
  toleration_operator :: "string option"
  toleration_tolerationSeconds :: "js_number option"
  toleration_value :: "string option"

type_synonym UpdatePoolNodeSelector = LabelSelector

record UpdatePool =
  updatePool_maxUnavailable :: "NumberOrString option"
  updatePool_name :: string
  updatePool_nodeSelector :: "UpdatePoolNodeSelector option"
  updatePool_paused :: "bool option"

record DaemonUpdate =
  daemonUpdate_maxUnavailable :: "NumberOrString option"
  daemonUpdate_paused :: "bool option"
  daemonUpdate_pools :: "UpdatePool list option"

record ClusterSpecDaemon =
  clusterSpecDaemon_clusterNameOverride :: "string option"
  clusterSpecDaemon_clusterProfile :: "ClusterProfile option"
  clusterSpecDaemon_hostAliases :: "HostAlias list option"
  clusterSpecDaemon_nodeSelector :: "string js_object option"
  clusterSpecDaemon_nodeSelectorExpressions :: "ClusterSpecDaemonNodeSelectorExpressions list option"
  clusterSpecDaemon_nsdDevicesConfig :: "NsdDevicesConfig option"
  clusterSpecDaemon_roles :: "DaemonRole list option"
  clusterSpecDaemon_tolerations :: "Toleration list option"
  clusterSpecDaemon_update :: "DaemonUpdate option"

type_synonym ClusterSpecGrafanaBridgeTolerations = Toleration

record ClusterSpecGrafanaBridge =
  clusterSpecGrafanaBridge_enablePrometheusExporter :: "bool option"
  clusterSpecGrafanaBridge_nodeSelector :: "string js_object option"
  clusterSpecGrafanaBridge_tolerations :: "ClusterSpecGrafanaBridgeTolerations list option"

datatype ContainerResourceName =
    ContainerResourceName_liberty
  | ContainerResourceName_postgres

record ContainerResourceRequirementsClaims =
  clusterSpecGuiContainerResourcesResourcesClaims_name :: string

record ContainerResourceRequirements =
  containerResourceRequirements_claims :: "ContainerResourceRequirementsClaims list option"
  containerResourceRequirements_limits :: "NumberOrString js_object option"
  containerResourceRequirements_requests :: "NumberOrString js_object option"

record ContainerResource =
  containerResource_name :: ContainerResourceName
  containerResource_resources :: ContainerResourceRequirements

type_synonym ClusterSpecGuiTolerations = Toleration

record ClusterSpecGui =
  clusterSpecGui_containerResources :: "ContainerResource list option"
  clusterSpecGui_enableSessionIPCheck :: "bool option"
  clusterSpecGui_nodeSelector :: "string js_object option"
  clusterSpecGui_tolerations :: "ClusterSpecGuiTolerations list option"

datatype LicenseEdition =
    LicenseEdition_data_access
  | LicenseEdition_data_management
  | LicenseEdition_erasure_code

record ClusterSpecLicense =
  clusterSpecLicense_accept :: LiteralTrue
  clusterSpecLicense_license :: LicenseEdition

type_synonym ClusterSpecPmcollectorTolerations = Toleration

record ClusterSpecPmcollector =
  clusterSpecPmcollector_nodeSelector :: "string js_object option"
  clusterSpecPmcollector_storageClass :: "string option"
  clusterSpecPmcollector_tolerations :: "ClusterSpecPmcollectorTolerations list option"

type_synonym ClusterSpecRegionalDRTolerations = Toleration

record ClusterSpecRegionalDR =
  clusterSpecRegionalDR_nodeSelector :: "string js_object option"
  clusterSpecRegionalDR_tolerations :: "ClusterSpecRegionalDRTolerations list option"

record ClusterSpecSite =
  clusterSpecSite_name :: string
  clusterSpecSite_zone :: string

record ClusterSpec =
  clusterSpec_csi :: "ClusterSpecCsi option"
  clusterSpec_daemon :: "ClusterSpecDaemon option"
  clusterSpec_grafanaBridge :: "ClusterSpecGrafanaBridge option"
  clusterSpec_gui :: "ClusterSpecGui option"
  clusterSpec_license :: ClusterSpecLicense
  clusterSpec_networkPolicy :: "unit option"
  clusterSpec_pmcollector :: "ClusterSpecPmcollector option"
  clusterSpec_regionalDR :: "ClusterSpecRegionalDR option"
  clusterSpec_site :: "ClusterSpecSite option"

type_synonym ClusterStatus = FileSystemClaimStatus

record Cluster = K8sResourceCommon +
  cluster_spec :: "ClusterSpec option"
  cluster_status :: "ClusterStatus option"

type_synonym DaemonSpecClusterProfile = ClusterProfile

type_synonym DaemonSpecHostAliases = HostAlias

record DaemonSpecImages =
  daemonSpecImages_core :: "string option"
  daemonSpecImages_coreInit :: "string option"

type_synonym DaemonSpecNodeSelectorExpressions = LabelSelectorRequirement

type_synonym DaemonSpecNsdDevicesConfig = NsdDevicesConfig

type_synonym DaemonSpecRoles = DaemonRole

type_synonym DaemonSpecSite = ClusterSpecSite

type_synonym DaemonSpecTolerations = Toleration

type_synonym DaemonSpecUpdate = DaemonUpdate

record DaemonSpec =
  daemonSpec_clusterNameOverride :: "string option"
  daemonSpec_clusterProfile :: "DaemonSpecClusterProfile option"
  daemonSpec_edition :: LicenseEdition
  daemonSpec_hostAliases :: "DaemonSpecHostAliases list option"
  daemonSpec_images :: "DaemonSpecImages option"
  daemonSpec_nodeSelector :: "string js_object option"
  daemonSpec_nodeSelectorExpressions :: "DaemonSpecNodeSelectorExpressions list option"
  daemonSpec_nsdDevicesConfig :: "DaemonSpecNsdDevicesConfig option"
  daemonSpec_regionalDR :: "unit option"
  daemonSpec_roles :: "DaemonSpecRoles list option"
  daemonSpec_site :: DaemonSpecSite
  daemonSpec_tolerations :: "DaemonSpecTolerations list option"
  daemonSpec_update :: "DaemonSpecUpdate option"

type_synonym DaemonStatusConditions = Condition

record DaemonStatusCordonAndDrainNodesDraining =
  daemonStatusCordonAndDrainNodesDraining_node :: string
  daemonStatusCordonAndDrainNodesDraining_ongoingPodEvictions :: "string list"
  daemonStatusCordonAndDrainNodesDraining_podEvictionsFailed :: "string list"

record DaemonStatusCordonAndDrainPodEvictionRequests =
  daemonStatusCordonAndDrainPodEvictionRequests_pods :: string
  daemonStatusCordonAndDrainPodEvictionRequests_requestor :: string

record DaemonStatusCordonAndDrain =
  daemonStatusCordonAndDrain_nodesCordonedByOperator :: string
  daemonStatusCordonAndDrain_nodesCordonedByOthers :: string
  daemonStatusCordonAndDrain_nodesDraining :: "DaemonStatusCordonAndDrainNodesDraining list option"
  daemonStatusCordonAndDrain_podEvictionRequests :: "DaemonStatusCordonAndDrainPodEvictionRequests list option"

record DaemonStatusPods =
  daemonStatusPods_desired :: string
  daemonStatusPods_total :: string

record DaemonStatusPodsStatus =
  daemonStatusPodsStatus_running :: string
  daemonStatusPodsStatus_starting :: string
  daemonStatusPodsStatus_terminating :: string
  daemonStatusPodsStatus_unknown :: string
  daemonStatusPodsStatus_waitingForDelete :: string

record DaemonStatusQuorumPods =
  daemonStatusQuorumPods_running :: string
  daemonStatusQuorumPods_total :: string

record DaemonStatusRoles =
  daemonStatusRoles_name :: string
  daemonStatusRoles_nodeCount :: string
  daemonStatusRoles_nodes :: string
  daemonStatusRoles_podCount :: string
  daemonStatusRoles_pods :: string
  daemonStatusRoles_runningCount :: string

record DaemonStatusStatusDetailsPodsWaitingToBeDeleted =
  daemonStatusStatusDetailsPodsWaitingToBeDeleted_deleteReason :: string
  daemonStatusStatusDetailsPodsWaitingToBeDeleted_pods :: string

record DaemonStatusStatusDetails =
  daemonStatusStatusDetails_nodesRebooting :: string
  daemonStatusStatusDetails_nodesUnreachable :: string
  daemonStatusStatusDetails_podsStarting :: string
  daemonStatusStatusDetails_podsTerminating :: string
  daemonStatusStatusDetails_podsUnknown :: string
  daemonStatusStatusDetails_podsWaitingToBeDeleted :: "DaemonStatusStatusDetailsPodsWaitingToBeDeleted list option"
  daemonStatusStatusDetails_quorumPods :: string

record DaemonStatusTiebreaker =
  daemonStatusTiebreaker_version :: "string option"

record DaemonStatusUpdatePools =
  daemonStatusUpdatePools_name :: string
  daemonStatusUpdatePools_nodeCount :: js_number
  daemonStatusUpdatePools_nodes :: string

record DaemonStatusUpdate =
  daemonStatusUpdate_pools :: "DaemonStatusUpdatePools list option"

record DaemonStatusVersions =
  daemonStatusVersions_count :: string
  daemonStatusVersions_pods :: "string option"
  daemonStatusVersions_site :: "string option"
  daemonStatusVersions_version :: string

record DaemonStatus =
  daemonStatus_clusterID :: "string option"
  daemonStatus_clusterName :: "string option"
  daemonStatus_conditions :: "DaemonStatusConditions list option"
  daemonStatus_cordonAndDrain :: "DaemonStatusCordonAndDrain option"
  daemonStatus_minimumReleaseLevel :: "string option"
  daemonStatus_pods :: "DaemonStatusPods option"
  daemonStatus_podsStatus :: "DaemonStatusPodsStatus option"
  daemonStatus_quorumPods :: "DaemonStatusQuorumPods option"
  daemonStatus_roles :: "DaemonStatusRoles list option"
  daemonStatus_statusDetails :: "DaemonStatusStatusDetails option"
  daemonStatus_tiebreaker :: "DaemonStatusTiebreaker option"
  daemonStatus_update :: "DaemonStatusUpdate option"
  daemonStatus_versions :: "DaemonStatusVersions list option"

record Daemon = K8sResourceCommon +
  daemon_spec :: "DaemonSpec option"
  daemon_status :: "DaemonStatus option"

datatype FilesystemSpecLocalBlockSize =
    FilesystemSpecLocalBlockSize_64k
  | FilesystemSpecLocalBlockSize_128k
  | FilesystemSpecLocalBlockSize_256k
  | FilesystemSpecLocalBlockSize_512k
  | FilesystemSpecLocalBlockSize_1m
  | FilesystemSpecLocalBlockSize_2m
  | FilesystemSpecLocalBlockSize_4m
  | FilesystemSpecLocalBlockSize_8m
  | FilesystemSpecLocalBlockSize_16m
  | FilesystemSpecLocalBlockSize_256K
  | FilesystemSpecLocalBlockSize_512K
  | FilesystemSpecLocalBlockSize_1M
  | FilesystemSpecLocalBlockSize_2M
  | FilesystemSpecLocalBlockSize_4M
  | FilesystemSpecLocalBlockSize_8M
  | FilesystemSpecLocalBlockSize_16M

record LocalPool =
  localPool_disks :: "string list"
  localPool_name :: "string option"

datatype FilesystemSpecLocalReplication =
    FilesystemSpecLocalReplication_1_way
  | FilesystemSpecLocalReplication_2_way
  | FilesystemSpecLocalReplication_3_way

datatype FilesystemSpecLocalType =
    FilesystemSpecLocalType_shared
  | FilesystemSpecLocalType_unshared

record FilesystemSpecLocal =
  filesystemSpecLocal_blockSize :: "FilesystemSpecLocalBlockSize option"
  filesystemSpecLocal_pools :: "LocalPool list"
  filesystemSpecLocal_replication :: FilesystemSpecLocalReplication
  filesystemSpecLocal_type :: FilesystemSpecLocalType

record FilesystemSpecRemote =
  filesystemSpecRemote_cluster :: string
  filesystemSpecRemote_fs :: string

record FilesystemSpecSeLinuxOptions =
  filesystemSpecSeLinuxOptions_level :: "string option"
  filesystemSpecSeLinuxOptions_role :: "string option"
  filesystemSpecSeLinuxOptions_type :: "string option"
  filesystemSpecSeLinuxOptions_user :: "string option"

datatype FilesystemSpecVdiskNSDReplication =
    FilesystemSpecVdiskNSDReplication_1_way
  | FilesystemSpecVdiskNSDReplication_2_way

record FilesystemSpecVdiskNSDTiebreaker =
  filesystemSpecVdiskNSDTiebreaker_device :: string
  filesystemSpecVdiskNSDTiebreaker_nodeDaemonName :: string

datatype FilesystemSpecVdiskNSDVdiskSetsBlockSize =
    FilesystemSpecVdiskNSDVdiskSetsBlockSize_256k
  | FilesystemSpecVdiskNSDVdiskSetsBlockSize_512k
  | FilesystemSpecVdiskNSDVdiskSetsBlockSize_1m
  | FilesystemSpecVdiskNSDVdiskSetsBlockSize_2m
  | FilesystemSpecVdiskNSDVdiskSetsBlockSize_4m
  | FilesystemSpecVdiskNSDVdiskSetsBlockSize_8m
  | FilesystemSpecVdiskNSDVdiskSetsBlockSize_16m
  | FilesystemSpecVdiskNSDVdiskSetsBlockSize_256K
  | FilesystemSpecVdiskNSDVdiskSetsBlockSize_512K
  | FilesystemSpecVdiskNSDVdiskSetsBlockSize_1M
  | FilesystemSpecVdiskNSDVdiskSetsBlockSize_2M
  | FilesystemSpecVdiskNSDVdiskSetsBlockSize_4M
  | FilesystemSpecVdiskNSDVdiskSetsBlockSize_8M
  | FilesystemSpecVdiskNSDVdiskSetsBlockSize_16M

datatype FilesystemSpecVdiskNSDVdiskSetsNsdUsage =
    FilesystemSpecVdiskNSDVdiskSetsNsdUsage_dataAndMetadata
  | FilesystemSpecVdiskNSDVdiskSetsNsdUsage_metadataOnly
  | FilesystemSpecVdiskNSDVdiskSetsNsdUsage_dataOnly

datatype FilesystemSpecVdiskNSDVdiskSetsRaidCode =
    FilesystemSpecVdiskNSDVdiskSetsRaidCode_3WayReplication
  | FilesystemSpecVdiskNSDVdiskSetsRaidCode_4WayReplication
  | FilesystemSpecVdiskNSDVdiskSetsRaidCode_4p2P
  | FilesystemSpecVdiskNSDVdiskSetsRaidCode_4p3P
  | FilesystemSpecVdiskNSDVdiskSetsRaidCode_8p2P
  | FilesystemSpecVdiskNSDVdiskSetsRaidCode_8p3P

record FilesystemSpecVdiskNSDVdiskSets =
  filesystemSpecVdiskNSDVdiskSets_blockSize :: "FilesystemSpecVdiskNSDVdiskSetsBlockSize option"
  filesystemSpecVdiskNSDVdiskSets_declusteredArray :: "string option"
  filesystemSpecVdiskNSDVdiskSets_failureGroup :: "js_number option"
  filesystemSpecVdiskNSDVdiskSets_nsdUsage :: "FilesystemSpecVdiskNSDVdiskSetsNsdUsage option"
  filesystemSpecVdiskNSDVdiskSets_raidCode :: "FilesystemSpecVdiskNSDVdiskSetsRaidCode option"
  filesystemSpecVdiskNSDVdiskSets_recoveryGroups :: "string list option"
  filesystemSpecVdiskNSDVdiskSets_setSize :: "string option"
  filesystemSpecVdiskNSDVdiskSets_storagePool :: "string option"

record FilesystemSpecVdiskNSD =
  filesystemSpecVdiskNSD_replication :: "FilesystemSpecVdiskNSDReplication option"
  filesystemSpecVdiskNSD_tiebreaker :: "FilesystemSpecVdiskNSDTiebreaker option"
  filesystemSpecVdiskNSD_vdiskSets :: "FilesystemSpecVdiskNSDVdiskSets list option"

record FilesystemSpec =
  filesystemSpec_local :: "FilesystemSpecLocal option"
  filesystemSpec_remote :: "FilesystemSpecRemote option"
  filesystemSpec_seLinuxOptions :: "FilesystemSpecSeLinuxOptions option"
  filesystemSpec_vdiskNSD :: "FilesystemSpecVdiskNSD option"

type_synonym FilesystemStatusConditions = Condition

datatype FilesystemStatusMaintenanceMode =
    FilesystemStatusMaintenanceMode_enabled
  | FilesystemStatusMaintenanceMode_disabled
  | FilesystemStatusMaintenanceMode_unknown
  | FilesystemStatusMaintenanceMode_not_supported

record FilesystemStatusPoolsFailureGroups =
  filesystemStatusPoolsFailureGroups_diskCount :: "js_number option"
  filesystemStatusPoolsFailureGroups_disks :: "string option"
  filesystemStatusPoolsFailureGroups_failureGroup :: "string option"
  filesystemStatusPoolsFailureGroups_totalDiskSize :: "string option"

record FilesystemStatusPools =
  filesystemStatusPools_diskCount :: "js_number option"
  filesystemStatusPools_disks :: "string option"
  filesystemStatusPools_failureGroups :: "FilesystemStatusPoolsFailureGroups list option"
  filesystemStatusPools_name :: "string option"
  filesystemStatusPools_totalDiskSize :: "string option"

type_synonym FilesystemStatusSeLinuxOptions = FilesystemSpecSeLinuxOptions

record FilesystemStatus =
  filesystemStatus_conditions :: "FilesystemStatusConditions list option"
  filesystemStatus_maintenanceMode :: "FilesystemStatusMaintenanceMode option"
  filesystemStatus_pools :: "FilesystemStatusPools list option"
  filesystemStatus_seLinuxOptions :: "FilesystemStatusSeLinuxOptions option"
  filesystemStatus_uid :: "string option"
  filesystemStatus_version :: "string option"

record Filesystem = K8sResourceCommon +
  filesystem_spec :: "FilesystemSpec option"
  filesystem_status :: "FilesystemStatus option"

text \<open>
  \<open>Filesystem.spec.local.pools\<close> is a union of the tuples of one to eight pools. The record
  holds the list; this is the arity the union allows.
\<close>

definition local_pools_arity_ok :: "LocalPool list \<Rightarrow> bool" where
  "local_pools_arity_ok ps \<longleftrightarrow> length ps \<in> {1..8}"

end
