(* ===== verification/Repositories.thy ===== *)
theory Repositories
  imports Watch_Resource Resource_Common Crd_Scale
begin

section \<open>Repositories and services\<close>

text \<open>
  \<open>console/src/data/repositories\<close> and \<open>console/src/data/services\<close>: every repository watches
  one kind of resource with fixed options and gives its loaded flag, its error and its items.
  The watch is the SDK's hook, a parameter. A repository that creates or patches calls the SDK's
  \<open>k8sCreate\<close> or \<open>k8sPatch\<close>, a parameter from the request to the state of the promise.
\<close>

subsection \<open>The shape of a repository\<close>

record 'a repository =
  repo_loaded :: bool
  repo_error :: "js_error option"
  repo_items :: "'a list"

definition list_repository :: "'a list NormalizedWatchK8sResult \<Rightarrow> 'a repository" where
  "list_repository result =
     \<lparr>repo_loaded = nw_loaded result, repo_error = nw_error result,
      repo_items = nullish (nw_data result) []\<rparr>"

text \<open>
  The contract a view model relies on: until the watch has loaded there is neither an item nor an
  error, with an error there is no item, and the items of a successful watch are its data.
\<close>

locale watched_list =
  fixes loaded :: "'a list WatchK8sResult \<Rightarrow> bool"
    and error :: "'a list WatchK8sResult \<Rightarrow> js_error option"
    and items :: "'a list WatchK8sResult \<Rightarrow> 'a list"
  assumes not_loaded: "\<not> fst (snd w) \<Longrightarrow> \<not> loaded w \<and> error w = None \<and> items w = []"
    and failed_loaded: "error w = Some e \<Longrightarrow> loaded w \<and> items w = []"
    and items_data: "x \<in> set (items w) \<Longrightarrow> \<exists>d. fst w = Some d \<and> items w = d"
begin

lemma items_imply_ready: "items w \<noteq> [] \<Longrightarrow> fst (snd w) \<and> error w = None"
  using not_loaded [of w] failed_loaded [of w] by (cases "error w") auto

end

lemma list_repository_laws:
  "\<not> fst (snd w) \<Longrightarrow> \<not> repo_loaded (list_repository (normalizeResult w)) \<and>
     repo_error (list_repository (normalizeResult w)) = None \<and>
     repo_items (list_repository (normalizeResult w)) = []"
  "repo_error (list_repository (normalizeResult w)) = Some e \<Longrightarrow>
     repo_loaded (list_repository (normalizeResult w)) \<and>
     repo_items (list_repository (normalizeResult w)) = []"
  "x \<in> set (repo_items (list_repository (normalizeResult w))) \<Longrightarrow>
     \<exists>d. fst w = Some d \<and> repo_items (list_repository (normalizeResult w)) = d"
proof -
  show "\<not> fst (snd w) \<Longrightarrow> \<not> repo_loaded (list_repository (normalizeResult w)) \<and>
     repo_error (list_repository (normalizeResult w)) = None \<and>
     repo_items (list_repository (normalizeResult w)) = []"
    by (cases w) (auto simp: list_repository_def normalize_not_loaded)
  show "repo_error (list_repository (normalizeResult w)) = Some e \<Longrightarrow>
     repo_loaded (list_repository (normalizeResult w)) \<and>
     repo_items (list_repository (normalizeResult w)) = []"
    by (auto simp: list_repository_def normalize_error_loaded normalize_error_no_data)
  show "x \<in> set (repo_items (list_repository (normalizeResult w))) \<Longrightarrow>
     \<exists>d. fst w = Some d \<and> repo_items (list_repository (normalizeResult w)) = d"
    by (cases "nw_data (normalizeResult w)") (auto simp: list_repository_def dest: normalize_data)
qed

interpretation list_repo: watched_list
  "\<lambda>w. repo_loaded (list_repository (normalizeResult w))"
  "\<lambda>w. repo_error (list_repository (normalizeResult w))"
  "\<lambda>w. repo_items (list_repository (normalizeResult w))"
  by unfold_locales (rule list_repository_laws, assumption)+

type_synonym 'a watch = "watch_options \<Rightarrow> 'a list WatchK8sResult"

subsection \<open>Watch options\<close>

definition useWatchDaemon_options :: "watch_options \<Rightarrow> watch_options" where
  "useWatchDaemon_options options = options\<lparr>wo_isList := Some True, wo_namespaced := Some True,
     wo_namespace := Some SPECTRUM_SCALE_NAMESPACE, wo_groupVersionKind := Some daemon_gvk\<rparr>"

definition useWatchFileSystemClaim_options :: "watch_options \<Rightarrow> watch_options" where
  "useWatchFileSystemClaim_options options = options\<lparr>wo_isList := Some True, wo_namespaced := Some True,
     wo_namespace := Some SPECTRUM_SCALE_NAMESPACE, wo_groupVersionKind := Some file_system_claim_gvk\<rparr>"

text \<open>Here \<open>isList: true\<close> comes before the spread, so an option given by the caller wins.\<close>

definition useWatchFileSystems_options :: "watch_options \<Rightarrow> watch_options" where
  "useWatchFileSystems_options options =
     options\<lparr>wo_isList := Some (nullish (wo_isList options) True), wo_namespaced := Some True,
       wo_groupVersionKind := Some file_system_gvk\<rparr>"

definition useWatchFusionAccess_options :: "watch_options \<Rightarrow> watch_options" where
  "useWatchFusionAccess_options options = options\<lparr>wo_isList := Some True, wo_limit := Some 1,
     wo_namespaced := Some True, wo_namespace := Some FUSION_ACCESS_NAMESPACE,
     wo_groupVersionKind := Some fusion_access_gvk\<rparr>"

definition useWatchLocalDisk_options :: "watch_options \<Rightarrow> watch_options" where
  "useWatchLocalDisk_options options = options\<lparr>wo_isList := Some True, wo_namespaced := Some True,
     wo_namespace := Some SPECTRUM_SCALE_NAMESPACE, wo_groupVersionKind := Some local_disk_gvk\<rparr>"

definition useWatchLocalVolumeDiscoveryResult_options :: "watch_options \<Rightarrow> watch_options" where
  "useWatchLocalVolumeDiscoveryResult_options options = options\<lparr>wo_isList := Some True,
     wo_namespaced := Some True, wo_namespace := Some FUSION_ACCESS_NAMESPACE,
     wo_groupVersionKind := Some lvdr_gvk\<rparr>"

text \<open>The selector of \<open>useWatchNodes\<close>: the label list, when given, replaces \<open>matchLabels\<close>.\<close>

definition useWatchNodes_options :: "watch_options \<Rightarrow> string list option \<Rightarrow> watch_options" where
  "useWatchNodes_options options withLabels = options\<lparr>wo_isList := Some True,
     wo_groupVersionKind := Some node_gvk,
     wo_matchLabels := (case withLabels of
         None \<Rightarrow> wo_matchLabels options
       | Some ls \<Rightarrow> Some (makeMatchLabelsSelector ls))\<rparr>"

definition useWatchRoutes_options :: "watch_options \<Rightarrow> watch_options" where
  "useWatchRoutes_options options = options\<lparr>wo_isList := Some True, wo_groupVersionKind := Some route_gvk\<rparr>"

definition useWatchStorageCluster_options :: "watch_options \<Rightarrow> watch_options" where
  "useWatchStorageCluster_options options = options\<lparr>wo_groupVersionKind := Some storage_cluster_gvk,
     wo_isList := Some True, wo_limit := Some 1, wo_name := Some STORAGE_CLUSTER_NAME,
     wo_namespaced := Some False\<rparr>"

subsection \<open>The repositories\<close>

text \<open>\<open>Route\<close> of \<open>console/src/domain/models/routes.ts\<close>.\<close>

record Route = K8sResourceCommon +
  route_spec_host :: string

definition useDaemonsRepository :: "Daemon watch \<Rightarrow> watch_options \<Rightarrow> Daemon repository" where
  "useDaemonsRepository watch options =
     list_repository (useNormalizedK8sWatchResource watch (useWatchDaemon_options options))"

definition useFileSystemClaimsRepository :: "FileSystemClaim watch \<Rightarrow> watch_options \<Rightarrow> FileSystemClaim repository" where
  "useFileSystemClaimsRepository watch options =
     list_repository (useNormalizedK8sWatchResource watch (useWatchFileSystemClaim_options options))"

definition useFileSystemsRepository :: "Filesystem watch \<Rightarrow> watch_options \<Rightarrow> Filesystem repository" where
  "useFileSystemsRepository watch options =
     list_repository (useNormalizedK8sWatchResource watch (useWatchFileSystems_options options))"

definition useLocalDisksRepository :: "LocalDisk watch \<Rightarrow> watch_options \<Rightarrow> LocalDisk repository" where
  "useLocalDisksRepository watch options =
     list_repository (useNormalizedK8sWatchResource watch (useWatchLocalDisk_options options))"

definition useLocalVolumeDiscoveryResultRepository ::
  "LocalVolumeDiscoveryResult watch \<Rightarrow> watch_options \<Rightarrow> LocalVolumeDiscoveryResult repository" where
  "useLocalVolumeDiscoveryResultRepository watch options =
     list_repository (useNormalizedK8sWatchResource watch (useWatchLocalVolumeDiscoveryResult_options options))"

definition useNodesRepository :: "Node watch \<Rightarrow> watch_options \<Rightarrow> string list option \<Rightarrow> Node repository" where
  "useNodesRepository watch options withLabels =
     list_repository (useNormalizedK8sWatchResource watch (useWatchNodes_options options withLabels))"

definition useRoutesRepository :: "Route watch \<Rightarrow> watch_options \<Rightarrow> Route repository" where
  "useRoutesRepository watch options =
     list_repository (useNormalizedK8sWatchResource watch (useWatchRoutes_options options))"

record fusion_access_repository =
  far_loaded :: bool
  far_error :: "js_error option"
  far_fusionAccess :: "FusionAccess option"
  far_isReady :: bool

definition useFusionAccessesRepository :: "FusionAccess watch \<Rightarrow> watch_options \<Rightarrow> fusion_access_repository" where
  "useFusionAccessesRepository watch options =
     (let result = useNormalizedK8sWatchResource watch (useWatchFusionAccess_options options) in
      \<lparr>far_loaded = nw_loaded result, far_error = nw_error result,
       far_fusionAccess = Option.bind (nw_data result) js_first,
       far_isReady =
         (case nw_data result of
            None \<Rightarrow> False
          | Some d \<Rightarrow> length d > 0 \<and>
              Option.bind (Option.bind (js_first d) fusionAccess_status) fusionAccessStatus_status
                = Some ''Ready'')\<rparr>)"

record storage_clusters_repository =
  scr_loaded :: bool
  scr_error :: "js_error option"
  scr_storageClusters :: "Cluster list"
  scr_hasNotBeenCreated :: bool

definition useStorageClustersRepository :: "Cluster watch \<Rightarrow> watch_options \<Rightarrow> storage_clusters_repository" where
  "useStorageClustersRepository watch options =
     (let result = useNormalizedK8sWatchResource watch (useWatchStorageCluster_options options) in
      \<lparr>scr_loaded = nw_loaded result, scr_error = nw_error result,
       scr_storageClusters = nullish (nw_data result) [],
       scr_hasNotBeenCreated =
         (case nw_data result of None \<Rightarrow> False | Some d \<Rightarrow> length d = 0)\<rparr>)"

subsection \<open>Creating and patching\<close>

text \<open>The request bodies of \<open>fileSystemClaimsService.create\<close> and \<open>storageClustersService.create\<close>.\<close>

definition file_system_claim_request :: "string \<Rightarrow> string list \<Rightarrow> string option \<Rightarrow> FileSystemClaim" where
  "file_system_claim_request name devices namespace =
     \<lparr>apiVersion = Some (apiVersion_of file_system_claim_gvk),
      kind = Some (gvk_kind file_system_claim_gvk),
      metadata = Some (empty_meta\<lparr>objectMeta_name := Some name, objectMeta_namespace := namespace\<rparr>),
      fileSystemClaim_spec = Some \<lparr>fileSystemClaimSpec_devices = Some devices\<rparr>,
      fileSystemClaim_status = None\<rparr>"

definition storage_nodeSelector :: "string js_object" where
  "storage_nodeSelector =
     obj_from_entries [(label_key STORAGE_ROLE_LABEL, nullish (label_value STORAGE_ROLE_LABEL) ''undefined'')]"

definition empty_daemon_spec :: ClusterSpecDaemon where
  "empty_daemon_spec = \<lparr>clusterSpecDaemon_clusterNameOverride = None,
     clusterSpecDaemon_clusterProfile = None, clusterSpecDaemon_hostAliases = None,
     clusterSpecDaemon_nodeSelector = None, clusterSpecDaemon_nodeSelectorExpressions = None,
     clusterSpecDaemon_nsdDevicesConfig = None, clusterSpecDaemon_roles = None,
     clusterSpecDaemon_tolerations = None, clusterSpecDaemon_update = None\<rparr>"

definition storage_cluster_request :: Cluster where
  "storage_cluster_request =
     \<lparr>apiVersion = Some (apiVersion_of storage_cluster_gvk),
      kind = Some (gvk_kind storage_cluster_gvk),
      metadata = Some (empty_meta\<lparr>objectMeta_name := Some STORAGE_CLUSTER_NAME\<rparr>),
      cluster_spec = Some
        \<lparr>clusterSpec_csi = None,
         clusterSpec_daemon = Some (empty_daemon_spec\<lparr>clusterSpecDaemon_nodeSelector := Some storage_nodeSelector\<rparr>),
         clusterSpec_grafanaBridge = None, clusterSpec_gui = None,
         clusterSpec_license = \<lparr>clusterSpecLicense_accept = LiteralTrue,
            clusterSpecLicense_license = LicenseEdition_data_management\<rparr>,
         clusterSpec_networkPolicy = None,
         clusterSpec_pmcollector = Some \<lparr>clusterSpecPmcollector_nodeSelector = Some storage_nodeSelector,
            clusterSpecPmcollector_storageClass = None, clusterSpecPmcollector_tolerations = None\<rparr>,
         clusterSpec_regionalDR = None, clusterSpec_site = None\<rparr>,
      cluster_status = None\<rparr>"

text \<open>A JSON patch operation and the patch that sets the storage role label of a node.\<close>

record Patch =
  patch_op :: string
  patch_path :: string
  patch_value :: "string js_object"

text \<open>\<open>k8sPatch\<close> takes the data, the resource model and the resource.\<close>

definition nodesServices_patch ::
  "(Patch list \<Rightarrow> 'm \<Rightarrow> Node \<Rightarrow> Node promise) \<Rightarrow> 'm \<Rightarrow> Node \<Rightarrow> Patch list \<Rightarrow> Node promise" where
  "nodesServices_patch k8sPatch model node patch = k8sPatch patch model node"

definition patchNodeStorageRoleLabel ::
  "(Patch list \<Rightarrow> 'm \<Rightarrow> Node \<Rightarrow> Node promise) \<Rightarrow> 'm \<Rightarrow> Node \<Rightarrow> bool \<Rightarrow> Node promise" where
  "patchNodeStorageRoleLabel k8sPatch model node checked =
     nodesServices_patch k8sPatch model node
       [\<lparr>patch_op = ''replace'', patch_path = ''/metadata/labels'',
         patch_value = toggleNodeStorageRoleLabel node checked\<rparr>]"

text \<open>
  \<open>while (inFlight) await sleep(IN_FLIGHT_SLEEP_MS)\<close>: \<open>inFlight\<close>, the second result of the SDK's
  \<open>useK8sModel\<close>, tells that the model is still loading; it is the value the callback captured when it was made, so the loop tests the same boolean for ever. \<open>None\<close> is a loop that
  does not end.
\<close>

partial_function (option) wait_while_in_flight :: "bool \<Rightarrow> nat \<Rightarrow> nat option" where
  "wait_while_in_flight inFlight slept =
     (if inFlight then wait_while_in_flight inFlight (slept + IN_FLIGHT_SLEEP_MS) else Some slept)"

definition create_file_system_claim ::
  "(FileSystemClaim \<Rightarrow> FileSystemClaim promise) \<Rightarrow> bool \<Rightarrow> string \<Rightarrow> string list \<Rightarrow> string option
     \<Rightarrow> FileSystemClaim promise" where
  "create_file_system_claim k8sCreate inFlight fileSystemName devices namespace =
     (case wait_while_in_flight inFlight 0 of
        None \<Rightarrow> Pending
      | Some _ \<Rightarrow> k8sCreate (file_system_claim_request fileSystemName devices
                  (Some (nullish namespace SPECTRUM_SCALE_NAMESPACE))))"

definition create_storage_cluster :: "(Cluster \<Rightarrow> Cluster promise) \<Rightarrow> bool \<Rightarrow> Cluster promise" where
  "create_storage_cluster k8sCreate inFlight =
     (case wait_while_in_flight inFlight 0 of
        None \<Rightarrow> Pending
      | Some _ \<Rightarrow> k8sCreate storage_cluster_request)"

lemma wait_false: "wait_while_in_flight False n = Some n"
  by (simp add: wait_while_in_flight.simps)

lemma wait_true: "wait_while_in_flight True n = None"
proof (cases "wait_while_in_flight True n")
  case (Some r)
  have "b = False" if "wait_while_in_flight b m = Some q" for b m q
    by (rule wait_while_in_flight.raw_induct [where P = "\<lambda>b m q. b = False", OF _ that])
      (auto split: if_splits)
  with Some show ?thesis by blast
qed

lemmas wait_simps = wait_false wait_true

subsection \<open>What the repositories give\<close>

interpretation daemons: watched_list
  "\<lambda>w. repo_loaded (useDaemonsRepository (\<lambda>_. w) o1)"
  "\<lambda>w. repo_error (useDaemonsRepository (\<lambda>_. w) o1)"
  "\<lambda>w. repo_items (useDaemonsRepository (\<lambda>_. w) o1)" for o1
  unfolding useDaemonsRepository_def useNormalizedK8sWatchResource_def by unfold_locales

interpretation claims: watched_list
  "\<lambda>w. repo_loaded (useFileSystemClaimsRepository (\<lambda>_. w) o1)"
  "\<lambda>w. repo_error (useFileSystemClaimsRepository (\<lambda>_. w) o1)"
  "\<lambda>w. repo_items (useFileSystemClaimsRepository (\<lambda>_. w) o1)" for o1
  unfolding useFileSystemClaimsRepository_def useNormalizedK8sWatchResource_def by unfold_locales

interpretation file_systems: watched_list
  "\<lambda>w. repo_loaded (useFileSystemsRepository (\<lambda>_. w) o1)"
  "\<lambda>w. repo_error (useFileSystemsRepository (\<lambda>_. w) o1)"
  "\<lambda>w. repo_items (useFileSystemsRepository (\<lambda>_. w) o1)" for o1
  unfolding useFileSystemsRepository_def useNormalizedK8sWatchResource_def by unfold_locales

interpretation local_disks: watched_list
  "\<lambda>w. repo_loaded (useLocalDisksRepository (\<lambda>_. w) o1)"
  "\<lambda>w. repo_error (useLocalDisksRepository (\<lambda>_. w) o1)"
  "\<lambda>w. repo_items (useLocalDisksRepository (\<lambda>_. w) o1)" for o1
  unfolding useLocalDisksRepository_def useNormalizedK8sWatchResource_def by unfold_locales

interpretation discovery_results: watched_list
  "\<lambda>w. repo_loaded (useLocalVolumeDiscoveryResultRepository (\<lambda>_. w) o1)"
  "\<lambda>w. repo_error (useLocalVolumeDiscoveryResultRepository (\<lambda>_. w) o1)"
  "\<lambda>w. repo_items (useLocalVolumeDiscoveryResultRepository (\<lambda>_. w) o1)" for o1
  unfolding useLocalVolumeDiscoveryResultRepository_def useNormalizedK8sWatchResource_def by unfold_locales

interpretation nodes: watched_list
  "\<lambda>w. repo_loaded (useNodesRepository (\<lambda>_. w) o1 ls)"
  "\<lambda>w. repo_error (useNodesRepository (\<lambda>_. w) o1 ls)"
  "\<lambda>w. repo_items (useNodesRepository (\<lambda>_. w) o1 ls)" for o1 ls
  unfolding useNodesRepository_def useNormalizedK8sWatchResource_def by unfold_locales

interpretation routes: watched_list
  "\<lambda>w. repo_loaded (useRoutesRepository (\<lambda>_. w) o1)"
  "\<lambda>w. repo_error (useRoutesRepository (\<lambda>_. w) o1)"
  "\<lambda>w. repo_items (useRoutesRepository (\<lambda>_. w) o1)" for o1
  unfolding useRoutesRepository_def useNormalizedK8sWatchResource_def by unfold_locales

lemma fusion_ready_iff:
  "far_isReady (useFusionAccessesRepository watch options) \<longleftrightarrow>
     (\<exists>f fs st. nw_data (normalizeResult (watch (useWatchFusionAccess_options options))) = Some (f # fs)
        \<and> fusionAccess_status f = Some st \<and> fusionAccessStatus_status st = Some ''Ready'')"
  by (auto simp: useFusionAccessesRepository_def useNormalizedK8sWatchResource_def Let_def
      bind_eq_Some_conv split: option.splits list.splits)
    (metis js_first_simps(2) length_greater_0_conv list.exhaust option.inject)

lemma fusion_ready_no_error:
  "far_isReady (useFusionAccessesRepository watch options) \<Longrightarrow>
     far_loaded (useFusionAccessesRepository watch options) \<and>
     far_error (useFusionAccessesRepository watch options) = None"
  unfolding fusion_ready_iff
  by (auto simp: useFusionAccessesRepository_def useNormalizedK8sWatchResource_def Let_def
      normalize_loaded dest: normalize_data normalize_data_no_error)

lemma cluster_missing_imp_loaded:
  "scr_hasNotBeenCreated (useStorageClustersRepository watch options) \<Longrightarrow>
     scr_loaded (useStorageClustersRepository watch options) \<and>
     scr_error (useStorageClustersRepository watch options) = None"
  by (auto simp: useStorageClustersRepository_def useNormalizedK8sWatchResource_def Let_def
      normalize_loaded dest: normalize_data normalize_data_no_error split: option.splits)

subsection \<open>Properties\<close>

text \<open>The create functions of the repositories, made while the resource model is still loading, never
  return when called: the loop that waits for the model tests the flag the callback captured, which
  stays true, and no request is sent, whatever \<open>k8sCreate\<close> would answer.\<close>

lemma creation_blocked_before_model:
  "wait_while_in_flight True slept = None \<and>
   create_storage_cluster k8sCreate True = Pending \<and>
   create_file_system_claim k8sCreate' True name devices namespace = Pending"
  by (simp add: create_storage_cluster_def create_file_system_claim_def wait_simps)

text \<open>Once the resource model is loaded, creating a file system claim sends one claim of the right
  version and kind, with the given name and devices, in the given namespace or in
  \<open>ibm-spectrum-scale\<close>.\<close>

lemma claim_request_sent:
  "\<exists>c m. create_file_system_claim k8sCreate False name devices namespace = k8sCreate c \<and>
     apiVersion c = Some ''fusion.storage.openshift.io/v1alpha1'' \<and> kind c = Some ''FileSystemClaim'' \<and>
     metadata c = Some m \<and> objectMeta_name m = Some name \<and>
     objectMeta_namespace m = Some (case namespace of None \<Rightarrow> ''ibm-spectrum-scale'' | Some ns \<Rightarrow> ns) \<and>
     map_option fileSystemClaimSpec_devices (fileSystemClaim_spec c) = Some (Some devices)"
proof -
  let ?ns = "nullish namespace SPECTRUM_SCALE_NAMESPACE"
  show ?thesis
    by (rule exI [of _ "file_system_claim_request name devices (Some ?ns)"],
        rule exI [of _ "empty_meta\<lparr>objectMeta_name := Some name, objectMeta_namespace := Some ?ns\<rparr>"])
      (simp add: create_file_system_claim_def wait_simps file_system_claim_request_def apiVersion_of_def
        file_system_claim_gvk_def SPECTRUM_SCALE_NAMESPACE_def nullish_def)
qed

text \<open>The repository of file system claims gives an item only when the watch has loaded without an
  error, and its items are then the watch's data; an error means loaded and no items.\<close>

lemma claims_repository_items:
  assumes r_def: "r = useFileSystemClaimsRepository watch options"
    and some: "repo_items r \<noteq> [] \<or> repo_error r \<noteq> None"
  shows "repo_loaded r \<and>
     (repo_items r \<noteq> [] \<longleftrightarrow> repo_error r = None) \<and>
     (repo_items r \<noteq> [] \<longrightarrow> fst (watch (useWatchFileSystemClaim_options options)) = Some (repo_items r))"
proof -
  let ?w = "watch (useWatchFileSystemClaim_options options)"
  have r: "r = useFileSystemClaimsRepository (\<lambda>_. ?w) options"
    by (simp add: r_def useFileSystemClaimsRepository_def useNormalizedK8sWatchResource_def)
  show ?thesis
  proof (cases "repo_error r")
    case (Some e)
    then show ?thesis using claims.failed_loaded [of ?w options e] by (simp add: r)
  next
    case None
    with some have ne: "repo_items r \<noteq> []" by simp
    then obtain x where "x \<in> set (repo_items r)" by (cases "repo_items r") auto
    then have "fst ?w = Some (repo_items r)" using claims.items_data [of x ?w options] by (auto simp: r)
    moreover have "fst (snd ?w)" using claims.items_imply_ready [of ?w options] ne by (simp add: r)
    then have "repo_loaded r"
      by (simp add: r_def useFileSystemClaimsRepository_def useNormalizedK8sWatchResource_def
          list_repository_def normalize_loaded)
    ultimately show ?thesis using None ne by simp
  qed
qed

definition example_claim :: FileSystemClaim where
  "example_claim = file_system_claim_request ''fs'' [''/dev/sdb''] None"

text \<open>FusionAccess is ready exactly when its watch is loaded without error and the first object's
  status is \<open>Ready\<close>; and a storage cluster is reported as not created only after a load without
  error that found none.\<close>

lemma readiness_needs_data:
  "far_isReady (useFusionAccessesRepository watchF o1) =
     (\<exists>f fs st. watchF (useWatchFusionAccess_options o1) = (Some (f # fs), True, snd (snd (watchF (useWatchFusionAccess_options o1))))
        \<and> far_error (useFusionAccessesRepository watchF o1) = None
        \<and> fusionAccess_status f = Some st \<and> fusionAccessStatus_status st = Some ''Ready'') \<and>
   scr_hasNotBeenCreated (useStorageClustersRepository watchC o2) =
     (fst (watchC (useWatchStorageCluster_options o2)) = Some [] \<and>
      scr_loaded (useStorageClustersRepository watchC o2) \<and>
      scr_error (useStorageClustersRepository watchC o2) = None)"
proof -
  have data: "nw_data (normalizeResult w) = Some d \<longleftrightarrow>
      fst w = Some d \<and> fst (snd w) \<and> nw_error (normalizeResult w) = None" for w :: "'z WatchK8sResult" and d
    by (cases w) (auto simp: normalizeResult_def Let_def split: watch_error.splits)
  have "far_isReady (useFusionAccessesRepository watchF o1) =
     (\<exists>f fs st. watchF (useWatchFusionAccess_options o1) = (Some (f # fs), True, snd (snd (watchF (useWatchFusionAccess_options o1))))
        \<and> far_error (useFusionAccessesRepository watchF o1) = None
        \<and> fusionAccess_status f = Some st \<and> fusionAccessStatus_status st = Some ''Ready'')"
    unfolding fusion_ready_iff
    by (cases "watchF (useWatchFusionAccess_options o1)")
      (auto simp: data useFusionAccessesRepository_def useNormalizedK8sWatchResource_def Let_def)
  moreover have "scr_hasNotBeenCreated (useStorageClustersRepository watchC o2) =
     (fst (watchC (useWatchStorageCluster_options o2)) = Some [] \<and>
      scr_loaded (useStorageClustersRepository watchC o2) \<and>
      scr_error (useStorageClustersRepository watchC o2) = None)"
    by (auto simp: useStorageClustersRepository_def useNormalizedK8sWatchResource_def Let_def normalize_loaded
        data split: option.splits dest: data [THEN iffD1])
      (metis data not_Some_eq)
  ultimately show ?thesis by blast
qed

end
