(* ===== verification/Luns.thy ===== *)
theory Luns
  imports Repositories Store
begin

section \<open>LUNs: the devices shared by all storage nodes\<close>

text \<open>
  \<open>console/src/domain/use-cases/use_luns_use_case.ts\<close> and \<open>console/src/domain/models/lun.ts\<close>:
  from the discovery result of every storage node to the list of LUNs the user selects from, and
  the selection itself. Third-party: \<open>convert\<close> of the package of that name (\<open>convert v from to\<close> is
  \<open>convert(v, from).to(to)\<close>) and
  the default text of a huge number.
\<close>

record Lun =
  lun_isSelected :: bool
  lun_nodeName :: string
  lun_path :: string
  lun_wwn :: string
  lun_capacity :: string

record DeviceWithNodeName = DiscoveredDevice +
  dd_nodeName :: string

type_synonym lvdr = LocalVolumeDiscoveryResult

subsection \<open>From discovery results to LUNs\<close>

definition resource_name :: "'a K8sResourceCommon_scheme \<Rightarrow> string option" where
  "resource_name r = Option.bind (metadata r) objectMeta_name"

definition lvdr_nodeName :: "lvdr \<Rightarrow> string option" where
  "lvdr_nodeName l = map_option lvdrSpec_nodeName (lvdr_spec l)"

definition lvdr_devices :: "lvdr \<Rightarrow> DiscoveredDevice list" where
  "lvdr_devices l = nullish (Option.bind (lvdr_status l) lvdrStatus_discoveredDevices) []"

definition outDevicesUsedByLocalDisks :: "LocalDisk list \<Rightarrow> DeviceWithNodeName \<Rightarrow> bool" where
  "outDevicesUsedByLocalDisks localDisks dd =
     (\<not> list_ex (\<lambda>localDisk. resource_name localDisk = Some (discoveredDevice_WWN dd)) localDisks)"

type_synonym unit_converter = "js_number \<Rightarrow> string \<Rightarrow> string \<Rightarrow> js_number"

definition toLun :: "unit_converter \<Rightarrow> (js_number \<Rightarrow> string) \<Rightarrow> DeviceWithNodeName \<Rightarrow> Lun" where
  "toLun convert to_text dd =
     \<lparr>lun_isSelected = False, lun_nodeName = dd_nodeName dd, lun_path = discoveredDevice_path dd,
      lun_wwn = discoveredDevice_WWN dd,
      lun_capacity = js_toFixed2 to_text (convert (discoveredDevice_size dd) ''B'' ''GiB'') @ '' GiB''\<rparr>"

definition toDiscoveredDeviceWithNodeName :: "lvdr \<Rightarrow> DiscoveredDevice \<Rightarrow> DeviceWithNodeName" where
  "toDiscoveredDeviceWithNodeName l dd =
     DiscoveredDevice.extend dd (DeviceWithNodeName.fields (nullish (lvdr_nodeName l) []))"

definition makeDiscoveredDevicesWithNodeName :: "lvdr list \<Rightarrow> DeviceWithNodeName list" where
  "makeDiscoveredDevicesWithNodeName storageNodesLvdrs =
     concat (map (\<lambda>l. map (toDiscoveredDeviceWithNodeName l) (lvdr_devices l)) storageNodesLvdrs)"

definition onlySharedByAllStorageNodes :: "lvdr list \<Rightarrow> (string \<times> DeviceWithNodeName list) list" where
  "onlySharedByAllStorageNodes storageNodesLvdrs =
     filter (\<lambda>(_, dds). length dds = length storageNodesLvdrs)
       (object_entries (object_groupBy (makeDiscoveredDevicesWithNodeName storageNodesLvdrs) discoveredDevice_WWN))"

definition getSharedDiscoveredDevicesRepresentatives :: "lvdr list \<Rightarrow> DeviceWithNodeName list" where
  "getSharedDiscoveredDevicesRepresentatives storageNodesLvdrs =
     map (\<lambda>(_, dds). hd dds) (onlySharedByAllStorageNodes storageNodesLvdrs)"

definition makeLuns ::
  "unit_converter \<Rightarrow> (js_number \<Rightarrow> string) \<Rightarrow> lvdr list \<Rightarrow> LocalDisk list \<Rightarrow> Lun list" where
  "makeLuns convert to_text storageNodesLvdrs localDisks =
     map (toLun convert to_text)
       (filter (outDevicesUsedByLocalDisks localDisks) (getSharedDiscoveredDevicesRepresentatives storageNodesLvdrs))"

subsection \<open>The discovery results of the storage nodes\<close>

record storage_nodes_lvdrs =
  snl_data :: "lvdr list"
  snl_loaded :: bool
  snl_error :: "js_error option"

definition useStorageNodesLvdrs :: "lvdr repository \<Rightarrow> Node repository \<Rightarrow> storage_nodes_lvdrs" where
  "useStorageNodesLvdrs lvdrsRepository storageNodesRepository =
     \<lparr>snl_data = filter (\<lambda>l. find (\<lambda>node. resource_name node = lvdr_nodeName l)
                                  (repo_items storageNodesRepository) \<noteq> None)
                   (repo_items lvdrsRepository),
      snl_loaded = (repo_loaded lvdrsRepository \<and> repo_loaded storageNodesRepository),
      snl_error = js_or (repo_error lvdrsRepository) (repo_error storageNodesRepository)\<rparr>"

text \<open>The label selector of that node repository.\<close>

definition storage_node_labels :: "string list" where
  "storage_node_labels = [WORKER_NODE_ROLE_LABEL, STORAGE_ROLE_LABEL]"

subsection \<open>The hook: effects, state and operations\<close>

definition error_alert :: "string \<Rightarrow> js_error \<Rightarrow> callback option \<Rightarrow> Alert" where
  "error_alert title e dismiss =
     \<lparr>alert_key = None, alert_variant = Some AlertDanger, alert_title = title,
      alert_description = Some (DescText (error_message e)), alert_dismiss = dismiss\<rparr>"

definition local_disks_error_effect :: "translator \<Rightarrow> js_error option \<Rightarrow> Actions list" where
  "local_disks_error_effect tr error =
     (case error of
        Some e \<Rightarrow> [AddAlert (error_alert (tr ''Failed to load LocalDisks'' []) e (Some DispatchDismissAlert))]
      | None \<Rightarrow> [DismissAlert])"

definition lvdrs_error_effect :: "translator \<Rightarrow> js_error option \<Rightarrow> Actions list" where
  "lvdrs_error_effect tr error =
     (case error of
        Some e \<Rightarrow> [AddAlert (error_alert
            (tr ''Failed to load LocalVolumeDiscoveryResults for storage nodes'' []) e (Some DispatchDismissAlert))]
      | None \<Rightarrow> [DismissAlert])"

text \<open>\<open>setLuns\<close> in the effect: the selection survives by WWN.\<close>

definition keep_selection :: "Lun list \<Rightarrow> Lun list \<Rightarrow> Lun list" where
  "keep_selection currentLuns newLuns =
     (let currentlySelectedLunsWwns = map lun_wwn (filter lun_isSelected currentLuns)
      in map (\<lambda>lun. lun\<lparr>lun_isSelected := lun_wwn lun \<in> set currentlySelectedLunsWwns\<rparr>) newLuns)"

definition luns_effect ::
  "unit_converter \<Rightarrow> (js_number \<Rightarrow> string) \<Rightarrow> LocalDisk repository \<Rightarrow> storage_nodes_lvdrs
     \<Rightarrow> Lun list \<Rightarrow> Lun list" where
  "luns_effect convert to_text localDisksRepository storageNodesLvdrs luns =
     (if \<not> repo_loaded localDisksRepository \<or> \<not> snl_loaded storageNodesLvdrs then luns
      else keep_selection luns
        (makeLuns convert to_text (snl_data storageNodesLvdrs) (repo_items localDisksRepository)))"

definition luns_isSelected :: "Lun list \<Rightarrow> Lun \<Rightarrow> bool" where
  "luns_isSelected luns lun =
     nullish (map_option lun_isSelected (find (\<lambda>l. lun_path l = lun_path lun) luns)) False"

text \<open>\<open>setSelected\<close>: only the first LUN with that path is changed.\<close>

fun select_first :: "string \<Rightarrow> bool \<Rightarrow> Lun list \<Rightarrow> Lun list" where
  "select_first p b [] = []"
| "select_first p b (l # ls) =
     (if lun_path l = p then l\<lparr>lun_isSelected := b\<rparr> # ls else l # select_first p b ls)"

definition setSelected :: "Lun \<Rightarrow> bool \<Rightarrow> Lun list \<Rightarrow> Lun list" where
  "setSelected lun isSelected current =
     (case find (\<lambda>l. lun_path l = lun_path lun) current of
        Some _ \<Rightarrow> select_first (lun_path lun) isSelected current
      | None \<Rightarrow> current)"

definition setAllSelected :: "bool \<Rightarrow> Lun list \<Rightarrow> Lun list" where
  "setAllSelected isSelecting current = map (\<lambda>lun. lun\<lparr>lun_isSelected := isSelecting\<rparr>) current"

definition luns_loaded :: "LocalDisk repository \<Rightarrow> storage_nodes_lvdrs \<Rightarrow> bool" where
  "luns_loaded localDisksRepository storageNodesLvdrs \<longleftrightarrow>
     snl_loaded storageNodesLvdrs \<and> repo_loaded localDisksRepository"

text \<open>Events of the hook and its state machine.\<close>

datatype luns_event =
    LunsEffect "LocalDisk repository" storage_nodes_lvdrs
  | SetSelected Lun bool
  | SetAllSelected bool

fun luns_step :: "unit_converter \<Rightarrow> (js_number \<Rightarrow> string) \<Rightarrow> Lun list \<Rightarrow> luns_event \<Rightarrow> Lun list" where
  "luns_step g t luns (LunsEffect disks nodes) = luns_effect g t disks nodes luns"
| "luns_step g t luns (SetSelected lun b) = setSelected lun b luns"
| "luns_step g t luns (SetAllSelected b) = setAllSelected b luns"

subsection \<open>Grouping by WWN\<close>

text \<open>How often a WWN is reported, over all discovery results.\<close>

definition report_count :: "string \<Rightarrow> lvdr list \<Rightarrow> nat" where
  "report_count w ls = length (filter (\<lambda>d. discoveredDevice_WWN d = w) (concat (map lvdr_devices ls)))"

definition reported_wwns :: "lvdr \<Rightarrow> string set" where
  "reported_wwns l = discoveredDevice_WWN ` set (lvdr_devices l)"

text \<open>Every node reports a WWN at most once.\<close>

definition wwns_once :: "lvdr list \<Rightarrow> bool" where
  "wwns_once ls \<longleftrightarrow> (\<forall>l \<in> set ls. distinct (map discoveredDevice_WWN (lvdr_devices l)))"

definition disk_names :: "LocalDisk list \<Rightarrow> string set" where
  "disk_names disks = {w. Some w \<in> resource_name ` set disks}"

lemma with_node_fields [simp]:
  "discoveredDevice_WWN (toDiscoveredDeviceWithNodeName l d) = discoveredDevice_WWN d"
  "discoveredDevice_path (toDiscoveredDeviceWithNodeName l d) = discoveredDevice_path d"
  "discoveredDevice_size (toDiscoveredDeviceWithNodeName l d) = discoveredDevice_size d"
  "dd_nodeName (toDiscoveredDeviceWithNodeName l d) = nullish (lvdr_nodeName l) []"
  by (cases d; simp add: toDiscoveredDeviceWithNodeName_def DiscoveredDevice.defs DeviceWithNodeName.defs)+

lemma toLun_fields [simp]:
  "lun_wwn (toLun g t d) = discoveredDevice_WWN d" "lun_path (toLun g t d) = discoveredDevice_path d"
  "lun_isSelected (toLun g t d) = False" "lun_nodeName (toLun g t d) = dd_nodeName d"
  by (simp_all add: toLun_def)

lemma report_count_with_node:
  "length (filter (\<lambda>d. discoveredDevice_WWN d = w) (makeDiscoveredDevicesWithNodeName ls)) = report_count w ls"
  by (induction ls) (simp_all add: makeDiscoveredDevicesWithNodeName_def report_count_def filter_map comp_def)

lemma shared_entry_iff:
  "(w, dds) \<in> set (onlySharedByAllStorageNodes ls) \<longleftrightarrow>
     ls \<noteq> [] \<and> report_count w ls = length ls \<and>
     dds = filter (\<lambda>d. discoveredDevice_WWN d = w) (makeDiscoveredDevicesWithNodeName ls)"
proof -
  let ?F = "filter (\<lambda>d. discoveredDevice_WWN d = w) (makeDiscoveredDevicesWithNodeName ls)"
  have ex: "(\<exists>x \<in> set (makeDiscoveredDevicesWithNodeName ls). discoveredDevice_WWN x = w) \<longleftrightarrow> ?F \<noteq> []"
    by (auto simp: filter_empty_conv)
  have "(w, dds) \<in> set (onlySharedByAllStorageNodes ls) \<longleftrightarrow> ?F \<noteq> [] \<and> dds = ?F \<and> length ?F = length ls"
    unfolding onlySharedByAllStorageNodes_def by (auto simp: groupBy_entry_iff ex)
  moreover have "length ?F = report_count w ls" by (rule report_count_with_node)
  moreover have "?F \<noteq> [] \<longleftrightarrow> length ?F \<noteq> 0" by simp
  moreover have "report_count w [] = 0" by (simp add: report_count_def)
  ultimately show ?thesis by (cases ls) auto
qed

lemma shared_entry_hd:
  assumes "(w, dds) \<in> set (onlySharedByAllStorageNodes ls)"
  shows "dds \<noteq> []" "discoveredDevice_WWN (hd dds) = w" "hd dds \<in> set (makeDiscoveredDevicesWithNodeName ls)"
proof -
  have len: "length dds = length ls" "ls \<noteq> []"
    and dds: "dds = filter (\<lambda>d. discoveredDevice_WWN d = w) (makeDiscoveredDevicesWithNodeName ls)"
    using assms by (auto simp: shared_entry_iff report_count_with_node)
  then show ne: "dds \<noteq> []" by auto
  then have "hd dds \<in> set dds" by simp
  then show "discoveredDevice_WWN (hd dds) = w" "hd dds \<in> set (makeDiscoveredDevicesWithNodeName ls)"
    unfolding dds by auto
qed

lemma representatives_wwns:
  "map discoveredDevice_WWN (getSharedDiscoveredDevicesRepresentatives ls) =
     map fst (onlySharedByAllStorageNodes ls)"
  unfolding getSharedDiscoveredDevicesRepresentatives_def
  using shared_entry_hd(2) by (fastforce simp: comp_def)

lemma distinct_shared_wwns: "distinct (map fst (onlySharedByAllStorageNodes ls))"
  unfolding onlySharedByAllStorageNodes_def
  by (intro distinct_map_filter distinct_object_entries obj_ok_groupBy)

lemma distinct_representatives:
  "distinct (map discoveredDevice_WWN (getSharedDiscoveredDevicesRepresentatives ls))"
  by (simp add: representatives_wwns distinct_shared_wwns)

lemma shared_wwn_iff:
  "w \<in> discoveredDevice_WWN ` set (getSharedDiscoveredDevicesRepresentatives ls) \<longleftrightarrow>
     ls \<noteq> [] \<and> report_count w ls = length ls"
proof -
  have "w \<in> discoveredDevice_WWN ` set (getSharedDiscoveredDevicesRepresentatives ls) \<longleftrightarrow>
      w \<in> set (map fst (onlySharedByAllStorageNodes ls))"
    by (simp flip: representatives_wwns)
  also have "\<dots> \<longleftrightarrow> (\<exists>dds. (w, dds) \<in> set (onlySharedByAllStorageNodes ls))"
    by force
  finally show ?thesis by (simp add: shared_entry_iff)
qed

lemma unused_iff: "outDevicesUsedByLocalDisks disks d \<longleftrightarrow> discoveredDevice_WWN d \<notin> disk_names disks"
  by (auto simp: outDevicesUsedByLocalDisks_def disk_names_def list_ex_iff image_iff)

lemma makeLuns_wwns:
  "lun_wwn ` set (makeLuns g t ls disks) =
     {w \<in> discoveredDevice_WWN ` set (getSharedDiscoveredDevicesRepresentatives ls). w \<notin> disk_names disks}"
  by (force simp: makeLuns_def unused_iff image_iff)

lemma distinct_makeLuns: "distinct (map lun_wwn (makeLuns g t ls disks))"
proof -
  have "map lun_wwn (makeLuns g t ls disks) =
      map discoveredDevice_WWN (filter (outDevicesUsedByLocalDisks disks) (getSharedDiscoveredDevicesRepresentatives ls))"
    by (simp add: makeLuns_def comp_def)
  then show ?thesis
    using distinct_representatives by (simp add: distinct_map_filter)
qed

subsection \<open>When every node reports a WWN once\<close>

lemma count_once:
  "distinct (map f xs) \<Longrightarrow> length (filter (\<lambda>x. f x = w) xs) = (if w \<in> f ` set xs then 1 else 0)"
  by (induction xs) (auto simp: filter_empty_conv)

lemma report_count_le: "wwns_once ls \<Longrightarrow> report_count w ls \<le> length ls"
proof (induction ls)
  case (Cons l ls)
  then show ?case
    by (auto simp: report_count_def wwns_once_def count_once)
qed (simp add: report_count_def)

lemma report_count_all:
  "wwns_once ls \<Longrightarrow> report_count w ls = length ls \<longleftrightarrow> (\<forall>l \<in> set ls. w \<in> reported_wwns l)"
proof (induction ls)
  case (Cons l ls)
  then have IH: "report_count w ls = length ls \<longleftrightarrow> (\<forall>l \<in> set ls. w \<in> reported_wwns l)"
    and le: "report_count w ls \<le> length ls" and d: "distinct (map discoveredDevice_WWN (lvdr_devices l))"
    by (simp_all add: wwns_once_def report_count_le)
  have "report_count w (l # ls) = (if w \<in> reported_wwns l then 1 else 0) + report_count w ls"
    using count_once [OF d] by (simp add: report_count_def reported_wwns_def)
  with IH le show ?case by auto
qed (simp add: report_count_def)

subsection \<open>The selection\<close>

lemma keep_selection_fields:
  "map lun_wwn (keep_selection cur new) = map lun_wwn new"
  "map lun_path (keep_selection cur new) = map lun_path new"
  by (simp_all add: keep_selection_def Let_def comp_def)

lemma select_first_fields:
  "map lun_wwn (select_first p b ls) = map lun_wwn ls"
  "map lun_path (select_first p b ls) = map lun_path ls"
  by (induction ls) simp_all

lemma setSelected_fields:
  "map lun_wwn (setSelected l b ls) = map lun_wwn ls"
  "map lun_path (setSelected l b ls) = map lun_path ls"
  by (simp_all add: setSelected_def select_first_fields split: option.splits)

lemma setAllSelected_fields:
  "map lun_wwn (setAllSelected b ls) = map lun_wwn ls"
  "map lun_path (setAllSelected b ls) = map lun_path ls"
  by (simp_all add: setAllSelected_def comp_def)

lemma luns_step_distinct:
  "distinct (map lun_wwn luns) \<Longrightarrow> distinct (map lun_wwn (luns_step g t luns e))"
  by (cases e) (simp_all add: luns_effect_def keep_selection_fields distinct_makeLuns
      setSelected_fields setAllSelected_fields)

text \<open>What identifies the listed LUNs, and that only the effect changes it.\<close>

definition listed :: "Lun list \<Rightarrow> (string \<times> string) list" where
  "listed luns = map (\<lambda>l. (lun_path l, lun_wwn l)) luns"

lemma listed_selection [simp]:
  "listed (select_first p b luns) = listed luns" "listed (setSelected lun b luns) = listed luns"
  "listed (setAllSelected b luns) = listed luns" "listed (keep_selection cur luns) = listed luns"
proof -
  show "listed (select_first p b luns) = listed luns" for p
    by (induction luns) (simp_all add: listed_def)
  then show "listed (setSelected lun b luns) = listed luns"
    by (simp add: setSelected_def split: option.splits)
qed (simp_all add: listed_def setAllSelected_def keep_selection_def Let_def comp_def)

lemma listed_run:
  "\<forall>e \<in> set es. \<forall>d n. e \<noteq> LunsEffect d n \<Longrightarrow> listed (foldl (luns_step g t) luns es) = listed luns"
proof (induction es arbitrary: luns)
  case (Cons e es)
  then show ?case by (cases e) simp_all
qed simp

lemma listed_after_effect:
  assumes "repo_loaded disks" "snl_loaded nodes" "\<forall>e \<in> set post. \<forall>d n. e \<noteq> LunsEffect d n"
  shows "listed (foldl (luns_step g t) luns (pre @ LunsEffect disks nodes # post)) =
     listed (makeLuns g t (snl_data nodes) (repo_items disks))"
  using assms by (simp add: listed_run luns_effect_def)

interpretation luns_machine: machine "luns_step g t" "\<lambda>luns. distinct (map lun_wwn luns)" for g t
  by unfold_locales (rule luns_step_distinct)

lemma find_select_first:
  "find (\<lambda>l. lun_path l = p) (select_first p b ls) =
     map_option (\<lambda>l. l\<lparr>lun_isSelected := b\<rparr>) (find (\<lambda>l. lun_path l = p) ls)"
  by (induction ls) simp_all

lemma find_select_first_other:
  "q \<noteq> p \<Longrightarrow> find (\<lambda>l. lun_path l = q) (select_first p b ls) = find (\<lambda>l. lun_path l = q) ls"
  by (induction ls) auto

lemma find_setAllSelected:
  "find (\<lambda>l. lun_path l = p) (setAllSelected b ls) =
     map_option (\<lambda>l. l\<lparr>lun_isSelected := b\<rparr>) (find (\<lambda>l. lun_path l = p) ls)"
  by (induction ls) (simp_all add: setAllSelected_def)

lemma isSelected_setSelected:
  "luns_isSelected (setSelected lun b ls) l =
     (if lun_path l = lun_path lun \<and> lun_path lun \<in> lun_path ` set ls then b else luns_isSelected ls l)"
proof (cases "lun_path l = lun_path lun")
  case True
  show ?thesis
  proof (cases "find (\<lambda>x. lun_path x = lun_path lun) ls")
    case None
    then have "lun_path lun \<notin> lun_path ` set ls" by (auto simp: find_None_iff)
    with None True show ?thesis by (simp add: setSelected_def)
  next
    case (Some x)
    then have "lun_path lun \<in> lun_path ` set ls" 
      using find_Some_D [OF Some] by (metis imageI)
    with Some True show ?thesis
      by (simp add: setSelected_def luns_isSelected_def find_select_first)
  qed
next
  case False
  then show ?thesis
    by (simp add: setSelected_def luns_isSelected_def find_select_first_other split: option.splits)
qed

subsection \<open>Where a LUN comes from\<close>

text \<open>Discovery results for the examples.\<close>

definition example_device :: "string \<Rightarrow> string \<Rightarrow> DiscoveredDevice" where
  "example_device wwn path = \<lparr>discoveredDevice_WWN = wwn, discoveredDevice_deviceID = [],
     discoveredDevice_model = [], discoveredDevice_path = path,
     discoveredDevice_size = Finite 1073741824, discoveredDevice_type = ''disk'', discoveredDevice_vendor = []\<rparr>"

definition example_lvdr :: "string \<Rightarrow> DiscoveredDevice list \<Rightarrow> lvdr" where
  "example_lvdr node devices = \<lparr>apiVersion = None, kind = None, metadata = None,
     lvdr_spec = Some \<lparr>lvdrSpec_nodeName = node\<rparr>,
     lvdr_status = Some \<lparr>lvdrStatus_discoveredDevices = Some devices, lvdrStatus_discoveredTimeStamp = None\<rparr>\<rparr>"

text \<open>Two nodes: they share \<open>w1\<close> and \<open>w2\<close>, and \<open>w3\<close> is on the second only.\<close>

definition example_lvdrs :: "lvdr list" where
  "example_lvdrs =
     [example_lvdr ''n0'' [example_device ''w1'' ''/dev/sdb'', example_device ''w2'' ''/dev/sdc''],
      example_lvdr ''n1'' [example_device ''w2'' ''/dev/sdb'', example_device ''w3'' ''/dev/sdd'',
                           example_device ''w1'' ''/dev/sdc'']]"

definition example_disk :: "string \<Rightarrow> LocalDisk" where
  "example_disk name = \<lparr>apiVersion = None, kind = None,
     metadata = Some (empty_meta\<lparr>objectMeta_name := Some name\<rparr>), localDisk_spec = None, localDisk_status = None\<rparr>"

lemma example_lvdr_fields [simp]:
  "lvdr_devices (example_lvdr n ds) = ds" "lvdr_nodeName (example_lvdr n ds) = Some n"
  by (simp_all add: example_lvdr_def lvdr_devices_def lvdr_nodeName_def)

lemma example_device_fields [simp]:
  "discoveredDevice_WWN (example_device w p) = w" "discoveredDevice_path (example_device w p) = p"
  by (simp_all add: example_device_def)

lemma example_disk_name [simp]: "resource_name (example_disk n) = Some n"
  by (simp add: example_disk_def resource_name_def)

lemma example_wwns_once: "wwns_once example_lvdrs"
  by (simp add: wwns_once_def example_lvdrs_def)

lemma example_luns:
  "map (\<lambda>l. (lun_path l, lun_wwn l)) (makeLuns g t example_lvdrs []) = [(''/dev/sdb'', ''w1''), (''/dev/sdc'', ''w2'')]"
  "map (\<lambda>l. (lun_path l, lun_wwn l)) (makeLuns g t example_lvdrs [example_disk ''w2'']) = [(''/dev/sdb'', ''w1'')]"
  by (simp_all add: makeLuns_def getSharedDiscoveredDevicesRepresentatives_def onlySharedByAllStorageNodes_def
      makeDiscoveredDevicesWithNodeName_def example_lvdrs_def object_groupBy_def group_step_def obj_get_def
      obj_set_def object_entries_def is_array_index_def is_digit_def outDevicesUsedByLocalDisks_def)

text \<open>A representative is the first device with its WWN, over the nodes in order.\<close>

lemma representative_first:
  assumes "d \<in> set (getSharedDiscoveredDevicesRepresentatives ls)"
  shows "d = hd (filter (\<lambda>x. discoveredDevice_WWN x = discoveredDevice_WWN d) (makeDiscoveredDevicesWithNodeName ls))"
    "d \<in> set (makeDiscoveredDevicesWithNodeName ls)"
proof -
  from assms obtain w dds where e: "(w, dds) \<in> set (onlySharedByAllStorageNodes ls)" "d = hd dds"
    by (auto simp: getSharedDiscoveredDevicesRepresentatives_def)
  then show "d = hd (filter (\<lambda>x. discoveredDevice_WWN x = discoveredDevice_WWN d) (makeDiscoveredDevicesWithNodeName ls))"
    "d \<in> set (makeDiscoveredDevicesWithNodeName ls)"
    using shared_entry_hd [OF e(1)] shared_entry_iff [of w dds ls] by auto
qed

lemma with_node_name_iff:
  "d \<in> set (makeDiscoveredDevicesWithNodeName ls) \<longleftrightarrow>
     (\<exists>l \<in> set ls. \<exists>x \<in> set (lvdr_devices l). d = toDiscoveredDeviceWithNodeName l x)"
  by (auto simp: makeDiscoveredDevicesWithNodeName_def)

lemma makeLuns_device:
  assumes "lun \<in> set (makeLuns g t ls disks)"
  shows "\<exists>l \<in> set ls. \<exists>x \<in> set (lvdr_devices l). lun_path lun = discoveredDevice_path x \<and>
     lun_wwn lun = discoveredDevice_WWN x \<and> lun_nodeName lun = nullish (lvdr_nodeName l) []"
proof -
  from assms obtain d where "lun = toLun g t d" "d \<in> set (getSharedDiscoveredDevicesRepresentatives ls)"
    by (auto simp: makeLuns_def)
  with representative_first(2) [of d ls] obtain l x where
    "l \<in> set ls" "x \<in> set (lvdr_devices l)" "d = toDiscoveredDeviceWithNodeName l x" "lun = toLun g t d"
    by (auto simp: with_node_name_iff)
  then show ?thesis by (intro bexI [of _ l] bexI [of _ x]) simp_all
qed

text \<open>When every node reports a WWN once, the representatives are devices of the first node.\<close>

lemma representative_of_first_node:
  assumes once: "wwns_once (l # ls)" and d: "d \<in> set (getSharedDiscoveredDevicesRepresentatives (l # ls))"
  shows "d \<in> toDiscoveredDeviceWithNodeName l ` set (lvdr_devices l)"
proof -
  let ?w = "discoveredDevice_WWN d" and ?P = "\<lambda>x. discoveredDevice_WWN x = discoveredDevice_WWN d"
  let ?first = "map (toDiscoveredDeviceWithNodeName l) (lvdr_devices l)"
  have "?w \<in> reported_wwns l"
    using d shared_wwn_iff [of ?w "l # ls"] report_count_all [OF once, of ?w] by auto
  then have "filter ?P ?first \<noteq> []"
    by (auto simp: reported_wwns_def filter_empty_conv)
  then have "hd (filter ?P (makeDiscoveredDevicesWithNodeName (l # ls))) \<in> set ?first"
    using hd_in_set [of "filter ?P ?first"] by (auto simp: makeDiscoveredDevicesWithNodeName_def)
  with representative_first(1) [OF d] show ?thesis by auto
qed

lemma distinct_representative_paths:
  assumes once: "wwns_once (l # ls)" and paths: "distinct (map discoveredDevice_path (lvdr_devices l))"
  shows "distinct (map discoveredDevice_path (getSharedDiscoveredDevicesRepresentatives (l # ls)))"
proof -
  have "inj_on discoveredDevice_path (toDiscoveredDeviceWithNodeName l ` set (lvdr_devices l))"
    using paths by (auto simp: inj_on_def distinct_map)
  then have "inj_on discoveredDevice_path (set (getSharedDiscoveredDevicesRepresentatives (l # ls)))"
    by (rule inj_on_subset) (use representative_of_first_node [OF once] in blast)
  moreover have "distinct (getSharedDiscoveredDevicesRepresentatives (l # ls))"
    using distinct_representatives [of "l # ls"] by (simp add: distinct_map)
  ultimately show ?thesis by (simp add: distinct_map)
qed

subsection \<open>Properties\<close>

text \<open>C1: When no storage node reports a WWN twice, the LUNs offered are exactly the devices that every
  storage node reports and that no LocalDisk is named after; with no storage node there is none.\<close>

theorem luns_shared_unused:
  assumes "wwns_once ls"
  shows "w \<in> lun_wwn ` set (makeLuns g t ls disks) \<longleftrightarrow>
     ls \<noteq> [] \<and> (\<forall>l \<in> set ls. w \<in> reported_wwns l) \<and> w \<notin> disk_names disks"
  using report_count_all [OF assms, of w] by (auto simp: makeLuns_wwns shared_wwn_iff)

theorem luns_shared_unused_witness:
  "''w1'' \<in> lun_wwn ` set (makeLuns (\<lambda>x u v. x) (\<lambda>_. []) example_lvdrs [example_disk ''w2'']) \<and>
   ''w2'' \<notin> lun_wwn ` set (makeLuns (\<lambda>x u v. x) (\<lambda>_. []) example_lvdrs [example_disk ''w2'']) \<and>
   ''w3'' \<notin> lun_wwn ` set (makeLuns (\<lambda>x u v. x) (\<lambda>_. []) example_lvdrs [example_disk ''w2''])"
  unfolding luns_shared_unused [OF example_wwns_once]
  by (auto simp: example_lvdrs_def reported_wwns_def disk_names_def)

text \<open>In general a LUN is offered when the number of reports of its WWN, over all storage nodes,
  equals the number of nodes, and no LocalDisk has its name; so a node that reports a WWN twice can
  make up for one that does not report it. No WWN is offered twice.\<close>

lemma luns_by_report_count:
  "distinct (map lun_wwn (makeLuns g t ls disks)) \<and>
   w \<in> lun_wwn ` set (makeLuns g t ls disks) =
     (ls \<noteq> [] \<and> report_count w ls = length ls \<and> w \<notin> disk_names disks)"
  using distinct_makeLuns by (auto simp: makeLuns_wwns shared_wwn_iff)

text \<open>Every LUN shows the path, the WWN and the node of a device that this node reports, and is not
  selected. When no node reports a WWN twice and the first node's device paths differ, the paths of
  the LUNs, which identify them in the table and in the claim, differ too.\<close>

lemma luns_paths:
  assumes "wwns_once (l # ls)" "distinct (map discoveredDevice_path (lvdr_devices l))"
  shows "distinct (map lun_path (makeLuns g t (l # ls) disks)) \<and>
     (\<forall>lun \<in> set (makeLuns g t (l # ls) disks). \<not> lun_isSelected lun \<and>
        (\<exists>k \<in> set (l # ls). \<exists>x \<in> set (lvdr_devices k). lun_path lun = discoveredDevice_path x \<and>
           lun_wwn lun = discoveredDevice_WWN x \<and> lun_nodeName lun = nullish (lvdr_nodeName k) []))"
proof -
  have "map lun_path (makeLuns g t (l # ls) disks) =
      map discoveredDevice_path (filter (outDevicesUsedByLocalDisks disks)
        (getSharedDiscoveredDevicesRepresentatives (l # ls)))"
    by (simp add: makeLuns_def comp_def)
  then have "distinct (map lun_path (makeLuns g t (l # ls) disks))"
    using distinct_representative_paths [OF assms] by (simp add: distinct_map_filter)
  moreover have "\<not> lun_isSelected lun" if "lun \<in> set (makeLuns g t (l # ls) disks)" for lun
    using that by (auto simp: makeLuns_def)
  ultimately show ?thesis using makeLuns_device by blast
qed

text \<open>Once the local disks and the discovery results are loaded, an update of the LUNs lists those of
  the new data, and a LUN is selected exactly when a LUN with its WWN was selected before.\<close>

lemma selection_survives_update:
  assumes "repo_loaded disks" "snl_loaded nodes"
  shows "map lun_wwn (luns_effect g t disks nodes luns) = map lun_wwn (makeLuns g t (snl_data nodes) (repo_items disks)) \<and>
     (\<forall>lun \<in> set (luns_effect g t disks nodes luns).
        lun_isSelected lun = (\<exists>old \<in> set luns. lun_isSelected old \<and> lun_wwn old = lun_wwn lun))"
proof -
  have "lun_isSelected lun = (\<exists>old \<in> set luns. lun_isSelected old \<and> lun_wwn old = lun_wwn lun)"
    if "lun \<in> set (keep_selection luns new)" for lun new
  proof -
    from that obtain x where "lun = x\<lparr>lun_isSelected := lun_wwn x \<in> set (map lun_wwn (filter lun_isSelected luns))\<rparr>"
      by (auto simp: keep_selection_def Let_def)
    then show ?thesis by (simp add: image_iff) metis
  qed
  with assms show ?thesis by (simp add: luns_effect_def keep_selection_fields)
qed

definition example_nodes :: storage_nodes_lvdrs where
  "example_nodes = \<lparr>snl_data = example_lvdrs, snl_loaded = True, snl_error = None\<rparr>"

definition example_disks :: "string list \<Rightarrow> LocalDisk repository" where
  "example_disks names = \<lparr>repo_loaded = True, repo_error = None, repo_items = map example_disk names\<rparr>"

definition example_selected :: Lun where
  "example_selected = \<lparr>lun_isSelected = True, lun_nodeName = ''n9'', lun_path = ''/dev/old'',
     lun_wwn = ''w2'', lun_capacity = ''1''\<rparr>"

text \<open>Selecting one LUN changes what is shown for that path only, and only if the path is listed;
  selecting all sets every listed LUN; neither adds, removes or reorders a LUN.\<close>

lemma selection_operations:
  "luns_isSelected (setSelected lun b luns) l =
     (if lun_path l = lun_path lun \<and> lun_path lun \<in> lun_path ` set luns then b else luns_isSelected luns l) \<and>
   luns_isSelected (setAllSelected b luns) l = (b \<and> lun_path l \<in> lun_path ` set luns) \<and>
   listed (setSelected lun b luns) = listed luns \<and> listed (setAllSelected b luns) = listed luns"
proof -
  have all: "luns_isSelected (setAllSelected b luns) l = (b \<and> lun_path l \<in> lun_path ` set luns)"
  proof (cases "find (\<lambda>x. lun_path x = lun_path l) luns")
    case None
    then have "lun_path l \<notin> lun_path ` set luns" by (auto simp: find_None_iff)
    with None show ?thesis by (simp add: luns_isSelected_def find_setAllSelected)
  next
    case (Some x)
    then have "lun_path l \<in> lun_path ` set luns" using find_Some_D [OF Some] by (metis imageI)
    with Some show ?thesis by (simp add: luns_isSelected_def find_setAllSelected)
  qed
  show ?thesis by (intro conjI isSelected_setSelected all listed_selection)
qed

end
