(* ===== verification/Create_Flows.thy ===== *)
theory Create_Flows
  imports Luns
begin

section \<open>Creating a storage cluster or a file system claim\<close>

text \<open>
  \<open>use_storage_clusters_create_use_case.ts\<close> and \<open>use_file_system_claims_create_use_case.ts\<close> of
  \<open>console/src/domain/use-cases\<close>. The asynchronous callback is the list of its effects in order:
  dispatched actions and navigations. A promise that never settles leaves the effects up to the
  \<open>await\<close>.
\<close>

datatype ui_effect = Dispatch Actions | Navigate UrlPaths

fun dispatched :: "ui_effect list \<Rightarrow> Actions list" where
  "dispatched [] = []"
| "dispatched (Dispatch a # es) = a # dispatched es"
| "dispatched (Navigate p # es) = dispatched es"

fun visited :: "ui_effect list \<Rightarrow> UrlPaths list" where
  "visited [] = []"
| "visited (Dispatch a # es) = visited es"
| "visited (Navigate p # es) = p # visited es"

text \<open>\<open>e instanceof Error ? e.message : (e as string)\<close>: the cast lets any value through.\<close>

fun thrown_description :: "thrown \<Rightarrow> description option" where
  "thrown_description (ThrownError e) = Some (DescText (error_message e))"
| "thrown_description (ThrownString s) = Some (DescText s)"
| "thrown_description (ThrownEmpty s) = None"
| "thrown_description (ThrownOther s) = Some (DescOther s)"

definition set_loading :: "bool \<Rightarrow> Actions" where
  "set_loading b = UpdateCta \<lparr>isDisabled = None, isLoading = Some b\<rparr>"

definition creation_alert :: "translator \<Rightarrow> thrown \<Rightarrow> Alert" where
  "creation_alert tr e =
     \<lparr>alert_key = None, alert_variant = Some AlertDanger,
      alert_title = tr ''An error occurred while creating resources'' [],
      alert_description = thrown_description e, alert_dismiss = None\<rparr>"

definition useStorageClustersCreateUseCase ::
  "translator \<Rightarrow> (Cluster \<Rightarrow> Cluster promise) \<Rightarrow> bool \<Rightarrow> ui_effect list" where
  "useStorageClustersCreateUseCase tr k8sCreate inFlight =
     Dispatch (set_loading True) #
     (let finish = [Dispatch (set_loading False)] in
      case create_storage_cluster k8sCreate inFlight of
        Pending \<Rightarrow> []
      | Resolved _ \<Rightarrow> Navigate FileSystemClaimsHome # finish
      | Rejected e \<Rightarrow> Dispatch (AddAlert (creation_alert tr e)) # finish)"

text \<open>The devices of a claim are the paths of the selected LUNs.\<close>

definition selected_paths :: "Lun list \<Rightarrow> string list" where
  "selected_paths luns = map lun_path (filter lun_isSelected luns)"

definition useFileSystemClaimsCreateUseCase ::
  "translator \<Rightarrow> (FileSystemClaim \<Rightarrow> FileSystemClaim promise) \<Rightarrow> bool \<Rightarrow> string \<Rightarrow> Lun list \<Rightarrow> ui_effect list" where
  "useFileSystemClaimsCreateUseCase tr k8sCreate inFlight fileSystemName luns =
     Dispatch (set_loading True) #
     (let devices = selected_paths luns;
          finally_block = [Dispatch (set_loading False)] in
      case create_file_system_claim k8sCreate inFlight fileSystemName devices None of
        Pending \<Rightarrow> []
      | Resolved _ \<Rightarrow> [Navigate FileSystemClaimsHome] @ finally_block
      | Rejected e \<Rightarrow> [Dispatch (AddAlert (creation_alert tr e))] @ finally_block)"

subsection \<open>The contract of a creating callback\<close>

text \<open>
  Both callbacks refine one specification: loading on, then the outcome, then loading off. The
  consequences for the store are proved once, for any callback that meets it.
\<close>

locale creating_callback =
  fixes effects :: "'r promise \<Rightarrow> ui_effect list"
    and failure :: "thrown \<Rightarrow> Alert"
  assumes pending: "effects Pending = [Dispatch (set_loading True)]"
    and resolved: "effects (Resolved x) =
      [Dispatch (set_loading True), Navigate FileSystemClaimsHome, Dispatch (set_loading False)]"
    and rejected: "effects (Rejected e) =
      [Dispatch (set_loading True), Dispatch (AddAlert (failure e)), Dispatch (set_loading False)]"
    and failure_unkeyed: "\<not> is_minimum_alert (failure e)"
begin

lemma store_pending:
  "dispatch_all s (dispatched (effects Pending)) = Inr (s\<lparr>cta := (cta s)\<lparr>isLoading := Some True\<rparr>\<rparr>)"
  by (simp add: pending set_loading_def spread_cta_def split: option.splits)

lemma store_resolved:
  "dispatch_all s (dispatched (effects (Resolved x))) = Inr (s\<lparr>cta := (cta s)\<lparr>isLoading := Some False\<rparr>\<rparr>)"
  by (simp add: resolved set_loading_def spread_cta_def split: option.splits)

lemma store_rejected:
  "dispatch_all s (dispatched (effects (Rejected e))) =
     Inr (s\<lparr>cta := (cta s)\<lparr>isLoading := Some False\<rparr>, alerts := alerts s @ [failure e]\<rparr>)"
  by (simp add: rejected set_loading_def spread_cta_def add_alert_other failure_unkeyed split: option.splits)

lemma visits:
  "visited (effects p) = (case p of Resolved _ \<Rightarrow> [FileSystemClaimsHome] | _ \<Rightarrow> [])"
  by (cases p) (simp_all add: pending resolved rejected)

lemma loading_off_iff_settled:
  "isLoading (cta s) = Some False \<Longrightarrow>
     (\<exists>s'. dispatch_all s (dispatched (effects p)) = Inr s' \<and>
        (isLoading (cta s') = Some False \<longleftrightarrow> p \<noteq> Pending))"
  by (cases p) (simp_all add: store_pending store_resolved store_rejected)

end

lemma creation_alert_unkeyed [simp]: "\<not> is_minimum_alert (creation_alert tr e)"
  by (simp add: is_minimum_alert_def creation_alert_def)

text \<open>The storage cluster callback, over the settled state of the request.\<close>

definition storage_cluster_effects :: "translator \<Rightarrow> Cluster promise \<Rightarrow> ui_effect list" where
  "storage_cluster_effects tr p = useStorageClustersCreateUseCase tr (\<lambda>_. p) False"

definition file_system_claim_effects :: "translator \<Rightarrow> string \<Rightarrow> Lun list \<Rightarrow> FileSystemClaim promise \<Rightarrow> ui_effect list" where
  "file_system_claim_effects tr name luns p = useFileSystemClaimsCreateUseCase tr (\<lambda>_. p) False name luns"

interpretation cluster_creation: creating_callback "storage_cluster_effects tr" "creation_alert tr" for tr
  by unfold_locales
    (simp_all add: storage_cluster_effects_def useStorageClustersCreateUseCase_def create_storage_cluster_def wait_simps)

interpretation claim_creation: creating_callback "file_system_claim_effects tr name luns" "creation_alert tr"
  for tr name luns
  by unfold_locales
    (simp_all add: file_system_claim_effects_def useFileSystemClaimsCreateUseCase_def create_file_system_claim_def wait_simps)

lemma cluster_use_case_eq:
  "useStorageClustersCreateUseCase tr k8sCreate False = storage_cluster_effects tr (k8sCreate storage_cluster_request)"
  by (simp add: storage_cluster_effects_def useStorageClustersCreateUseCase_def create_storage_cluster_def wait_simps)

lemma claim_use_case_eq:
  "useFileSystemClaimsCreateUseCase tr k8sCreate False name luns =
     file_system_claim_effects tr name luns
       (k8sCreate (file_system_claim_request name (selected_paths luns) (Some SPECTRUM_SCALE_NAMESPACE)))"
  by (simp add: file_system_claim_effects_def useFileSystemClaimsCreateUseCase_def create_file_system_claim_def wait_simps)

lemma use_case_in_flight:
  "useStorageClustersCreateUseCase tr k8sCreate True = storage_cluster_effects tr Pending"
  "useFileSystemClaimsCreateUseCase tr k8sCreate' True name luns = file_system_claim_effects tr name luns Pending"
  by (simp_all add: cluster_creation.pending claim_creation.pending useStorageClustersCreateUseCase_def
      useFileSystemClaimsCreateUseCase_def create_storage_cluster_def create_file_system_claim_def wait_simps)

subsection \<open>The memoised submit callback\<close>

text \<open>
  \<open>useCallback\<close> keeps the closure of an earlier render while its dependencies are unchanged. The
  dependencies here are the identities of \<open>dispatch\<close>, \<open>create\<close>, the redirect handler and \<open>t\<close> (one
  token, \<open>env\<close>), the file system name, and \<open>luns.filter\<close>. The last is
  \<open>Array.prototype.filter\<close> whatever the array is, so it never changes.
\<close>

datatype filter_method = ArrayPrototypeFilter

fun method_filter :: "Lun list \<Rightarrow> filter_method" where
  "method_filter luns = ArrayPrototypeFilter"

record claim_callback =
  cb_env :: nat
  cb_fileSystemName :: string
  cb_luns :: "Lun list"

definition callback_deps :: "claim_callback \<Rightarrow> nat \<times> string \<times> filter_method" where
  "callback_deps cb = (cb_env cb, cb_fileSystemName cb, method_filter (cb_luns cb))"

definition claim_useCallback :: "claim_callback option \<Rightarrow> claim_callback \<Rightarrow> claim_callback" where
  "claim_useCallback memo fresh =
     (case memo of
        None \<Rightarrow> fresh
      | Some cb \<Rightarrow> if callback_deps cb = callback_deps fresh then cb else fresh)"

text \<open>The callback after a sequence of renders, each with its environment, name and LUNs.\<close>

definition claim_renders :: "claim_callback list \<Rightarrow> claim_callback option" where
  "claim_renders rs = fold (\<lambda>r memo. Some (claim_useCallback memo r)) rs None"

definition submitted_devices :: "claim_callback \<Rightarrow> string list" where
  "submitted_devices cb = selected_paths (cb_luns cb)"

lemma callback_deps_iff:
  "callback_deps a = callback_deps b \<longleftrightarrow> cb_env a = cb_env b \<and> cb_fileSystemName a = cb_fileSystemName b"
  by (simp add: callback_deps_def)

lemma claim_renders_snoc: "claim_renders (rs @ [r]) = Some (claim_useCallback (claim_renders rs) r)"
  by (simp add: claim_renders_def)

lemma claim_renders_in: "claim_renders rs = Some cb \<Longrightarrow> cb \<in> set rs"
  by (induction rs arbitrary: cb rule: rev_induct)
    (auto simp: claim_renders_def claim_useCallback_def split: option.splits if_splits)

lemma claim_renders_deps: "rs \<noteq> [] \<Longrightarrow> \<exists>cb. claim_renders rs = Some cb \<and> callback_deps cb = callback_deps (last rs)"
  by (induction rs rule: rev_induct)
    (auto simp: claim_renders_snoc claim_useCallback_def split: option.splits)

text \<open>As long as the dependencies stay the same, the callback of the first render is kept.\<close>

lemma claim_renders_stale:
  assumes "\<forall>r \<in> set rs. callback_deps r = callback_deps r0"
  shows "claim_renders (r0 # rs) = Some r0"
  using assms
proof (induction rs rule: rev_induct)
  case Nil
  then show ?case by (simp add: claim_renders_def claim_useCallback_def)
next
  case (snoc r rs)
  then show ?case
    using claim_renders_snoc [of "r0 # rs" r] by (simp add: claim_useCallback_def)
qed

subsection \<open>Properties\<close>

text \<open>C14: Creating a storage cluster once the resource model is loaded: the user is taken to the file system
  claims page exactly when the request succeeds; the button shows loading until the request
  settles; a failure adds one alert at the end of the queue and nothing else changes in the store.\<close>

theorem cluster_creation_outcome:
  "let es = useStorageClustersCreateUseCase tr k8sCreate False;
       loading = (\<lambda>b. s\<lparr>cta := (cta s)\<lparr>isLoading := Some b\<rparr>\<rparr>)
   in (case k8sCreate storage_cluster_request of
         Pending \<Rightarrow> visited es = [] \<and> dispatch_all s (dispatched es) = Inr (loading True)
       | Resolved _ \<Rightarrow> visited es = [FileSystemClaimsHome] \<and> dispatch_all s (dispatched es) = Inr (loading False)
       | Rejected e \<Rightarrow> visited es = [] \<and> dispatch_all s (dispatched es) =
           Inr ((loading False)\<lparr>alerts := alerts s @ [creation_alert tr e]\<rparr>))"
  unfolding cluster_use_case_eq Let_def
  by (cases "k8sCreate storage_cluster_request")
    (simp_all add: cluster_creation.visits cluster_creation.store_pending cluster_creation.store_resolved
      cluster_creation.store_rejected)

text \<open>C15: The outcome of the callback that creates a claim, made once the resource model is loaded and with the name
  and the LUNs its closure captured: the request is the one for this name and the paths of those LUNs that
  are selected, in the namespace \<open>ibm-spectrum-scale\<close>, and its being pending, accepted or refused shows in
  the pages visited and in the store as for a storage cluster.\<close>

theorem claim_creation_outcome:
  "let es = useFileSystemClaimsCreateUseCase tr k8sCreate False name luns;
       request = file_system_claim_request name (map lun_path (filter lun_isSelected luns)) (Some ''ibm-spectrum-scale'');
       loading = (\<lambda>b. s\<lparr>cta := (cta s)\<lparr>isLoading := Some b\<rparr>\<rparr>)
   in (case k8sCreate request of
         Pending \<Rightarrow> visited es = [] \<and> dispatch_all s (dispatched es) = Inr (loading True)
       | Resolved _ \<Rightarrow> visited es = [FileSystemClaimsHome] \<and> dispatch_all s (dispatched es) = Inr (loading False)
       | Rejected e \<Rightarrow> visited es = [] \<and> dispatch_all s (dispatched es) =
           Inr ((loading False)\<lparr>alerts := alerts s @ [creation_alert tr e]\<rparr>))"
  unfolding claim_use_case_eq Let_def selected_paths_def SPECTRUM_SCALE_NAMESPACE_def
  by (cases "k8sCreate (file_system_claim_request name (map lun_path (filter lun_isSelected luns)) (Some ''ibm-spectrum-scale''))")
    (simp_all add: claim_creation.visits claim_creation.store_pending claim_creation.store_resolved
      claim_creation.store_rejected)

text \<open>C27: A submission made while the console is still loading the resource model (the second result of
  \<open>useK8sModel\<close>, \<open>inFlight\<close> in the code) leaves the page in the loading state for ever: no redirect, no
  alert, and the loading flag is never taken back, whatever the service would answer.\<close>

theorem submission_before_model_hangs:
  "visited (useStorageClustersCreateUseCase tr k8sCreate True) = [] \<and>
   visited (useFileSystemClaimsCreateUseCase tr k8sCreate' True name luns) = [] \<and>
   dispatch_all s (dispatched (useStorageClustersCreateUseCase tr k8sCreate True)) =
     Inr (s\<lparr>cta := (cta s)\<lparr>isLoading := Some True\<rparr>\<rparr>) \<and>
   dispatch_all s (dispatched (useFileSystemClaimsCreateUseCase tr k8sCreate' True name luns)) =
     Inr (s\<lparr>cta := (cta s)\<lparr>isLoading := Some True\<rparr>\<rparr>)"
  unfolding use_case_in_flight
  by (simp add: cluster_creation.visits cluster_creation.store_pending claim_creation.visits
      claim_creation.store_pending)

definition example_lun :: "string \<Rightarrow> bool \<Rightarrow> Lun" where
  "example_lun path b = \<lparr>lun_isSelected = b, lun_nodeName = ''n0'', lun_path = path, lun_wwn = path, lun_capacity = ''1''\<rparr>"

definition example_render :: "string \<Rightarrow> Lun list \<Rightarrow> claim_callback" where
  "example_render name luns = \<lparr>cb_env = 0, cb_fileSystemName = name, cb_luns = luns\<rparr>"

text \<open>The memoised submit callback always has the file system name of the last render.\<close>

lemma submit_name_current:
  assumes "rs \<noteq> []"
  shows "\<exists>cb \<in> set rs. claim_renders rs = Some cb \<and> cb_fileSystemName cb = cb_fileSystemName (last rs)"
proof -
  from claim_renders_deps [OF assms] obtain cb where
    cb: "claim_renders rs = Some cb" "callback_deps cb = callback_deps (last rs)" by blast
  with claim_renders_in [OF cb(1)] show ?thesis by (auto simp: callback_deps_iff)
qed

text \<open>But the submit callback does not follow the selection: while the name and the other
  dependencies stay the same, it submits the devices that were selected at the first of these
  renders, whatever has been selected since.\<close>

lemma submit_devices_stale:
  assumes "\<forall>r \<in> set rs. cb_env r = cb_env r0 \<and> cb_fileSystemName r = cb_fileSystemName r0"
  shows "map_option submitted_devices (claim_renders (r0 # rs)) = Some (submitted_devices r0)"
  using claim_renders_stale [of rs r0] assms by (simp add: callback_deps_iff)

text \<open>A listed LUN is a device of a storage node, reported by all of them, and no LocalDisk.\<close>

lemma listed_device:
  assumes "wwns_once ls" "(p, w) \<in> set (listed (makeLuns g t ls disks))"
  shows "\<exists>l \<in> set ls. \<exists>x \<in> set (lvdr_devices l). discoveredDevice_path x = p \<and>
     (\<forall>k \<in> set ls. discoveredDevice_WWN x \<in> reported_wwns k) \<and> discoveredDevice_WWN x \<notin> disk_names disks"
proof -
  from assms(2) obtain made where made: "made \<in> set (makeLuns g t ls disks)" "p = lun_path made"
    by (auto simp: listed_def)
  then have shared: "(\<forall>k \<in> set ls. lun_wwn made \<in> reported_wwns k) \<and> lun_wwn made \<notin> disk_names disks"
    using makeLuns_wwns [of g t ls disks] shared_wwn_iff [of "lun_wwn made" ls]
      report_count_all [OF assms(1), of "lun_wwn made"] by blast
  from makeLuns_device [OF made(1)] obtain l x where "l \<in> set ls" "x \<in> set (lvdr_devices l)"
    "lun_path made = discoveredDevice_path x" "lun_wwn made = discoveredDevice_WWN x" by blast
  with shared made(2) show ?thesis by (intro bexI [of _ l] bexI [of _ x]) simp_all
qed

text \<open>C8: After the LUNs were loaded, whatever the user selects and deselects, every path of a LUN that is selected
  now is the path of a device in a discovery result, all discovery results have its WWN, and no LocalDisk
  uses it (when no discovery result has a WWN twice).\<close>

theorem submitted_devices_shared:
  assumes "repo_loaded disks" "snl_loaded nodes" "wwns_once (snl_data nodes)"
    and "\<forall>e \<in> set post. \<forall>d n. e \<noteq> LunsEffect d n"
    and "p \<in> set (selected_paths (foldl (luns_step g t) [] (pre @ LunsEffect disks nodes # post)))"
  shows "\<exists>l \<in> set (snl_data nodes). \<exists>x \<in> set (lvdr_devices l). discoveredDevice_path x = p \<and>
     (\<forall>k \<in> set (snl_data nodes). discoveredDevice_WWN x \<in> reported_wwns k) \<and>
     discoveredDevice_WWN x \<notin> disk_names (repo_items disks)"
proof -
  let ?luns = "foldl (luns_step g t) [] (pre @ LunsEffect disks nodes # post)"
  from assms(5) obtain lun where lun: "lun \<in> set ?luns" "p = lun_path lun"
    by (auto simp: selected_paths_def)
  have "(p, lun_wwn lun) \<in> set (listed ?luns)"
    using lun by (auto simp: listed_def)
  then show ?thesis
    by (simp only: listed_after_effect [OF assms(1,2,4)]) (rule listed_device [OF assms(3)])
qed

lemma selected_paths_all: "selected_paths (setAllSelected True luns) = map lun_path luns"
  by (simp add: selected_paths_def setAllSelected_def comp_def)

theorem submitted_devices_shared_witness:
  "\<exists>l \<in> set example_lvdrs. \<exists>x \<in> set (lvdr_devices l). discoveredDevice_path x = ''/dev/sdb'' \<and>
     discoveredDevice_WWN x \<noteq> ''w2''"
proof -
  have loaded: "repo_loaded (example_disks [''w2''])" "snl_loaded example_nodes" "wwns_once (snl_data example_nodes)"
    "snl_data example_nodes = example_lvdrs" "repo_items (example_disks [''w2'']) = [example_disk ''w2'']"
    using example_wwns_once by (simp_all add: example_disks_def example_nodes_def)
  have "map lun_path (makeLuns (\<lambda>x u v. x) (\<lambda>_. []) example_lvdrs [example_disk ''w2'']) = [''/dev/sdb'']"
    using arg_cong [OF example_luns(2), of "map fst"] by (simp add: comp_def)
  then have p: "''/dev/sdb'' \<in> set (selected_paths (foldl (luns_step (\<lambda>x u v. x) (\<lambda>_. [])) []
       ([] @ LunsEffect (example_disks [''w2'']) example_nodes # [SetAllSelected True])))"
    by (simp add: selected_paths_all luns_effect_def loaded keep_selection_fields del: set_map)
  show ?thesis
    using submitted_devices_shared [OF loaded(1-3) _ p] by (auto simp: loaded disk_names_def)
qed

end
