(* ===== verification/Lun_Selection.thy ===== *)
theory Lun_Selection
  imports Create_Flows
begin

section \<open>The LUN selection: its specification\<close>

text \<open>
  What \<open>useLunsUseCase\<close> of \<open>console/src/domain/use-cases/use_luns_use_case.ts\<close> promises, without
  flags in list elements: the list of what is offered, each with its path and WWN, and the set of the
  WWNs that are chosen. Loading new data keeps the choices that are still offered. The hook's state
  refines it.
\<close>

record lun_selection =
  offered :: "(string \<times> string) list"
  chosen :: "string set"

definition empty_selection :: lun_selection where
  "empty_selection = \<lparr>offered = [], chosen = {}\<rparr>"

fun selection_step :: "unit_converter \<Rightarrow> (js_number \<Rightarrow> string) \<Rightarrow> lun_selection \<Rightarrow> luns_event \<Rightarrow> lun_selection" where
  "selection_step g t q (LunsEffect disks nodes) =
     (if repo_loaded disks \<and> snl_loaded nodes then
        (let new = listed (makeLuns g t (snl_data nodes) (repo_items disks))
         in \<lparr>offered = new, chosen = chosen q \<inter> snd ` set new\<rparr>)
      else q)"
| "selection_step g t q (SetSelected lun b) =
     (case map_of (offered q) (lun_path lun) of
        None \<Rightarrow> q
      | Some w \<Rightarrow> q\<lparr>chosen := (if b then insert w (chosen q) else chosen q - {w})\<rparr>)"
| "selection_step g t q (SetAllSelected b) = q\<lparr>chosen := (if b then snd ` set (offered q) else {})\<rparr>"

definition selected_wwns :: "Lun list \<Rightarrow> string set" where
  "selected_wwns luns = lun_wwn ` set (filter lun_isSelected luns)"

definition selection_abs :: "Lun list \<Rightarrow> lun_selection" where
  "selection_abs luns = \<lparr>offered = listed luns, chosen = selected_wwns luns\<rparr>"

lemma listed_simps [simp]:
  "listed [] = []" "listed (l # ls) = (lun_path l, lun_wwn l) # listed ls"
  "snd ` set (listed luns) = lun_wwn ` set luns"
  by (auto simp: listed_def image_iff)

lemma selected_wwns_simps [simp]:
  "selected_wwns [] = {}"
  "selected_wwns (l # ls) = (if lun_isSelected l then insert (lun_wwn l) (selected_wwns ls) else selected_wwns ls)"
  by (simp_all add: selected_wwns_def)

lemma selected_wwns_offered: "selected_wwns luns \<subseteq> lun_wwn ` set luns"
  by (auto simp: selected_wwns_def)

lemma find_listed: "find (\<lambda>l. lun_path l = p) luns = None \<longleftrightarrow> map_of (listed luns) p = None"
  by (induction luns) auto

lemma map_of_listed: "map_of (listed luns) p = Some w \<Longrightarrow> w \<in> lun_wwn ` set luns"
  by (induction luns) (auto split: if_splits)

lemma selected_wwns_select_first:
  "distinct (map lun_wwn luns) \<Longrightarrow> map_of (listed luns) p = Some w \<Longrightarrow>
     selected_wwns (select_first p b luns) =
       (if b then insert w (selected_wwns luns) else selected_wwns luns - {w})"
proof (induction luns)
  case (Cons l luns)
  have fresh: "lun_wwn l \<notin> selected_wwns luns"
    using Cons.prems(1) selected_wwns_offered [of luns] by auto
  show ?case
  proof (cases "lun_path l = p")
    case True
    with Cons.prems(2) have "w = lun_wwn l" by simp
    with True fresh show ?thesis by simp
  next
    case False
    with Cons.prems(2) have w: "map_of (listed luns) p = Some w" by simp
    from map_of_listed [OF w] Cons.prems(1) have "w \<noteq> lun_wwn l" by (metis distinct.simps(2) list.simps(9) set_map)
    with Cons.IH [OF _ w] Cons.prems(1) False show ?thesis by auto
  qed
qed simp

lemma selected_wwns_all: "selected_wwns (setAllSelected b luns) = (if b then lun_wwn ` set luns else {})"
  by (induction luns) (auto simp: setAllSelected_def)

lemma selected_wwns_keep:
  "selected_wwns (keep_selection cur new) = selected_wwns cur \<inter> lun_wwn ` set new"
  by (induction new) (auto simp: keep_selection_def selected_wwns_def Let_def)

lemma selection_abs_step:
  assumes "distinct (map lun_wwn luns)"
  shows "selection_abs (luns_step g t luns e) = selection_step g t (selection_abs luns) e"
proof (cases e)
  case (SetSelected lun b)
  then show ?thesis
    using find_listed [of "lun_path lun" luns] selected_wwns_select_first [OF assms, of "lun_path lun" _ b]
    by (auto simp: selection_abs_def setSelected_def split: option.splits)
qed (auto simp: selection_abs_def luns_effect_def selected_wwns_keep selected_wwns_all Let_def)

interpretation selection: refined_machine "luns_step g t" "\<lambda>luns. distinct (map lun_wwn luns)"
    selection_abs "selection_step g t" for g t
  by unfold_locales (rule selection_abs_step)

text \<open>The specification has all there is to know of the LUNs: what a claim asks for is a function of it.\<close>

lemma selected_iff_chosen:
  "distinct (map lun_wwn luns) \<Longrightarrow> l \<in> set luns \<Longrightarrow> lun_isSelected l \<longleftrightarrow> lun_wwn l \<in> selected_wwns luns"
proof -
  assume "distinct (map lun_wwn luns)" "l \<in> set luns"
  then have "\<forall>k \<in> set luns. lun_wwn k = lun_wwn l \<longrightarrow> k = l"
    by (auto simp: distinct_map dest: inj_onD)
  with \<open>l \<in> set luns\<close> show ?thesis by (auto simp: selected_wwns_def)
qed

lemma selected_paths_chosen:
  assumes "distinct (map lun_wwn luns)"
  shows "selected_paths luns = map fst (filter (\<lambda>e. snd e \<in> selected_wwns luns) (listed luns))"
proof -
  have "selected_paths luns = map lun_path (filter (\<lambda>l. lun_wwn l \<in> selected_wwns luns) luns)"
    unfolding selected_paths_def using selected_iff_chosen [OF assms] by (metis (mono_tags, lifting) filter_cong)
  then show ?thesis by (simp add: listed_def filter_map comp_def)
qed

lemma selection_run:
  "foldl (selection_step g t) empty_selection es = selection_abs (foldl (luns_step g t) [] es)"
  using selection.abs_run [of "[]" g t es] by (simp add: selection_abs_def empty_selection_def)

subsection \<open>Properties\<close>

text \<open>C20: The state of the LUNs hook refines the specification: after any sequence of data updates and
  clicks the LUNs listed are those offered, and the devices a claim would ask for are the paths of the
  chosen ones, in the order offered; choices of LUNs that are no longer offered are forgotten.\<close>

theorem luns_refine_selection:
  "let luns = foldl (luns_step g t) [] es; q = foldl (selection_step g t) empty_selection es in
     listed luns = offered q \<and>
     selected_paths luns = map fst (filter (\<lambda>e. snd e \<in> chosen q) (offered q)) \<and>
     chosen q \<subseteq> snd ` set (offered q)"
proof -
  have "distinct (map lun_wwn (foldl (luns_step g t) [] es))"
    by (rule luns_machine.run_inv) simp
  then show ?thesis
    unfolding selection_run Let_def
    using selected_paths_chosen selected_wwns_offered by (simp add: selection_abs_def)
qed

end
