(* ===== verification/Js_Regexp.thy ===== *)
theory Js_Regexp
  imports Js_Prelude
begin

section \<open>Anchored regular expressions\<close>

text \<open>
  The two regular expressions of the console are anchored at both ends, use character
  classes, sequence, alternation, \<open>?\<close>, \<open>+\<close> and \<open>*\<close>, and no back references. Such an
  expression matches a string exactly when the string is in its language. \<open>lang\<close> is the
  language, \<open>re_test\<close> an executable matcher by derivatives, and \<open>re_test_iff\<close> says that they
  agree.
\<close>

datatype rexp =
    Nothing
  | Eps
  | Class "char list"
  | Seq rexp rexp
  | Alt rexp rexp
  | Many rexp

definition Opt :: "rexp \<Rightarrow> rexp" where
  "Opt r = Alt r Eps"

definition Some_of :: "rexp \<Rightarrow> rexp" where
  "Some_of r = Seq r (Many r)"

inductive_set repeated :: "string set \<Rightarrow> string set" for A where
  rep_nil: "[] \<in> repeated A"
| rep_more: "u \<in> A \<Longrightarrow> v \<in> repeated A \<Longrightarrow> u @ v \<in> repeated A"

fun lang :: "rexp \<Rightarrow> string set" where
  "lang Nothing = {}"
| "lang Eps = {[]}"
| "lang (Class cs) = {[c] | c. c \<in> set cs}"
| "lang (Seq r q) = {u @ v | u v. u \<in> lang r \<and> v \<in> lang q}"
| "lang (Alt r q) = lang r \<union> lang q"
| "lang (Many r) = repeated (lang r)"

fun has_empty :: "rexp \<Rightarrow> bool" where
  "has_empty Nothing = False"
| "has_empty Eps = True"
| "has_empty (Class cs) = False"
| "has_empty (Seq r q) = (has_empty r \<and> has_empty q)"
| "has_empty (Alt r q) = (has_empty r \<or> has_empty q)"
| "has_empty (Many r) = True"

fun after_char :: "char \<Rightarrow> rexp \<Rightarrow> rexp" where
  "after_char c Nothing = Nothing"
| "after_char c Eps = Nothing"
| "after_char c (Class cs) = (if c \<in> set cs then Eps else Nothing)"
| "after_char c (Seq r q) =
     (let d = Seq (after_char c r) q in if has_empty r then Alt d (after_char c q) else d)"
| "after_char c (Alt r q) = Alt (after_char c r) (after_char c q)"
| "after_char c (Many r) = Seq (after_char c r) (Many r)"

fun re_test :: "rexp \<Rightarrow> string \<Rightarrow> bool" where
  "re_test r [] = has_empty r"
| "re_test r (c # s) = re_test (after_char c r) s"

lemma has_empty_iff: "has_empty r \<longleftrightarrow> [] \<in> lang r"
  by (induction r) (auto intro: rep_nil)

lemma repeated_Cons:
  "c # s \<in> repeated A \<longleftrightarrow> (\<exists>u v. s = u @ v \<and> c # u \<in> A \<and> v \<in> repeated A)" (is "?l \<longleftrightarrow> ?r")
proof
  have "w \<in> repeated A \<Longrightarrow> w = c # s \<Longrightarrow> ?r" for w
    by (induction arbitrary: s rule: repeated.induct) (auto simp: append_eq_Cons_conv)
  then show "?l \<Longrightarrow> ?r" by blast
next
  show "?r \<Longrightarrow> ?l"
    using rep_more [of "c # _" A] by fastforce
qed

lemma lang_after_char: "s \<in> lang (after_char c r) \<longleftrightarrow> c # s \<in> lang r"
proof (induction r arbitrary: s)
  case (Seq r q)
  have "c # s \<in> lang (Seq r q) \<longleftrightarrow>
      (\<exists>u v. s = u @ v \<and> c # u \<in> lang r \<and> v \<in> lang q) \<or> [] \<in> lang r \<and> c # s \<in> lang q"
    by (auto simp: Cons_eq_append_conv)
  with Seq show ?case by (auto simp: Let_def has_empty_iff)
next
  case (Many r)
  then show ?case by (auto simp: repeated_Cons)
qed auto

lemma re_test_iff: "re_test r s \<longleftrightarrow> s \<in> lang r"
  by (induction s arbitrary: r) (simp_all add: has_empty_iff lang_after_char)

subsection \<open>Languages of the shapes the console uses\<close>

lemma lang_SeqI: "u \<in> lang r \<Longrightarrow> v \<in> lang q \<Longrightarrow> u @ v \<in> lang (Seq r q)"
  by auto

lemma lang_Many_Class: "s \<in> lang (Many (Class cs)) \<longleftrightarrow> set s \<subseteq> set cs"
proof (induction s)
  case Nil
  then show ?case by (simp add: rep_nil)
next
  case (Cons c s)
  then show ?case by (auto simp: repeated_Cons)
qed

lemma lang_Seq_Class:
  "s \<in> lang (Seq (Class cs) r) \<longleftrightarrow> (\<exists>c t. s = c # t \<and> c \<in> set cs \<and> t \<in> lang r)"
proof
  assume "\<exists>c t. s = c # t \<and> c \<in> set cs \<and> t \<in> lang r"
  then obtain c t where "s = [c] @ t" "[c] \<in> lang (Class cs)" "t \<in> lang r" by auto
  then show "s \<in> lang (Seq (Class cs) r)" by (simp only: lang_SeqI)
qed auto

lemma lang_Some_Class: "s \<in> lang (Some_of (Class cs)) \<longleftrightarrow> s \<noteq> [] \<and> set s \<subseteq> set cs"
  unfolding Some_of_def lang_Seq_Class lang_Many_Class by (cases s) auto

lemma lang_Opt: "s \<in> lang (Opt r) \<longleftrightarrow> s = [] \<or> s \<in> lang r"
  by (auto simp: Opt_def)


end
