(* ===== verification/Node_Memory.thy ===== *)
theory Node_Memory
  imports Resource_Common Js_Regexp
begin

section \<open>Memory, CPU and role of a node\<close>

text \<open>
  The pure functions at the end of
  \<open>console/src/ui/storage-clusters/view-models/use_storage_clusters_nodes_selection_table_row_view_model.ts\<close>:
  \<open>parseQuantity\<close>, \<open>getMemory\<close>, \<open>getRole\<close> and \<open>getCpu\<close>. A function that returns an \<open>Error\<close> returns
  \<open>Inl\<close>. The \<open>convert\<close> package is third-party: a converter is the pair of its value and its
  unit's name.
\<close>

datatype QuantityDescriptorUnit =
    Unit_m | Unit_B
  | Unit_Ki | Unit_Mi | Unit_Gi | Unit_Ti | Unit_Pi | Unit_Ei
  | Unit_k | Unit_M | Unit_G | Unit_T | Unit_P | Unit_E

record QuantityDescriptor =
  qd_unit :: QuantityDescriptorUnit
  qd_value :: js_number

datatype quantity_input = QuantityNumber js_number | QuantityText string

subsection \<open>The regular expression\<close>

definition digit_re :: rexp where
  "digit_re = Class ''0123456789''"

definition dot_re :: rexp where
  "dot_re = Class ''.''"

definition sign_re :: rexp where
  "sign_re = Class ''+-''"

definition number_re :: rexp where
  "number_re =
     Alt (Some_of digit_re)
       (Alt (Seq (Some_of digit_re) (Seq dot_re (Some_of digit_re)))
         (Alt (Seq dot_re (Some_of digit_re)) (Seq (Some_of digit_re) dot_re)))"

definition suffix_re :: rexp where
  "suffix_re =
     Alt (Class ''mk'')
       (Alt (Seq (Class ''K'') (Class ''i'')) (Seq (Class ''MGTPE'') (Opt (Class ''i''))))"

definition QUANTITY_RE :: rexp where
  "QUANTITY_RE = Seq (Opt sign_re) (Seq number_re (Opt suffix_re))"

text \<open>The source text of the literal, as string concatenation shows it.\<close>

definition QUANTITY_RE_text :: string where
  "QUANTITY_RE_text =
     (let d = [CHR 0x5C, CHR ''d'']; dot = [CHR 0x5C, CHR ''.''] in
      ''/^(?<sign>[+-])?(?<number>'' @ d @ ''+|'' @ d @ ''+'' @ dot @ d @ ''+|'' @ dot @ d @ ''+|'' @ d @ ''+''
      @ dot @ '')(?<suffix>[mk]|Ki|[MGTPE]i?)?$/'')"

text \<open>
  The named groups of a match: the sign, the longest run of digits and dots, the rest. A group
  that takes no part in the match is \<open>None\<close>.
\<close>

definition numeral_char :: "char \<Rightarrow> bool" where
  "numeral_char c \<longleftrightarrow> is_digit c \<or> c = CHR ''.''"

definition split_sign :: "string \<Rightarrow> string option \<times> string" where
  "split_sign s =
     (case s of
        [] \<Rightarrow> (None, [])
      | c # cs \<Rightarrow> if c = CHR ''+'' \<or> c = CHR ''-'' then (Some [c], cs) else (None, s))"

definition quantity_groups :: "string \<Rightarrow> (string option \<times> string \<times> string option) option" where
  "quantity_groups s =
     (let (sign, rest) = split_sign s;
          number = takeWhile numeral_char rest; suffix = dropWhile numeral_char rest
      in if re_test number_re number \<and> re_test (Opt suffix_re) suffix
         then Some (sign, number, if suffix = [] then None else Some suffix)
         else None)"

definition suffix_unit :: "string \<Rightarrow> QuantityDescriptorUnit" where
  "suffix_unit s =
     (if s = ''m'' then Unit_m else if s = ''k'' then Unit_k else if s = ''Ki'' then Unit_Ki
      else if s = ''M'' then Unit_M else if s = ''Mi'' then Unit_Mi else if s = ''G'' then Unit_G
      else if s = ''Gi'' then Unit_Gi else if s = ''T'' then Unit_T else if s = ''Ti'' then Unit_Ti
      else if s = ''P'' then Unit_P else if s = ''Pi'' then Unit_Pi else if s = ''E'' then Unit_E
      else if s = ''Ei'' then Unit_Ei else Unit_B)"

definition parseQuantity :: "quantity_input \<Rightarrow> js_error + QuantityDescriptor" where
  "parseQuantity quantity =
     (case quantity of
        QuantityNumber n \<Rightarrow> Inr \<lparr>qd_unit = Unit_B, qd_value = n\<rparr>
      | QuantityText s \<Rightarrow>
          (case quantity_groups s of
             None \<Rightarrow> Inl (new_Error (''quantities must match the regular expression '' @ QUANTITY_RE_text))
           | Some (sign, number, suffix) \<Rightarrow>
               if number = [] then Inl (new_Error ''unable to parse numeric part of quantity'')
               else (let v = (if CHR ''.'' \<in> set number then js_parseFloat number else js_parseInt number) in
                     case suffix of
                       None \<Rightarrow> Inl (new_Error ''unable to parse quantity's suffix'')
                     | Some sf \<Rightarrow> Inr \<lparr>qd_unit = suffix_unit sf, qd_value = v\<rparr>)))"

subsection \<open>Memory, role and CPU\<close>

fun unit_name :: "QuantityDescriptorUnit \<Rightarrow> string" where
  "unit_name Unit_m = ''m''" | "unit_name Unit_B = ''B''"
| "unit_name Unit_Ki = ''Ki''" | "unit_name Unit_Mi = ''Mi''" | "unit_name Unit_Gi = ''Gi''"
| "unit_name Unit_Ti = ''Ti''" | "unit_name Unit_Pi = ''Pi''" | "unit_name Unit_Ei = ''Ei''"
| "unit_name Unit_k = ''k''" | "unit_name Unit_M = ''M''" | "unit_name Unit_G = ''G''"
| "unit_name Unit_T = ''T''" | "unit_name Unit_P = ''P''" | "unit_name Unit_E = ''E''"

fun adapt_quantity :: "QuantityDescriptor \<Rightarrow> js_number \<times> string" where
  "adapt_quantity q =
     (case qd_unit q of
        Unit_B \<Rightarrow> (qd_value q, ''B'')
      | Unit_E \<Rightarrow> (js_mult (qd_value q) (Finite 1000), ''PB'')
      | Unit_Ei \<Rightarrow> (js_mult (qd_value q) (Finite 1024), ''PiB'')
      | u \<Rightarrow> (qd_value q, unit_name u @ ''B''))"

definition node_capacity :: "Node \<Rightarrow> string \<Rightarrow> string option" where
  "node_capacity node k =
     Option.bind (Option.bind (node_status node) nodeStatus_capacity) (\<lambda>c. obj_get c k)"

definition getMemory :: "Node \<Rightarrow> js_error + (js_number \<times> string)" where
  "getMemory node =
     (case node_capacity node ''memory'' of
        None \<Rightarrow> Inl (new_Error ''node's memory is not available'')
      | Some m \<Rightarrow>
          if m = [] then Inl (new_Error ''node's memory is not available'')
          else (case parseQuantity (QuantityText m) of
                  Inl e \<Rightarrow> Inl e
                | Inr quantity \<Rightarrow> Inr (adapt_quantity quantity)))"

definition getRole :: "Node \<Rightarrow> string" where
  "getRole node =
     (if hasLabel node (WORKER_NODE_ROLE_LABEL @ ''='') then ''worker''
      else if hasLabel node (MASTER_NODE_ROLE_LABEL @ ''='') then ''master''
      else if hasLabel node (CPLANE_NODE_ROLE_LABEL @ ''='') then ''control-plane''
      else VALUE_NOT_AVAILABLE)"

definition getCpu :: "Node \<Rightarrow> string option" where
  "getCpu node = node_capacity node ''cpu''"

subsection \<open>The groups are the match\<close>

lemma digits_lang_iff: "n \<in> lang (Some_of digit_re) \<longleftrightarrow> n \<noteq> [] \<and> list_all is_digit n"
  by (auto simp: digit_re_def lang_Some_Class list_all_iff is_digit_def [abs_def] subset_iff simp del: set_simps)

lemma dot_lang_iff: "n \<in> lang dot_re \<longleftrightarrow> n = ''.''"
  by (auto simp: dot_re_def)

lemma dot_not_digit: "\<not> is_digit CHR ''.''"
  by (simp add: is_digit_def)

text \<open>The four forms of a number.\<close>

lemma number_lang_iff:
  "n \<in> lang number_re \<longleftrightarrow>
     (\<exists>i. n = i \<and> i \<in> lang (Some_of digit_re)) \<or>
     (\<exists>i f. n = i @ ''.'' @ f \<and> i \<in> lang (Some_of digit_re) \<and> f \<in> lang (Some_of digit_re)) \<or>
     (\<exists>f. n = ''.'' @ f \<and> f \<in> lang (Some_of digit_re)) \<or>
     (\<exists>i. n = i @ ''.'' \<and> i \<in> lang (Some_of digit_re))"
  unfolding number_re_def by (auto simp: dot_lang_iff)

lemma number_lang_chars: "n \<in> lang number_re \<Longrightarrow> \<forall>c \<in> set n. numeral_char c"
  unfolding number_lang_iff digits_lang_iff list_all_iff by (auto simp: numeral_char_def)

lemma number_lang_nonempty: "n \<in> lang number_re \<Longrightarrow> n \<noteq> []"
  unfolding number_lang_iff digits_lang_iff by auto

definition suffixes :: "string list" where
  "suffixes = [''m'', ''k'', ''Ki'', ''M'', ''Mi'', ''G'', ''Gi'', ''T'', ''Ti'', ''P'', ''Pi'', ''E'', ''Ei'']"

lemma class_lang_iff: "s \<in> lang (Class cs) \<longleftrightarrow> (\<exists>c \<in> set cs. s = [c])"
  by auto

lemma suffix_lang: "s \<in> lang suffix_re \<longleftrightarrow> s \<in> set suffixes"
proof -
  have K: "s \<in> lang (Seq (Class ''K'') (Class ''i'')) \<longleftrightarrow> s = ''Ki''"
    unfolding lang_Seq_Class class_lang_iff by simp
  have M: "s \<in> lang (Seq (Class ''MGTPE'') (Opt (Class ''i''))) \<longleftrightarrow> (\<exists>c \<in> set ''MGTPE''. s = [c] \<or> s = [c, CHR ''i''])"
    unfolding lang_Seq_Class lang_Opt class_lang_iff by (simp only: set_simps) blast
  have "s \<in> lang suffix_re \<longleftrightarrow>
      (\<exists>c \<in> set ''mk''. s = [c]) \<or> s = ''Ki'' \<or> (\<exists>c \<in> set ''MGTPE''. s = [c] \<or> s = [c, CHR ''i''])"
    unfolding suffix_re_def lang.simps(5) Un_iff K M class_lang_iff ..
  also have "\<dots> \<longleftrightarrow> s \<in> set suffixes"
    by (simp add: suffixes_def)
  finally show ?thesis .
qed

lemma suffix_cases_head: "\<forall>s \<in> set suffixes. s \<noteq> [] \<and> \<not> numeral_char (hd s)"
  by (simp add: suffixes_def numeral_char_def is_digit_def)

lemma suffix_head: "s \<in> lang suffix_re \<Longrightarrow> s \<noteq> [] \<and> \<not> numeral_char (hd s)"
  unfolding suffix_lang using suffix_cases_head by blast

lemma takeWhile_numeral:
  assumes "n \<in> lang number_re" "s \<in> lang (Opt suffix_re)"
  shows "takeWhile numeral_char (n @ s) = n" "dropWhile numeral_char (n @ s) = s"
proof -
  have h: "s = [] \<or> \<not> numeral_char (hd s)"
    using assms(2) suffix_head by (auto simp: lang_Opt)
  have n: "\<And>c. c \<in> set n \<Longrightarrow> numeral_char c"
    using number_lang_chars [OF assms(1)] by blast
  show "takeWhile numeral_char (n @ s) = n"
    using n h by (cases s) (simp_all add: takeWhile_append)
  show "dropWhile numeral_char (n @ s) = s"
    using n h by (cases s) (simp_all add: dropWhile_append)
qed

lemma sign_lang: "g \<in> lang (Opt sign_re) \<longleftrightarrow> g = [] \<or> g = ''+'' \<or> g = ''-''"
  by (auto simp: lang_Opt sign_re_def)

lemma split_sign_append:
  assumes "g \<in> lang (Opt sign_re)" "n \<in> lang number_re"
  shows "split_sign (g @ n @ s) = (if g = [] then None else Some g, n @ s)"
proof -
  obtain c t where n: "n = c # t" "numeral_char c"
    using number_lang_nonempty [OF assms(2)] number_lang_chars [OF assms(2)] by (cases n) auto
  then have "c \<noteq> CHR ''+''" "c \<noteq> CHR ''-''" by (auto simp: numeral_char_def is_digit_def)
  with n assms(1) show ?thesis by (auto simp: sign_lang split_sign_def)
qed

lemma quantity_groups_complete:
  assumes "g \<in> lang (Opt sign_re)" "n \<in> lang number_re" "s \<in> lang (Opt suffix_re)"
  shows "quantity_groups (g @ n @ s) =
     Some (if g = [] then None else Some g, n, if s = [] then None else Some s)"
  using assms by (simp add: quantity_groups_def Let_def split_sign_append takeWhile_numeral re_test_iff)

lemma quantity_groups_sound:
  assumes "quantity_groups t = Some (sg, n, sf)"
  shows "t = nullish sg [] @ n @ nullish sf [] \<and> nullish sg [] \<in> lang (Opt sign_re) \<and>
     n \<in> lang number_re \<and> nullish sf [] \<in> lang (Opt suffix_re)"
proof -
  obtain g r where sp: "split_sign t = (g, r)" by force
  have gr: "t = nullish g [] @ r" "nullish g [] \<in> lang (Opt sign_re)"
    using sp by (auto simp: split_sign_def sign_lang split: list.splits if_splits)
  have sg: "sg = g" and n: "n = takeWhile numeral_char r" "n \<in> lang number_re"
    and sf: "nullish sf [] = dropWhile numeral_char r" "nullish sf [] \<in> lang (Opt suffix_re)"
    using assms sp by (auto simp: quantity_groups_def Let_def re_test_iff simp del: dropWhile_eq_Nil_conv split: if_splits)
  have "t = nullish sg [] @ n @ nullish sf []"
    unfolding gr(1) sg n(1) sf(1) by simp
  with gr(2) n(2) sf(2) show ?thesis unfolding sg by blast
qed

lemma quantity_groups_iff: "quantity_groups t \<noteq> None \<longleftrightarrow> re_test QUANTITY_RE t"
proof
  assume "quantity_groups t \<noteq> None"
  then obtain sg n sf where "quantity_groups t = Some (sg, n, sf)" by auto
  from quantity_groups_sound [OF this] show "re_test QUANTITY_RE t"
    unfolding QUANTITY_RE_def re_test_iff using lang_SeqI by metis
next
  assume "re_test QUANTITY_RE t"
  then obtain g n s where "t = g @ n @ s" "g \<in> lang (Opt sign_re)" "n \<in> lang number_re" "s \<in> lang (Opt suffix_re)"
    unfolding QUANTITY_RE_def re_test_iff lang.simps(4) by auto
  then show "quantity_groups t \<noteq> None" by (simp add: quantity_groups_complete)
qed

subsection \<open>Parsing digits with a suffix\<close>

lemma digits_lang: "ds \<noteq> [] \<Longrightarrow> list_all is_digit ds \<Longrightarrow> ds \<in> lang number_re"
  by (simp add: number_lang_iff digits_lang_iff)

lemma parseQuantity_digits:
  assumes "ds \<noteq> []" "list_all is_digit ds" "sf \<in> lang suffix_re"
  shows "parseQuantity (QuantityText (ds @ sf)) = Inr \<lparr>qd_unit = suffix_unit sf, qd_value = js_parseInt ds\<rparr>"
proof -
  have "sf \<noteq> []" using suffix_head [OF assms(3)] by simp
  moreover have "CHR ''.'' \<notin> set ds"
    using assms(2) dot_not_digit by (auto simp: list_all_iff)
  ultimately show ?thesis
    using quantity_groups_complete [of "[]" ds sf] digits_lang [OF assms(1,2)] assms
    by (simp add: parseQuantity_def lang_Opt Let_def sign_lang)
qed

lemma parseQuantity_plain:
  assumes "n \<in> lang number_re"
  shows "parseQuantity (QuantityText n) = Inl (new_Error ''unable to parse quantity's suffix'')"
  using quantity_groups_complete [of "[]" n "[]"] assms number_lang_nonempty [OF assms]
  by (simp add: parseQuantity_def lang_Opt)

lemma unit_name_suffixes: "\<forall>sf \<in> set suffixes. unit_name (suffix_unit sf) = sf \<and> suffix_unit sf \<noteq> Unit_B"
  by (simp add: suffixes_def suffix_unit_def)

lemma digit_value_nonneg: "is_digit c \<Longrightarrow> 0 \<le> digit_value c"
  by (auto simp: is_digit_def digit_value_def)

lemma decimal_value_nonneg:
  assumes "list_all is_digit s"
  shows "0 \<le> decimal_value s"
proof -
  have "0 \<le> a \<Longrightarrow> 0 \<le> foldl (\<lambda>n c. 10 * n + digit_value c) a s" for a
    using assms by (induction s arbitrary: a) (auto simp: digit_value_nonneg)
  then show ?thesis by (simp add: decimal_value_def)
qed

subsection \<open>Properties\<close>

text \<open>The number of bytes of one unit: of a quantity's suffix, and of the unit names of the \<open>convert\<close>
  package that measure data.\<close>

definition suffix_bytes :: "string \<Rightarrow> rat" where
  "suffix_bytes sf = the (map_of
     [(''k'', 1000), (''M'', 1000 ^ 2), (''G'', 1000 ^ 3), (''T'', 1000 ^ 4), (''P'', 1000 ^ 5), (''E'', 1000 ^ 6),
      (''Ki'', 1024), (''Mi'', 1024 ^ 2), (''Gi'', 1024 ^ 3), (''Ti'', 1024 ^ 4), (''Pi'', 1024 ^ 5),
      (''Ei'', 1024 ^ 6)] sf)"

definition unit_bytes :: "string \<Rightarrow> rat option" where
  "unit_bytes u = map_of
     [(''B'', 1), (''kB'', 1000), (''MB'', 1000 ^ 2), (''GB'', 1000 ^ 3), (''TB'', 1000 ^ 4), (''PB'', 1000 ^ 5),
      (''KiB'', 1024), (''MiB'', 1024 ^ 2), (''GiB'', 1024 ^ 3), (''TiB'', 1024 ^ 4), (''PiB'', 1024 ^ 5)] u"

lemma adapt_bytes:
  "\<forall>sf \<in> set suffixes. sf \<noteq> ''m'' \<longrightarrow>
     (\<exists>f u b. suffix_bytes sf = f * b \<and> unit_bytes u = Some b \<and> (f = 1 \<or> f = 1000 \<or> f = 1024) \<and>
        (\<forall>v. adapt_quantity \<lparr>qd_unit = suffix_unit sf, qd_value = v\<rparr> = (if f = 1 then v else js_mult v (Finite f), u)))"
  by (simp add: suffixes_def suffix_unit_def suffix_bytes_def unit_bytes_def)

lemma js_mult_exact:
  assumes "0 \<le> n" "n < 2 ^ 42" "f = 1 \<or> f = 1000 \<or> f = 1024"
  shows "(if f = 1 then Finite (of_int n) else js_mult (Finite (of_int n)) (Finite f)) = Finite (of_int n * f)"
proof -
  have "js_mult (Finite (of_int n)) (Finite (of_int k)) = Finite (of_int n * of_int k)"
    if "k = 1000 \<or> k = 1024" for k :: int
    using to_double_small_int [of "n * k"] assms(1,2) that by auto
  from this [of 1000] this [of 1024] assms(3) show ?thesis by auto
qed

lemma suffix_lang_of_set: "sf \<in> set suffixes \<Longrightarrow> sf \<in> lang suffix_re"
  by (simp add: suffix_lang)

definition node_with_memory :: "string \<Rightarrow> Node" where
  "node_with_memory m = \<lparr>apiVersion = None, kind = None, metadata = None, node_spec = None,
     node_status = Some \<lparr>nodeStatus_addresses = None, nodeStatus_allocatable = None,
       nodeStatus_capacity = Some [(''memory'', m)], nodeStatus_conditions = None, nodeStatus_config = None,
       nodeStatus_daemonEndpoints = None, nodeStatus_features = None, nodeStatus_images = None,
       nodeStatus_nodeInfo = None, nodeStatus_phase = None, nodeStatus_runtimeHandlers = None,
       nodeStatus_volumesAttached = None, nodeStatus_volumesInUse = None\<rparr>\<rparr>"

lemma node_with_memory_capacity [simp]: "node_capacity (node_with_memory m) ''memory'' = Some m"
  by (simp add: node_with_memory_def node_capacity_def obj_get_def)

text \<open>A quantity text is accepted by the groups exactly when the regular expression matches it, and the
  groups are then the only way to split it into a sign, a number and a suffix, of which the sign and
  the suffix may be missing.\<close>

lemma quantity_match:
  "(\<exists>g. quantity_groups t = Some g) = re_test QUANTITY_RE t \<and>
   (quantity_groups t = Some (sg, n, sf)) =
     (t = nullish sg [] @ n @ nullish sf [] \<and> nullish sg [] \<in> lang (Opt sign_re) \<and>
      n \<in> lang number_re \<and> nullish sf [] \<in> lang (Opt suffix_re) \<and> sg \<noteq> Some [] \<and> sf \<noteq> Some [])"
proof -
  have ne: "sg \<noteq> Some [] \<and> sf \<noteq> Some []" if "quantity_groups t = Some (sg, n, sf)"
    using that by (auto simp: quantity_groups_def split_sign_def Let_def split: list.splits if_splits prod.splits)
  have opt: "(if nullish x [] = [] then None else Some (nullish x [])) = x" if "x \<noteq> Some []" for x :: "string option"
    using that by (cases x) auto
  have complete: "quantity_groups t = Some (sg, n, sf)"
    if "t = nullish sg [] @ n @ nullish sf []" "nullish sg [] \<in> lang (Opt sign_re)" "n \<in> lang number_re"
      "nullish sf [] \<in> lang (Opt suffix_re)" "sg \<noteq> Some []" "sf \<noteq> Some []"
    unfolding that(1) quantity_groups_complete [OF that(2-4)] opt [OF that(5)] opt [OF that(6)] ..
  show ?thesis
  proof (intro conjI)
    show "(\<exists>g. quantity_groups t = Some g) = re_test QUANTITY_RE t"
      by (simp flip: quantity_groups_iff)
    show "(quantity_groups t = Some (sg, n, sf)) =
     (t = nullish sg [] @ n @ nullish sf [] \<and> nullish sg [] \<in> lang (Opt sign_re) \<and>
      n \<in> lang number_re \<and> nullish sf [] \<in> lang (Opt suffix_re) \<and> sg \<noteq> Some [] \<and> sf \<noteq> Some [])"
      using quantity_groups_sound [of t sg n sf] ne complete by blast
  qed
qed

text \<open>C25: The memory of a node, given as an integer with any suffix but \<open>m\<close>, becomes a value and a unit
  that denote the same number of bytes exactly (for integers below \<open>2 ^ 42\<close>, where no rounding
  occurs); the units the converter does not have, exa and exbi, are scaled to peta and pebi.\<close>

theorem memory_bytes_preserved:
  assumes "node_capacity node ''memory'' = Some (ds @ sf)"
    and "ds \<noteq> []" "list_all is_digit ds" "decimal_value ds < 2 ^ 42" "sf \<in> set suffixes" "sf \<noteq> ''m''"
  shows "\<exists>v u b. getMemory node = Inr (Finite v, u) \<and> unit_bytes u = Some b \<and>
     v * b = of_int (decimal_value ds) * suffix_bytes sf"
proof -
  have pos: "0 \<le> decimal_value ds" by (rule decimal_value_nonneg [OF assms(3)])
  then have v: "js_parseInt ds = Finite (of_int (decimal_value ds))"
    using assms(4) by (intro js_parseInt_exact) simp_all
  from bspec [OF adapt_bytes assms(5), THEN mp, OF assms(6)] obtain f u b where
    f: "suffix_bytes sf = f * b" "unit_bytes u = Some b" "f = 1 \<or> f = 1000 \<or> f = 1024"
    and adapt: "\<forall>v. adapt_quantity \<lparr>qd_unit = suffix_unit sf, qd_value = v\<rparr> =
      (if f = 1 then v else js_mult v (Finite f), u)" by (elim exE conjE)
  have "getMemory node = Inr (adapt_quantity \<lparr>qd_unit = suffix_unit sf, qd_value = js_parseInt ds\<rparr>)"
    using assms parseQuantity_digits [OF assms(2,3) suffix_lang_of_set [OF assms(5)]]
    by (simp add: getMemory_def del: adapt_quantity.simps)
  then have "getMemory node = Inr (Finite (of_int (decimal_value ds) * f), u)"
    unfolding adapt [rule_format] v using js_mult_exact [OF pos assms(4) f(3)] by simp
  with f show ?thesis
    by (intro exI [of _ "of_int (decimal_value ds) * f"] exI [of _ u] exI [of _ b]) simp
qed

theorem memory_bytes_preserved_witness:
  "\<exists>v u b. getMemory (node_with_memory ''32773912Ki'') = Inr (Finite v, u) \<and> unit_bytes u = Some b \<and>
     v * b = 32773912 * 1024"
proof -
  have "decimal_value ''32773912'' = 32773912" "list_all is_digit ''32773912''"
    by (simp_all add: decimal_value_def digit_value_def is_digit_def)
  moreover have "node_capacity (node_with_memory ''32773912Ki'') ''memory'' = Some (''32773912'' @ ''Ki'')" by simp
  ultimately show ?thesis
    using memory_bytes_preserved [of "node_with_memory ''32773912Ki''" "''32773912''" "''Ki''"]
    by (simp add: suffixes_def suffix_bytes_def)
qed

text \<open>A plain number of bytes, which Kubernetes allows and the documentation comment of
  \<open>parseQuantity\<close> calls bytes, is refused: with no suffix the result is an error, whatever the
  digits are.\<close>

lemma plain_memory_refused:
  assumes "node_capacity node ''memory'' = Some n" "n \<in> lang number_re"
  shows "getMemory node = Inl (new_Error ''unable to parse quantity's suffix'')"
  using assms parseQuantity_plain [OF assms(2)] number_lang_nonempty [OF assms(2)]
  by (simp add: getMemory_def)

end
