(* ===== verification/Nodes_Selection.thy ===== *)
theory Nodes_Selection
  imports Luns Node_Memory
begin

section \<open>Selecting the storage nodes: the table\<close>

text \<open>
  \<open>use_storage_clusters_nodes_selection_table_view_model.ts\<close> of
  \<open>console/src/ui/storage-clusters/view-models\<close>: which worker nodes are selected, how many disks
  they share, the message under the table, and the effect that enables or disables the button
  and keeps the alert about the minimum requirements.
\<close>

definition selectedNodes :: "Node list \<Rightarrow> Node list" where
  "selectedNodes workerNodes = filter (\<lambda>n. hasLabel n STORAGE_ROLE_LABEL) workerNodes"

definition lvdrs_of_nodes :: "Node list \<Rightarrow> lvdr list \<Rightarrow> lvdr list" where
  "lvdrs_of_nodes nodes lvdrs =
     filter (\<lambda>l. find (\<lambda>n. resource_name n = lvdr_nodeName l) nodes \<noteq> None) lvdrs"

definition wwn_set :: "lvdr \<Rightarrow> string set" where
  "wwn_set l = set (map discoveredDevice_WWN (lvdr_devices l))"

definition sharedDisksCount :: "lvdr list \<Rightarrow> Node list \<Rightarrow> nat" where
  "sharedDisksCount lvdrs selected =
     (let wwnSetsList = map wwn_set (lvdrs_of_nodes selected lvdrs) in
      if length wwnSetsList \<ge> 2 then card (foldl (\<inter>) (hd wwnSetsList) (tl wwnSetsList)) else 0)"

definition number_text :: "nat \<Rightarrow> string" where
  "number_text n = int_to_string (int n)"

definition sharedDisksCountMessage :: "translator \<Rightarrow> nat \<Rightarrow> nat \<Rightarrow> string" where
  "sharedDisksCountMessage tr n s =
     (if n = 0 then tr ''No nodes selected'' []
      else if n = 1 then tr ''{{n}} node selected'' [(''n'', number_text n)]
      else if n \<ge> 2 \<and> s = 1 then
        tr ''{{n}} nodes were selected, sharing {{s}} disk between them''
          [(''n'', number_text n), (''s'', number_text s)]
      else tr ''{{n}} nodes were selected, sharing {{s}} disks between them''
          [(''n'', number_text n), (''s'', number_text s)])"

record TableColumn =
  column_id :: string
  column_title :: string
  column_className :: "string option"

definition node_columns :: "translator \<Rightarrow> TableColumn list" where
  "node_columns tr =
     [\<lparr>column_id = ''checkbox'', column_title = [], column_className = Some ''pf-v6-c-table__check''\<rparr>,
      \<lparr>column_id = ''name'', column_title = tr ''Name'' [], column_className = None\<rparr>,
      \<lparr>column_id = ''role'', column_title = tr ''Role'' [], column_className = Some ''pf-v6-u-text-align-center''\<rparr>,
      \<lparr>column_id = ''cpu'', column_title = tr ''CPU'' [], column_className = Some ''pf-v6-u-text-align-center''\<rparr>,
      \<lparr>column_id = ''memory'', column_title = tr ''Memory'' [], column_className = Some ''pf-v6-u-text-align-center''\<rparr>]"

record nodes_table_vm =
  nt_columns :: "TableColumn list"
  nt_loaded :: bool
  nt_error :: "js_error option"
  nt_workerNodes :: "Node list"
  nt_selectedNodes :: "Node list"
  nt_sharedDisksCount :: nat
  nt_sharedDisksCountMessage :: string

definition nodes_table_view_model :: "translator \<Rightarrow> lvdr repository \<Rightarrow> Node repository \<Rightarrow> nodes_table_vm" where
  "nodes_table_view_model tr lvdrsRepository workerNodesRepository =
     (let sel = selectedNodes (repo_items workerNodesRepository);
          s = sharedDisksCount (repo_items lvdrsRepository) sel in
      \<lparr>nt_columns = node_columns tr,
       nt_loaded = (repo_loaded workerNodesRepository \<and> repo_loaded lvdrsRepository),
       nt_error = js_or (repo_error workerNodesRepository) (repo_error lvdrsRepository),
       nt_workerNodes = repo_items workerNodesRepository,
       nt_selectedNodes = sel, nt_sharedDisksCount = s,
       nt_sharedDisksCountMessage = sharedDisksCountMessage tr (length sel) s\<rparr>)"

subsection \<open>Effects\<close>

definition table_lvdrs_error_effect :: "translator \<Rightarrow> js_error option \<Rightarrow> Actions list" where
  "table_lvdrs_error_effect tr error =
     (case error of
        Some e \<Rightarrow> [AddAlert (error_alert (tr ''Failed to load LocalVolumeDiscoveryResults'' []) e None)]
      | None \<Rightarrow> [])"

definition table_nodes_error_effect :: "translator \<Rightarrow> js_error option \<Rightarrow> Actions list" where
  "table_nodes_error_effect tr error =
     (case error of
        Some e \<Rightarrow> [AddAlert (error_alert (tr ''Failed to load Nodes'' []) e None)]
      | None \<Rightarrow> [])"

definition disable_cta :: "bool \<Rightarrow> Actions" where
  "disable_cta b = UpdateCta \<lparr>isDisabled = Some b, isLoading = None\<rparr>"

definition too_few_disks :: "nat \<Rightarrow> bool" where
  "too_few_disks sharedDisks \<longleftrightarrow> sharedDisks < MINIMUM_AMOUNT_OF_SHARED_DISKS"

definition too_few_nodes :: "nat \<Rightarrow> bool" where
  "too_few_nodes selectedNodesCount \<longleftrightarrow> selectedNodesCount < MINIMUM_AMOUNT_OF_NODES"

definition requirements_alert :: "translator \<Rightarrow> bool \<Rightarrow> bool \<Rightarrow> Alert" where
  "requirements_alert tr c0 c1 =
     \<lparr>alert_key = Some minimum_key, alert_variant = Some AlertWarning,
      alert_title = tr ''Storage cluster requirements'' [],
      alert_description = Some (DescList (filter (\<lambda>d. d \<noteq> [])
        [if c0 then tr ''Selected nodes must share at least {{MINIMUM_AMOUNT_OF_SHARED_DISKS_LITERAL}} disk''
                 [(''MINIMUM_AMOUNT_OF_SHARED_DISKS_LITERAL'', MINIMUM_AMOUNT_OF_SHARED_DISKS_LITERAL tr)]
         else [],
         if c1 then tr ''At least {{MINIMUM_AMOUNT_OF_NODES_LITERAL}} nodes must be selected.''
                 [(''MINIMUM_AMOUNT_OF_NODES_LITERAL'', MINIMUM_AMOUNT_OF_NODES_LITERAL tr)]
         else []])),
      alert_dismiss = Some DispatchDismissAlert\<rparr>"

definition useValidateMinimumRequirements ::
  "translator \<Rightarrow> bool \<Rightarrow> nat \<Rightarrow> nat \<Rightarrow> Alert list \<Rightarrow> Actions list" where
  "useValidateMinimumRequirements tr loaded selectedNodesCount sharedDisks storeAlerts =
     (if \<not> loaded then []
      else (let conditions = [too_few_disks sharedDisks, too_few_nodes selectedNodesCount] in
        if list_ex (\<lambda>c. c) conditions then
          [disable_cta True,
           AddAlert (requirements_alert tr (conditions ! 0) (conditions ! 1))]
        else
          disable_cta False #
          (case Option.bind (find is_minimum_alert storeAlerts) alert_dismiss of
             None \<Rightarrow> [] | Some dismiss \<Rightarrow> [run_callback dismiss])))"

subsection \<open>The requirements alert\<close>

lemma requirements_alert_key [simp]: "is_minimum_alert (requirements_alert tr a b)"
  and requirements_alert_dismiss [simp]: "alert_dismiss (requirements_alert tr a b) = Some DispatchDismissAlert"
  by (simp_all add: is_minimum_alert_def requirements_alert_def)

text \<open>What holds of the store while the table is mounted: the requirements alert comes first and
  can be dismissed.\<close>

definition table_alerts_ok :: "Alert list \<Rightarrow> bool" where
  "table_alerts_ok as \<longleftrightarrow> minimum_alert_first as \<and>
     (\<forall>a \<in> set as. is_minimum_alert a \<longrightarrow> alert_dismiss a = Some DispatchDismissAlert)"

definition requirements_missing :: "nat \<Rightarrow> nat \<Rightarrow> bool" where
  "requirements_missing n s \<longleftrightarrow> too_few_disks s \<or> too_few_nodes n"

lemma validate_missing:
  "requirements_missing n s \<Longrightarrow> useValidateMinimumRequirements tr True n s as =
     [disable_cta True, AddAlert (requirements_alert tr (too_few_disks s) (too_few_nodes n))]"
  by (simp add: useValidateMinimumRequirements_def requirements_missing_def Let_def)

lemma validate_met:
  "\<not> requirements_missing n s \<Longrightarrow> table_alerts_ok as \<Longrightarrow>
     useValidateMinimumRequirements tr True n s as =
       disable_cta False # (if \<exists>a \<in> set as. is_minimum_alert a then [DismissAlert] else [])"
proof -
  assume req: "\<not> requirements_missing n s" and ok: "table_alerts_ok as"
  show ?thesis
  proof (cases "find is_minimum_alert as")
    case None
    then have "\<not> (\<exists>a \<in> set as. is_minimum_alert a)" by (auto simp: find_None_iff)
    with req None show ?thesis
      by (simp add: useValidateMinimumRequirements_def requirements_missing_def Let_def)
  next
    case (Some a)
    then have "is_minimum_alert a" "a \<in> set as" using find_Some_D [OF Some] by auto
    with ok have "alert_dismiss a = Some DispatchDismissAlert" by (auto simp: table_alerts_ok_def)
    with req Some \<open>is_minimum_alert a\<close> \<open>a \<in> set as\<close> show ?thesis
      by (auto simp: useValidateMinimumRequirements_def requirements_missing_def Let_def)
  qed
qed

lemma first_alert_minimum:
  "minimum_alert_first as \<Longrightarrow> (\<exists>a \<in> set as. is_minimum_alert a) \<longleftrightarrow> as \<noteq> [] \<and> is_minimum_alert (hd as)"
  by (cases as) (auto simp: minimum_alert_first_def)

lemma filter_not_minimum:
  "minimum_alert_first as \<Longrightarrow>
     filter (\<lambda>a. \<not> is_minimum_alert a) as = (if as \<noteq> [] \<and> is_minimum_alert (hd as) then tl as else as)"
  by (cases as) (auto simp: minimum_alert_first_def intro!: filter_True)

text \<open>The effect on the store: the button follows the requirements, and the requirements alert is
  there exactly when they are missing; every other alert stays.\<close>

lemma validate_store:
  assumes ok: "table_alerts_ok (alerts st)"
  shows "dispatch_all st (useValidateMinimumRequirements tr True n s (alerts st)) =
     Inr (st\<lparr>cta := (cta st)\<lparr>isDisabled := Some (requirements_missing n s)\<rparr>,
             alerts := (if requirements_missing n s
                        then [requirements_alert tr (too_few_disks s) (too_few_nodes n)] else [])
                       @ filter (\<lambda>a. \<not> is_minimum_alert a) (alerts st)\<rparr>)"
proof (cases "requirements_missing n s")
  case True
  with ok show ?thesis
    by (simp add: validate_missing disable_cta_def spread_cta_def table_alerts_ok_def
        add_alert_minimum filter_not_minimum split: option.splits)
next
  case False
  have first: "minimum_alert_first (alerts st)" using ok by (simp add: table_alerts_ok_def)
  show ?thesis
    using False ok first_alert_minimum [OF first] filter_not_minimum [OF first]
    by (auto simp: validate_met disable_cta_def spread_cta_def split: option.splits)
qed

lemma table_alerts_ok_unkeyed:
  assumes "\<forall>a \<in> set as. \<not> is_minimum_alert a"
  shows "table_alerts_ok as" "table_alerts_ok (requirements_alert tr c d # as)"
proof -
  have "set (tl as) \<subseteq> set as" by (cases as) auto
  with assms show "table_alerts_ok as" "table_alerts_ok (requirements_alert tr c d # as)"
    by (auto simp: table_alerts_ok_def minimum_alert_first_def)
qed

lemma table_alerts_ok_after:
  "table_alerts_ok ((if b then [requirements_alert tr c d] else []) @ filter (\<lambda>a. \<not> is_minimum_alert a) as)"
  using table_alerts_ok_unkeyed [of "filter (\<lambda>a. \<not> is_minimum_alert a) as"] by (cases b) simp_all

subsection \<open>Counting shared disks\<close>

lemma foldl_inter: "foldl (\<inter>) A Bs = A \<inter> (\<Inter> (set Bs))"
  by (induction Bs arbitrary: A) auto

lemma inter_all:
  "xs \<noteq> [] \<Longrightarrow> foldl (\<inter>) (hd xs) (tl xs) = (\<Inter> (set xs))"
  by (cases xs) (simp_all add: foldl_inter)

lemma wwn_set_reported: "wwn_set l = reported_wwns l"
  by (simp add: wwn_set_def reported_wwns_def)

lemma shared_wwns_inter:
  assumes "wwns_once ls" "ls \<noteq> []"
  shows "(\<Inter> (set (map wwn_set ls))) = discoveredDevice_WWN ` set (getSharedDiscoveredDevicesRepresentatives ls)"
proof -
  have "w \<in> discoveredDevice_WWN ` set (getSharedDiscoveredDevicesRepresentatives ls) \<longleftrightarrow>
      (\<forall>l \<in> set ls. w \<in> wwn_set l)" for w
    using shared_wwn_iff [of w ls] report_count_all [OF assms(1), of w] assms(2)
    by (simp add: wwn_set_reported)
  then show ?thesis by auto
qed

lemma sharedDisksCount_eq:
  assumes "wwns_once (lvdrs_of_nodes selected lvdrs)" "2 \<le> length (lvdrs_of_nodes selected lvdrs)"
  shows "sharedDisksCount lvdrs selected =
     length (getSharedDiscoveredDevicesRepresentatives (lvdrs_of_nodes selected lvdrs))"
proof -
  let ?ls = "lvdrs_of_nodes selected lvdrs"
  have ne: "?ls \<noteq> []" using assms(2) by auto
  have "sharedDisksCount lvdrs selected = card (\<Inter> (set (map wwn_set ?ls)))"
    using assms(2) ne by (simp add: sharedDisksCount_def Let_def inter_all)
  also have "\<dots> = card (set (map discoveredDevice_WWN (getSharedDiscoveredDevicesRepresentatives ?ls)))"
    using shared_wwns_inter [OF assms(1) ne] by simp
  also have "\<dots> = length (getSharedDiscoveredDevicesRepresentatives ?ls)"
    using distinct_card [OF distinct_representatives [of ?ls]] by simp
  finally show ?thesis .
qed

subsection \<open>Properties\<close>

text \<open>
  The store while the table is mounted: the counts change, an alert without a key is added (every
  other alert of the code has none), the shown alert is dismissed, the button's loading flag changes.
\<close>

datatype table_event =
    CountsChanged nat nat
  | AlertAdded Alert
  | AlertDismissed
  | LoadingChanged bool

fun table_actions :: "translator \<Rightarrow> State \<Rightarrow> table_event \<Rightarrow> Actions list" where
  "table_actions tr st (CountsChanged n s) = useValidateMinimumRequirements tr True n s (alerts st)"
| "table_actions tr st (AlertAdded a) = [AddAlert (a\<lparr>alert_key := None\<rparr>)]"
| "table_actions tr st AlertDismissed = [DismissAlert]"
| "table_actions tr st (LoadingChanged b) = [UpdateCta \<lparr>isDisabled = None, isLoading = Some b\<rparr>]"

definition table_step :: "translator \<Rightarrow> State \<Rightarrow> table_event \<Rightarrow> State" where
  "table_step tr st e = foldl reduce_or_keep st (table_actions tr st e)"

lemma table_step_counts:
  assumes "table_alerts_ok (alerts st)"
  shows "table_step tr st (CountsChanged n s) =
     st\<lparr>cta := (cta st)\<lparr>isDisabled := Some (requirements_missing n s)\<rparr>,
        alerts := (if requirements_missing n s
                   then [requirements_alert tr (too_few_disks s) (too_few_nodes n)] else [])
                  @ filter (\<lambda>a. \<not> is_minimum_alert a) (alerts st)\<rparr>"
  using dispatch_all_run [OF validate_store [OF assms, of tr n s]] by (simp add: table_step_def)

lemma unkeyed_not_minimum [simp]: "\<not> is_minimum_alert (a\<lparr>alert_key := None\<rparr>)"
  by (simp add: is_minimum_alert_def)

lemma table_alerts_ok_add: "table_alerts_ok as \<Longrightarrow> table_alerts_ok (add_alert (a\<lparr>alert_key := None\<rparr>) as)"
  using add_alert_first [of as "a\<lparr>alert_key := None\<rparr>"] by (auto simp: table_alerts_ok_def add_alert_other)

lemma table_alerts_ok_tl: "table_alerts_ok as \<Longrightarrow> table_alerts_ok (tl as)"
proof -
  assume "table_alerts_ok as"
  then have "\<forall>a \<in> set (tl as). \<not> is_minimum_alert a"
    by (simp add: table_alerts_ok_def minimum_alert_first_def)
  then show ?thesis by (rule table_alerts_ok_unkeyed)
qed

lemma table_step_ok: "table_alerts_ok (alerts st) \<Longrightarrow> table_alerts_ok (alerts (table_step tr st e))"
proof (cases e)
  case (CountsChanged n s)
  assume "table_alerts_ok (alerts st)"
  then show ?thesis unfolding CountsChanged by (simp add: table_step_counts table_alerts_ok_after)
qed (simp_all add: table_step_def reduce_or_keep_def table_alerts_ok_add table_alerts_ok_tl)

interpretation table_machine: machine "table_step tr" "\<lambda>st. table_alerts_ok (alerts st)" for tr
  by unfold_locales (rule table_step_ok)

text \<open>C9: Whatever happened on the page before, after the counts of selected nodes and shared disks were
  last validated the create button is disabled exactly when fewer than three nodes are selected or
  they share no disk, and the alert about the requirements is the first alert exactly then, and
  nowhere in the queue otherwise.\<close>

theorem requirements_enforced:
  "let st = foldl (table_step tr) (initialState tr) (es @ [CountsChanged n s]) in
     isDisabled (cta st) = Some (n < 3 \<or> s < 1) \<and>
     (\<exists>a \<in> set (alerts st). is_minimum_alert a) = (n < 3 \<or> s < 1) \<and>
     (alerts st \<noteq> [] \<and> is_minimum_alert (hd (alerts st))) = (n < 3 \<or> s < 1)"
proof -
  have "table_alerts_ok (alerts (initialState tr))"
    by (simp add: initialState_def table_alerts_ok_def minimum_alert_first_def)
  then have ok: "table_alerts_ok (alerts (foldl (table_step tr) (initialState tr) es))"
    by (rule table_machine.run_inv)
  have missing: "requirements_missing n s = (n < 3 \<or> s < 1)"
    by (auto simp: requirements_missing_def too_few_disks_def too_few_nodes_def
        MINIMUM_AMOUNT_OF_NODES_def MINIMUM_AMOUNT_OF_SHARED_DISKS_def)
  have none: "\<not> (as \<noteq> [] \<and> is_minimum_alert (hd as))" if "\<forall>a \<in> set as. \<not> is_minimum_alert a" for as
    using that by (cases as) auto
  show ?thesis
    using none [of "filter (\<lambda>a. \<not> is_minimum_alert a) (alerts (foldl (table_step tr) (initialState tr) es))"]
    by (simp add: table_step_counts [OF ok] missing)
qed

text \<open>C32: The number of shared disks under the table is the length of the list of LUNs made for the same nodes and
  no LocalDisks, when no discovery result has a WWN twice and at least two of the selected nodes' discovery
  results are there. The form offers fewer when LocalDisks use some of them.\<close>

theorem shared_disks_are_luns:
  assumes "wwns_once (lvdrs_of_nodes selected lvdrs)" "2 \<le> length (lvdrs_of_nodes selected lvdrs)"
  shows "sharedDisksCount lvdrs selected = length (makeLuns g t (lvdrs_of_nodes selected lvdrs) [])"
  using sharedDisksCount_eq [OF assms] by (simp add: makeLuns_def outDevicesUsedByLocalDisks_def)

definition example_node :: "string \<Rightarrow> string js_object \<Rightarrow> Node" where
  "example_node name labels = \<lparr>apiVersion = None, kind = None,
     metadata = Some (empty_meta\<lparr>objectMeta_name := Some name, objectMeta_labels := Some labels\<rparr>),
     node_spec = None, node_status = None\<rparr>"

theorem shared_disks_are_luns_witness:
  "sharedDisksCount example_lvdrs [example_node ''n0'' [], example_node ''n1'' []] =
     length (makeLuns (\<lambda>x u v. x) (\<lambda>_. []) example_lvdrs [])"
proof -
  have "lvdrs_of_nodes [example_node ''n0'' [], example_node ''n1'' []] example_lvdrs = example_lvdrs"
    by (simp add: lvdrs_of_nodes_def example_lvdrs_def example_node_def resource_name_def)
  moreover have "2 \<le> length example_lvdrs" by (simp add: example_lvdrs_def)
  ultimately show ?thesis
    using shared_disks_are_luns [of "[example_node ''n0'' [], example_node ''n1'' []]" example_lvdrs "\<lambda>x u v. x" "\<lambda>_. []"]
      example_wwns_once by simp
qed

text \<open>The storage cluster that is created runs its daemons on exactly the nodes the user selected: a
  worker node is selected when its labels match the node selector of the request.\<close>

lemma cluster_runs_on_selected_nodes:
  "\<exists>spec d sel. cluster_spec storage_cluster_request = Some spec \<and> clusterSpec_daemon spec = Some d \<and>
     clusterSpecDaemon_nodeSelector d = Some sel \<and>
     (\<forall>n. n \<in> set (selectedNodes workers) \<longleftrightarrow> n \<in> set workers \<and> matches_labels n sel)"
proof -
  have sel: "storage_nodeSelector = [(label_key STORAGE_ROLE_LABEL, nullish (label_value STORAGE_ROLE_LABEL) ''undefined'')]"
    by (simp add: storage_nodeSelector_def obj_from_entries_distinct)
  have "n \<in> set (selectedNodes workers) \<longleftrightarrow> n \<in> set workers \<and> matches_labels n storage_nodeSelector" for n
    by (auto simp: selectedNodes_def sel matches_labels_def hasLabel_match [OF storage_role_label_has_eq])
  then show ?thesis
    by (auto simp: storage_cluster_request_def)
qed

end
