(* ===== verification/Number_Bounds.thy ===== *)
theory Number_Bounds
  imports Nodes_Selection
begin

section \<open>Bounds: rounding of numbers, and counts\<close>

text \<open>
  How far the doubles the console computes with are from the numbers they stand for: quantities read
  from text, the memory of a node, and the capacity a LUN shows. And bounds on the counts of LUNs and
  shared disks.
\<close>

subsection \<open>Rounding to a double\<close>

lemma round_half_even_error: "\<bar>of_int (round_half_even q) - q\<bar> \<le> 1 / 2"
proof -
  have "of_int \<lfloor>q\<rfloor> \<le> q" "q < of_int \<lfloor>q\<rfloor> + 1" by linarith+
  then show ?thesis
    by (auto simp: round_half_even_def Let_def abs_le_iff not_less field_simps)
qed

lemma pow2_powi: "pow2 e = 2 powi e"
  by (simp add: pow2_def power_int_def power_one_over inverse_eq_divide)

lemma pow2_diff: "pow2 (a - b) = pow2 a / pow2 b"
  by (simp add: pow2_powi power_int_diff)

lemma pow2_of_nat: "pow2 (int n) = 2 ^ n"
  by (simp add: pow2_def)

lemma pow2_less_iff: "pow2 a < pow2 b \<longleftrightarrow> a < b"
proof -
  have "pow2 i < pow2 j" if "i < j" for i j
    using that by (simp add: pow2_powi power_int_strict_increasing)
  then show ?thesis by (metis less_asym linorder_neqE)
qed

lemma bit_count_quotient:
  assumes "0 < n" "0 < d"
  shows "pow2 (int (bit_count n) - int (bit_count d) - 1) \<le> of_int n / of_int d"
    "of_int n / of_int d < pow2 (int (bit_count n) - int (bit_count d) + 1)"
proof -
  obtain j k where jk: "bit_count n = Suc j" "bit_count d = Suc k"
    using bit_count_pos assms by (metis Suc_pred)
  have n: "2 ^ j \<le> n" "n < 2 ^ Suc j" and d: "2 ^ k \<le> d" "d < 2 ^ Suc k"
    using bit_count_bounds [OF assms(1)] bit_count_bounds [OF assms(2)] jk by simp_all
  have n': "(2::rat) ^ j \<le> of_int n" "(of_int n :: rat) < 2 ^ Suc j"
    using of_int_le_iff [of "2 ^ j" n, where 'a = rat] of_int_less_iff [of n "2 ^ Suc j", where 'a = rat] n
    by simp_all
  have d': "(2::rat) ^ k \<le> of_int d" "(of_int d :: rat) < 2 ^ Suc k"
    using of_int_le_iff [of "2 ^ k" d, where 'a = rat] of_int_less_iff [of d "2 ^ Suc k", where 'a = rat] d
    by simp_all
  have "pow2 (int (bit_count n) - int (bit_count d) - 1) = 2 ^ j / 2 ^ Suc k"
    using pow2_diff [of "int j" "int (Suc k)"] by (simp add: jk pow2_of_nat del: power_Suc of_nat_Suc) (simp add: algebra_simps)
  moreover have "(2::rat) ^ j / 2 ^ Suc k \<le> of_int n / of_int d"
    using n' d' assms by (intro frac_le) auto
  ultimately show "pow2 (int (bit_count n) - int (bit_count d) - 1) \<le> of_int n / of_int d" by simp
  have "pow2 (int (bit_count n) - int (bit_count d) + 1) = 2 ^ Suc j / 2 ^ k"
    using pow2_diff [of "int (Suc j)" "int k"] by (simp add: jk pow2_of_nat del: power_Suc of_nat_Suc) (simp add: algebra_simps)
  moreover have "(of_int n :: rat) / of_int d < 2 ^ Suc j / 2 ^ k"
    using n' d' assms by (intro frac_less) auto
  ultimately show "of_int n / of_int d < pow2 (int (bit_count n) - int (bit_count d) + 1)" by simp
qed

lemma binary_exponent_bounds:
  assumes "0 < q"
  shows "pow2 (binary_exponent q) \<le> q" "q < pow2 (binary_exponent q + 1)"
proof -
  obtain n d where q: "quotient_of q = (n, d)" by (cases "quotient_of q")
  then have qe: "q = of_int n / of_int d" and d: "0 < d"
    by (simp_all add: quotient_of_div quotient_of_denom_pos)
  with assms have n: "0 < n" by (simp add: zero_less_divide_iff)
  note b = bit_count_quotient [OF n d, folded qe]
  show "pow2 (binary_exponent q) \<le> q" "q < pow2 (binary_exponent q + 1)"
    using b q by (auto simp: binary_exponent_def Let_def algebra_simps)
qed

text \<open>A normal number below half the largest double is rounded with a relative error of at most
  \<open>2 ^ -53\<close>.\<close>

lemma to_double_error:
  assumes "pow2 (-1022) \<le> q" "q \<le> 2 ^ 1023"
  shows "\<exists>v. to_double q = Finite v \<and> \<bar>v - q\<bar> \<le> q / 2 ^ 53"
proof -
  have pos: "0 < q" using assms(1) pow2_pos [of "-1022"] by linarith
  define e where "e = binary_exponent q"
  have "pow2 (-1022) < pow2 (e + 1)"
    using binary_exponent_bounds(2) [OF pos] assms(1) by (simp add: e_def)
  then have "-1022 \<le> e" by (simp add: pow2_less_iff)
  then have u: "pow2 (max (e - 52) (-1074)) = pow2 e / 2 ^ 52" (is "?u = _")
    using pow2_diff [of e 52] by (simp add: pow2_def)
  have up: "0 < ?u" by (rule pow2_pos)
  have uq: "?u \<le> q / 2 ^ 52"
    using binary_exponent_bounds(1) [OF pos] by (simp add: u divide_right_mono flip: e_def)
  define v where "v = of_int (round_half_even (q / ?u)) * ?u"
  have "v - q = (of_int (round_half_even (q / ?u)) - q / ?u) * ?u"
    using up by (simp add: v_def field_simps)
  then have "\<bar>v - q\<bar> = \<bar>of_int (round_half_even (q / ?u)) - q / ?u\<bar> * ?u"
    using up by (simp add: abs_mult)
  also have "\<dots> \<le> 1 / 2 * (q / 2 ^ 52)"
    using round_half_even_error up uq by (intro mult_mono) auto
  finally have err: "\<bar>v - q\<bar> \<le> q / 2 ^ 53" by simp
  have "q / 2 ^ 53 < q" using pos by (simp add: divide_less_eq)
  then have "v < q + q" using err unfolding abs_le_iff by linarith
  also have "\<dots> \<le> 2 ^ 1023 + 2 ^ 1023" using assms(2) by (rule add_mono [OF _ assms(2)])
  also have "\<dots> = double_limit" by (simp add: double_limit_def)
  finally have "v < double_limit" .
  with pos err show ?thesis
    by (intro exI [of _ v]) (simp add: to_double_def Let_def v_def e_def)
qed

subsection \<open>Decimal text\<close>

lemma decimal_value_snoc: "decimal_value (s @ [c]) = 10 * decimal_value s + digit_value c"
  by (simp add: decimal_value_def)

lemma digit_char_values: "0 \<le> d \<Longrightarrow> d < 10 \<Longrightarrow> digit_value (digit_char d) = d \<and> is_digit (digit_char d)"
proof -
  assume "0 \<le> d" "d < 10"
  then have "d = 0 \<or> d = 1 \<or> d = 2 \<or> d = 3 \<or> d = 4 \<or> d = 5 \<or> d = 6 \<or> d = 7 \<or> d = 8 \<or> d = 9"
    by presburger
  then show ?thesis by (elim disjE) (simp_all add: digit_value_def digit_char_def is_digit_def)
qed

text \<open>Printing a natural number and reading it back.\<close>

lemma int_to_string_digits:
  "0 \<le> n \<Longrightarrow> decimal_value (int_to_string n) = n \<and> list_all is_digit (int_to_string n)"
proof (induction n rule: int_to_string.induct)
  case (1 n)
  show ?case
  proof (cases "n < 10")
    case True
    with "1.prems" digit_char_values [of n] show ?thesis
      by (simp add: int_to_string.simps decimal_value_def)
  next
    case False
    with 1 digit_char_values [of "n mod 10"] show ?thesis
      by (subst (1 2) int_to_string.simps) (simp add: decimal_value_snoc)
  qed
qed

lemma digits_no_dot: "list_all is_digit s \<Longrightarrow> takeWhile (\<lambda>c. c \<noteq> CHR ''.'') (s @ CHR ''.'' # t) = s"
  by (induction s) (auto simp: is_digit_def)

lemma decimal_rat_dot:
  "list_all is_digit s \<Longrightarrow>
     decimal_rat (s @ CHR ''.'' # t) = of_int (decimal_value s) + of_int (decimal_value t) / 10 ^ length t"
  by (simp add: decimal_rat_def Let_def digits_no_dot)

lemma toFixed2_error:
  assumes "0 \<le> q" "q < 10 ^ 21"
  shows "\<bar>decimal_rat (js_toFixed2 to_text (Finite q)) - q\<bar> \<le> 1 / 200"
proof -
  define n where "n = \<lfloor>q * 100 + 1 / 2\<rfloor>"
  have n: "0 \<le> n" "of_int n \<le> q * 100 + 1 / 2" "q * 100 + 1 / 2 < of_int n + 1"
    using assms(1) unfolding n_def by (simp, linarith+)
  have f: "0 \<le> n mod 100 div 10" "n mod 100 div 10 < 10" "0 \<le> n mod 100 mod 10" "n mod 100 mod 10 < 10"
    using pos_mod_bound [of 100 n] by (auto simp del: pos_mod_bound)
  have v: "decimal_value [digit_char (n mod 100 div 10), digit_char (n mod 100 mod 10)] = n mod 100"
    using digit_char_values [OF f(1,2)] digit_char_values [OF f(3,4)] by (simp add: decimal_value_def)
  have "js_toFixed2 to_text (Finite q) =
      int_to_string (n div 100) @ CHR ''.'' # [digit_char (n mod 100 div 10), digit_char (n mod 100 mod 10)]"
    using assms(2) by (simp add: js_toFixed2_def Let_def n_def)
  then have "decimal_rat (js_toFixed2 to_text (Finite q)) = of_int (n div 100) + of_int (n mod 100) / 100"
    using int_to_string_digits [of "n div 100"] n(1) by (simp add: decimal_rat_dot v)
  also have "\<dots> = of_int n / 100"
  proof -
    have "of_int n = 100 * (of_int (n div 100) :: rat) + of_int (n mod 100)"
      by (metis mult_div_mod_eq of_int_add of_int_mult of_int_numeral)
    then show ?thesis by simp
  qed
  finally show ?thesis using n(2,3) unfolding abs_le_iff by linarith
qed

subsection \<open>Quantities\<close>

text \<open>The number a numeral of a quantity denotes.\<close>

definition numeral_rat :: "string \<Rightarrow> rat" where
  "numeral_rat n = (if CHR ''.'' \<in> set n then decimal_rat n else of_int (decimal_value n))"

lemma parseQuantity_value:
  assumes "n \<in> lang number_re" "sf \<in> lang suffix_re"
  shows "parseQuantity (QuantityText (n @ sf)) =
     Inr \<lparr>qd_unit = suffix_unit sf, qd_value = to_double (numeral_rat n)\<rparr>"
proof -
  have "sf \<noteq> []" using suffix_head [OF assms(2)] by simp
  then show ?thesis
    using quantity_groups_complete [of "[]" n sf] number_lang_nonempty [OF assms(1)] assms
    by (simp add: parseQuantity_def numeral_rat_def js_parseInt_def js_parseFloat_def lang_Opt sign_lang)
qed

lemma js_mult_error:
  assumes "pow2 (-1000) \<le> a" "a \<le> 2 ^ 1000" "f = 1000 \<or> f = 1024"
  shows "\<exists>v. js_mult (Finite a) (Finite f) = Finite v \<and> \<bar>v - a * f\<bar> \<le> a * f / 2 ^ 53"
proof -
  have "0 < a" using assms(1) pow2_pos [of "-1000"] by linarith
  then have "a \<le> a * f" "a * f \<le> a * 1024" using assms(3) by auto
  moreover have "a * 1024 \<le> 2 ^ 1000 * 1024" using assms(2) by simp
  moreover have "pow2 (-1022) < pow2 (-1000)" by (simp add: pow2_less_iff)
  ultimately have "pow2 (-1022) \<le> a * f" "a * f \<le> 2 ^ 1023" using assms(1) by simp_all
  then show ?thesis using to_double_error [of "a * f"] by simp
qed

lemma product_rounding:
  fixes q f x v :: rat
  assumes "0 < q" "1 \<le> f" "\<bar>x - q\<bar> \<le> q / 2 ^ 53" "x \<le> q + q / 2" "\<bar>v - x * f\<bar> \<le> x * f / 2 ^ 53"
  shows "\<bar>v - q * f\<bar> \<le> q * f / 2 ^ 51"
proof -
  have "x * f / 2 ^ 53 \<le> (q + q / 2) * f / 2 ^ 53"
    using assms(2,4) by (intro divide_right_mono mult_right_mono) simp_all
  moreover have "\<bar>x - q\<bar> * f \<le> q / 2 ^ 53 * f"
    using assms(2,3) by (intro mult_right_mono) simp_all
  moreover have "\<bar>v - q * f\<bar> \<le> \<bar>v - x * f\<bar> + \<bar>x - q\<bar> * f"
  proof -
    have "v - q * f = (v - x * f) + (x - q) * f" by (simp add: algebra_simps)
    then show ?thesis using abs_triangle_ineq [of "v - x * f" "(x - q) * f"] assms(2) by (simp add: abs_mult)
  qed
  ultimately have "\<bar>v - q * f\<bar> \<le> (q + q / 2) * f / 2 ^ 53 + q / 2 ^ 53 * f"
    using assms(5) by linarith
  also have "\<dots> \<le> q * f / 2 ^ 51"
    using assms(1,2) by (simp add: field_simps)
  finally show ?thesis .
qed

lemma adapt_rounding:
  assumes "pow2 (-999) \<le> q" "q \<le> 2 ^ 999" "f = 1 \<or> f = 1000 \<or> f = 1024"
  shows "\<exists>v. (if f = 1 then to_double q else js_mult (to_double q) (Finite f)) = Finite v \<and>
     \<bar>v - q * f\<bar> \<le> q * f / 2 ^ 51"
proof -
  have q: "0 < q" using assms(1) pow2_pos [of "-999"] by linarith
  have f: "1 \<le> f" using assms(3) by auto
  have "pow2 (-1022) < pow2 (-999)" by (simp add: pow2_less_iff)
  moreover have "(2::rat) ^ 999 \<le> 2 ^ 1023" by (rule power_increasing) simp_all
  ultimately obtain x where x: "to_double q = Finite x" "\<bar>x - q\<bar> \<le> q / 2 ^ 53"
    using to_double_error [of q] assms(1,2) by (meson le_less_trans less_le_trans order_trans less_imp_le)
  have half: "q / 2 ^ 53 \<le> q / 2" using q by simp
  have xb: "q / 2 \<le> x" "x \<le> q + q / 2"
    using x(2) half unfolding abs_le_iff by linarith+
  show ?thesis
  proof (cases "f = 1")
    case True
    have "q / 2 ^ 53 \<le> q / 2 ^ 51" using q by simp
    with True x show ?thesis by force
  next
    case False
    have "pow2 (-1000) = pow2 (-999) / 2"
      using pow2_diff [of "-999" 1] by (simp add: pow2_def)
    then have "pow2 (-1000) \<le> x" using xb(1) assms(1) by linarith
    moreover have "(2::rat) ^ 1000 = 2 ^ 999 * 2" by simp
    then have "x \<le> 2 ^ 1000" using xb(2) assms(2) q by linarith
    ultimately obtain v where v: "js_mult (Finite x) (Finite f) = Finite v" "\<bar>v - x * f\<bar> \<le> x * f / 2 ^ 53"
      using js_mult_error [of x f] False assms(3) by blast
    from product_rounding [OF q f x(2) xb(2) v(2)] show ?thesis using v(1) x(1) False by auto
  qed
qed

lemma suffix_bytes_pos: "\<forall>sf \<in> set suffixes. sf \<noteq> ''m'' \<longrightarrow> 0 < suffix_bytes sf"
  by (simp add: suffixes_def suffix_bytes_def)

subsection \<open>Counting\<close>

text \<open>Keys cannot share an element, so their occurrences together are at most the elements.\<close>

lemma sum_occurrences:
  "finite W \<Longrightarrow> (\<Sum>w \<in> W. length (filter (\<lambda>x. f x = w) xs)) \<le> length xs"
proof (induction xs)
  case (Cons x xs)
  have "(\<Sum>w \<in> W. length (filter (\<lambda>y. f y = w) (x # xs))) =
      (\<Sum>w \<in> W. (if f x = w then 1 else 0) + length (filter (\<lambda>y. f y = w) xs))"
    by (rule sum.cong) simp_all
  also have "\<dots> = (if f x \<in> W then 1 else 0) + (\<Sum>w \<in> W. length (filter (\<lambda>y. f y = w) xs))"
    using Cons.prems by (simp add: sum.distrib)
  finally show ?case using Cons by simp
qed simp

lemma luns_times_nodes:
  "length (makeLuns g t ls disks) * length ls \<le> length (concat (map lvdr_devices ls))"
proof -
  let ?W = "lun_wwn ` set (makeLuns g t ls disks)"
  have count: "report_count w ls = length ls" if "w \<in> ?W" for w
    using that by (simp add: makeLuns_wwns shared_wwn_iff)
  have "length (makeLuns g t ls disks) * length ls = (\<Sum>w \<in> ?W. length ls)"
    using distinct_card [OF distinct_makeLuns [of g t ls disks]] by simp
  also have "\<dots> = (\<Sum>w \<in> ?W. report_count w ls)"
    by (rule sum.cong) (simp_all add: count)
  also have "\<dots> \<le> length (concat (map lvdr_devices ls))"
    unfolding report_count_def by (rule sum_occurrences) simp
  finally show ?thesis .
qed

lemma shared_count_le:
  assumes "l \<in> set (lvdrs_of_nodes selected lvdrs)"
  shows "sharedDisksCount lvdrs selected \<le> card (reported_wwns l)"
proof -
  let ?sets = "map wwn_set (lvdrs_of_nodes selected lvdrs)"
  have "?sets \<noteq> []" using assms by auto
  then have "foldl (\<inter>) (hd ?sets) (tl ?sets) \<subseteq> wwn_set l"
    using assms unfolding inter_all [OF \<open>?sets \<noteq> []\<close>] by auto
  then have "card (foldl (\<inter>) (hd ?sets) (tl ?sets)) \<le> card (reported_wwns l)"
    unfolding wwn_set_reported by (intro card_mono) (simp_all add: reported_wwns_def)
  then show ?thesis by (simp add: sharedDisksCount_def Let_def)
qed

subsection \<open>Properties\<close>

text \<open>C23: The memory of a node, given as any numeral, with or without a fraction, and any suffix but \<open>m\<close>,
  becomes a value and a unit that denote the stated number of bytes up to a relative error of
  \<open>2 ^ -51\<close>, whatever the number of digits, as long as it is neither 0 nor beyond the range of a
  double.\<close>

theorem memory_rounding:
  assumes "node_capacity node ''memory'' = Some (n @ sf)" "n \<in> lang number_re"
    and "sf \<in> set suffixes" "sf \<noteq> ''m''" "pow2 (-999) \<le> numeral_rat n" "numeral_rat n \<le> 2 ^ 999"
  shows "\<exists>v u b. getMemory node = Inr (Finite v, u) \<and> unit_bytes u = Some b \<and>
     \<bar>v * b - numeral_rat n * suffix_bytes sf\<bar> \<le> numeral_rat n * suffix_bytes sf / 2 ^ 51"
proof -
  from bspec [OF adapt_bytes assms(3), THEN mp, OF assms(4)] obtain f u b where
    f: "suffix_bytes sf = f * b" "unit_bytes u = Some b" "f = 1 \<or> f = 1000 \<or> f = 1024"
    and adapt: "\<forall>v. adapt_quantity \<lparr>qd_unit = suffix_unit sf, qd_value = v\<rparr> =
      (if f = 1 then v else js_mult v (Finite f), u)" by (elim exE conjE)
  from adapt_rounding [OF assms(5,6) f(3)] obtain v where
    v: "(if f = 1 then to_double (numeral_rat n) else js_mult (to_double (numeral_rat n)) (Finite f)) = Finite v"
      "\<bar>v - numeral_rat n * f\<bar> \<le> numeral_rat n * f / 2 ^ 51" by blast
  have "getMemory node = Inr (adapt_quantity \<lparr>qd_unit = suffix_unit sf, qd_value = to_double (numeral_rat n)\<rparr>)"
    using assms(1,2) number_lang_nonempty parseQuantity_value [OF assms(2) suffix_lang_of_set [OF assms(3)]]
    by (simp add: getMemory_def del: adapt_quantity.simps)
  then have mem: "getMemory node = Inr (Finite v, u)" unfolding adapt [rule_format] v(1) .
  have "0 < f * b" "0 < f" using suffix_bytes_pos assms(3,4) f by auto
  then have b: "0 < b" by (simp add: zero_less_mult_iff)
  have "v * b - numeral_rat n * (f * b) = (v - numeral_rat n * f) * b" by (simp add: algebra_simps)
  then have "\<bar>v * b - numeral_rat n * (f * b)\<bar> = \<bar>v - numeral_rat n * f\<bar> * b"
    using b by (simp add: abs_mult)
  also have "\<dots> \<le> numeral_rat n * f / 2 ^ 51 * b" using v(2) b by (intro mult_right_mono) simp_all
  finally show ?thesis using mem f(1,2) by (auto simp: algebra_simps)
qed

theorem memory_rounding_witness:
  "\<exists>v u b. getMemory (node_with_memory ''62.7Ei'') = Inr (Finite v, u) \<and> unit_bytes u = Some b \<and>
     \<bar>v * b - 627 / 10 * 1024 ^ 6\<bar> \<le> 627 / 10 * 1024 ^ 6 / 2 ^ 51"
proof -
  have n: "numeral_rat ''62.7'' = 627 / 10"
    by (simp add: numeral_rat_def decimal_rat_def decimal_value_def digit_value_def)
  have "''62.7'' \<in> lang number_re"
    unfolding number_lang_iff digits_lang_iff
    by (rule disjI2, rule disjI1) (intro exI [of _ "''62''"] exI [of _ "''7''"], simp add: is_digit_def)
  moreover have "node_capacity (node_with_memory ''62.7Ei'') ''memory'' = Some (''62.7'' @ ''Ei'')" by simp
  moreover have "pow2 (-999) \<le> pow2 0" using pow2_less_iff [of "-999" 0] by linarith
  then have "pow2 (-999) \<le> 627 / 10" by (simp add: pow2_def)
  moreover have "(2::rat) ^ 6 \<le> 2 ^ 999" by (rule power_increasing) simp_all
  then have "(627 / 10 :: rat) \<le> 2 ^ 999" by (rule order_trans [rotated]) simp
  ultimately show ?thesis
    using memory_rounding [of "node_with_memory ''62.7Ei''" "''62.7''" "''Ei''"] unfolding n
    by (simp add: suffixes_def suffix_bytes_def)
qed

text \<open>
  What \<open>convert\<close> promises about bytes and GiB: a size in GiB is the number of bytes divided by \<open>2 ^ 30\<close>, up
  to rounding.
\<close>

definition converts_bytes :: "unit_converter \<Rightarrow> bool" where
  "converts_bytes convert \<longleftrightarrow>
     (\<forall>q \<ge> 0. \<exists>r \<ge> 0. convert (Finite q) ''B'' ''GiB'' = Finite r \<and> \<bar>r - q / 2 ^ 30\<bar> \<le> q / 2 ^ 80)"

definition example_convert :: unit_converter where
  "example_convert x u v = (case x of Finite q \<Rightarrow> if u = ''B'' \<and> v = ''GiB'' then Finite (q / 2 ^ 30) else x | _ \<Rightarrow> x)"

lemma example_converts: "converts_bytes example_convert"
  unfolding converts_bytes_def
proof (intro allI impI)
  fix q :: rat assume "0 \<le> q"
  then show "\<exists>r \<ge> 0. example_convert (Finite q) ''B'' ''GiB'' = Finite r \<and> \<bar>r - q / 2 ^ 30\<bar> \<le> q / 2 ^ 80"
    by (intro exI [of _ "q / 2 ^ 30"]) (simp add: example_convert_def)
qed

text \<open>C34: The capacity a LUN shows is the size of a device with its WWN in GiB, up to half a hundredth: when the
  converter turns bytes into GiB as documented, the digits before \<open>GiB\<close>, read as a decimal number, differ
  from the number of bytes divided by \<open>2 ^ 30\<close> by at most 0.005 and the rounding of the converter (for
  sizes below \<open>10 ^ 21\<close> bytes). Nothing is assumed of other units.\<close>

theorem lun_capacity_accurate:
  assumes "lun \<in> set (makeLuns convert to_text ls disks)" "converts_bytes convert"
  shows "\<exists>l \<in> set ls. \<exists>x \<in> set (lvdr_devices l). lun_wwn lun = discoveredDevice_WWN x \<and>
     (\<forall>q. discoveredDevice_size x = Finite q \<and> 0 \<le> q \<and> q < 10 ^ 21 \<longrightarrow>
        (\<exists>s. lun_capacity lun = s @ '' GiB'' \<and> \<bar>decimal_rat s - q / 2 ^ 30\<bar> \<le> 1 / 200 + q / 2 ^ 80))"
proof -
  from assms(1) obtain d where d: "lun = toLun convert to_text d" "d \<in> set (getSharedDiscoveredDevicesRepresentatives ls)"
    by (auto simp: makeLuns_def)
  with representative_first(2) [of d ls] obtain l x where
    x: "l \<in> set ls" "x \<in> set (lvdr_devices l)" "d = toDiscoveredDeviceWithNodeName l x"
    by (auto simp: with_node_name_iff)
  have cap: "lun_capacity lun = js_toFixed2 to_text (convert (discoveredDevice_size x) ''B'' ''GiB'') @ '' GiB''"
    by (simp add: d(1) x(3) toLun_def)
  have "\<exists>s. lun_capacity lun = s @ '' GiB'' \<and> \<bar>decimal_rat s - q / 2 ^ 30\<bar> \<le> 1 / 200 + q / 2 ^ 80"
    if q: "discoveredDevice_size x = Finite q" "0 \<le> q" "q < 10 ^ 21" for q
  proof -
    obtain y where y: "0 \<le> y" "convert (Finite q) ''B'' ''GiB'' = Finite y" "\<bar>y - q / 2 ^ 30\<bar> \<le> q / 2 ^ 80"
      using assms(2) q(2) by (auto simp: converts_bytes_def)
    have "q / 2 ^ 30 \<le> q / 2" "q / 2 ^ 80 \<le> q / 2" using q(2) by (simp_all add: field_simps)
    with y(3) q(3) have "y < 10 ^ 21" by linarith
    with toFixed2_error [of y to_text] y(1)
    have "\<bar>decimal_rat (js_toFixed2 to_text (Finite y)) - y\<bar> \<le> 1 / 200" by auto
    with y(3) have "\<bar>decimal_rat (js_toFixed2 to_text (Finite y)) - q / 2 ^ 30\<bar> \<le> 1 / 200 + q / 2 ^ 80" by linarith
    then show ?thesis unfolding cap q(1) y(2) by blast
  qed
  with x d(1) show ?thesis by (intro bexI [of _ l] bexI [of _ x]) auto
qed

theorem lun_capacity_accurate_witness:
  "\<exists>lun \<in> set (makeLuns example_convert (\<lambda>_. []) example_lvdrs []). \<exists>s. lun_capacity lun = s @ '' GiB'' \<and>
     \<bar>decimal_rat s - 1\<bar> \<le> 1 / 200 + 1 / 2 ^ 50"
proof -
  let ?luns = "makeLuns example_convert (\<lambda>_. []) example_lvdrs []"
  have "length ?luns = 2" using arg_cong [OF example_luns(1) [of example_convert "\<lambda>_. []"], of length] by simp
  then have "?luns \<noteq> []" by (metis list.size(3) zero_neq_numeral)
  then have lun: "hd ?luns \<in> set ?luns" by simp
  from lun_capacity_accurate [OF lun example_converts] obtain l x where "l \<in> set example_lvdrs" "x \<in> set (lvdr_devices l)"
    and cap: "\<And>q. discoveredDevice_size x = Finite q \<and> 0 \<le> q \<and> q < 10 ^ 21 \<Longrightarrow>
        \<exists>s. lun_capacity (hd ?luns) = s @ '' GiB'' \<and> \<bar>decimal_rat s - q / 2 ^ 30\<bar> \<le> 1 / 200 + q / 2 ^ 80" by auto
  then have "discoveredDevice_size x = Finite 1073741824"
    by (auto simp: example_lvdrs_def example_device_def)
  with cap [of 1073741824] obtain s where "lun_capacity (hd ?luns) = s @ '' GiB''"
    "\<bar>decimal_rat s - 1073741824 / 2 ^ 30\<bar> \<le> 1 / 200 + 1073741824 / 2 ^ 80" by auto
  with lun show ?thesis by (intro bexI [OF _ lun] exI [of _ s]) simp
qed

text \<open>The LUNs offered, each counted once per storage node, are at most the devices the nodes report
  together, and the shared disks counted under the table are at most the different devices of any of
  the selected nodes.\<close>

lemma shared_counts_bounded:
  "length (makeLuns g t ls disks) * length ls \<le> length (concat (map lvdr_devices ls)) \<and>
   (\<forall>l \<in> set (lvdrs_of_nodes selected lvdrs). sharedDisksCount lvdrs selected \<le> card (reported_wwns l))"
  using luns_times_nodes shared_count_le by blast

end
