(* ===== verification/Components.thy ===== *)
theory Components
  imports Store
begin

section \<open>Shared components\<close>

text \<open>
  \<open>console/src/shared/components\<close>. A rendered element is data: the name of its component, its
  properties and its children; \<open>VNull\<close> renders nothing and a fragment is an element with the
  empty name. A component of PatternFly, of the console SDK or of react-router is only a name here.
  A property is an attribute (text, boolean or handler) or a slot that holds a view. Properties
  that are only styling are left out.
\<close>

datatype handler =
    GoTo string
  | RunCallback callback
  | ReloadWindow
  | PreventDefaultOnly
  | UseCase string
  | MenuHandler string

datatype attribute = AText string | ABool bool | AHandler handler | AList "string list"

text \<open>\<open>VThrow e\<close> stands where rendering throws \<open>e\<close>; the page is then replaced by the console's error boundary.\<close>

datatype view =
    VNull
  | VThrow js_error
  | VText string
  | VEl string "view_prop list" "view list"
and view_prop = Attr string attribute | Slot string view

definition fragment :: "view list \<Rightarrow> view" where
  "fragment vs = VEl [] [] vs"

text \<open>An attribute whose value may be undefined is absent when it is.\<close>

definition opt_attr :: "string \<Rightarrow> attribute option \<Rightarrow> view_prop list" where
  "opt_attr n a = (case a of None \<Rightarrow> [] | Some v \<Rightarrow> [Attr n v])"

text \<open>All elements of a component in a view, those in slots included, and the attributes of one.\<close>

fun elements :: "string \<Rightarrow> view \<Rightarrow> view list"
  and prop_elements :: "string \<Rightarrow> view_prop list \<Rightarrow> view list"
  and child_elements :: "string \<Rightarrow> view list \<Rightarrow> view list" where
  "elements n VNull = []"
| "elements n (VThrow e) = []"
| "elements n (VText s) = []"
| "elements n (VEl m ps vs) =
     (if m = n then [VEl m ps vs] else []) @ prop_elements n ps @ child_elements n vs"
| "prop_elements n [] = []"
| "prop_elements n (Attr k a # ps) = prop_elements n ps"
| "prop_elements n (Slot k v # ps) = elements n v @ prop_elements n ps"
| "child_elements n [] = []"
| "child_elements n (v # vs) = elements n v @ child_elements n vs"

fun attr_of :: "string \<Rightarrow> view_prop list \<Rightarrow> attribute option" where
  "attr_of k [] = None"
| "attr_of k (Slot m v # ps) = attr_of k ps"
| "attr_of k (Attr m a # ps) = (if m = k then Some a else attr_of k ps)"

fun view_attr :: "string \<Rightarrow> view \<Rightarrow> attribute option" where
  "view_attr k (VEl m ps vs) = attr_of k ps"
| "view_attr k _ = None"

definition redirects :: "view \<Rightarrow> attribute list" where
  "redirects v = List.map_filter (view_attr ''to'') (elements ''Redirect'' v)"

lemma prop_elements_append [simp]: "prop_elements n (ps @ qs) = prop_elements n ps @ prop_elements n qs"
proof (induction ps)
  case (Cons p ps)
  then show ?case by (cases p) simp_all
qed simp

lemma opt_attr_elements [simp]: "prop_elements n (opt_attr k a) = []"
  by (simp add: opt_attr_def split: option.splits)

lemma child_elements_map: "child_elements n (map f xs) = concat (map (\<lambda>x. elements n (f x)) xs)"
  by (induction xs) simp_all

lemma child_elements_append [simp]: "child_elements n (us @ vs) = child_elements n us @ child_elements n vs"
  by (induction us) simp_all

lemma elements_fragment [simp]: "n \<noteq> [] \<Longrightarrow> elements n (fragment vs) = child_elements n vs"
  by (simp add: fragment_def)

subsection \<open>Async and its fallbacks\<close>

text \<open>\<open>error\<close> is truthy when it is an error object.\<close>

definition Async :: "bool \<Rightarrow> js_error option \<Rightarrow> (js_error option \<Rightarrow> view) \<Rightarrow> view \<Rightarrow> view list \<Rightarrow> view" where
  "Async loaded error renderErrorFallback renderLoadingFallback children =
     (if \<not> loaded then renderLoadingFallback
      else if error \<noteq> None then renderErrorFallback error
      else fragment children)"

definition DefaultErrorFallback :: "translator \<Rightarrow> js_error option \<Rightarrow> view" where
  "DefaultErrorFallback tr error =
     (let title = tr ''Resources could not be loaded'' [];
          description = nullish (map_option error_message error) (tr ''Please check your configuration'' []);
          actions = [(''link'', ReloadWindow, tr ''Refresh'' [])]
      in VEl ''EmptyState'' [Attr ''titleText'' (AText title), Attr ''headingLevel'' (AText ''h4''),
            Attr ''icon'' (AText ''ExclamationCircleIcon'')]
          [VEl ''EmptyStateBody'' [] [VText description],
           VEl ''EmptyStateFooter'' []
             (map (\<lambda>(variant, onClick, text).
                 VEl ''EmptyStateActions'' []
                   [VEl ''Button'' [Attr ''variant'' (AText variant), Attr ''onClick'' (AHandler onClick)]
                     [VText text]]) actions)])"

definition DefaultLoadingFallback :: "translator \<Rightarrow> view" where
  "DefaultLoadingFallback tr =
     (let title = tr ''Loading resources...'' [];
          description = tr ''You will be able to continue once the resources are loaded'' []
      in VEl ''EmptyState'' [Attr ''icon'' (AText ''Spinner''), Attr ''titleText'' (AText title),
            Attr ''headingLevel'' (AText ''h4'')]
          [VEl ''EmptyStateBody'' [] [VText description]])"

subsection \<open>The alert of a page\<close>

fun variant_text :: "AlertVariant \<Rightarrow> string" where
  "variant_text AlertSuccess = ''success''"
| "variant_text AlertDanger = ''danger''"
| "variant_text AlertWarning = ''warning''"
| "variant_text AlertInfo = ''info''"
| "variant_text AlertCustom = ''custom''"

definition variant_attr :: "string \<Rightarrow> Alert \<Rightarrow> view_prop list" where
  "variant_attr name a = opt_attr name (map_option (\<lambda>v. AText (variant_text v)) (alert_variant a))"

definition ListPageAlert :: "Alert option \<Rightarrow> view" where
  "ListPageAlert alert =
     (case alert of
        None \<Rightarrow> VNull
      | Some a \<Rightarrow>
          VEl ''AlertGroup'' [Attr ''isLiveRegion'' (ABool True)]
            [VEl ''Alert''
               ([Attr ''isInline'' (ABool True)] @ opt_attr ''key'' (map_option AText (alert_key a)) @
                variant_attr ''variant'' a @ [Attr ''title'' (AText (alert_title a)),
                Slot ''actionClose''
                  (case alert_dismiss a of
                     Some dismiss \<Rightarrow>
                       VEl ''AlertActionCloseButton''
                         ([Attr ''title'' (AText (alert_title a))] @ variant_attr ''variantLabel'' a @
                          [Attr ''onClose'' (AHandler (RunCallback dismiss))]) []
                   | None \<Rightarrow> VNull)])
               [case alert_description a of
                  Some (DescList ds) \<Rightarrow> VEl ''List'' [] (map (\<lambda>d. VEl ''ListItem'' [] [VText d]) ds)
                | Some (DescText d) \<Rightarrow> VText d
                | Some (DescOther d) \<Rightarrow> VThrow (new_TypeError ''alert.description.map is not a function'')
                | None \<Rightarrow> VNull]])"

subsection \<open>The list page\<close>

record body_style =
  bs_isFlex :: "bool option"
  bs_isFilled :: "bool option"
  bs_direction :: "string option"
  bs_alignment :: "string option"
  bs_justification :: "string option"

definition default_body_style :: body_style where
  "default_body_style = \<lparr>bs_isFlex = None, bs_isFilled = None, bs_direction = None,
     bs_alignment = None, bs_justification = None\<rparr>"

text \<open>The classes \<open>useListPageBodyStyleHack\<close> adds; \<open>classList.add\<close> skips those already there.\<close>

definition list_page_body_classes :: "body_style \<Rightarrow> string list" where
  "list_page_body_classes options =
     filter (\<lambda>c. c \<noteq> [])
       [if nullish (bs_isFlex options) True then ''pf-v6-u-display-flex'' else [],
        if nullish (bs_isFilled options) True then ''pf-v6-u-flex-grow-1'' else [],
        (let d = nullish (bs_direction options) ''column'' in
         if d \<noteq> [] then ''pf-v6-u-flex-direction-'' @ d else []),
        (case bs_alignment options of
           Some a \<Rightarrow> if a \<noteq> [] then ''pf-v6-u-align-items-'' @ a else []
         | None \<Rightarrow> []),
        (case bs_justification options of
           Some j \<Rightarrow> if j \<noteq> [] then ''pf-v6-u-justify-content-'' @ j else []
         | None \<Rightarrow> [])]"

fun classList_add :: "string list \<Rightarrow> string list \<Rightarrow> string list" where
  "classList_add classes [] = classes"
| "classList_add classes (c # cs) =
     classList_add (if c \<in> set classes then classes else classes @ [c]) cs"

text \<open>The layout effect on the element the selector finds, \<open>None\<close> when there is none.\<close>

definition useListPageBodyStyleHack :: "body_style \<Rightarrow> string list option \<Rightarrow> string list option" where
  "useListPageBodyStyleHack options ref =
     map_option (\<lambda>classes. classList_add classes (list_page_body_classes options)) ref"

record list_page =
  lp_documentTitle :: string
  lp_title :: string
  lp_description :: "string option"
  lp_actions :: view
  lp_alerts :: "Alert list"
  lp_footer :: view

definition ListPage :: "list_page \<Rightarrow> view list \<Rightarrow> view" where
  "ListPage p children =
     fragment
       [VEl ''Helmet'' [] [VEl ''title'' [] [VText (lp_documentTitle p)]],
        VEl ''ListPageHeader''
          [Attr ''title'' (AText (lp_title p)),
           Slot ''helpText'' (case lp_description p of None \<Rightarrow> VEl ''br'' [] [] | Some d \<Rightarrow> VText d)]
          [lp_actions p],
        VEl ''ListPageBody'' []
          [VEl ''Stack'' []
             [VEl ''StackItem'' [] children,
              VEl ''StackItem'' [] [ListPageAlert (js_first (lp_alerts p))],
              VEl ''StackItem'' [] [lp_footer p]]]]"

subsection \<open>Kebab menu and help icon\<close>

record kebab_state =
  kb_isOpen :: bool
  kb_captured :: bool

definition kebab_mount :: kebab_state where
  "kebab_mount = \<lparr>kb_isOpen = False, kb_captured = False\<rparr>"

datatype kebab_event = ClickMenuToggle | SelectDropdown | OpenChangeDropdown bool | KebabRender

text \<open>The click handler negates the value it captured at the last render.\<close>

fun kebab_step :: "kebab_state \<Rightarrow> kebab_event \<Rightarrow> kebab_state" where
  "kebab_step s ClickMenuToggle = s\<lparr>kb_isOpen := \<not> kb_captured s\<rparr>"
| "kebab_step s SelectDropdown = s\<lparr>kb_isOpen := False\<rparr>"
| "kebab_step s (OpenChangeDropdown b) = s\<lparr>kb_isOpen := b\<rparr>"
| "kebab_step s KebabRender = s\<lparr>kb_captured := kb_isOpen s\<rparr>"

definition KebabMenu :: "bool option \<Rightarrow> view_prop list list \<Rightarrow> kebab_state \<Rightarrow> view" where
  "KebabMenu disabled items s =
     VEl ''Dropdown''
       [Attr ''isOpen'' (ABool (kb_isOpen s)), Attr ''onSelect'' (AHandler (MenuHandler ''select'')),
        Attr ''onOpenChange'' (AHandler (MenuHandler ''openChange'')),
        Slot ''toggle''
          (VEl ''MenuToggle''
            [Attr ''aria-label'' (AText ''kebab dropdown toggle''), Attr ''variant'' (AText ''plain''),
             Attr ''onClick'' (AHandler (MenuHandler ''click'')), Attr ''isExpanded'' (ABool (kb_isOpen s)),
             Attr ''isDisabled'' (ABool (nullish disabled False)),
             Slot ''icon'' (VEl ''EllipsisVIcon'' [] [])] [])]
       [VEl ''DropdownList'' [] (map (\<lambda>item. VEl ''DropdownItem'' item []) items)]"

definition HelpLabelIcon :: "string \<Rightarrow> view" where
  "HelpLabelIcon popoverContent =
     VEl ''Popover'' [Attr ''bodyContent'' (AText popoverContent)]
       [VEl ''button'' [Attr ''onClick'' (AHandler PreventDefaultOnly)] [VEl ''HelpIcon'' [] []]]"

subsection \<open>Lemmas\<close>

lemma error_fallback_redirects [simp]: "elements ''Redirect'' (DefaultErrorFallback tr e) = []"
  by (simp add: DefaultErrorFallback_def Let_def)

lemma loading_fallback_redirects [simp]: "elements ''Redirect'' (DefaultLoadingFallback tr) = []"
  by (simp add: DefaultLoadingFallback_def Let_def)

lemma alert_elements:
  "n \<notin> {''AlertGroup'', ''Alert'', ''AlertActionCloseButton'', ''List'', ''ListItem''} \<Longrightarrow>
     elements n (ListPageAlert a) = []"
  by (auto simp: ListPageAlert_def variant_attr_def child_elements_map split: option.splits description.splits)

lemma list_page_elements:
  "n \<notin> {[], ''Helmet'', ''title'', ''br'', ''ListPageHeader'', ''ListPageBody'', ''Stack'', ''StackItem''} \<Longrightarrow>
     elements n (ListPage p children) =
       elements n (lp_actions p) @ child_elements n children @
       elements n (ListPageAlert (js_first (lp_alerts p))) @ elements n (lp_footer p)"
  by (auto simp: ListPage_def split: option.splits)

lemma async_cases:
  "Async loaded error err load children =
     (if \<not> loaded then load else case error of Some e \<Rightarrow> err (Some e) | None \<Rightarrow> fragment children)"
  by (simp add: Async_def split: option.splits)

lemma classList_add_set: "set (classList_add classes cs) = set classes \<union> set cs"
  by (induction cs arbitrary: classes) auto

lemma classList_add_absorb: "set cs \<subseteq> set classes \<Longrightarrow> classList_add classes cs = classes"
  by (induction cs arbitrary: classes) auto

lemma body_style_idempotent:
  "useListPageBodyStyleHack options (useListPageBodyStyleHack options ref) = useListPageBodyStyleHack options ref"
  by (cases ref) (simp_all add: useListPageBodyStyleHack_def classList_add_absorb classList_add_set)

end
