(* ===== verification/Node_Row.thy ===== *)
theory Node_Row
  imports Nodes_Selection
begin

section \<open>Selecting one node: the table row\<close>

text \<open>
  The hook of \<open>use_storage_clusters_nodes_selection_table_row_view_model.ts\<close> and the view
  \<open>storage_clusters_nodes_selection_table_row.tsx\<close>. The row has local state: its status, which
  the change handler also captures at each render, the warnings of the one memoised set, and the
  patches whose promise has not settled. The SDK's \<open>k8sPatch\<close> is the environment: it settles a
  pending patch one way or the other.
\<close>

datatype row_status = Selected | Unselected | SelectionPending

datatype node_warning = InsufficientMemory

record patch_request =
  pr_checked :: bool
  pr_node :: Node
  pr_labels :: "string js_object"

record row_state =
  row_status :: row_status
  closure_status :: row_status
  closure_node :: Node
  row_warnings :: "node_warning set"
  in_flight :: "patch_request list"

definition label_status :: "Node \<Rightarrow> row_status" where
  "label_status node = (if hasLabel node STORAGE_ROLE_LABEL then Selected else Unselected)"

text \<open>The first render: the initial status comes from the label.\<close>

definition row_mount :: "Node \<Rightarrow> row_state" where
  "row_mount node = \<lparr>row_status = label_status node, closure_status = label_status node,
     closure_node = node, row_warnings = {}, in_flight = []\<rparr>"

text \<open>\<open>handleNodeSelectionChange\<close> up to the \<open>await\<close>, on the captured status and node.\<close>

definition row_click :: "bool \<Rightarrow> row_state \<Rightarrow> row_state" where
  "row_click checked s =
     (if closure_status s = SelectionPending then s
      else s\<lparr>row_status := SelectionPending,
             in_flight := in_flight s @
               [\<lparr>pr_checked = checked, pr_node = closure_node s,
                 pr_labels = toggleNodeStorageRoleLabel (closure_node s) checked\<rparr>]\<rparr>)"

definition remove_nth :: "nat \<Rightarrow> 'a list \<Rightarrow> 'a list" where
  "remove_nth i xs = take i xs @ drop (Suc i) xs"

text \<open>The patch with index \<open>i\<close> settles: the rest of the handler.\<close>

definition row_resolved :: "nat \<Rightarrow> row_state \<Rightarrow> row_state" where
  "row_resolved i s =
     s\<lparr>row_status := (if pr_checked (in_flight s ! i) then Selected else Unselected),
       in_flight := remove_nth i (in_flight s)\<rparr>"

definition row_rejected :: "nat \<Rightarrow> row_state \<Rightarrow> row_state" where
  "row_rejected i s =
     s\<lparr>row_status := label_status (pr_node (in_flight s ! i)),
       in_flight := remove_nth i (in_flight s)\<rparr>"

definition row_rejected_actions :: "translator \<Rightarrow> thrown \<Rightarrow> Actions list" where
  "row_rejected_actions tr e =
     [AddAlert \<lparr>alert_key = None, alert_variant = Some AlertDanger,
        alert_title = tr ''Failed to update node selection'' [],
        alert_description = Some (DescText (case e of ThrownError x \<Rightarrow> error_message x
          | ThrownString x \<Rightarrow> x | ThrownEmpty x \<Rightarrow> x | ThrownOther x \<Rightarrow> x)),
        alert_dismiss = None\<rparr>]"

text \<open>A render captures the status and the node it is given.\<close>

definition row_render :: "Node \<Rightarrow> row_state \<Rightarrow> row_state" where
  "row_render node s = s\<lparr>closure_status := row_status s, closure_node := node\<rparr>"

subsection \<open>The rendered values\<close>

text \<open>
  \<open>to_GiB\<close> is \<open>value.to("GiB")\<close> and \<open>to_best\<close> is \<open>value.to("best", "imperial").toString(2)\<close> of the
  \<open>convert\<close> package, which throws for a unit it does not know. The set of warnings is made once
  per row, so a warning that was added stays.
\<close>

definition row_memory ::
  "(js_number \<Rightarrow> string \<Rightarrow> js_error + js_number) \<Rightarrow> (js_number \<Rightarrow> string \<Rightarrow> js_error + string) \<Rightarrow> Node
     \<Rightarrow> node_warning set \<Rightarrow> js_error + string \<times> node_warning set" where
  "row_memory to_GiB to_best node warnings =
     (case getMemory node of
        Inl _ \<Rightarrow> Inr (VALUE_NOT_AVAILABLE, warnings)
      | Inr (v, u) \<Rightarrow>
          (case to_GiB v u of
             Inl e \<Rightarrow> Inl e
           | Inr gib \<Rightarrow>
               (let warnings' = (if js_less gib (Finite (of_nat MINIMUM_AMOUNT_OF_MEMORY_GIB))
                                 then insert InsufficientMemory warnings else warnings) in
                case to_best v u of
                  Inl e \<Rightarrow> Inl e
                | Inr text \<Rightarrow> Inr (text, warnings'))))"

record row_view =
  rv_checkbox_id :: string
  rv_isChecked :: bool
  rv_isDisabled :: bool
  rv_name :: "string option"
  rv_role :: string
  rv_cpu :: "string option"
  rv_memory :: string
  rv_insufficient :: bool

definition row_render_view ::
  "(js_number \<Rightarrow> string \<Rightarrow> js_error + js_number) \<Rightarrow> (js_number \<Rightarrow> string \<Rightarrow> js_error + string)
     \<Rightarrow> row_state \<Rightarrow> js_error + row_view \<times> row_state" where
  "row_render_view to_GiB to_best s =
     (let node = closure_node s in
      case row_memory to_GiB to_best node (row_warnings s) of
        Inl e \<Rightarrow> Inl e
      | Inr (memory, warnings) \<Rightarrow>
          Inr (\<lparr>rv_checkbox_id = ''node-'' @ nullish (getUid node) ''undefined'',
                rv_isChecked = (row_status s = Selected),
                rv_isDisabled = (row_status s = SelectionPending \<or> InsufficientMemory \<in> warnings),
                rv_name = getName node, rv_role = getRole node, rv_cpu = getCpu node,
                rv_memory = memory, rv_insufficient = (InsufficientMemory \<in> warnings)\<rparr>,
               s\<lparr>row_warnings := warnings\<rparr>))"

subsection \<open>The transition system\<close>

text \<open>
  React renders between two events, so each transition ends with a render of the current node or
  of a new one.
\<close>

inductive row_trans :: "row_state \<Rightarrow> row_state \<Rightarrow> bool" where
  click: "row_trans s (row_render (closure_node s) (row_click b s))"
| resolve: "i < length (in_flight s) \<Longrightarrow> row_trans s (row_render (closure_node s) (row_resolved i s))"
| reject: "i < length (in_flight s) \<Longrightarrow> row_trans s (row_render (closure_node s) (row_rejected i s))"
| update: "row_trans s (row_render n s)"

inductive row_reachable :: "Node \<Rightarrow> row_state \<Rightarrow> bool" for n where
  mount: "row_reachable n (row_mount n)"
| step: "row_reachable n s \<Longrightarrow> row_trans s t \<Longrightarrow> row_reachable n t"

inductive_cases row_transE: "row_trans s t"

definition row_inv :: "row_state \<Rightarrow> bool" where
  "row_inv s \<longleftrightarrow> closure_status s = row_status s \<and>
     length (in_flight s) = (if row_status s = SelectionPending then 1 else 0)"

lemma label_status_not_pending [simp]: "label_status n \<noteq> SelectionPending"
  by (simp add: label_status_def)

lemma row_inv_mount: "row_inv (row_mount n)"
  by (simp add: row_inv_def row_mount_def)

lemma row_inv_trans: "row_trans s t \<Longrightarrow> row_inv s \<Longrightarrow> row_inv t"
  by (induction rule: row_trans.induct)
    (auto simp: row_inv_def row_render_def row_click_def row_resolved_def row_rejected_def
      remove_nth_def split: if_splits)

lemma row_inv_reachable: "row_reachable n s \<Longrightarrow> row_inv s"
  by (induction rule: row_reachable.induct) (auto intro: row_inv_mount row_inv_trans)

text \<open>Every request in flight carries the labels of its node with the role switched.\<close>

definition requests_ok :: "row_state \<Rightarrow> bool" where
  "requests_ok s \<longleftrightarrow> (\<forall>r \<in> set (in_flight s). pr_labels r = toggleNodeStorageRoleLabel (pr_node r) (pr_checked r))"

lemma requests_ok_trans: "row_trans s t \<Longrightarrow> requests_ok s \<Longrightarrow> requests_ok t"
  by (induction rule: row_trans.induct)
    (auto simp: requests_ok_def row_render_def row_click_def row_resolved_def row_rejected_def
      remove_nth_def dest: in_set_takeD in_set_dropD)

lemma requests_ok_mount: "requests_ok (row_mount n)"
  by (simp add: requests_ok_def row_mount_def)

lemma requests_ok_reachable: "row_reachable n s \<Longrightarrow> requests_ok s"
  by (induction rule: row_reachable.induct) (auto intro: requests_ok_trans requests_ok_mount)

subsection \<open>Properties\<close>

text \<open>C13: A row has at most one patch in flight, its checkbox is pending exactly while there is one,
  a click meanwhile is ignored, and the labels sent, once on the node, give it the storage role exactly when the box was checked.\<close>

theorem row_one_request:
  assumes "row_reachable n s"
  shows "length (in_flight s) \<le> 1 \<and> (row_status s = SelectionPending \<longleftrightarrow> in_flight s \<noteq> []) \<and>
     (in_flight s \<noteq> [] \<longrightarrow> (\<forall>b. row_click b s = s)) \<and>
     (\<forall>r \<in> set (in_flight s). metadata (pr_node r) \<noteq> None \<longrightarrow>
        hasLabel (with_labels (pr_node r) (pr_labels r)) STORAGE_ROLE_LABEL = pr_checked r)"
  using row_inv_reachable [OF assms] requests_ok_reachable [OF assms]
  by (auto simp: row_inv_def requests_ok_def hasLabel_toggle row_click_def split: if_splits)

lemma example_node_meta: "metadata (example_node n ls) \<noteq> None" "hasLabel (example_node n []) l = False"
  by (simp_all add: example_node_def hasLabel_def getLabels_def Let_def)

definition example_clicked :: row_state where
  "example_clicked = row_render (example_node ''n0'' []) (row_click True (row_mount (example_node ''n0'' [])))"

lemma example_clicked_reachable: "row_reachable (example_node ''n0'' []) example_clicked"
  using row_reachable.step [OF row_reachable.mount row_trans.click [of "row_mount (example_node ''n0'' [])" True]]
  by (simp add: example_clicked_def row_mount_def)

lemma example_clicked_request:
  "in_flight example_clicked = [\<lparr>pr_checked = True, pr_node = example_node ''n0'' [],
     pr_labels = toggleNodeStorageRoleLabel (example_node ''n0'' []) True\<rparr>]"
  by (simp add: example_clicked_def row_render_def row_click_def row_mount_def)

theorem row_one_request_witness:
  "length (in_flight example_clicked) \<le> 1 \<and> row_status example_clicked = SelectionPending"
  using row_one_request [OF example_clicked_reachable] by (simp add: example_clicked_request)

text \<open>When the patch succeeds the row shows what the patched node's label says, when it fails what the
  label of the unpatched node says, and in both cases the next click is taken.\<close>

lemma row_settles_to_label:
  assumes "row_reachable n s" "in_flight s = [r]" "metadata (pr_node r) \<noteq> None"
  shows "row_status (row_resolved 0 s) = label_status (with_labels (pr_node r) (pr_labels r)) \<and>
     row_status (row_rejected 0 s) = label_status (pr_node r) \<and>
     (\<forall>t \<in> {row_resolved 0 s, row_rejected 0 s}. in_flight t = [] \<and>
        (\<forall>m b. row_status (row_click b (row_render m t)) = SelectionPending))"
proof -
  have "hasLabel (with_labels (pr_node r) (pr_labels r)) STORAGE_ROLE_LABEL = pr_checked r"
    using requests_ok_reachable [OF assms(1)] assms(2,3) by (simp add: requests_ok_def hasLabel_toggle)
  then show ?thesis
    using assms(2) by (auto simp: row_resolved_def row_rejected_def label_status_def remove_nth_def
        row_click_def row_render_def)
qed

text \<open>The warning about a node's memory is only ever added: once a row has warned, its checkbox stays
  disabled in every later render, whatever memory the node reports then.\<close>

lemma memory_warning_stays:
  assumes "row_render_view to_GiB to_best s = Inr (v, s')" "InsufficientMemory \<in> row_warnings s"
  shows "rv_isDisabled v \<and> rv_insufficient v \<and> InsufficientMemory \<in> row_warnings s'"
  using assms by (auto simp: row_render_view_def row_memory_def Let_def split: sum.splits prod.splits if_splits)

end
