(* ===== verification/Cluster_Screens.thy ===== *)
theory Cluster_Screens
  imports Components Node_Row
begin

section \<open>The entry screen and the storage cluster screens\<close>

text \<open>
  \<open>console/src/ui/fusion-access\<close> and the views of \<open>console/src/ui/storage-clusters\<close>: the view
  models that gather repositories into what a screen shows, and the rendered screens.
\<close>

subsection \<open>The entry screen\<close>

record fusion_access_home_vm =
  fh_loaded :: bool
  fh_error :: "js_error option"
  fh_isFusionAccessReady :: bool
  fh_hasStorageClusterNotBeenCreated :: bool

definition useFusionAccessHomeScreenViewModel ::
  "fusion_access_repository \<Rightarrow> storage_clusters_repository \<Rightarrow> fusion_access_home_vm" where
  "useFusionAccessHomeScreenViewModel fusionAccessesRepository storageClustersRepository =
     \<lparr>fh_loaded = (far_loaded fusionAccessesRepository \<and> scr_loaded storageClustersRepository \<and>
        far_isReady fusionAccessesRepository),
      fh_error = js_or (far_error fusionAccessesRepository) (scr_error storageClustersRepository),
      fh_isFusionAccessReady = far_isReady fusionAccessesRepository,
      fh_hasStorageClusterNotBeenCreated = scr_hasNotBeenCreated storageClustersRepository\<rparr>"

definition Redirect_to :: "UrlPaths \<Rightarrow> view" where
  "Redirect_to p = VEl ''Redirect'' [Attr ''to'' (AText (url_path p))] []"

definition plain_page :: "string \<Rightarrow> string \<Rightarrow> list_page" where
  "plain_page documentTitle title =
     \<lparr>lp_documentTitle = documentTitle, lp_title = title, lp_description = None,
      lp_actions = VNull, lp_alerts = [], lp_footer = VNull\<rparr>"

definition FusionAccessHomeScreen :: "translator \<Rightarrow> fusion_access_home_vm \<Rightarrow> view" where
  "FusionAccessHomeScreen tr vm =
     ListPage (plain_page (tr ''Fusion Access for SAN'' []) (tr ''Fusion Access for SAN'' []))
       [Async (fh_loaded vm) (fh_error vm) (DefaultErrorFallback tr) (DefaultLoadingFallback tr)
          [if fh_hasStorageClusterNotBeenCreated vm then Redirect_to StorageClustersHome
           else Redirect_to FileSystemClaimsHome]]"

subsection \<open>The storage cluster screens\<close>

definition redirect_handler :: "UrlPaths \<Rightarrow> handler" where
  "redirect_handler p = GoTo (url_path p)"

definition StorageClustersCreateButton :: "translator \<Rightarrow> view_prop list \<Rightarrow> view" where
  "StorageClustersCreateButton tr props =
     VEl ''Button'' (props @ [Attr ''variant'' (AText ''primary'')]) [VText (tr ''Create storage cluster'' [])]"

definition learn_more_button :: "translator \<Rightarrow> view" where
  "learn_more_button tr =
     VEl ''Button''
       [Attr ''component'' (AText ''a''), Attr ''variant'' (AText ''link''), Attr ''target'' (AText ''_blank''),
        Attr ''rel'' (AText ''noopener noreferrer''), Attr ''href'' (AText LEARN_MORE_LINK)]
       [VText (tr ''Learn more about Fusion Access for SAN storage clusters'' []), VText '' '',
        VEl ''ExternalLinkAltIcon'' [] []]"

definition StorageClusterEmptyState :: "translator \<Rightarrow> handler \<Rightarrow> view" where
  "StorageClusterEmptyState tr onCreateStorageCluster =
     VEl ''EmptyState''
       [Attr ''titleText'' (AText (tr ''No storage cluster'' [])), Attr ''headingLevel'' (AText ''h4''),
        Attr ''icon'' (AText ''StorageDomainIcon'')]
       [VEl ''EmptyStateBody'' []
          [VText (tr ''You need to create a storage cluster before you'll be able to create file systems.'' [])],
        VEl ''EmptyStateFooter'' []
          [VEl ''EmptyStateActions'' []
             [StorageClustersCreateButton tr [Attr ''onClick'' (AHandler onCreateStorageCluster)]],
           VEl ''EmptyStateActions'' [] [learn_more_button tr]]]"

definition StorageClustersHomeScreen ::
  "translator \<Rightarrow> State \<Rightarrow> storage_clusters_repository \<Rightarrow> view" where
  "StorageClustersHomeScreen tr store storageClustersRepository =
     ListPage ((plain_page (tr ''Fusion Access for SAN'' []) (tr ''Fusion Access for SAN'' []))
         \<lparr>lp_alerts := alerts store\<rparr>)
       [Async (scr_loaded storageClustersRepository) (scr_error storageClustersRepository)
          (DefaultErrorFallback tr) (DefaultLoadingFallback tr)
          [StorageClusterEmptyState tr (redirect_handler StorageClustersCreate)]]"

text \<open>\<open>{...store.cta}\<close>: the defined properties of the button's state.\<close>

definition cta_props :: "Cta \<Rightarrow> view_prop list" where
  "cta_props c = opt_attr ''isDisabled'' (map_option ABool (isDisabled c)) @
     opt_attr ''isLoading'' (map_option ABool (isLoading c))"

definition cancel_button :: "string \<Rightarrow> UrlPaths \<Rightarrow> view" where
  "cancel_button text p =
     VEl ''Button'' [Attr ''variant'' (AText ''link''), Attr ''onClick'' (AHandler (redirect_handler p))]
       [VText text]"

definition StorageClustersCreateScreen :: "translator \<Rightarrow> State \<Rightarrow> view \<Rightarrow> view" where
  "StorageClustersCreateScreen tr store nodesTable =
     ListPage
       \<lparr>lp_documentTitle = tr ''Fusion Access for SAN'' [], lp_title = tr ''Create storage cluster'' [],
        lp_description = None, lp_actions = VNull, lp_alerts = alerts store,
        lp_footer = VEl ''Split'' []
          [StorageClustersCreateButton tr
             (cta_props (cta store) @ [Attr ''onClick'' (AHandler (UseCase ''createStorageCluster''))]),
           cancel_button (tr ''Cancel'' []) StorageClustersHome]\<rparr>
       [nodesTable]"

subsection \<open>The table of nodes\<close>

definition StorageClustersNodesSelectionEmptyState :: view where
  "StorageClustersNodesSelectionEmptyState = VNull"

text \<open>
  The SDK's \<open>VirtualizedTable\<close> gets the columns, the rows with their names, the loaded flag and
  the error; the row component is \<open>node_row_cells\<close> below.
\<close>

definition StorageClustersNodesSelectionTable :: "translator \<Rightarrow> nodes_table_vm \<Rightarrow> view" where
  "StorageClustersNodesSelectionTable tr vm =
     VEl ''Stack'' []
       [VEl ''StackItem'' []
          [VEl ''Alert''
             [Attr ''isInline'' (ABool True), Attr ''variant'' (AText ''info''),
              Attr ''title'' (AText (tr ''Make sure all nodes for the storage cluster are selected before you continue (at least three nodes are required).'' []))] []],
        VEl ''StackItem'' []
          [VEl ''VirtualizedTable''
             [Attr ''columns'' (AList (map column_id (nt_columns vm))),
              Attr ''data'' (AList (map (\<lambda>n. nullish (getName n) []) (nt_workerNodes vm))),
              Attr ''unfilteredData'' (AList (map (\<lambda>n. nullish (getName n) []) (nt_workerNodes vm))),
              Attr ''loaded'' (ABool (nt_loaded vm)),
              Attr ''loadError'' (ABool (nt_error vm \<noteq> None)),
              Slot ''EmptyMsg'' StorageClustersNodesSelectionEmptyState] []],
        VEl ''StackItem'' []
          [VEl ''HelperText'' [] [VEl ''HelperTextItem'' [] [VText (nt_sharedDisksCountMessage vm)]]]]"

definition table_data :: "TableColumn \<Rightarrow> string option \<Rightarrow> view list \<Rightarrow> view" where
  "table_data c className children =
     VEl ''TableData'' (opt_attr ''className'' (map_option AText className) @ [Attr ''id'' (AText (column_id c))]) children"

definition opt_text :: "string option \<Rightarrow> view" where
  "opt_text t = (case t of None \<Rightarrow> VNull | Some s \<Rightarrow> VText s)"

text \<open>The cells of a row. \<open>cx\<close> of Emotion joins class names; \<open>tabularNums\<close> is its generated one.\<close>

definition StorageClustersNodesSelectionTableRow ::
  "translator \<Rightarrow> (string option \<Rightarrow> string \<Rightarrow> string) \<Rightarrow> string \<Rightarrow> TableColumn list \<Rightarrow> row_view \<Rightarrow> view" where
  "StorageClustersNodesSelectionTableRow tr cx tabularNums columns rv =
     fragment
       [table_data (columns ! 0) (column_className (columns ! 0))
          [VEl ''Checkbox''
             [Attr ''id'' (AText (rv_checkbox_id rv)), Attr ''isChecked'' (ABool (rv_isChecked rv)),
              Attr ''isDisabled'' (ABool (rv_isDisabled rv)),
              Attr ''onChange'' (AHandler (UseCase ''handleNodeSelectionChange''))] []],
        table_data (columns ! 1) None [opt_text (rv_name rv)],
        table_data (columns ! 2) (column_className (columns ! 2)) [VText (rv_role rv)],
        table_data (columns ! 3) (Some (cx (column_className (columns ! 3)) tabularNums)) [opt_text (rv_cpu rv)],
        table_data (columns ! 4) (Some (cx (column_className (columns ! 4)) tabularNums))
          [VText (rv_memory rv), VText '' '',
           if rv_insufficient rv then
             VEl ''Tooltip'' [Attr ''content'' (AText (tr ''Insufficient'' []))]
               [VEl ''Icon'' [Attr ''status'' (AText ''warning''), Attr ''isInline'' (ABool True)]
                  [VEl ''ExclamationTriangleIcon'' [] []]]
           else VNull]]"

subsection \<open>Lemmas\<close>

lemma redirect_elements [simp]:
  "elements ''Redirect'' (Redirect_to p) = [Redirect_to p]"
  "view_attr k (Redirect_to p) = (if k = ''to'' then Some (AText (url_path p)) else None)"
  by (auto simp: Redirect_to_def)

lemma redirects_plain_page:
  "redirects (ListPage (plain_page a b) [v]) = redirects v"
  by (simp add: redirects_def list_page_elements alert_elements plain_page_def)

lemma redirects_async:
  "redirects (Async loaded error (DefaultErrorFallback tr) (DefaultLoadingFallback tr) [Redirect_to p]) =
     (if loaded \<and> error = None then [AText (url_path p)] else [])"
  by (simp add: redirects_def async_cases split: option.splits)

lemma home_screen_redirects:
  "redirects (FusionAccessHomeScreen tr vm) =
     (if fh_loaded vm \<and> fh_error vm = None
      then [AText (url_path (if fh_hasStorageClusterNotBeenCreated vm then StorageClustersHome
                             else FileSystemClaimsHome))]
      else [])"
  unfolding FusionAccessHomeScreen_def redirects_plain_page by (simp add: redirects_async flip: if_distrib)

subsection \<open>Properties\<close>

text \<open>The entry screen, over what the two watches give: it redirects exactly when FusionAccess is ready and
  the storage clusters are loaded without an error, to the storage cluster page when no cluster has
  been created and to the file system claims page otherwise.\<close>

lemma entry_redirects:
  assumes "F = useFusionAccessesRepository watchF o1" "C = useStorageClustersRepository watchC o2"
  shows "redirects (FusionAccessHomeScreen tr (useFusionAccessHomeScreenViewModel F C)) =
     (if far_isReady F \<and> scr_loaded C \<and> scr_error C = None
      then [AText (if scr_hasNotBeenCreated C then ''/fusion-access/storage-cluster''
                   else ''/fusion-access/file-system-claims'')]
      else [])"
  using fusion_ready_no_error [of watchF o1] cluster_missing_imp_loaded [of watchC o2]
  by (auto simp: home_screen_redirects useFusionAccessHomeScreenViewModel_def js_or_None_iff assms)

definition ready_fusion_access :: FusionAccess where
  "ready_fusion_access = \<lparr>apiVersion = None, kind = None, metadata = None, fusionAccess_spec = None,
     fusionAccess_status = Some \<lparr>fusionAccessStatus_conditions = None, fusionAccessStatus_observedGeneration = None,
       fusionAccessStatus_status = Some ''Ready'', fusionAccessStatus_totalProvisionedDeviceCount = None\<rparr>\<rparr>"

text \<open>When the watch of FusionAccess fails, the entry screen shows the loading page and never the error:
  it counts as loaded only once FusionAccess is ready, which excludes an error.\<close>

lemma fusion_error_hidden:
  assumes "far_error (useFusionAccessesRepository watchF o1) = Some e"
  shows "FusionAccessHomeScreen tr (useFusionAccessHomeScreenViewModel (useFusionAccessesRepository watchF o1) C) =
     ListPage (plain_page (tr ''Fusion Access for SAN'' []) (tr ''Fusion Access for SAN'' []))
       [DefaultLoadingFallback tr]"
  using fusion_ready_no_error [of watchF o1] assms
  by (auto simp: FusionAccessHomeScreen_def useFusionAccessHomeScreenViewModel_def async_cases)

text \<open>The storage cluster page offers to create a cluster whenever the clusters are loaded without error,
  also when one exists already: what it renders does not depend on the clusters found.\<close>

lemma cluster_home_ignores_clusters:
  "StorageClustersHomeScreen tr store (C\<lparr>scr_storageClusters := cs, scr_hasNotBeenCreated := b\<rparr>) =
     StorageClustersHomeScreen tr store C \<and>
   (scr_loaded C \<and> scr_error C = None \<longrightarrow>
     List.map_filter (view_attr ''onClick'') (elements ''Button'' (StorageClustersHomeScreen tr store C)) =
       [AHandler (GoTo ''/fusion-access/storage-cluster/create'')])"
proof -
  have "elements ''Button'' (StorageClusterEmptyState tr h) =
      [StorageClustersCreateButton tr [Attr ''onClick'' (AHandler h)], learn_more_button tr]" for h
    by (simp add: StorageClusterEmptyState_def StorageClustersCreateButton_def learn_more_button_def)
  then show ?thesis
    by (auto simp: StorageClustersHomeScreen_def list_page_elements alert_elements plain_page_def async_cases
        StorageClustersCreateButton_def learn_more_button_def redirect_handler_def map_filter_simps)
qed

end
