(* ===== verification/Cluster_Page.thy ===== *)
theory Cluster_Page
  imports Cluster_Screens Create_Flows
begin

section \<open>The page that creates a storage cluster\<close>

text \<open>
  \<open>storage_clusters_create_screen.tsx\<close> with its store, the table of nodes below it and the creating
  callback, as one machine: what the watches report, what the user clicks and how requests settle are
  the events; the handlers, the effects with their dependency lists and the store are those of the
  component theories. An alert about a rejection that is neither an \<open>Error\<close> nor a string throws when it is
  rendered (\<open>object_rejection_breaks_alert\<close>), and the console's error boundary takes the page's place; the
  machine keeps its state there, and its further steps are those of no page.
\<close>

subsection \<open>State\<close>

text \<open>
  \<open>cp_deps\<close> are the dependencies the validation effect last ran with. \<open>cp_validated\<close>, \<open>cp_sent\<close> and
  \<open>cp_visited\<close> record history: the data of the last render in which both watches were loaded, the
  requests sent, and the pages navigated to; once there is one, this page is unmounted.
\<close>

record cluster_page =
  cp_store :: State
  cp_nodes :: "Node repository"
  cp_lvdrs :: "lvdr repository"
  cp_deps :: "(bool \<times> nat \<times> nat) option"
  cp_inFlight :: bool
  cp_pending :: nat
  cp_validated :: "(Node list \<times> lvdr list) option"
  cp_sent :: "Cluster list"
  cp_visited :: "UrlPaths list"

definition page_counts :: "Node list \<Rightarrow> lvdr list \<Rightarrow> nat \<times> nat" where
  "page_counts nodes lvdrs = (length (selectedNodes nodes), sharedDisksCount lvdrs (selectedNodes nodes))"

definition page_loaded :: "cluster_page \<Rightarrow> bool" where
  "page_loaded p \<longleftrightarrow> repo_loaded (cp_nodes p) \<and> repo_loaded (cp_lvdrs p)"

definition page_deps :: "cluster_page \<Rightarrow> bool \<times> nat \<times> nat" where
  "page_deps p = (page_loaded p, page_counts (repo_items (cp_nodes p)) (repo_items (cp_lvdrs p)))"

subsection \<open>Effects\<close>

definition page_dispatch :: "Actions list \<Rightarrow> cluster_page \<Rightarrow> cluster_page" where
  "page_dispatch acts p = p\<lparr>cp_store := foldl reduce_or_keep (cp_store p) acts\<rparr>"

definition page_run_effects :: "ui_effect list \<Rightarrow> cluster_page \<Rightarrow> cluster_page" where
  "page_run_effects es p = (page_dispatch (dispatched es) p)\<lparr>cp_visited := cp_visited p @ visited es\<rparr>"

text \<open>
  After a render the effects of the table run in their order, each if one of its dependencies
  changed: the two about errors when the watch gave another error object, the validation when the
  loaded flag or a count changed. The alerts the validation reads are those of the render.
\<close>

definition page_effects :: "translator \<Rightarrow> bool \<Rightarrow> bool \<Rightarrow> cluster_page \<Rightarrow> cluster_page" where
  "page_effects tr newLvdrsError newNodesError p =
     (let (loaded, n, s) = page_deps p;
          acts = (if newLvdrsError then table_lvdrs_error_effect tr (repo_error (cp_lvdrs p)) else []) @
                 (if newNodesError then table_nodes_error_effect tr (repo_error (cp_nodes p)) else []) @
                 (if cp_deps p = Some (loaded, n, s) then []
                  else useValidateMinimumRequirements tr loaded n s (alerts (cp_store p)))
      in (page_dispatch acts p)
           \<lparr>cp_deps := Some (loaded, n, s),
            cp_validated := (if loaded then Some (repo_items (cp_nodes p), repo_items (cp_lvdrs p)) else cp_validated p)\<rparr>)"

subsection \<open>Events\<close>

datatype page_event =
    WatchUpdate "Node repository" "lvdr repository" bool bool
  | ModelUpdate bool
  | ClickCreate
  | CreationSettled "Cluster promise"
  | RowPatchFailed thrown
  | CloseAlert
  | ClickCancel

definition page_mount :: "translator \<Rightarrow> Node repository \<Rightarrow> lvdr repository \<Rightarrow> bool \<Rightarrow> cluster_page" where
  "page_mount tr nodes lvdrs inFlight =
     page_effects tr True True
       \<lparr>cp_store = initialState tr, cp_nodes = nodes, cp_lvdrs = lvdrs, cp_deps = None, cp_inFlight = inFlight,
        cp_pending = 0, cp_validated = None, cp_sent = [], cp_visited = []\<rparr>"

text \<open>The part of the callback up to the \<open>await\<close>, and the rest once the promise has settled.\<close>

definition creation_started :: "translator \<Rightarrow> bool \<Rightarrow> ui_effect list" where
  "creation_started tr inFlight = useStorageClustersCreateUseCase tr (\<lambda>_. Pending) inFlight"

definition creation_finished :: "translator \<Rightarrow> Cluster promise \<Rightarrow> ui_effect list" where
  "creation_finished tr outcome =
     drop (length (creation_started tr False)) (useStorageClustersCreateUseCase tr (\<lambda>_. outcome) False)"

definition click_create :: "translator \<Rightarrow> cluster_page \<Rightarrow> cluster_page" where
  "click_create tr p =
     (if isDisabled (cta (cp_store p)) = Some True then p
      else (let p' = page_run_effects (creation_started tr (cp_inFlight p)) p in
        if cp_inFlight p then p'
        else p'\<lparr>cp_sent := cp_sent p @ [storage_cluster_request], cp_pending := cp_pending p + 1\<rparr>))"

definition close_alert :: "cluster_page \<Rightarrow> cluster_page" where
  "close_alert p =
     (case Option.bind (js_first (alerts (cp_store p))) alert_dismiss of
        None \<Rightarrow> p
      | Some dismiss \<Rightarrow> page_dispatch [run_callback dismiss] p)"

text \<open>
  A mounted page handles every event; on an unmounted one only a pending request goes on, and its
  dispatches have no store any extra.
\<close>

fun mounted_step :: "translator \<Rightarrow> cluster_page \<Rightarrow> page_event \<Rightarrow> cluster_page" where
  "mounted_step tr p (WatchUpdate nodes lvdrs newNodesError newLvdrsError) =
     page_effects tr newLvdrsError newNodesError (p\<lparr>cp_nodes := nodes, cp_lvdrs := lvdrs\<rparr>)"
| "mounted_step tr p (ModelUpdate inFlight) = p\<lparr>cp_inFlight := inFlight\<rparr>"
| "mounted_step tr p ClickCreate = click_create tr p"
| "mounted_step tr p (CreationSettled outcome) =
     (if cp_pending p = 0 \<or> outcome = Pending then p
      else page_run_effects (creation_finished tr outcome) (p\<lparr>cp_pending := cp_pending p - 1\<rparr>))"
| "mounted_step tr p (RowPatchFailed e) = page_dispatch (row_rejected_actions tr e) p"
| "mounted_step tr p CloseAlert = close_alert p"
| "mounted_step tr p ClickCancel = page_run_effects [Navigate StorageClustersHome] p"

definition unmounted_step :: "translator \<Rightarrow> cluster_page \<Rightarrow> page_event \<Rightarrow> cluster_page" where
  "unmounted_step tr p e =
     (case e of
        CreationSettled outcome \<Rightarrow>
          (if cp_pending p = 0 \<or> outcome = Pending then p
           else p\<lparr>cp_pending := cp_pending p - 1, cp_visited := cp_visited p @ visited (creation_finished tr outcome)\<rparr>)
      | _ \<Rightarrow> p)"

definition page_step :: "translator \<Rightarrow> cluster_page \<Rightarrow> page_event \<Rightarrow> cluster_page" where
  "page_step tr p e = (if cp_visited p = [] then mounted_step tr p e else unmounted_step tr p e)"

subsection \<open>The effects on the store\<close>

lemma creation_effects:
  "creation_started tr b = [Dispatch (set_loading True)]"
  "creation_finished tr (Resolved c) = [Navigate FileSystemClaimsHome, Dispatch (set_loading False)]"
  "creation_finished tr (Rejected e) = [Dispatch (AddAlert (creation_alert tr e)), Dispatch (set_loading False)]"
proof -
  show started: "creation_started tr b = [Dispatch (set_loading True)]" for b
    by (cases b) (simp_all add: creation_started_def use_case_in_flight cluster_use_case_eq cluster_creation.pending)
  show "creation_finished tr (Resolved c) = [Navigate FileSystemClaimsHome, Dispatch (set_loading False)]"
    "creation_finished tr (Rejected e) = [Dispatch (AddAlert (creation_alert tr e)), Dispatch (set_loading False)]"
    by (simp_all add: creation_finished_def started cluster_use_case_eq cluster_creation.resolved cluster_creation.rejected)
qed

lemma page_dispatch_fields [simp]:
  "cp_nodes (page_dispatch acts p) = cp_nodes p" "cp_lvdrs (page_dispatch acts p) = cp_lvdrs p"
  "cp_deps (page_dispatch acts p) = cp_deps p" "cp_inFlight (page_dispatch acts p) = cp_inFlight p"
  "cp_pending (page_dispatch acts p) = cp_pending p" "cp_validated (page_dispatch acts p) = cp_validated p"
  "cp_sent (page_dispatch acts p) = cp_sent p" "cp_visited (page_dispatch acts p) = cp_visited p"
  "cp_store (page_dispatch acts p) = foldl reduce_or_keep (cp_store p) acts"
  by (simp_all add: page_dispatch_def)

text \<open>Alerts without a key keep the invariant of the table's alerts and leave the button alone.\<close>

definition unkeyed_adds :: "Actions list \<Rightarrow> bool" where
  "unkeyed_adds acts = list_all (\<lambda>a. case a of AddAlert x \<Rightarrow> alert_key x = None | _ \<Rightarrow> False) acts"

lemma reduce_add_unkeyed:
  "alert_key a = None \<Longrightarrow> reduce_or_keep st (AddAlert a) = st\<lparr>alerts := alerts st @ [a]\<rparr>"
  by (simp add: reduce_or_keep_def add_alert_other is_minimum_alert_def)

lemma unkeyed_adds_run:
  "unkeyed_adds acts \<Longrightarrow> \<exists>extra. (\<forall>a \<in> set extra. \<not> is_minimum_alert a) \<and>
     foldl reduce_or_keep st acts = st\<lparr>alerts := alerts st @ extra\<rparr>"
proof (induction acts arbitrary: st)
  case (Cons act acts)
  then obtain x where x: "act = AddAlert x" "alert_key x = None" "unkeyed_adds acts"
    by (auto simp: unkeyed_adds_def split: Actions.splits)
  from Cons.IH [OF x(3), of "reduce_or_keep st act"] obtain extra where
    "\<forall>a \<in> set extra. \<not> is_minimum_alert a"
    "foldl reduce_or_keep (reduce_or_keep st act) acts =
       (reduce_or_keep st act)\<lparr>alerts := alerts (reduce_or_keep st act) @ extra\<rparr>" by blast
  with x show ?case
    by (intro exI [of _ "x # extra"]) (simp add: reduce_add_unkeyed is_minimum_alert_def)
qed (auto intro: exI [of _ "[]"])

lemma error_effects_unkeyed:
  "unkeyed_adds ((if a then table_lvdrs_error_effect tr e else []) @ (if b then table_nodes_error_effect tr e' else []))"
  "unkeyed_adds (row_rejected_actions tr t)"
  by (simp_all add: unkeyed_adds_def table_lvdrs_error_effect_def table_nodes_error_effect_def error_alert_def
      row_rejected_actions_def split: option.splits)

lemma table_alerts_ok_append:
  "table_alerts_ok as \<Longrightarrow> \<forall>a \<in> set extra. \<not> is_minimum_alert a \<Longrightarrow> table_alerts_ok (as @ extra)"
  by (cases as; cases extra) (auto simp: table_alerts_ok_def minimum_alert_first_def)

lemma validate_append:
  "\<forall>a \<in> set extra. \<not> is_minimum_alert a \<Longrightarrow>
     useValidateMinimumRequirements tr l n s (as @ extra) = useValidateMinimumRequirements tr l n s as"
proof -
  assume "\<forall>a \<in> set extra. \<not> is_minimum_alert a"
  then have "find is_minimum_alert (as @ extra) = find is_minimum_alert as"
    by (induction as) (auto simp: find_None_iff)
  then show ?thesis by (simp add: useValidateMinimumRequirements_def Let_def)
qed

subsection \<open>The invariant\<close>

definition counts_missing :: "nat \<times> nat \<Rightarrow> bool" where
  "counts_missing c = requirements_missing (fst c) (snd c)"

definition page_inv :: "cluster_page \<Rightarrow> bool" where
  "page_inv p \<longleftrightarrow> table_alerts_ok (alerts (cp_store p)) \<and>
     isDisabled (cta (cp_store p)) =
       Some (case cp_validated p of None \<Rightarrow> True | Some (ns, ls) \<Rightarrow> counts_missing (page_counts ns ls)) \<and>
     (\<forall>c. cp_deps p = Some (True, c) \<longrightarrow> (\<exists>ns ls. cp_validated p = Some (ns, ls) \<and> c = page_counts ns ls))"

lemma page_invD:
  assumes "page_inv p"
  shows "table_alerts_ok (alerts (cp_store p))"
    "isDisabled (cta (cp_store p)) =
       Some (case cp_validated p of None \<Rightarrow> True | Some (ns, ls) \<Rightarrow> counts_missing (page_counts ns ls))"
    "cp_deps p = Some (True, c) \<Longrightarrow> \<exists>ns ls. cp_validated p = Some (ns, ls) \<and> c = page_counts ns ls"
  using assms by (auto simp: page_inv_def)

text \<open>The store after the validation of a render, error alerts included.\<close>

lemma validated_store:
  assumes "table_alerts_ok (alerts st)" "unkeyed_adds acts"
  shows "let st' = foldl reduce_or_keep st (acts @ useValidateMinimumRequirements tr True n s (alerts st)) in
     table_alerts_ok (alerts st') \<and> isDisabled (cta st') = Some (requirements_missing n s) \<and>
     isLoading (cta st') = isLoading (cta st)"
proof -
  from unkeyed_adds_run [OF assms(2)] obtain extra where
    extra: "\<forall>a \<in> set extra. \<not> is_minimum_alert a" "foldl reduce_or_keep st acts = st\<lparr>alerts := alerts st @ extra\<rparr>"
    by blast
  let ?st = "st\<lparr>alerts := alerts st @ extra\<rparr>"
  have ok: "table_alerts_ok (alerts ?st)" using table_alerts_ok_append [OF assms(1) extra(1)] by simp
  have run: "foldl reduce_or_keep st (acts @ useValidateMinimumRequirements tr True n s (alerts st)) =
      foldl reduce_or_keep ?st (useValidateMinimumRequirements tr True n s (alerts ?st))"
    using extra validate_append by simp
  show ?thesis
    unfolding Let_def run dispatch_all_run [OF validate_store [OF ok, of tr n s], symmetric]
    using table_alerts_ok_after [of "requirements_missing n s" tr "too_few_disks s" "too_few_nodes n" "alerts st @ extra"]
    by simp
qed

lemma unkeyed_store:
  assumes "table_alerts_ok (alerts st)" "unkeyed_adds acts"
  shows "table_alerts_ok (alerts (foldl reduce_or_keep st acts)) \<and> cta (foldl reduce_or_keep st acts) = cta st"
  using unkeyed_adds_run [OF assms(2), of st] table_alerts_ok_append [OF assms(1)] by auto

lemma validation_not_loaded: "useValidateMinimumRequirements tr False n s as = []"
  by (simp add: useValidateMinimumRequirements_def)

lemma page_effects_cases:
  defines "errs p a b tr \<equiv> (if a then table_lvdrs_error_effect tr (repo_error (cp_lvdrs p)) else []) @
     (if b then table_nodes_error_effect tr (repo_error (cp_nodes p)) else [])"
  shows "cp_store (page_effects tr a b p) = foldl reduce_or_keep (cp_store p)
     (errs p a b tr @
       (if cp_deps p = Some (page_deps p) then []
        else useValidateMinimumRequirements tr (page_loaded p)
               (fst (page_counts (repo_items (cp_nodes p)) (repo_items (cp_lvdrs p))))
               (snd (page_counts (repo_items (cp_nodes p)) (repo_items (cp_lvdrs p)))) (alerts (cp_store p))))"
    "cp_deps (page_effects tr a b p) = Some (page_deps p)"
    "cp_validated (page_effects tr a b p) =
       (if page_loaded p then Some (repo_items (cp_nodes p), repo_items (cp_lvdrs p)) else cp_validated p)"
    "cp_sent (page_effects tr a b p) = cp_sent p" "cp_visited (page_effects tr a b p) = cp_visited p"
    "cp_pending (page_effects tr a b p) = cp_pending p" "cp_inFlight (page_effects tr a b p) = cp_inFlight p"
  by (simp_all add: page_effects_def page_deps_def page_counts_def errs_def Let_def)

text \<open>The invariant after a render: \<open>pre\<close> is what it needs of the state before the effects.\<close>

lemma page_effects_inv:
  assumes "table_alerts_ok (alerts (cp_store p))"
    "isDisabled (cta (cp_store p)) =
       Some (case cp_validated p of None \<Rightarrow> True | Some (ns, ls) \<Rightarrow> counts_missing (page_counts ns ls))"
    "\<And>c. cp_deps p = Some (True, c) \<Longrightarrow> \<exists>ns ls. cp_validated p = Some (ns, ls) \<and> c = page_counts ns ls"
  shows "page_inv (page_effects tr a b p)"
proof -
  let ?p = "page_effects tr a b p" and ?ns = "repo_items (cp_nodes p)" and ?ls = "repo_items (cp_lvdrs p)"
  let ?errs = "(if a then table_lvdrs_error_effect tr (repo_error (cp_lvdrs p)) else []) @
     (if b then table_nodes_error_effect tr (repo_error (cp_nodes p)) else [])"
  note unkeyed = unkeyed_store [OF assms(1) error_effects_unkeyed(1)]
  consider (same) "cp_deps p = Some (page_deps p)" | (off) "\<not> page_loaded p" | (run) "cp_deps p \<noteq> Some (page_deps p)" "page_loaded p"
    by blast
  then have "table_alerts_ok (alerts (cp_store ?p)) \<and> isDisabled (cta (cp_store ?p)) =
      Some (if page_loaded p then counts_missing (page_counts ?ns ?ls)
            else (case cp_validated p of None \<Rightarrow> True | Some (ns, ls) \<Rightarrow> counts_missing (page_counts ns ls)))"
  proof cases
    case same
    then have st: "cp_store ?p = foldl reduce_or_keep (cp_store p) ?errs" by (simp add: page_effects_cases)
    show ?thesis
    proof (cases "page_loaded p")
      case True
      with same assms(3) [of "page_counts ?ns ?ls"] obtain ns ls where
        "cp_validated p = Some (ns, ls)" "page_counts ?ns ?ls = page_counts ns ls"
        by (auto simp: page_deps_def)
      with True unkeyed assms(2) show ?thesis by (simp only: st if_True option.case prod.case)
    qed (use unkeyed assms(2) in \<open>simp only: st if_False\<close>)
  next
    case off
    then have "cp_store ?p = foldl reduce_or_keep (cp_store p) ?errs"
      by (simp add: page_effects_cases validation_not_loaded)
    with off unkeyed assms(2) show ?thesis by (simp only: if_False)
  next
    case run
    then show ?thesis
      using validated_store [OF assms(1) error_effects_unkeyed(1)]
      by (simp add: page_effects_cases counts_missing_def Let_def)
  qed
  then show ?thesis
    by (auto simp: page_inv_def page_effects_cases page_deps_def)
qed

lemma page_inv_cong:
  assumes "page_inv p" "table_alerts_ok (alerts (cp_store q))"
    "isDisabled (cta (cp_store q)) = isDisabled (cta (cp_store p))"
    "cp_deps q = cp_deps p" "cp_validated q = cp_validated p"
  shows "page_inv q"
  using assms by (simp add: page_inv_def)

lemma loading_store:
  "reduce_or_keep st (set_loading b) = st\<lparr>cta := (cta st)\<lparr>isLoading := Some b\<rparr>\<rparr>"
  by (simp add: reduce_or_keep_def set_loading_def spread_cta_def split: option.splits)

lemma page_run_effects_fields [simp]:
  "cp_deps (page_run_effects es p) = cp_deps p" "cp_validated (page_run_effects es p) = cp_validated p"
  "cp_sent (page_run_effects es p) = cp_sent p" "cp_pending (page_run_effects es p) = cp_pending p"
  "cp_inFlight (page_run_effects es p) = cp_inFlight p"
  "cp_nodes (page_run_effects es p) = cp_nodes p" "cp_lvdrs (page_run_effects es p) = cp_lvdrs p"
  "cp_visited (page_run_effects es p) = cp_visited p @ visited es"
  "cp_store (page_run_effects es p) = foldl reduce_or_keep (cp_store p) (dispatched es)"
  by (simp_all add: page_run_effects_def)

lemma creation_alert_key [simp]: "alert_key (creation_alert tr e) = None"
  by (simp add: creation_alert_def)

lemma creation_effects_store:
  assumes "table_alerts_ok (alerts st)" "outcome \<noteq> Pending"
  shows "table_alerts_ok (alerts (foldl reduce_or_keep st (dispatched (creation_finished tr outcome)))) \<and>
     isDisabled (cta (foldl reduce_or_keep st (dispatched (creation_finished tr outcome)))) = isDisabled (cta st)"
  using assms table_alerts_ok_append [OF assms(1)]
  by (cases outcome) (simp_all add: creation_effects loading_store reduce_add_unkeyed)

lemma click_create_inv: "page_inv p \<Longrightarrow> page_inv (click_create tr p)"
  by (rule page_inv_cong) (simp_all add: click_create_def creation_effects loading_store page_inv_def Let_def)

lemma close_alert_inv: "page_inv p \<Longrightarrow> page_inv (close_alert p)"
proof (cases "Option.bind (js_first (alerts (cp_store p))) alert_dismiss")
  case (Some d)
  assume inv: "page_inv p"
  show ?thesis
    by (rule page_inv_cong [OF inv])
      (use Some table_alerts_ok_tl [OF page_invD(1) [OF inv]] in
        \<open>cases d; simp add: close_alert_def reduce_or_keep_def\<close>)+
qed (simp add: close_alert_def)

lemma mounted_step_inv: "page_inv p \<Longrightarrow> page_inv (mounted_step tr p e)"
proof (cases e)
  case (WatchUpdate nodes lvdrs b a)
  assume "page_inv p"
  then show ?thesis
    unfolding WatchUpdate mounted_step.simps by (intro page_effects_inv) (auto dest: page_invD)
next
  case (CreationSettled outcome)
  assume inv: "page_inv p"
  then show ?thesis
    using creation_effects_store [OF page_invD(1) [OF inv], of outcome tr]
    by (auto simp: CreationSettled intro: page_inv_cong [OF inv])
next
  case (RowPatchFailed err)
  assume inv: "page_inv p"
  then show ?thesis
    using unkeyed_store [OF page_invD(1) [OF inv] error_effects_unkeyed(2) [of tr err]]
    by (auto simp: RowPatchFailed intro: page_inv_cong [OF inv])
next
  case (ModelUpdate b)
  assume "page_inv p"
  then show ?thesis by (simp add: ModelUpdate page_inv_def)
next
  case ClickCancel
  assume "page_inv p"
  then show ?thesis by (simp add: ClickCancel page_inv_def)
qed (simp_all add: click_create_inv close_alert_inv)

lemma page_step_inv: "page_inv p \<Longrightarrow> page_inv (page_step tr p e)"
proof -
  assume inv: "page_inv p"
  then have "page_inv (unmounted_step tr p e)"
    by (simp add: unmounted_step_def page_inv_def split: page_event.splits)
  with inv show ?thesis by (simp add: page_step_def mounted_step_inv)
qed

lemma page_mount_inv: "page_inv (page_mount tr nodes lvdrs b)"
  unfolding page_mount_def
  by (rule page_effects_inv) (simp_all add: initialState_def table_alerts_ok_def minimum_alert_first_def)

interpretation cluster_page: machine "page_step tr" page_inv for tr
  by unfold_locales (rule page_step_inv)

lemma page_run_inv: "page_inv (foldl (page_step tr) (page_mount tr nodes lvdrs b) es)"
  by (rule cluster_page.run_inv) (rule page_mount_inv)

subsection \<open>Requests\<close>

lemma settled_sent: "cp_sent (unmounted_step tr p e) = cp_sent p"
  by (simp add: unmounted_step_def split: page_event.splits)

text \<open>Only a click on the enabled button sends a request.\<close>

lemma request_step:
  assumes "cp_sent (page_step tr p e) \<noteq> cp_sent p"
  shows "e = ClickCreate" "cp_visited p = []" "isDisabled (cta (cp_store p)) \<noteq> Some True" "\<not> cp_inFlight p"
    "cp_sent (page_step tr p e) = cp_sent p @ [storage_cluster_request]"
proof -
  have mounted: "cp_visited p = []"
    using assms by (metis page_step_def settled_sent)
  moreover have click: "e = ClickCreate"
    using assms mounted by (cases e) (auto simp: page_step_def page_effects_cases close_alert_def split: option.splits if_splits)
  moreover have "isDisabled (cta (cp_store p)) \<noteq> Some True" "\<not> cp_inFlight p"
    "cp_sent (page_step tr p e) = cp_sent p @ [storage_cluster_request]"
    using assms mounted click by (auto simp: page_step_def click_create_def Let_def split: if_splits)
  ultimately show "e = ClickCreate" "cp_visited p = []" "isDisabled (cta (cp_store p)) \<noteq> Some True" "\<not> cp_inFlight p"
    "cp_sent (page_step tr p e) = cp_sent p @ [storage_cluster_request]" by blast+
qed

lemma shared_count_positive:
  assumes "1 \<le> sharedDisksCount lvdrs selected"
  shows "2 \<le> length (lvdrs_of_nodes selected lvdrs) \<and>
     (\<exists>w. \<forall>l \<in> set (lvdrs_of_nodes selected lvdrs). w \<in> reported_wwns l)"
proof -
  let ?ls = "lvdrs_of_nodes selected lvdrs"
  have two: "2 \<le> length ?ls"
    using assms by (simp add: sharedDisksCount_def Let_def split: if_splits)
  then have ne: "map wwn_set ?ls \<noteq> []" by auto
  have "card (\<Inter> (set (map wwn_set ?ls))) \<noteq> 0"
    using assms two unfolding sharedDisksCount_def Let_def inter_all [OF ne] by simp
  then obtain w where "w \<in> (\<Inter> (set (map wwn_set ?ls)))" by (metis card.empty equals0I)
  then show ?thesis using two by (auto simp: wwn_set_reported)
qed

lemma shared_count_ge_1:
  assumes "2 \<le> length (lvdrs_of_nodes selected lvdrs)" "\<forall>l \<in> set (lvdrs_of_nodes selected lvdrs). w \<in> reported_wwns l"
  shows "1 \<le> sharedDisksCount lvdrs selected"
proof -
  let ?ls = "lvdrs_of_nodes selected lvdrs"
  have ne: "map wwn_set ?ls \<noteq> []" using assms(1) by auto
  obtain l where l: "l \<in> set ?ls" using assms(1) by (cases ?ls) auto
  have "w \<in> (\<Inter> (set (map wwn_set ?ls)))" using assms(2) by (auto simp: wwn_set_reported)
  moreover have "finite (\<Inter> (set (map wwn_set ?ls)))"
    using l by (intro finite_Inter) (auto simp: wwn_set_def)
  ultimately have "0 < card (\<Inter> (set (map wwn_set ?ls)))" by (auto simp: card_gt_0_iff)
  then show ?thesis using assms(1) unfolding sharedDisksCount_def Let_def inter_all [OF ne] by simp
qed

subsection \<open>The shape of the store\<close>

text \<open>
  What the page relies on when it renders the store: both flags of the button are set, an alert
  without a key is an error, and there is at most one alert with a key, the first, which is the
  requirements alert, a warning with a list and a close button. The errors have a text when requests
  are rejected with an \<open>Error\<close> or a string (\<open>strict\<close>).
\<close>

definition alert_shape :: "bool \<Rightarrow> Alert \<Rightarrow> bool" where
  "alert_shape strict a =
     (case alert_key a of
        None \<Rightarrow> alert_variant a = Some AlertDanger \<and> (strict \<longrightarrow> (\<exists>t. alert_description a = Some (DescText t))) \<and>
          alert_dismiss a = None
      | Some k \<Rightarrow> k = minimum_key \<and> alert_variant a = Some AlertWarning \<and>
          (\<exists>ts. alert_description a = Some (DescList ts)) \<and> alert_dismiss a = Some DispatchDismissAlert)"

definition store_shape :: "bool \<Rightarrow> State \<Rightarrow> bool" where
  "store_shape strict st \<longleftrightarrow> isDisabled (cta st) \<noteq> None \<and> isLoading (cta st) \<noteq> None \<and>
     (\<forall>a \<in> set (alerts st). alert_shape strict a) \<and> (\<forall>a \<in> set (tl (alerts st)). alert_key a = None)"

fun text_rejection :: "page_event \<Rightarrow> bool" where
  "text_rejection (CreationSettled (Rejected (ThrownEmpty s))) = False"
| "text_rejection (CreationSettled (Rejected (ThrownOther s))) = False"
| "text_rejection _ = True"

lemma keyed_first:
  "\<forall>a \<in> set as. alert_shape strict a \<Longrightarrow> (\<forall>a \<in> set (tl as). alert_key a = None) = minimum_alert_first as"
  by (cases as) (auto simp: minimum_alert_first_def is_minimum_alert_def alert_shape_def split: option.splits)

fun action_shape :: "bool \<Rightarrow> Actions \<Rightarrow> bool" where
  "action_shape strict (AddAlert a) = alert_shape strict a"
| "action_shape strict _ = True"

lemma store_shape_reduce:
  assumes "store_shape strict st" "action_shape strict act"
  shows "store_shape strict (reduce_or_keep st act)"
proof (cases act)
  case (AddAlert a)
  have shape: "\<forall>x \<in> set (add_alert a (alerts st)). alert_shape strict x"
    using assms add_alert_cases(1) [of a "alerts st"] by (auto simp: AddAlert store_shape_def)
  have "minimum_alert_first (alerts st)" using assms(1) keyed_first [of "alerts st" strict] by (simp add: store_shape_def)
  then have "minimum_alert_first (add_alert a (alerts st))" by (rule add_alert_first)
  then show ?thesis
    using assms(1) shape by (simp add: AddAlert reduce_or_keep_def store_shape_def keyed_first [OF shape])
next
  case DismissAlert
  with assms(1) show ?thesis
    by (cases "alerts st"; cases "tl (alerts st)") (auto simp: reduce_or_keep_def store_shape_def)
qed (use assms in \<open>auto simp: reduce_or_keep_def store_shape_def spread_cta_def split: option.splits\<close>)

lemma store_shape_run:
  "store_shape strict st \<Longrightarrow> \<forall>a \<in> set acts. action_shape strict a \<Longrightarrow> store_shape strict (foldl reduce_or_keep st acts)"
  by (induction acts arbitrary: st) (simp_all add: store_shape_reduce)

lemma page_actions_shape:
  "\<forall>a \<in> set (table_lvdrs_error_effect tr e). action_shape b a" "\<forall>a \<in> set (table_nodes_error_effect tr e). action_shape b a"
  "\<forall>a \<in> set (row_rejected_actions tr t). action_shape b a"
  "\<forall>a \<in> set (useValidateMinimumRequirements tr l n s as). action_shape b a"
  "\<forall>a \<in> set (dispatched (creation_started tr c)). action_shape b a"
proof -
  have "action_shape b (run_callback d)" for d by (cases d) simp
  then show "\<forall>a \<in> set (useValidateMinimumRequirements tr l n s as). action_shape b a"
    by (auto simp: useValidateMinimumRequirements_def disable_cta_def alert_shape_def requirements_alert_def Let_def
        split: option.splits)
qed (auto simp: table_lvdrs_error_effect_def table_nodes_error_effect_def error_alert_def alert_shape_def
      row_rejected_actions_def creation_effects set_loading_def split: option.splits)

lemma creation_finished_shape:
  "outcome \<noteq> Pending \<Longrightarrow> b \<longrightarrow> text_rejection (CreationSettled outcome) \<Longrightarrow>
   \<forall>a \<in> set (dispatched (creation_finished tr outcome)). action_shape b a"
proof (cases outcome)
  case (Rejected e)
  assume "b \<longrightarrow> text_rejection (CreationSettled outcome)"
  then show ?thesis by (cases e) (simp_all add: Rejected creation_effects set_loading_def alert_shape_def creation_alert_def)
qed (simp_all add: creation_effects set_loading_def)

lemma page_effects_shape: "store_shape b (cp_store p) \<Longrightarrow> store_shape b (cp_store (page_effects tr x y p))"
  unfolding page_effects_cases by (rule store_shape_run) (use page_actions_shape in auto)

lemma page_step_shape:
  assumes st: "store_shape b (cp_store p)" and e: "b \<longrightarrow> text_rejection e"
  shows "store_shape b (cp_store (page_step tr p e))"
proof -
  have "action_shape b (run_callback d)" for d by (cases d) simp
  then have close: "store_shape b (cp_store (close_alert p))"
    using st by (simp add: close_alert_def store_shape_reduce split: option.splits)
  have click: "store_shape b (cp_store (click_create tr p))"
    using st store_shape_run [OF st page_actions_shape(5)] by (simp add: click_create_def Let_def)
  have "store_shape b (cp_store (mounted_step tr p e))"
    using st e click close store_shape_run [OF st page_actions_shape(3)] store_shape_run [OF st creation_finished_shape]
    by (cases e) (auto intro: page_effects_shape)
  moreover have "cp_store (unmounted_step tr p e) = cp_store p"
    by (simp add: unmounted_step_def split: page_event.splits)
  ultimately show ?thesis using st by (simp add: page_step_def)
qed

lemma page_run_shape:
  "store_shape b (cp_store p) \<Longrightarrow> b \<longrightarrow> (\<forall>e \<in> set es. text_rejection e) \<Longrightarrow> store_shape b (cp_store (foldl (page_step tr) p es))"
  by (induction es arbitrary: p) (simp_all add: page_step_shape)

subsection \<open>Checking every node\<close>

definition check_node :: "Node \<Rightarrow> Node" where
  "check_node n = with_labels n (toggleNodeStorageRoleLabel n True)"

lemma check_node_selected:
  assumes "\<forall>n \<in> set nodes. metadata n \<noteq> None"
  shows "selectedNodes (map check_node nodes) = map check_node nodes"
  using assms by (auto simp: selectedNodes_def check_node_def hasLabel_toggle intro!: filter_True)

lemma check_node_lvdrs: "lvdrs_of_nodes (map check_node nodes) lvdrs = lvdrs_of_nodes nodes lvdrs"
proof -
  have "resource_name (check_node n) = resource_name n" for n
    by (cases "metadata n") (simp_all add: check_node_def with_labels_def resource_name_def)
  then have "find (\<lambda>n. resource_name n = k) (map check_node nodes) \<noteq> None \<longleftrightarrow> find (\<lambda>n. resource_name n = k) nodes \<noteq> None" for k
    unfolding find_not_None by simp
  then show ?thesis by (simp only: lvdrs_of_nodes_def)
qed

lemma checked_counts:
  assumes "\<forall>n \<in> set nodes. metadata n \<noteq> None" "3 \<le> length nodes" "2 \<le> length (lvdrs_of_nodes nodes lvdrs)"
    and "\<forall>l \<in> set (lvdrs_of_nodes nodes lvdrs). w \<in> reported_wwns l"
  shows "\<not> counts_missing (page_counts (map check_node nodes) lvdrs)"
  using shared_count_ge_1 [of "map check_node nodes" lvdrs w] assms
  by (simp add: counts_missing_def page_counts_def check_node_selected check_node_lvdrs requirements_missing_def
      too_few_disks_def too_few_nodes_def MINIMUM_AMOUNT_OF_NODES_def MINIMUM_AMOUNT_OF_SHARED_DISKS_def)

lemma creation_run:
  assumes "cp_visited p = []" "isDisabled (cta (cp_store p)) \<noteq> Some True"
  shows "let q = foldl (page_step tr) p [ModelUpdate False, ClickCreate, CreationSettled (Resolved c)] in
     cp_visited q = [FileSystemClaimsHome] \<and> cp_sent q = cp_sent p @ [storage_cluster_request]"
  using assms by (simp add: page_step_def click_create_def creation_effects Let_def)

subsection \<open>An example page\<close>

definition example_workers :: "Node repository" where
  "example_workers = \<lparr>repo_loaded = True, repo_error = None,
     repo_items = [example_node ''n0'' [], example_node ''n1'' [], example_node ''n2'' []]\<rparr>"

definition example_discovery :: "lvdr repository" where
  "example_discovery = \<lparr>repo_loaded = True, repo_error = None, repo_items = example_lvdrs\<rparr>"

definition checked_workers :: "Node repository" where
  "checked_workers = example_workers\<lparr>repo_items := map check_node (repo_items example_workers)\<rparr>"

definition example_page :: cluster_page where
  "example_page = page_mount (\<lambda>k _. k) checked_workers example_discovery False"

lemma example_discovered:
  "lvdrs_of_nodes (repo_items example_workers) (repo_items example_discovery) = example_lvdrs"
  "2 \<le> length example_lvdrs" "\<forall>l \<in> set example_lvdrs. ''w1'' \<in> reported_wwns l"
  by (simp_all add: lvdrs_of_nodes_def example_workers_def example_discovery_def example_lvdrs_def example_node_def
      resource_name_def reported_wwns_def)

lemma example_workers_meta:
  "repo_loaded example_workers" "repo_loaded example_discovery" "3 \<le> length (repo_items example_workers)"
  "\<forall>n \<in> set (repo_items example_workers). metadata n \<noteq> None"
  by (simp_all add: example_workers_def example_discovery_def example_node_def)

lemma example_page_fields:
  "cp_visited example_page = []" "cp_sent example_page = []" "\<not> cp_inFlight example_page"
  "isDisabled (cta (cp_store example_page)) = Some False"
proof -
  show "cp_visited example_page = []" "cp_sent example_page = []" "\<not> cp_inFlight example_page"
    by (simp_all add: example_page_def page_mount_def page_effects_cases)
  have v: "cp_validated example_page =
      Some (map check_node (repo_items example_workers), repo_items example_discovery)"
    by (simp add: example_page_def page_mount_def page_effects_cases page_loaded_def checked_workers_def example_workers_meta)
  have "page_inv example_page" unfolding example_page_def by (rule page_mount_inv)
  from page_invD(2) [OF this] show "isDisabled (cta (cp_store example_page)) = Some False"
    using checked_counts [OF example_workers_meta(4,3), of "repo_items example_discovery" "''w1''"] v
    by (simp add: example_discovered)
qed

lemma example_page_run: "example_page = foldl (page_step (\<lambda>k _. k)) (page_mount (\<lambda>k _. k) checked_workers example_discovery False) []"
  by (simp add: example_page_def)

lemma example_page_sends: "cp_sent (page_step (\<lambda>k _. k) example_page ClickCreate) \<noteq> cp_sent example_page"
  by (simp add: page_step_def click_create_def example_page_fields Let_def)

subsection \<open>Properties\<close>

text \<open>C2: A request for a storage cluster leaves the page only when, in the data of the last render in which
  both watches were loaded, at least three nodes were selected and the discovery results of the
  selected nodes, two at least, had a device in common; and it is always the same request. This holds
  after any history of watch updates, clicks, failures and dismissed alerts.\<close>

theorem create_needs_requirements:
  assumes "p = foldl (page_step tr) (page_mount tr nodes lvdrs b) es" "cp_sent (page_step tr p e) \<noteq> cp_sent p"
  shows "\<exists>ns ls. cp_validated p = Some (ns, ls) \<and> 3 \<le> length (selectedNodes ns) \<and>
     2 \<le> length (lvdrs_of_nodes (selectedNodes ns) ls) \<and>
     (\<exists>w. \<forall>l \<in> set (lvdrs_of_nodes (selectedNodes ns) ls). w \<in> reported_wwns l) \<and>
     e = ClickCreate \<and> cp_sent (page_step tr p e) = cp_sent p @ [storage_cluster_request]"
proof -
  note req = request_step [OF assms(2)]
  have "page_inv p" unfolding assms(1) by (rule page_run_inv)
  from page_invD(2) [OF this] req(3) obtain ns ls where
    v: "cp_validated p = Some (ns, ls)" "\<not> counts_missing (page_counts ns ls)"
    by (auto split: option.splits)
  then have "3 \<le> length (selectedNodes ns)" "1 \<le> sharedDisksCount ls (selectedNodes ns)"
    by (simp_all add: counts_missing_def page_counts_def requirements_missing_def too_few_disks_def too_few_nodes_def
        MINIMUM_AMOUNT_OF_NODES_def MINIMUM_AMOUNT_OF_SHARED_DISKS_def)
  with shared_count_positive [of ls "selectedNodes ns"] v(1) req(1,5) show ?thesis by blast
qed

theorem create_needs_requirements_witness:
  "\<exists>ns ls. cp_validated example_page = Some (ns, ls) \<and> 3 \<le> length (selectedNodes ns) \<and>
     cp_sent (page_step (\<lambda>k _. k) example_page ClickCreate) = [storage_cluster_request]"
  using create_needs_requirements [OF example_page_run example_page_sends] by (auto simp: example_page_fields)

text \<open>The goal of the page can be reached from anywhere in its life: while the page is shown, once the
  boxes of three or more worker nodes that share a device are checked (the watch reports the patched
  nodes), the resource model is loaded and the request is accepted, one click on the button sends one
  request and leads to the file system claims page, whatever happened before.\<close>

lemma cluster_creation_reachable:
  assumes "p = foldl (page_step tr) (page_mount tr nodes lvdrs b) es" "cp_visited p = []"
    and "repo_loaded ns" "repo_loaded ls" "3 \<le> length (repo_items ns)" "\<forall>n \<in> set (repo_items ns). metadata n \<noteq> None"
    and "2 \<le> length (lvdrs_of_nodes (repo_items ns) (repo_items ls))"
    and "\<forall>l \<in> set (lvdrs_of_nodes (repo_items ns) (repo_items ls)). w \<in> reported_wwns l"
  shows "let q = foldl (page_step tr) p
       [WatchUpdate (ns\<lparr>repo_items := map check_node (repo_items ns)\<rparr>) ls False False, ModelUpdate False,
        ClickCreate, CreationSettled (Resolved c)]
     in cp_visited q = [FileSystemClaimsHome] \<and> cp_sent q = cp_sent p @ [storage_cluster_request]"
proof -
  let ?e = "WatchUpdate (ns\<lparr>repo_items := map check_node (repo_items ns)\<rparr>) ls False False"
  let ?q = "page_step tr p ?e"
  have visited: "cp_visited ?q = []" and sent: "cp_sent ?q = cp_sent p"
    and validated: "cp_validated ?q = Some (map check_node (repo_items ns), repo_items ls)"
    using assms(2-4) by (simp_all add: page_step_def page_effects_cases page_loaded_def)
  have "page_inv ?q" using page_run_inv unfolding assms(1) by (rule page_step_inv)
  from page_invD(2) [OF this] have "isDisabled (cta (cp_store ?q)) \<noteq> Some True"
    using checked_counts [OF assms(6,5,7,8)] validated by simp
  from creation_run [OF visited this, of tr c] sent show ?thesis by (simp only: foldl_Cons Let_def)
qed

text \<open>C29: A failed request can be repeated: the page stays, the failure is the last alert, the button is
  enabled as before and no longer loading, and another click sends the request again (when the failure is an
  \<open>Error\<close>, a string or empty: with another object the alert throws when it is rendered).\<close>

theorem creation_retry:
  assumes "cp_visited p = []" "isDisabled (cta (cp_store p)) = Some False" "\<not> cp_inFlight p" "\<nexists>s. e = ThrownOther s"
  shows "let q = foldl (page_step tr) p [ClickCreate, CreationSettled (Rejected e)] in
     cp_visited q = [] \<and> alerts (cp_store q) = alerts (cp_store p) @ [creation_alert tr e] \<and>
     cta (cp_store q) = \<lparr>isDisabled = Some False, isLoading = Some False\<rparr> \<and>
     cp_sent (page_step tr q ClickCreate) = cp_sent p @ [storage_cluster_request, storage_cluster_request]"
  using assms
  by (simp add: page_step_def click_create_def creation_effects loading_store reduce_add_unkeyed Let_def)

theorem creation_retry_witness:
  "cp_sent (foldl (page_step (\<lambda>k _. k)) example_page
     [ClickCreate, CreationSettled (Rejected (ThrownString ''conflict'')), ClickCreate]) =
   [storage_cluster_request, storage_cluster_request]"
  using creation_retry [OF example_page_fields(1,4,3), of "ThrownString ''conflict''" "\<lambda>k _. k"]
  by (simp add: example_page_fields Let_def)

text \<open>C30: In every reachable state of the page the store has the shape the screen is written for: the flags of
  the button are defined, every alert without a key is an error without a close button, and there is at most
  one alert with a key, the first, which is the warning about the requirements with its list. As long as
  rejected requests give an \<open>Error\<close> or a string (\<open>strict\<close>), every error has a text.\<close>

theorem page_store_shape:
  assumes "strict \<longrightarrow> (\<forall>e \<in> set es. text_rejection e)"
  shows "store_shape strict (cp_store (foldl (page_step tr) (page_mount tr nodes lvdrs b) es))"
proof -
  have "store_shape strict (initialState tr)" by (simp add: store_shape_def initialState_def)
  then have "store_shape strict (cp_store (page_mount tr nodes lvdrs b))"
    unfolding page_mount_def by (intro page_effects_shape) simp
  then show ?thesis using assms by (rule page_run_shape)
qed

theorem page_store_shape_witness:
  "store_shape True (cp_store (foldl (page_step (\<lambda>k _. k)) example_page
     [ClickCreate, CreationSettled (Rejected (ThrownString ''conflict''))]))"
  unfolding example_page_def by (rule page_store_shape) simp

text \<open>A request that is rejected with another object leaves an alert that cannot be rendered.\<close>

lemma object_rejection_breaks_alert:
  "\<exists>ps qs. ListPageAlert (Some (creation_alert tr (ThrownOther s))) =
     VEl ''AlertGroup'' ps [VEl ''Alert'' qs [VThrow (new_TypeError ''alert.description.map is not a function'')]]"
  by (simp add: ListPageAlert_def creation_alert_def)

text \<open>The button is not disabled while a request is pending: a second click sends a second request. And
  a request that succeeds after the user has left with Cancel still takes the user to the claims page.\<close>

lemma second_click_sends_again:
  assumes "cp_visited p = []" "isDisabled (cta (cp_store p)) = Some False" "\<not> cp_inFlight p"
  shows "cp_sent (foldl (page_step tr) p [ClickCreate, ClickCreate]) =
     cp_sent p @ [storage_cluster_request, storage_cluster_request]"
  using assms by (simp add: page_step_def click_create_def creation_effects loading_store Let_def)

lemma late_redirect:
  assumes "cp_visited p = []" "isDisabled (cta (cp_store p)) = Some False" "\<not> cp_inFlight p"
  shows "cp_visited (foldl (page_step tr) p [ClickCreate, ClickCancel, CreationSettled (Resolved c)]) =
     [StorageClustersHome, FileSystemClaimsHome]"
  using assms by (simp add: page_step_def click_create_def creation_effects loading_store unmounted_step_def Let_def)

end
