(* ===== verification/File_System_Claims.thy ===== *)
theory File_System_Claims
  imports Create_Flows Js_Regexp
begin

section \<open>File system claims: form, table and dashboard link\<close>

text \<open>
  The view models of \<open>console/src/ui/file-system-claims/view-models\<close> and
  \<open>use_routes_use_case.ts\<close>. The form context of PatternFly is third-party: the value of the
  name field, whether it was touched and whether the form is valid are arguments.
\<close>

subsection \<open>The name field\<close>

definition NAME_FIELD_MAX_LENGTH :: nat where
  "NAME_FIELD_MAX_LENGTH = 63"

definition alnum_chars :: "char list" where
  "alnum_chars = ''abcdefghijklmnopqrstuvwxyz0123456789''"

definition label_chars :: "char list" where
  "label_chars = CHR ''-'' # alnum_chars"

definition name_label_re :: rexp where
  "name_label_re = Seq (Class alnum_chars) (Opt (Seq (Many (Class label_chars)) (Class alnum_chars)))"

definition NAME_FIELD_VALIDATION_REGEX :: rexp where
  "NAME_FIELD_VALIDATION_REGEX = Seq name_label_re (Many (Seq (Class ''.'') name_label_re))"

definition NAME_FIELD_VALIDATION_REGEX_text :: string where
  "NAME_FIELD_VALIDATION_REGEX_text =
     ''/^[a-z0-9]([-a-z0-9]*[a-z0-9])?('' @ [CHR 0x5C] @ ''.[a-z0-9]([-a-z0-9]*[a-z0-9])?)*$/''"

text \<open>
  The validation effect: \<open>None\<close> when it returns early, otherwise the argument of
  \<open>form.setError("name", _)\<close>.
\<close>

definition name_validation_effect :: "translator \<Rightarrow> bool \<Rightarrow> string \<Rightarrow> string option option" where
  "name_validation_effect tr touched fileSystemName =
     (if \<not> touched then None
      else if length fileSystemName > NAME_FIELD_MAX_LENGTH then
        Some (Some (tr ''Must contain at most {{NAME_FIELD_MAX_LENGTH}} characters''
          [(''NAME_FIELD_MAX_LENGTH'', int_to_string (int NAME_FIELD_MAX_LENGTH))]))
      else if \<not> re_test NAME_FIELD_VALIDATION_REGEX fileSystemName then
        Some (Some (tr ''Must match the expression: {{NAME_FIELD_VALIDATION_REGEX}}''
          [(''NAME_FIELD_VALIDATION_REGEX'', NAME_FIELD_VALIDATION_REGEX_text)]))
      else Some None)"

text \<open>The effect on the button of the create screen.\<close>

definition claim_cta_disabled :: "bool \<Rightarrow> string \<Rightarrow> Lun list \<Rightarrow> bool" where
  "claim_cta_disabled form_isValid fileSystemName luns \<longleftrightarrow>
     \<not> form_isValid \<or> fileSystemName = [] \<or> list_all (\<lambda>l. \<not> lun_isSelected l) luns"

definition claim_cta_effect :: "bool \<Rightarrow> string \<Rightarrow> Lun list \<Rightarrow> Actions list" where
  "claim_cta_effect form_isValid fileSystemName luns =
     [UpdateCta \<lparr>isDisabled = Some (claim_cta_disabled form_isValid fileSystemName luns), isLoading = None\<rparr>]"

text \<open>The handlers of the form: what they ask of the form context, of the LUNs and of the use case.\<close>

datatype form_request =
    FormSetValue string string
  | FormSetTouched string bool
  | LunsSetSelected Lun bool
  | LunsSetAllSelected bool
  | PreventDefault
  | CreateFileSystemClaim

definition handleFileSystemNameChange :: "string \<Rightarrow> form_request list" where
  "handleFileSystemNameChange newName = [FormSetValue ''name'' newName, FormSetTouched ''name'' True]"

definition handleSelectLun :: "Lun \<Rightarrow> bool \<Rightarrow> form_request list" where
  "handleSelectLun lun isSelecting = [LunsSetSelected lun isSelecting]"

definition handleSelectAllLuns :: "bool \<Rightarrow> form_request list" where
  "handleSelectAllLuns isSelecting = [LunsSetAllSelected isSelecting]"

definition handleSubmitForm :: "form_request list" where
  "handleSubmitForm = [PreventDefault, CreateFileSystemClaim]"

subsection \<open>The create button\<close>

text \<open>The health effect: the new value of \<open>isDaemonHealthy\<close>, from the first daemon only.\<close>

definition daemon_health_effect :: "Daemon repository \<Rightarrow> bool \<Rightarrow> bool" where
  "daemon_health_effect daemonsRepository isDaemonHealthy =
     (if repo_loaded daemonsRepository \<and> length (repo_items daemonsRepository) > 0 then
        (let daemon = hd (repo_items daemonsRepository);
             conditions = Option.bind (daemon_status daemon) daemonStatus_conditions
         in Option.bind conditions (find (\<lambda>c. condition_type c = ''Healthy'' \<and>
              condition_status c = ConditionStatus_True)) \<noteq> None)
      else isDaemonHealthy)"

subsection \<open>The table and its rows\<close>

datatype status_icon =
    InProgressIcon | YellowExclamationTriangleIcon | GreenCheckCircleIcon | UnknownIcon

record claim_status =
  cs_title :: string
  cs_message :: string
  cs_icon :: status_icon

definition deletion_blocked_message :: string where
  "deletion_blocked_message = ''<bold>WARNING:</bold> Deleting the filesystem resource will result in loss of data. To confirm this action, please label the filesystem <FileSystemNameLink>{{fileSystemName}}</FileSystemNameLink> with <label>{{label}}</label> and try again.''"

definition claim_conditions :: "FileSystemClaim \<Rightarrow> Condition list" where
  "claim_conditions c = nullish (Option.bind (fileSystemClaim_status c) fileSystemClaimStatus_conditions) []"

text \<open>\<open>cond?.status === st && cond?.reason === r\<close>.\<close>

definition condition_is :: "Condition option \<Rightarrow> ConditionStatus \<Rightarrow> bool" where
  "condition_is c st \<longleftrightarrow> map_option condition_status c = Some st"

definition condition_reason_is :: "Condition option \<Rightarrow> string \<Rightarrow> bool" where
  "condition_reason_is c r \<longleftrightarrow> map_option condition_reason c = Some r"

definition claim_row_status :: "translator \<Rightarrow> FileSystemClaim \<Rightarrow> claim_status" where
  "claim_row_status tr c =
     (let ready = find (\<lambda>k. condition_type k = ''Ready'') (claim_conditions c);
          blocked = find (\<lambda>k. condition_type k = ''DeletionBlocked'') (claim_conditions c);
          ready_message = nullish (map_option condition_message ready) []
      in if condition_is ready ConditionStatus_False \<and> condition_reason_is ready ''ProvisioningInProgress''
         then \<lparr>cs_title = tr ''Provisioning'' [], cs_message = ready_message, cs_icon = InProgressIcon\<rparr>
         else if condition_is blocked ConditionStatus_True
         then \<lparr>cs_title = tr ''Deletion blocked'' [], cs_message = deletion_blocked_message,
               cs_icon = YellowExclamationTriangleIcon\<rparr>
         else if condition_is ready ConditionStatus_False \<and> condition_reason_is ready ''DeletionRequested''
         then \<lparr>cs_title = tr ''Deleting'' [], cs_message = ready_message, cs_icon = InProgressIcon\<rparr>
         else if condition_is ready ConditionStatus_True
         then \<lparr>cs_title = tr ''Ready'' [], cs_message = ready_message, cs_icon = GreenCheckCircleIcon\<rparr>
         else \<lparr>cs_title = tr ''Unknown'' [], cs_message = tr ''No status reported'' [], cs_icon = UnknownIcon\<rparr>)"

text \<open>The watch of the row's file system.\<close>

definition claim_row_options :: "FileSystemClaim \<Rightarrow> watch_options" where
  "claim_row_options c = no_options\<lparr>wo_name := getName c, wo_namespace := Some SPECTRUM_SCALE_NAMESPACE\<rparr>"

text \<open>
  \<open>fileSystem?.status?.pools?.[0].totalDiskSize ?? VALUE_NOT_AVAILABLE\<close>: the chain stops at an
  undefined \<open>fileSystem\<close>, \<open>status\<close> or \<open>pools\<close>, and throws when \<open>pools\<close> is empty.
\<close>

definition rawCapacity :: "Filesystem list \<Rightarrow> js_error + string" where
  "rawCapacity fileSystems =
     (case Option.bind (Option.bind (js_first fileSystems) filesystem_status) filesystemStatus_pools of
        None \<Rightarrow> Inr VALUE_NOT_AVAILABLE
      | Some [] \<Rightarrow> Inl (new_TypeError ''Cannot read properties of undefined (reading 'totalDiskSize')'')
      | Some (p # _) \<Rightarrow> Inr (nullish (filesystemStatusPools_totalDiskSize p) VALUE_NOT_AVAILABLE))"

definition claim_columns :: "translator \<Rightarrow> (string \<times> string \<times> string option) list" where
  "claim_columns tr =
     [(''name'', tr ''Name'' [], None), (''status'', tr ''Status'' [], None),
      (''raw-capacity'', tr ''Raw capacity'' [], None),
      (''dashboard-link'', tr ''Dashboard link'' [], Some ''pf-v6-u-text-align-center'')]"

subsection \<open>The dashboard link\<close>

definition dashboard_labels :: "string \<Rightarrow> string js_object" where
  "dashboard_labels storageClusterName =
     [(''app.kubernetes.io/instance'', storageClusterName), (''app.kubernetes.io/name'', ''gui'')]"

record routes_view =
  ru_routes :: "Route list"
  ru_loaded :: bool
  ru_error :: "js_error option"

text \<open>
  \<open>useRoutesUseCase\<close>: the first storage cluster is undefined when there is none, and \<open>getName\<close>
  then reads a property of undefined.
\<close>

definition useRoutesUseCase :: "storage_clusters_repository \<Rightarrow> Route watch \<Rightarrow> js_error + routes_view" where
  "useRoutesUseCase storageClustersRepository watch =
     (case js_first (scr_storageClusters storageClustersRepository) of
        None \<Rightarrow> Inl (new_TypeError ''Cannot read properties of undefined (reading 'metadata')'')
      | Some storageCluster \<Rightarrow>
          (let storageClusterName = nullish (getName storageCluster) VALUE_NOT_AVAILABLE;
               routesRepository = useRoutesRepository watch
                 (no_options\<lparr>wo_matchLabels := Some (dashboard_labels storageClusterName)\<rparr>)
           in Inr \<lparr>ru_routes = repo_items routesRepository,
                   ru_loaded = (repo_loaded routesRepository \<and> scr_loaded storageClustersRepository),
                   ru_error = js_or (repo_error routesRepository) (scr_error storageClustersRepository)\<rparr>))"

datatype link_view = LinkText string | LinkTo string

definition FileSystemsDashboardLink :: "routes_view \<Rightarrow> string \<Rightarrow> link_view" where
  "FileSystemsDashboardLink r fileSystemName =
     (if \<not> ru_loaded r \<or> length (ru_routes r) = 0 then LinkText VALUE_NOT_AVAILABLE
      else LinkTo (''https://'' @ route_spec_host (hd (ru_routes r)) @ ''/gui#files-filesystems-/'' @ fileSystemName))"

subsection \<open>The language of valid names\<close>

text \<open>A label of an RFC 1123 subdomain.\<close>

definition dns_label :: "string \<Rightarrow> bool" where
  "dns_label p \<longleftrightarrow> p \<noteq> [] \<and> set p \<subseteq> set label_chars \<and> hd p \<in> set alnum_chars \<and> last p \<in> set alnum_chars"

definition dns_subdomain :: "string \<Rightarrow> bool" where
  "dns_subdomain s \<longleftrightarrow> list_all dns_label (js_split CHR ''.'' s)"

lemma alnum_subset: "set alnum_chars \<subseteq> set label_chars"
  by (simp add: label_chars_def subset_insertI)

lemma dot_not_label: "CHR ''.'' \<notin> set label_chars"
  by (simp add: label_chars_def alnum_chars_def)

lemma lang_snoc_Class:
  "t \<in> lang (Seq (Many (Class bs)) (Class as)) \<longleftrightarrow> (\<exists>u d. t = u @ [d] \<and> set u \<subseteq> set bs \<and> d \<in> set as)"
  using lang_Many_Class by (auto simp del: lang.simps(6))

lemma name_label_lang: "p \<in> lang name_label_re \<longleftrightarrow> dns_label p"
proof
  assume "p \<in> lang name_label_re"
  then obtain c t where p: "p = c # t" "c \<in> set alnum_chars"
    and t: "t = [] \<or> (\<exists>u d. t = u @ [d] \<and> set u \<subseteq> set label_chars \<and> d \<in> set alnum_chars)"
    unfolding name_label_re_def lang_Seq_Class lang_Opt lang_snoc_Class by blast
  then show "dns_label p"
    using alnum_subset by (auto simp: dns_label_def)
next
  assume p: "dns_label p"
  then obtain c t where ct: "p = c # t" by (cases p) (auto simp: dns_label_def)
  show "p \<in> lang name_label_re"
  proof (cases t rule: rev_cases)
    case Nil
    with p ct show ?thesis
      unfolding name_label_re_def lang_Seq_Class lang_Opt by (auto simp: dns_label_def)
  next
    case (snoc u d)
    with p ct have "set u \<subseteq> set label_chars" "d \<in> set alnum_chars" "c \<in> set alnum_chars"
      by (auto simp: dns_label_def)
    with ct snoc show ?thesis
      unfolding name_label_re_def lang_Seq_Class lang_Opt lang_snoc_Class by blast
  qed
qed

lemma dns_label_no_dot: "dns_label p \<Longrightarrow> CHR ''.'' \<notin> set p"
  using dot_not_label by (auto simp: dns_label_def)

lemma dns_subdomain_label: "dns_label p \<Longrightarrow> dns_subdomain p"
  by (simp add: dns_subdomain_def js_split_no_sep dns_label_no_dot)

lemma dns_subdomain_Cons: "dns_label p \<Longrightarrow> dns_subdomain (p @ CHR ''.'' # s) \<longleftrightarrow> dns_subdomain s"
  by (simp add: dns_subdomain_def js_split_append dns_label_no_dot)

lemma dotted_lang_split:
  "w \<in> lang (Many (Seq (Class ''.'') name_label_re)) \<Longrightarrow> dns_label p \<Longrightarrow> dns_subdomain (p @ w)"
  unfolding lang.simps(6)
proof (induction arbitrary: p rule: repeated.induct)
  case rep_nil
  then show ?case by (simp add: dns_subdomain_label)
next
  case (rep_more u v)
  then obtain q where "u = CHR ''.'' # q" "dns_label q"
    by (auto simp: lang_Seq_Class name_label_lang simp del: lang.simps)
  with rep_more show ?case by (simp add: dns_subdomain_Cons)
qed

lemma dotted_join_lang:
  "list_all dns_label (p # ps) \<Longrightarrow> js_join CHR ''.'' (p # ps) \<in> lang NAME_FIELD_VALIDATION_REGEX"
proof (induction ps arbitrary: p)
  case Nil
  then have "p @ [] \<in> lang NAME_FIELD_VALIDATION_REGEX"
    unfolding NAME_FIELD_VALIDATION_REGEX_def
    by (intro lang_SeqI) (simp_all add: name_label_lang rep_nil)
  then show ?case by simp
next
  case (Cons q ps)
  then have q: "dns_label p" "js_join CHR ''.'' (q # ps) \<in> lang NAME_FIELD_VALIDATION_REGEX" by auto
  then obtain u w where uw: "js_join CHR ''.'' (q # ps) = u @ w" "u \<in> lang name_label_re"
      "w \<in> lang (Many (Seq (Class ''.'') name_label_re))"
    unfolding NAME_FIELD_VALIDATION_REGEX_def lang.simps(4) by blast
  have "CHR ''.'' # u \<in> lang (Seq (Class ''.'') name_label_re)"
    using uw(2) unfolding lang_Seq_Class by simp
  then have "(CHR ''.'' # u) @ w \<in> lang (Many (Seq (Class ''.'') name_label_re))"
    using uw(3) unfolding lang.simps(6) by (rule rep_more)
  then have "p @ (CHR ''.'' # u) @ w \<in> lang NAME_FIELD_VALIDATION_REGEX"
    unfolding NAME_FIELD_VALIDATION_REGEX_def using q(1) by (intro lang_SeqI) (simp_all add: name_label_lang)
  then show ?case using uw(1) by simp
qed

lemma name_regex_iff: "re_test NAME_FIELD_VALIDATION_REGEX s \<longleftrightarrow> dns_subdomain s"
proof
  assume "re_test NAME_FIELD_VALIDATION_REGEX s"
  then obtain u w where "s = u @ w" "dns_label u" "w \<in> lang (Many (Seq (Class ''.'') name_label_re))"
    unfolding re_test_iff NAME_FIELD_VALIDATION_REGEX_def lang.simps(4) name_label_lang by blast
  then show "dns_subdomain s" using dotted_lang_split by blast
next
  assume s: "dns_subdomain s"
  obtain p ps where ps: "js_split CHR ''.'' s = p # ps" by (cases "js_split CHR ''.'' s") auto
  have "js_join CHR ''.'' (js_split CHR ''.'' s) \<in> lang NAME_FIELD_VALIDATION_REGEX"
    using s dotted_join_lang [of p ps] unfolding dns_subdomain_def ps by simp
  then show "re_test NAME_FIELD_VALIDATION_REGEX s" by (simp add: js_join_split re_test_iff)
qed

subsection \<open>Enabling the button\<close>

lemma daemon_health_iff:
  assumes "repo_loaded R" "repo_items R = d # ds"
  shows "daemon_health_effect R old \<longleftrightarrow>
     (\<exists>cs c. Option.bind (daemon_status d) daemonStatus_conditions = Some cs \<and> c \<in> set cs \<and>
        condition_type c = ''Healthy'' \<and> condition_status c = ConditionStatus_True)"
proof (cases "daemon_status d")
  case None
  with assms show ?thesis by (simp add: daemon_health_effect_def)
next
  case (Some st)
  note st = this
  show ?thesis
  proof (cases "daemonStatus_conditions st")
    case None
    with st assms show ?thesis by (simp add: daemon_health_effect_def)
  next
    case (Some cs)
    have "daemon_health_effect R old \<longleftrightarrow>
        find (\<lambda>c. condition_type c = ''Healthy'' \<and> condition_status c = ConditionStatus_True) cs \<noteq> None"
      using assms st Some by (simp add: daemon_health_effect_def)
    with st Some show ?thesis unfolding find_not_None by auto
  qed
qed

subsection \<open>Properties\<close>

text \<open>C24: A touched name is accepted exactly when it is at most 63 characters long and an RFC 1123
  subdomain: non-empty labels between dots, of lower-case letters, digits and dashes, that start and
  end with a letter or a digit. An untouched name is not validated.\<close>

theorem name_accepted_iff:
  "(name_validation_effect tr touched name = Some None) =
     (touched \<and> length name \<le> 63 \<and> list_all dns_label (js_split CHR ''.'' name)) \<and>
   (name_validation_effect tr touched name = None) = (\<not> touched)"
  by (auto simp: name_validation_effect_def name_regex_iff dns_subdomain_def NAME_FIELD_MAX_LENGTH_def)

text \<open>The effect of the form enables the create button exactly when the form is valid, the name is not
  empty and a LUN is selected, so the button is never enabled without a selected LUN (what it submits
  then is another matter: \<open>Claim_Page\<close>); it changes nothing else in the store.\<close>

lemma claim_button_enabled:
  "\<exists>b. dispatch_all s (claim_cta_effect valid name luns) = Inr (s\<lparr>cta := (cta s)\<lparr>isDisabled := Some b\<rparr>\<rparr>) \<and>
     (b = False) = (valid \<and> name \<noteq> [] \<and> selected_paths luns \<noteq> [])"
  by (rule exI [of _ "claim_cta_disabled valid name luns"])
    (auto simp: claim_cta_effect_def spread_cta_def claim_cta_disabled_def selected_paths_def list_all_iff
      filter_empty_conv split: option.splits)

text \<open>The first condition of a type that a claim reports.\<close>

definition reports :: "FileSystemClaim \<Rightarrow> string \<Rightarrow> (Condition \<Rightarrow> bool) \<Rightarrow> bool" where
  "reports c ty P = (case find (\<lambda>k. condition_type k = ty) (claim_conditions c) of None \<Rightarrow> False | Some k \<Rightarrow> P k)"

text \<open>What a row shows of a claim: the deletion warning when the deletion is blocked, unless the claim
  is still being provisioned; ready when its Ready condition is true and no deletion is blocked; in
  progress while it is provisioned, or deleted without being blocked; unknown in every other case.\<close>

lemma claim_status_table:
  "(cs_icon (claim_row_status tr c) = YellowExclamationTriangleIcon) =
     (reports c ''DeletionBlocked'' (\<lambda>k. condition_status k = ConditionStatus_True) \<and>
      \<not> reports c ''Ready'' (\<lambda>k. condition_status k = ConditionStatus_False \<and> condition_reason k = ''ProvisioningInProgress'')) \<and>
   (cs_icon (claim_row_status tr c) = GreenCheckCircleIcon) =
     (reports c ''Ready'' (\<lambda>k. condition_status k = ConditionStatus_True) \<and>
      \<not> reports c ''DeletionBlocked'' (\<lambda>k. condition_status k = ConditionStatus_True)) \<and>
   (cs_icon (claim_row_status tr c) = InProgressIcon) =
     (reports c ''Ready'' (\<lambda>k. condition_status k = ConditionStatus_False \<and> condition_reason k = ''ProvisioningInProgress'') \<or>
      reports c ''Ready'' (\<lambda>k. condition_status k = ConditionStatus_False \<and> condition_reason k = ''DeletionRequested'') \<and>
      \<not> reports c ''DeletionBlocked'' (\<lambda>k. condition_status k = ConditionStatus_True))"
  by (cases "find (\<lambda>k. condition_type k = ''Ready'') (claim_conditions c)";
      cases "find (\<lambda>k. condition_type k = ''DeletionBlocked'') (claim_conditions c)")
    (auto simp: claim_row_status_def reports_def condition_is_def condition_reason_is_def Let_def)

text \<open>Reading the raw capacity throws exactly when the row's file system reports an empty list of
  pools; without a file system, a status, pools or a size it is \<open>--\<close>.\<close>

lemma raw_capacity_throws:
  "((\<exists>e. rawCapacity fss = Inl e) =
     (\<exists>fs rest st. fss = fs # rest \<and> filesystem_status fs = Some st \<and> filesystemStatus_pools st = Some [])) \<and>
   ((\<exists>fs rest st p ps size. fss = fs # rest \<and> filesystem_status fs = Some st \<and>
       filesystemStatus_pools st = Some (p # ps) \<and> filesystemStatusPools_totalDiskSize p = Some size \<and>
       rawCapacity fss = Inr size) \<or> (\<exists>e. rawCapacity fss = Inl e) \<or> rawCapacity fss = Inr ''--'')"
proof (cases "Option.bind (Option.bind (js_first fss) filesystem_status) filesystemStatus_pools")
  case None
  then show ?thesis by (auto simp: rawCapacity_def VALUE_NOT_AVAILABLE_def)
next
  case (Some pools)
  then obtain fs rest st where fs: "fss = fs # rest" "filesystem_status fs = Some st" "filesystemStatus_pools st = Some pools"
    by (cases fss) (auto simp: bind_eq_Some_conv)
  show ?thesis
  proof (cases pools)
    case Nil
    with fs show ?thesis by (simp add: rawCapacity_def)
  next
    case (Cons p ps)
    with fs show ?thesis
      by (cases "filesystemStatusPools_totalDiskSize p") (simp_all add: rawCapacity_def VALUE_NOT_AVAILABLE_def)
  qed
qed

text \<open>Once the first storage cluster and a route labelled with its name are loaded, the dashboard link
  of a claim leads to its file system's page on the host of the first such route; with no storage
  cluster the hook throws.\<close>

lemma dashboard_link_target:
  assumes "scr_storageClusters clusters = c # cs" "getName c = Some cluster" "scr_loaded clusters"
    and "fst (watch (useWatchRoutes_options (no_options\<lparr>wo_matchLabels := Some (dashboard_labels cluster)\<rparr>))) = Some (r # rs)"
    and "snd (watch (useWatchRoutes_options (no_options\<lparr>wo_matchLabels := Some (dashboard_labels cluster)\<rparr>))) = (True, WatchUndefined)"
  shows "(\<exists>v. useRoutesUseCase clusters watch = Inr v \<and>
       FileSystemsDashboardLink v fs = LinkTo (''https://'' @ route_spec_host r @ ''/gui#files-filesystems-/'' @ fs)) \<and>
     (\<exists>e. useRoutesUseCase (clusters\<lparr>scr_storageClusters := []\<rparr>) watch = Inl e)"
  using assms
  by (cases "watch (useWatchRoutes_options (no_options\<lparr>wo_matchLabels := Some (dashboard_labels cluster)\<rparr>))")
    (simp add: useRoutesUseCase_def useRoutesRepository_def useNormalizedK8sWatchResource_def
      list_repository_def normalizeResult_def FileSystemsDashboardLink_def Let_def)

definition example_clusters :: storage_clusters_repository where
  "example_clusters = \<lparr>scr_loaded = True, scr_error = None, scr_storageClusters = [storage_cluster_request],
     scr_hasNotBeenCreated = False\<rparr>"

definition example_route :: Route where
  "example_route = \<lparr>apiVersion = None, kind = None, metadata = None, route_spec_host = ''gui.example.com''\<rparr>"

end
