(* ===== verification/Claim_Screens.thy ===== *)
theory Claim_Screens
  imports Cluster_Screens File_System_Claims
begin

section \<open>The file system claim screens\<close>

text \<open>
  The screen view models and the views of \<open>console/src/ui/file-system-claims\<close>.
\<close>

subsection \<open>View models of the screens\<close>

record create_screen_vm =
  cr_hasStorageClusterNotBeenCreated :: bool
  cr_alerts :: "Alert list"
  cr_cta :: Cta
  cr_documentTitle :: string
  cr_title :: string
  cr_description :: string
  cr_goToFileSystemClaimsHomeScreen :: UrlPaths
  cr_cancelButtonText :: string
  cr_formId :: string

definition useFileSystemClaimsCreateScreenViewModel ::
  "translator \<Rightarrow> storage_clusters_repository \<Rightarrow> State \<Rightarrow> create_screen_vm" where
  "useFileSystemClaimsCreateScreenViewModel tr storageClustersRepository store =
     \<lparr>cr_hasStorageClusterNotBeenCreated = scr_hasNotBeenCreated storageClustersRepository,
      cr_alerts = alerts store, cr_cta = cta store,
      cr_documentTitle = tr ''Fusion Access for SAN'' [],
      cr_title = tr ''Create file system claim'' [],
      cr_description = tr ''Create a file system claim to represent your required storage (based on the selected nodes' storage).'' [],
      cr_goToFileSystemClaimsHomeScreen = FileSystemClaimsHome,
      cr_cancelButtonText = tr ''Cancel'' [],
      cr_formId = ''file-system-claim-create-form''\<rparr>"

text \<open>A page of the navigation: its name, its path and its component.\<close>

record claims_home_vm =
  ch_pages :: "(string \<times> string \<times> string) list"
  ch_loaded :: bool
  ch_error :: "js_error option"
  ch_alerts :: "Alert list"
  ch_documentTitle :: string
  ch_title :: string
  ch_fileSystemClaims :: "FileSystemClaim list"
  ch_storageClusters :: "Cluster list"
  ch_goToFileSystemClaimsCreateScreen :: UrlPaths
  ch_goToStorageClustersHome :: UrlPaths

definition useFileSystemClaimsHomeScreenViewModel ::
  "translator \<Rightarrow> FileSystemClaim repository \<Rightarrow> storage_clusters_repository \<Rightarrow> State \<Rightarrow> claims_home_vm" where
  "useFileSystemClaimsHomeScreenViewModel tr fileSystemClaimsRepository storageClustersRepository store =
     \<lparr>ch_pages = [(tr ''File system claims'' [], [], ''FileSystemClaimsTable'')],
      ch_loaded = (repo_loaded fileSystemClaimsRepository \<and> scr_loaded storageClustersRepository),
      ch_error = js_or (repo_error fileSystemClaimsRepository) (scr_error storageClustersRepository),
      ch_alerts = alerts store,
      ch_documentTitle = tr ''Fusion Access for SAN'' [],
      ch_title = tr ''Fusion Access for SAN'' [],
      ch_fileSystemClaims = repo_items fileSystemClaimsRepository,
      ch_storageClusters = scr_storageClusters storageClustersRepository,
      ch_goToFileSystemClaimsCreateScreen = FileSystemClaimsCreate,
      ch_goToStorageClustersHome = StorageClustersHome\<rparr>"

record create_button_vm =
  cb_text :: string
  cb_tooltip_id :: string
  cb_tooltip_content :: string
  cb_isDaemonHealthy :: bool

definition useFileSystemClaimsCreateButtonViewModel :: "translator \<Rightarrow> bool \<Rightarrow> create_button_vm" where
  "useFileSystemClaimsCreateButtonViewModel tr isDaemonHealthy =
     \<lparr>cb_text = tr ''Create file system claim'' [],
      cb_tooltip_id = ''create-file-system-claim-tooltip'',
      cb_tooltip_content = tr ''Fusion Access for SAN infrastructure is not ready'' [],
      cb_isDaemonHealthy = isDaemonHealthy\<rparr>"

record claims_table_vm =
  ct_columns :: "(string \<times> string \<times> string option) list"
  ct_loaded :: bool
  ct_error :: "js_error option"
  ct_fileSystemClaims :: "FileSystemClaim list"

definition useFileSystemClaimsTableViewModel :: "translator \<Rightarrow> FileSystemClaim repository \<Rightarrow> claims_table_vm" where
  "useFileSystemClaimsTableViewModel tr fileSystemClaimsRepository =
     \<lparr>ct_columns = claim_columns tr, ct_loaded = repo_loaded fileSystemClaimsRepository,
      ct_error = repo_error fileSystemClaimsRepository,
      ct_fileSystemClaims = repo_items fileSystemClaimsRepository\<rparr>"

subsection \<open>The create button\<close>

text \<open>\<open>isDisabled\<close> is taken out of the properties; the others are passed on.\<close>

definition FileSystemClaimsCreateButton :: "create_button_vm \<Rightarrow> bool option \<Rightarrow> view_prop list \<Rightarrow> view" where
  "FileSystemClaimsCreateButton vm disabled otherProps =
     fragment
       [VEl ''Button''
          ([Attr ''aria-describedby'' (AText ''create-file-system-tooltip'')] @ otherProps @
           [Attr ''isAriaDisabled'' (ABool (nullish disabled False \<or> \<not> cb_isDaemonHealthy vm)),
            Attr ''variant'' (AText ''primary'')])
          [VText (cb_text vm)],
        if \<not> cb_isDaemonHealthy vm then
          VEl ''Tooltip'' [Attr ''id'' (AText (cb_tooltip_id vm)), Attr ''content'' (AText (cb_tooltip_content vm))] []
        else VNull]"

subsection \<open>The create form\<close>

definition lun_columns :: "translator \<Rightarrow> (string \<times> string) list" where
  "lun_columns tr = [(''PATH'', tr ''Path'' []), (''WWN'', ''WWN''), (''CAPACITY'', tr ''Capacity'' [])]"

record create_form_vm =
  cf_fileSystemName :: string
  cf_errorMessage :: "string option"
  cf_luns_loaded :: bool
  cf_luns :: "Lun list"

text \<open>An error message that is undefined or empty is not shown.\<close>

definition form_error :: "create_form_vm \<Rightarrow> string" where
  "form_error vm = nullish (cf_errorMessage vm) []"

definition lun_row :: "(string \<times> string) list \<Rightarrow> Lun list \<Rightarrow> Lun \<Rightarrow> view" where
  "lun_row columns luns lun =
     VEl ''Tr'' [Attr ''key'' (AText (lun_path lun))]
       [VEl ''Td'' [Attr ''select.isSelected'' (ABool (luns_isSelected luns lun)),
                    Attr ''select.onSelect'' (AHandler (UseCase ''handleSelectLun''))] [],
        VEl ''Td'' [Attr ''dataLabel'' (AText (snd (columns ! 0)))] [VText (lun_path lun)],
        VEl ''Td'' [Attr ''dataLabel'' (AText (snd (columns ! 1)))] [VText (lun_wwn lun)],
        VEl ''Td'' [Attr ''dataLabel'' (AText (snd (columns ! 2)))] [VText (lun_capacity lun)]]"

definition luns_field :: "translator \<Rightarrow> create_form_vm \<Rightarrow> view" where
  "luns_field tr vm =
     (let columns = lun_columns tr; luns = cf_luns vm in
      if \<not> cf_luns_loaded vm then
        VEl ''EmptyState'' [Attr ''titleText'' (AText (tr ''Loading LUNs'' [])), Attr ''headingLevel'' (AText ''h4''),
          Attr ''icon'' (AText ''Spinner'')] []
      else if length luns \<noteq> 0 then
        VEl ''Table'' [Attr ''id'' (AText ''luns-selection-table''), Attr ''variant'' (AText ''compact'')]
          [VEl ''Thead'' []
             [VEl ''Tr'' []
                (VEl ''Th'' [Attr ''aria-label'' (AText ''Select all LUNs''),
                   Attr ''select.isSelected'' (ABool (list_all lun_isSelected luns)),
                   Attr ''select.onSelect'' (AHandler (UseCase ''handleSelectAllLuns''))] []
                 # map (\<lambda>(name, value). VEl ''Th'' [Attr ''key'' (AText name)] [VText value]) columns)],
           VEl ''Tbody'' [] (map (lun_row columns luns) luns)]
      else
        VEl ''EmptyState'' [Attr ''titleText'' (AText (tr ''No LUNs available'' [])), Attr ''headingLevel'' (AText ''h4''),
          Attr ''icon'' (AText ''FolderIcon'')] [])"

definition FileSystemClaimsCreateForm :: "translator \<Rightarrow> string \<Rightarrow> create_form_vm \<Rightarrow> view" where
  "FileSystemClaimsCreateForm tr formId vm =
     VEl ''Stack'' []
       [VEl ''StackItem'' []
          [VEl ''Form'' [Attr ''id'' (AText formId), Attr ''onSubmit'' (AHandler (UseCase ''handleSubmitForm''))]
             [VEl ''FormGroup'' [Attr ''isRequired'' (ABool True),
                  Attr ''label'' (AText (tr ''File system claim name'' [])), Attr ''fieldId'' (AText ''name'')]
                [VEl ''TextInput''
                   [Attr ''type'' (AText ''text''), Attr ''id'' (AText ''name''), Attr ''name'' (AText ''name''),
                    Attr ''isRequired'' (ABool True),
                    Attr ''maxLength'' (AText (int_to_string (int NAME_FIELD_MAX_LENGTH))),
                    Attr ''value'' (AText (cf_fileSystemName vm)), Attr ''placeholder'' (AText ''file-system-1''),
                    Attr ''validated'' (AText (if form_error vm \<noteq> [] then ''error'' else ''default'')),
                    Attr ''onChange'' (AHandler (UseCase ''handleFileSystemNameChange''))] [],
                 if form_error vm \<noteq> [] then
                   VEl ''FormHelperText'' []
                     [VEl ''HelperText'' []
                        [VEl ''HelperTextItem'' [Slot ''icon'' (VEl ''ExclamationCircleIcon'' [] []),
                           Attr ''variant'' (AText ''error'')] [VText (form_error vm)]]]
                 else VNull],
              VEl ''FormGroup'' [Attr ''isRequired'' (ABool True), Attr ''fieldId'' (AText ''luns-selection-table''),
                  Attr ''label'' (AText ''Select LUNs''),
                  Slot ''labelHelp'' (HelpLabelIcon (tr ''Select LUNs to designate the storage devices used in the file system.'' []))]
                [luns_field tr vm]]]]"

subsection \<open>The screens\<close>

definition FileSystemClaimsCreateScreen :: "create_screen_vm \<Rightarrow> create_button_vm \<Rightarrow> view \<Rightarrow> view" where
  "FileSystemClaimsCreateScreen vm button form =
     ListPage
       \<lparr>lp_documentTitle = cr_documentTitle vm, lp_title = cr_title vm,
        lp_description = Some (cr_description vm), lp_actions = VNull, lp_alerts = cr_alerts vm,
        lp_footer = VEl ''Split'' []
          [FileSystemClaimsCreateButton button (isDisabled (cr_cta vm))
             ([Attr ''type'' (AText ''submit''), Attr ''form'' (AText (cr_formId vm))] @
              opt_attr ''isLoading'' (map_option ABool (isLoading (cr_cta vm)))),
           cancel_button (cr_cancelButtonText vm) (cr_goToFileSystemClaimsHomeScreen vm)]\<rparr>
       [if cr_hasStorageClusterNotBeenCreated vm then Redirect_to StorageClustersHome
        else VEl ''FormContextProvider'' [] [form]]"

definition FileSystemClaimsHomeScreen :: "translator \<Rightarrow> claims_home_vm \<Rightarrow> create_button_vm \<Rightarrow> view" where
  "FileSystemClaimsHomeScreen tr vm button =
     ListPage
       \<lparr>lp_documentTitle = ch_documentTitle vm, lp_title = ch_title vm, lp_description = None,
        lp_actions =
          (if length (ch_fileSystemClaims vm) > 0 then
             FileSystemClaimsCreateButton button None
               [Attr ''onClick'' (AHandler (redirect_handler (ch_goToFileSystemClaimsCreateScreen vm)))]
           else VNull),
        lp_alerts = ch_alerts vm, lp_footer = VNull\<rparr>
       [Async (ch_loaded vm) (ch_error vm) (DefaultErrorFallback tr) (DefaultLoadingFallback tr)
          [VEl ''HorizontalNav'' [Attr ''pages'' (AList (map fst (ch_pages vm)))] []]]"

definition FileSystemClaimsTableEmptyState :: "translator \<Rightarrow> create_button_vm \<Rightarrow> view" where
  "FileSystemClaimsTableEmptyState tr button =
     VEl ''EmptyState''
       [Attr ''titleText'' (AText (tr ''No file system claims'' [])), Attr ''headingLevel'' (AText ''h4''),
        Attr ''icon'' (AText ''FolderIcon'')]
       [VEl ''EmptyStateFooter'' []
          [VEl ''EmptyStateActions'' []
             [FileSystemClaimsCreateButton button None
                [Attr ''onClick'' (AHandler (redirect_handler FileSystemClaimsCreate))]],
           VEl ''EmptyStateActions'' [] [learn_more_button tr]]]"

definition FileSystemClaimsTable :: "translator \<Rightarrow> claims_table_vm \<Rightarrow> create_button_vm \<Rightarrow> view" where
  "FileSystemClaimsTable tr vm button =
     VEl ''VirtualizedTable''
       [Attr ''columns'' (AList (map fst (ct_columns vm))),
        Attr ''data'' (AList (map (\<lambda>c. nullish (getName c) []) (ct_fileSystemClaims vm))),
        Attr ''unfilteredData'' (AList (map (\<lambda>c. nullish (getName c) []) (ct_fileSystemClaims vm))),
        Attr ''loaded'' (ABool (ct_loaded vm)), Attr ''loadError'' (ABool (ct_error vm \<noteq> None)),
        Slot ''EmptyMsg'' (FileSystemClaimsTableEmptyState tr button)] []"

subsection \<open>A row of the table\<close>

definition FileSystemsStatus :: "claim_status \<Rightarrow> view \<Rightarrow> string \<Rightarrow> view" where
  "FileSystemsStatus st icon fileSystemName =
     (if cs_title st \<noteq> [] \<and> cs_message st \<noteq> [] \<and> icon \<noteq> VNull then
        VEl ''Popover''
          [Slot ''bodyContent''
             (if js_startsWith (cs_message st) ''<bold>WARNING:</bold>'' then
                VEl ''Trans''
                  [Attr ''values.label'' (AText FS_ALLOW_DELETE_LABEL),
                   Attr ''values.fileSystemName'' (AText fileSystemName)] [VText (cs_message st)]
              else VEl ''span'' [] [VText (cs_message st)])]
          [VEl ''Button'' [Attr ''variant'' (AText ''link''), Attr ''isInline'' (ABool True), Slot ''icon'' icon]
             [VText (cs_title st)]]
      else fragment [icon, VText '' '', VText (cs_title st)])"

fun icon_name :: "status_icon \<Rightarrow> string" where
  "icon_name InProgressIcon = ''InProgressIcon''"
| "icon_name YellowExclamationTriangleIcon = ''YellowExclamationTriangleIcon''"
| "icon_name GreenCheckCircleIcon = ''GreenCheckCircleIcon''"
| "icon_name UnknownIcon = ''UnknownIcon''"

definition resource_link :: "groupVersionKind \<Rightarrow> string \<Rightarrow> string \<Rightarrow> view" where
  "resource_link g name namespace =
     VEl ''ResourceLink'' [Attr ''groupVersionKind'' (AList [gvk_group g, gvk_version g, gvk_kind g]),
       Attr ''name'' (AText name), Attr ''namespace'' (AText namespace)] []"

definition FileSystemNameLink :: "string \<Rightarrow> view" where
  "FileSystemNameLink name = resource_link file_system_gvk name SPECTRUM_SCALE_NAMESPACE"

definition link_element :: "link_view \<Rightarrow> view" where
  "link_element l =
     (case l of
        LinkText t \<Rightarrow> VEl ''span'' [] [VText t]
      | LinkTo href \<Rightarrow>
          VEl ''Button''
            [Attr ''component'' (AText ''a''), Attr ''variant'' (AText ''link''), Attr ''target'' (AText ''_blank''),
             Attr ''rel'' (AText ''noopener noreferrer''), Attr ''href'' (AText href)] [])"

text \<open>
  The row throws when the raw capacity or the routes of the dashboard link throw; the name of
  the claim, which every stored resource has, is an argument.
\<close>

definition FileSystemClaimsTableRow ::
  "translator \<Rightarrow> FileSystemClaim \<Rightarrow> string \<Rightarrow> Filesystem list \<Rightarrow> js_error + routes_view \<Rightarrow> js_error + view" where
  "FileSystemClaimsTableRow tr fileSystemClaim fileSystemName fileSystems routes =
     (let columns = claim_columns tr; st = claim_row_status tr fileSystemClaim;
          td = (\<lambda>i className v. VEl ''TableData''
                 (opt_attr ''className'' className @ [Attr ''id'' (AText (fst (columns ! i)))]) [v])
      in case rawCapacity fileSystems of
           Inl e \<Rightarrow> Inl e
         | Inr capacity \<Rightarrow>
             (case routes of
                Inl e \<Rightarrow> Inl e
              | Inr r \<Rightarrow>
                  Inr (fragment
                    [td 0 None (resource_link file_system_claim_gvk fileSystemName SPECTRUM_SCALE_NAMESPACE),
                     td 1 None (FileSystemsStatus st (VEl (icon_name (cs_icon st)) [] []) fileSystemName),
                     td 2 None (VText capacity),
                     td 3 (map_option AText (snd (snd (columns ! 3))))
                       (link_element (FileSystemsDashboardLink r fileSystemName))])))"

subsection \<open>Lemmas\<close>

lemma create_button_elements [simp]:
  "elements ''Button'' (FileSystemClaimsCreateButton vm d ps) =
     [VEl ''Button''
       ([Attr ''aria-describedby'' (AText ''create-file-system-tooltip'')] @ ps @
        [Attr ''isAriaDisabled'' (ABool (nullish d False \<or> \<not> cb_isDaemonHealthy vm)),
         Attr ''variant'' (AText ''primary'')]) [VText (cb_text vm)]] @ prop_elements ''Button'' ps"
  by (simp add: FileSystemClaimsCreateButton_def)

lemma create_button_redirects [simp]:
  "prop_elements ''Redirect'' ps = [] \<Longrightarrow> elements ''Redirect'' (FileSystemClaimsCreateButton vm d ps) = []"
  by (simp add: FileSystemClaimsCreateButton_def)

lemma attr_of_append:
  "attr_of k (ps @ qs) = (case attr_of k ps of None \<Rightarrow> attr_of k qs | Some a \<Rightarrow> Some a)"
proof (induction ps)
  case (Cons p ps)
  then show ?case by (cases p) simp_all
qed simp

lemma form_buttons: "elements ''Button'' (FileSystemClaimsCreateForm tr fid fvm) = []"
proof -
  have "elements ''Button'' (lun_row cols ls l) = []" for cols ls l
    by (simp add: lun_row_def)
  then have "elements ''Button'' (luns_field tr fvm) = []"
    by (simp add: luns_field_def lun_columns_def child_elements_map Let_def)
  then show ?thesis by (simp add: FileSystemClaimsCreateForm_def HelpLabelIcon_def)
qed

text \<open>The create screen has one button that submits, and it is the create button of its footer.\<close>

lemma screen_submit_button:
  assumes "vm = useFileSystemClaimsCreateScreenViewModel tr C store"
  shows "filter (\<lambda>b. view_attr ''type'' b = Some (AText ''submit''))
      (elements ''Button'' (FileSystemClaimsCreateScreen vm (useFileSystemClaimsCreateButtonViewModel tr healthy)
         (FileSystemClaimsCreateForm tr fid fvm))) =
    [VEl ''Button'' ([Attr ''aria-describedby'' (AText ''create-file-system-tooltip''), Attr ''type'' (AText ''submit''),
        Attr ''form'' (AText (cr_formId vm))] @ opt_attr ''isLoading'' (map_option ABool (isLoading (cta store))) @
       [Attr ''isAriaDisabled'' (ABool (nullish (isDisabled (cta store)) False \<or> \<not> healthy)), Attr ''variant'' (AText ''primary'')])
      [VText (tr ''Create file system claim'' [])]]"
proof -
  have cta: "cr_cta vm = cta store" by (simp add: assms useFileSystemClaimsCreateScreenViewModel_def)
  have loading: "attr_of ''type'' (opt_attr ''isLoading'' a @ ps) = attr_of ''type'' ps" for a ps
    by (simp add: opt_attr_def split: option.splits)
  show ?thesis
    by (simp add: FileSystemClaimsCreateScreen_def list_page_elements alert_elements cta form_buttons cancel_button_def
        Redirect_to_def useFileSystemClaimsCreateButtonViewModel_def loading)
qed

subsection \<open>Properties\<close>

text \<open>The submit button of the create screen can be pressed exactly when the store does not disable it and
  the first daemon is healthy, as long as the daemons are loaded; and it submits the form below it.\<close>

lemma submit_button:
  assumes "vm = useFileSystemClaimsCreateScreenViewModel tr C store"
    and "b = useFileSystemClaimsCreateButtonViewModel tr (daemon_health_effect daemons old)"
    and "repo_loaded daemons" "repo_items daemons = d # ds"
  shows "\<exists>button. button \<in> set (elements ''Button'' (FileSystemClaimsCreateScreen vm b form)) \<and>
     view_attr ''type'' button = Some (AText ''submit'') \<and>
     view_attr ''form'' button = view_attr ''id'' (hd (elements ''Form'' (FileSystemClaimsCreateForm tr (cr_formId vm) fvm))) \<and>
     (view_attr ''isAriaDisabled'' button = Some (ABool False)) =
       (isDisabled (cta store) \<noteq> Some True \<and>
        (\<exists>cs c. Option.bind (daemon_status d) daemonStatus_conditions = Some cs \<and> c \<in> set cs \<and>
           condition_type c = ''Healthy'' \<and> condition_status c = ConditionStatus_True))"
proof -
  let ?props = "[Attr ''type'' (AText ''submit''), Attr ''form'' (AText (cr_formId vm))] @
      opt_attr ''isLoading'' (map_option ABool (isLoading (cta store)))"
  let ?dis = "nullish (isDisabled (cta store)) False \<or> \<not> cb_isDaemonHealthy b"
  let ?button = "VEl ''Button'' ([Attr ''aria-describedby'' (AText ''create-file-system-tooltip'')] @ ?props @
      [Attr ''isAriaDisabled'' (ABool ?dis), Attr ''variant'' (AText ''primary'')]) [VText (cb_text b)]"
  have cta: "cr_cta vm = cta store" by (simp add: assms(1) useFileSystemClaimsCreateScreenViewModel_def)
  have here: "?button \<in> set (elements ''Button'' (FileSystemClaimsCreateScreen vm b form))"
    by (simp add: FileSystemClaimsCreateScreen_def list_page_elements alert_elements cta)
  have attrs: "view_attr ''type'' ?button = Some (AText ''submit'')" "view_attr ''form'' ?button = Some (AText (cr_formId vm))"
    "view_attr ''isAriaDisabled'' ?button = Some (ABool ?dis)"
    by (simp_all add: attr_of_append opt_attr_def split: option.splits)
  have healthy: "cb_isDaemonHealthy b = (\<exists>cs c. Option.bind (daemon_status d) daemonStatus_conditions = Some cs \<and> c \<in> set cs \<and>
      condition_type c = ''Healthy'' \<and> condition_status c = ConditionStatus_True)"
    unfolding assms(2) by (simp add: useFileSystemClaimsCreateButtonViewModel_def daemon_health_iff [OF assms(3,4)])
  have disabled: "(\<not> nullish (isDisabled (cta store)) False) = (isDisabled (cta store) \<noteq> Some True)"
    by (cases "isDisabled (cta store)") simp_all
  have form: "view_attr ''id'' (hd (elements ''Form'' (FileSystemClaimsCreateForm tr (cr_formId vm) fvm))) =
      Some (AText (cr_formId vm))"
    by (simp add: FileSystemClaimsCreateForm_def)
  show ?thesis
    by (rule exI [of _ ?button]) (simp only: here attrs form healthy [symmetric] disabled [symmetric]
        option.inject attribute.inject de_Morgan_disj not_not simp_thms)
qed

definition example_daemon :: Daemon where
  "example_daemon = \<lparr>apiVersion = None, kind = None, metadata = None, daemon_spec = None,
     daemon_status = Some \<lparr>daemonStatus_clusterID = None, daemonStatus_clusterName = None,
       daemonStatus_conditions = Some [\<lparr>condition_lastTransitionTime = [], condition_message = [],
         condition_observedGeneration = None, condition_reason = [], condition_status = ConditionStatus_True,
         condition_type = ''Healthy''\<rparr>],
       daemonStatus_cordonAndDrain = None, daemonStatus_minimumReleaseLevel = None, daemonStatus_pods = None,
       daemonStatus_podsStatus = None, daemonStatus_quorumPods = None, daemonStatus_roles = None,
       daemonStatus_statusDetails = None, daemonStatus_tiebreaker = None, daemonStatus_update = None,
       daemonStatus_versions = None\<rparr>\<rparr>"

definition example_daemons :: "Daemon repository" where
  "example_daemons = \<lparr>repo_loaded = True, repo_error = None, repo_items = [example_daemon]\<rparr>"

definition enabled_store :: State where
  "enabled_store = \<lparr>docTitle = [], alerts = [], cta = \<lparr>isDisabled = Some False, isLoading = Some False\<rparr>\<rparr>"

definition empty_form :: create_form_vm where
  "empty_form = \<lparr>cf_fileSystemName = [], cf_errorMessage = None, cf_luns_loaded = True, cf_luns = []\<rparr>"

lemma example_daemon_healthy:
  "\<exists>cs c. Option.bind (daemon_status example_daemon) daemonStatus_conditions = Some cs \<and> c \<in> set cs \<and>
     condition_type c = ''Healthy'' \<and> condition_status c = ConditionStatus_True"
  by (simp add: example_daemon_def)

lemma example_daemons_loaded: "repo_loaded example_daemons" "repo_items example_daemons = example_daemon # []"
  by (simp_all add: example_daemons_def)

text \<open>A row whose claim's deletion is blocked, and which is not still being provisioned, opens the warning
  with the label that allows the deletion and the name of the file system; no other status opens it
  unless the cluster's own message starts like the warning.\<close>

lemma blocked_row_warns:
  assumes "tr ''Deletion blocked'' [] \<noteq> []" "cs_icon (claim_row_status tr c) = YellowExclamationTriangleIcon"
  shows "elements ''Trans'' (FileSystemsStatus (claim_row_status tr c) (VEl (icon_name YellowExclamationTriangleIcon) [] []) name) =
     [VEl ''Trans'' [Attr ''values.label'' (AText ''scale.spectrum.ibm.com/allowDelete''),
        Attr ''values.fileSystemName'' (AText name)] [VText deletion_blocked_message]]"
proof -
  have "claim_row_status tr c = \<lparr>cs_title = tr ''Deletion blocked'' [], cs_message = deletion_blocked_message,
      cs_icon = YellowExclamationTriangleIcon\<rparr>"
    using assms(2) by (auto simp: claim_row_status_def Let_def split: if_splits)
  moreover have "deletion_blocked_message \<noteq> []" "js_startsWith deletion_blocked_message ''<bold>WARNING:</bold>''"
    by (simp_all add: deletion_blocked_message_def js_startsWith_def)
  ultimately show ?thesis
    using assms(1) by (simp add: FileSystemsStatus_def FS_ALLOW_DELETE_LABEL_def)
qed

definition blocked_claim :: FileSystemClaim where
  "blocked_claim = example_claim\<lparr>fileSystemClaim_status := Some \<lparr>fileSystemClaimStatus_conditions = Some
     [\<lparr>condition_lastTransitionTime = [], condition_message = [], condition_observedGeneration = None,
       condition_reason = [], condition_status = ConditionStatus_True, condition_type = ''DeletionBlocked''\<rparr>]\<rparr>\<rparr>"

text \<open>C35: Without a storage cluster, or with a file system whose list of pools is empty, rendering a row of the
  claims table throws, which takes the whole table down; in every other case the row renders four
  cells.\<close>

theorem claim_row_throws:
  "(\<exists>e. FileSystemClaimsTableRow tr c name fss (useRoutesUseCase clusters watch) = Inl e) =
     (scr_storageClusters clusters = [] \<or>
      (\<exists>fs rest st. fss = fs # rest \<and> filesystem_status fs = Some st \<and> filesystemStatus_pools st = Some [])) \<and>
   (\<forall>v. FileSystemClaimsTableRow tr c name fss (useRoutesUseCase clusters watch) = Inr v \<longrightarrow>
      length (elements ''TableData'' v) = 4)"
proof -
  have routes: "(\<exists>e. useRoutesUseCase clusters watch = Inl e) = (scr_storageClusters clusters = [])"
    by (cases "scr_storageClusters clusters") (simp_all add: useRoutesUseCase_def Let_def)
  have none: "elements ''TableData'' (FileSystemsStatus st (VEl (icon_name i) [] []) n) = []" for st i n
    by (cases i) (simp_all add: FileSystemsStatus_def)
  have link: "elements ''TableData'' (link_element l) = []" for l
    by (simp add: link_element_def split: link_view.splits)
  note empty = raw_capacity_throws [of fss, THEN conjunct1]
  show ?thesis
  proof (cases "rawCapacity fss")
    case (Inl e)
    with empty show ?thesis by (auto simp: FileSystemClaimsTableRow_def Let_def)
  next
    case (Inr cap)
    note cap = this
    with empty have full: "\<not> (\<exists>fs rest st. fss = fs # rest \<and> filesystem_status fs = Some st \<and>
        filesystemStatus_pools st = Some [])"
      by simp
    show ?thesis
    proof (cases "useRoutesUseCase clusters watch")
      case (Inl e)
      with routes have "scr_storageClusters clusters = []" by blast
      with Inl cap show ?thesis by (simp add: FileSystemClaimsTableRow_def Let_def)
    next
      case (Inr r)
      with routes have "scr_storageClusters clusters \<noteq> []" by auto
      with Inr cap full none link show ?thesis by (auto simp: FileSystemClaimsTableRow_def Let_def resource_link_def)
    qed
  qed
qed

lemma form_redirects: "elements ''Redirect'' (FileSystemClaimsCreateForm tr fid fvm) = []"
proof -
  have "elements ''Redirect'' (lun_row cols ls l) = []" for cols ls l
    by (simp add: lun_row_def)
  then have "elements ''Redirect'' (luns_field tr fvm) = []"
    by (simp add: luns_field_def lun_columns_def child_elements_map Let_def)
  then show ?thesis by (simp add: FileSystemClaimsCreateForm_def HelpLabelIcon_def)
qed

lemma opt_attr_redirect_button [simp]:
  "elements ''Redirect'' (cancel_button t p) = []" "elements ''Redirect'' (learn_more_button tr) = []"
  by (simp_all add: cancel_button_def learn_more_button_def)

lemma error_fallback_buttons:
  "elements ''Button'' (DefaultErrorFallback tr e) =
     [VEl ''Button'' [Attr ''variant'' (AText ''link''), Attr ''onClick'' (AHandler ReloadWindow)] [VText (tr ''Refresh'' [])]]"
  "elements ''Button'' (DefaultLoadingFallback tr) = []"
  by (simp_all add: DefaultErrorFallback_def DefaultLoadingFallback_def Let_def)

theorem claim_row_throws_witness:
  "(\<exists>e. FileSystemClaimsTableRow (\<lambda>k _. k) blocked_claim ''fs'' []
       (useRoutesUseCase (example_clusters\<lparr>scr_storageClusters := []\<rparr>) (\<lambda>_. (None, False, WatchUndefined))) = Inl e) \<and>
   (\<exists>v. FileSystemClaimsTableRow (\<lambda>k _. k) blocked_claim ''fs'' []
       (useRoutesUseCase example_clusters (\<lambda>_. (None, False, WatchUndefined))) = Inr v \<and>
     length (elements ''TableData'' v) = 4)"
proof -
  let ?row = "\<lambda>cs. FileSystemClaimsTableRow (\<lambda>k _. k) blocked_claim ''fs'' []
      (useRoutesUseCase cs (\<lambda>_. (None, False, WatchUndefined)))"
  note throws = claim_row_throws [of "\<lambda>k _. k" blocked_claim "''fs''" "[]" _ "\<lambda>_. (None, False, WatchUndefined)"]
  have "\<not> (\<exists>e. ?row example_clusters = Inl e)"
    using throws [of example_clusters, THEN conjunct1] by (simp add: example_clusters_def)
  then obtain v where v: "?row example_clusters = Inr v" by (cases "?row example_clusters") auto
  with throws [of example_clusters, THEN conjunct2] throws [of "example_clusters\<lparr>scr_storageClusters := []\<rparr>", THEN conjunct1]
  show ?thesis by auto
qed

text \<open>The create screen leaves for the storage cluster page exactly when no storage cluster has been
  created; the claims page shows its create button in the header exactly when there is a claim, and
  it never redirects.\<close>

lemma claim_screens_navigation:
  "redirects (FileSystemClaimsCreateScreen (useFileSystemClaimsCreateScreenViewModel tr C store) b
      (FileSystemClaimsCreateForm tr fid fvm)) =
     (if scr_hasNotBeenCreated C then [AText ''/fusion-access/storage-cluster''] else []) \<and>
   redirects (FileSystemClaimsHomeScreen tr (useFileSystemClaimsHomeScreenViewModel tr R C store) b) = [] \<and>
   (AHandler (GoTo ''/fusion-access/file-system-claims/create'') \<in>
      set (List.map_filter (view_attr ''onClick'')
        (elements ''Button'' (FileSystemClaimsHomeScreen tr (useFileSystemClaimsHomeScreenViewModel tr R C store) b)))) =
     (repo_items R \<noteq> [])"
proof (intro conjI)
  show "redirects (FileSystemClaimsCreateScreen (useFileSystemClaimsCreateScreenViewModel tr C store) b
      (FileSystemClaimsCreateForm tr fid fvm)) =
     (if scr_hasNotBeenCreated C then [AText ''/fusion-access/storage-cluster''] else [])"
    by (simp add: redirects_def FileSystemClaimsCreateScreen_def useFileSystemClaimsCreateScreenViewModel_def
        list_page_elements alert_elements form_redirects map_filter_simps)
  show "redirects (FileSystemClaimsHomeScreen tr (useFileSystemClaimsHomeScreenViewModel tr R C store) b) = []"
    by (simp add: redirects_def FileSystemClaimsHomeScreen_def list_page_elements alert_elements async_cases
        map_filter_simps split: option.splits)
  show "(AHandler (GoTo ''/fusion-access/file-system-claims/create'') \<in>
      set (List.map_filter (view_attr ''onClick'')
        (elements ''Button'' (FileSystemClaimsHomeScreen tr (useFileSystemClaimsHomeScreenViewModel tr R C store) b)))) =
     (repo_items R \<noteq> [])"
    by (simp add: FileSystemClaimsHomeScreen_def useFileSystemClaimsHomeScreenViewModel_def list_page_elements
        alert_elements async_cases error_fallback_buttons redirect_handler_def map_filter_simps
        split: option.splits)
qed

end
