(* ===== verification/Claim_Page.thy ===== *)
theory Claim_Page
  imports Claim_Screens Create_Flows
begin

section \<open>The page that creates a file system claim\<close>

text \<open>
  \<open>file_system_claims_create_screen.tsx\<close> with its store, the form, the LUNs below it, the memoised
  submit callback and the button, as one machine. The form context is PatternFly's
  \<open>FormContextProvider\<close>, a parameter whose documented behaviour is \<open>form_laws\<close>. After a rejection that is
  neither an \<open>Error\<close> nor a string the alert throws when it is rendered and the console's error boundary takes
  the page's place; the machine keeps its state there.
\<close>

subsection \<open>The form context\<close>

record 'f form_context =
  fc_getValue :: "'f \<Rightarrow> string \<Rightarrow> string"
  fc_setValue :: "string \<Rightarrow> string \<Rightarrow> 'f \<Rightarrow> 'f"
  fc_getError :: "'f \<Rightarrow> string \<Rightarrow> string option"
  fc_setError :: "string \<Rightarrow> string option \<Rightarrow> 'f \<Rightarrow> 'f"
  fc_isTouched :: "'f \<Rightarrow> string \<Rightarrow> bool"
  fc_setTouched :: "string \<Rightarrow> bool \<Rightarrow> 'f \<Rightarrow> 'f"
  fc_isValid :: "'f \<Rightarrow> bool"

text \<open>
  Values, errors and touched flags are kept per field, a setter changes its own, and a form is valid
  when no field has an error.
\<close>

definition form_laws :: "'f form_context \<Rightarrow> bool" where
  "form_laws fc \<longleftrightarrow>
     (\<forall>f k v k'. fc_getValue fc (fc_setValue fc k v f) k' = (if k' = k then v else fc_getValue fc f k') \<and>
        fc_getError fc (fc_setValue fc k v f) k' = fc_getError fc f k' \<and>
        fc_isTouched fc (fc_setValue fc k v f) k' = fc_isTouched fc f k') \<and>
     (\<forall>f k e k'. fc_getError fc (fc_setError fc k e f) k' = (if k' = k then e else fc_getError fc f k') \<and>
        fc_getValue fc (fc_setError fc k e f) k' = fc_getValue fc f k' \<and>
        fc_isTouched fc (fc_setError fc k e f) k' = fc_isTouched fc f k') \<and>
     (\<forall>f k b k'. fc_isTouched fc (fc_setTouched fc k b f) k' = (if k' = k then b else fc_isTouched fc f k') \<and>
        fc_getValue fc (fc_setTouched fc k b f) k' = fc_getValue fc f k' \<and>
        fc_getError fc (fc_setTouched fc k b f) k' = fc_getError fc f k') \<and>
     (\<forall>f. fc_isValid fc f \<longleftrightarrow> (\<forall>k. fc_getError fc f k = None))"

text \<open>A form without values, errors and touched fields.\<close>

definition form_empty :: "'f form_context \<Rightarrow> 'f \<Rightarrow> bool" where
  "form_empty fc f \<longleftrightarrow>
     (\<forall>k. fc_getValue fc f k = [] \<and> fc_getError fc f k = None \<and> \<not> fc_isTouched fc f k)"

subsection \<open>State\<close>

text \<open>
  \<open>fp_memo\<close> is the memoised submit callback, \<open>fp_env\<close> the identity of its other dependencies (the
  create function, the redirect handler, \<open>t\<close>, \<open>dispatch\<close>); \<open>fp_sent\<close> and \<open>fp_visited\<close> record history.
\<close>

record 'f claim_page =
  fp_store :: State
  fp_form :: 'f
  fp_luns :: "Lun list"
  fp_memo :: "claim_callback option"
  fp_env :: nat
  fp_inFlight :: bool
  fp_healthy :: bool
  fp_pending :: nat
  fp_sent :: "FileSystemClaim list"
  fp_visited :: "UrlPaths list"

definition fp_name :: "'f form_context \<Rightarrow> 'f claim_page \<Rightarrow> string" where
  "fp_name fc p = fc_getValue fc (fp_form p) ''name''"

definition fp_render :: "'f form_context \<Rightarrow> 'f claim_page \<Rightarrow> claim_callback" where
  "fp_render fc p = \<lparr>cb_env = fp_env p, cb_fileSystemName = fp_name fc p, cb_luns = fp_luns p\<rparr>"

definition fp_dispatch :: "Actions list \<Rightarrow> 'f claim_page \<Rightarrow> 'f claim_page" where
  "fp_dispatch acts p = p\<lparr>fp_store := foldl reduce_or_keep (fp_store p) acts\<rparr>"

definition fp_run_effects :: "ui_effect list \<Rightarrow> 'f claim_page \<Rightarrow> 'f claim_page" where
  "fp_run_effects es p = (fp_dispatch (dispatched es) p)\<lparr>fp_visited := fp_visited p @ visited es\<rparr>"

subsection \<open>Renders\<close>

text \<open>
  One render and its effects: the callback is memoised, the effects of the LUNs hook dispatch
  \<open>acts\<close>, then the name is validated and the button updated, all with the values of this render.
\<close>

definition form_commit :: "translator \<Rightarrow> 'f form_context \<Rightarrow> Actions list \<Rightarrow> 'f claim_page \<Rightarrow> 'f claim_page" where
  "form_commit tr fc acts p =
     (let f = fp_form p; name = fp_name fc p in
      (fp_dispatch (acts @ claim_cta_effect (fc_isValid fc f) name (fp_luns p)) p)
        \<lparr>fp_memo := Some (claim_useCallback (fp_memo p) (fp_render fc p)),
         fp_form := (case name_validation_effect tr (fc_isTouched fc f ''name'') name of
                       None \<Rightarrow> f | Some e \<Rightarrow> fc_setError fc ''name'' e f)\<rparr>)"

text \<open>
  The effects change the LUNs and the form, so there is a second render; after it nothing changes any
  more (\<open>form_settled\<close>), since the validation would set the same error and the button the same flag.
\<close>

definition form_settle ::
  "translator \<Rightarrow> 'f form_context \<Rightarrow> Actions list \<Rightarrow> (Lun list \<Rightarrow> Lun list) \<Rightarrow> 'f claim_page \<Rightarrow> 'f claim_page" where
  "form_settle tr fc acts set_luns p =
     (let p' = form_commit tr fc acts p in form_commit tr fc [] (p'\<lparr>fp_luns := set_luns (fp_luns p')\<rparr>))"

subsection \<open>Events\<close>

definition claim_started :: "translator \<Rightarrow> bool \<Rightarrow> claim_callback \<Rightarrow> ui_effect list" where
  "claim_started tr inFlight cb =
     useFileSystemClaimsCreateUseCase tr (\<lambda>_. Pending) inFlight (cb_fileSystemName cb) (cb_luns cb)"

definition claim_finished :: "translator \<Rightarrow> FileSystemClaim promise \<Rightarrow> ui_effect list" where
  "claim_finished tr outcome = drop 1 (useFileSystemClaimsCreateUseCase tr (\<lambda>_. outcome) False [] [])"

definition submit_claim :: "translator \<Rightarrow> 'f claim_page \<Rightarrow> 'f claim_page" where
  "submit_claim tr p =
     (case fp_memo p of
        None \<Rightarrow> p
      | Some cb \<Rightarrow>
          (let p' = fp_run_effects (claim_started tr (fp_inFlight p) cb) p in
           if fp_inFlight p then p'
           else p'\<lparr>fp_sent := fp_sent p @
                     [file_system_claim_request (cb_fileSystemName cb) (submitted_devices cb) (Some SPECTRUM_SCALE_NAMESPACE)],
                   fp_pending := fp_pending p + 1\<rparr>))"

text \<open>What the handlers of the form ask for.\<close>

fun run_request :: "translator \<Rightarrow> 'f form_context \<Rightarrow> 'f claim_page \<Rightarrow> form_request \<Rightarrow> 'f claim_page" where
  "run_request tr fc p (FormSetValue k v) = p\<lparr>fp_form := fc_setValue fc k v (fp_form p)\<rparr>"
| "run_request tr fc p (FormSetTouched k b) = p\<lparr>fp_form := fc_setTouched fc k b (fp_form p)\<rparr>"
| "run_request tr fc p (LunsSetSelected lun b) = p\<lparr>fp_luns := setSelected lun b (fp_luns p)\<rparr>"
| "run_request tr fc p (LunsSetAllSelected b) = p\<lparr>fp_luns := setAllSelected b (fp_luns p)\<rparr>"
| "run_request tr fc p PreventDefault = p"
| "run_request tr fc p CreateFileSystemClaim = submit_claim tr p"

datatype claim_event =
    TypeName string
  | ClickLun Lun bool
  | ClickAllLuns bool
  | ClickSubmit
  | LunsData "LocalDisk repository" storage_nodes_lvdrs bool bool
  | ClaimModel bool
  | DaemonData "Daemon repository"
  | ClaimSettled "FileSystemClaim promise"
  | CloseClaimAlert
  | LeaveClaim

text \<open>The button submits when neither the store nor the daemon's health disables it.\<close>

definition can_submit :: "'f claim_page \<Rightarrow> bool" where
  "can_submit p \<longleftrightarrow> isDisabled (cta (fp_store p)) \<noteq> Some True \<and> fp_healthy p"

fun claim_handler ::
  "unit_converter \<Rightarrow> (js_number \<Rightarrow> string) \<Rightarrow> translator \<Rightarrow> 'f form_context \<Rightarrow> 'f claim_page \<Rightarrow> claim_event
     \<Rightarrow> 'f claim_page" where
  "claim_handler g t tr fc p (TypeName n) = foldl (run_request tr fc) p (handleFileSystemNameChange n)"
| "claim_handler g t tr fc p (ClickLun lun b) = foldl (run_request tr fc) p (handleSelectLun lun b)"
| "claim_handler g t tr fc p (ClickAllLuns b) = foldl (run_request tr fc) p (handleSelectAllLuns b)"
| "claim_handler g t tr fc p ClickSubmit = (if can_submit p then foldl (run_request tr fc) p handleSubmitForm else p)"
| "claim_handler g t tr fc p (LunsData disks nodes b c) = p"
| "claim_handler g t tr fc p (ClaimModel b) = p\<lparr>fp_inFlight := b, fp_env := fp_env p + 1\<rparr>"
| "claim_handler g t tr fc p (DaemonData daemons) = p\<lparr>fp_healthy := daemon_health_effect daemons (fp_healthy p)\<rparr>"
| "claim_handler g t tr fc p (ClaimSettled outcome) =
     (if fp_pending p = 0 \<or> outcome = Pending then p
      else fp_run_effects (claim_finished tr outcome) (p\<lparr>fp_pending := fp_pending p - 1\<rparr>))"
| "claim_handler g t tr fc p CloseClaimAlert =
     (case Option.bind (js_first (alerts (fp_store p))) alert_dismiss of
        None \<Rightarrow> p | Some dismiss \<Rightarrow> fp_dispatch [run_callback dismiss] p)"
| "claim_handler g t tr fc p LeaveClaim = fp_run_effects [Navigate FileSystemClaimsHome] p"

text \<open>The effects of the LUNs hook: those about errors run when the watch gave another error object.\<close>

fun luns_hook_actions :: "translator \<Rightarrow> claim_event \<Rightarrow> Actions list" where
  "luns_hook_actions tr (LunsData disks nodes newDisksError newNodesError) =
     (if newDisksError then local_disks_error_effect tr (repo_error disks) else []) @
     (if newNodesError then lvdrs_error_effect tr (snl_error nodes) else [])"
| "luns_hook_actions tr _ = []"

fun luns_hook_state :: "unit_converter \<Rightarrow> (js_number \<Rightarrow> string) \<Rightarrow> claim_event \<Rightarrow> Lun list \<Rightarrow> Lun list" where
  "luns_hook_state g t (LunsData disks nodes b c) luns = luns_effect g t disks nodes luns"
| "luns_hook_state g t _ luns = luns"

text \<open>On an unmounted page only a pending request goes on.\<close>

definition claim_step ::
  "unit_converter \<Rightarrow> (js_number \<Rightarrow> string) \<Rightarrow> translator \<Rightarrow> 'f form_context \<Rightarrow> 'f claim_page \<Rightarrow> claim_event
     \<Rightarrow> 'f claim_page" where
  "claim_step g t tr fc p e =
     (if fp_visited p = [] then
        form_settle tr fc (luns_hook_actions tr e) (luns_hook_state g t e) (claim_handler g t tr fc p e)
      else (case e of
              ClaimSettled outcome \<Rightarrow>
                (if fp_pending p = 0 \<or> outcome = Pending then p
                 else p\<lparr>fp_pending := fp_pending p - 1, fp_visited := fp_visited p @ visited (claim_finished tr outcome)\<rparr>)
            | _ \<Rightarrow> p))"

definition claim_mount ::
  "unit_converter \<Rightarrow> (js_number \<Rightarrow> string) \<Rightarrow> translator \<Rightarrow> 'f form_context \<Rightarrow> 'f \<Rightarrow> LocalDisk repository
     \<Rightarrow> storage_nodes_lvdrs \<Rightarrow> bool \<Rightarrow> 'f claim_page" where
  "claim_mount g t tr fc f disks nodes inFlight =
     form_settle tr fc (luns_hook_actions tr (LunsData disks nodes True True)) (luns_effect g t disks nodes)
       \<lparr>fp_store = initialState tr, fp_form = f, fp_luns = [], fp_memo = None, fp_env = 0, fp_inFlight = inFlight,
        fp_healthy = False, fp_pending = 0, fp_sent = [], fp_visited = []\<rparr>"

subsection \<open>A settled form\<close>

lemma form_simps:
  assumes "form_laws fc"
  shows "fc_getValue fc (fc_setValue fc k v f) k' = (if k' = k then v else fc_getValue fc f k')"
    "fc_getError fc (fc_setValue fc k v f) k' = fc_getError fc f k'"
    "fc_isTouched fc (fc_setValue fc k v f) k' = fc_isTouched fc f k'"
    "fc_getError fc (fc_setError fc k e f) k' = (if k' = k then e else fc_getError fc f k')"
    "fc_getValue fc (fc_setError fc k e f) k' = fc_getValue fc f k'"
    "fc_isTouched fc (fc_setError fc k e f) k' = fc_isTouched fc f k'"
    "fc_isTouched fc (fc_setTouched fc k b f) k' = (if k' = k then b else fc_isTouched fc f k')"
    "fc_getValue fc (fc_setTouched fc k b f) k' = fc_getValue fc f k'"
    "fc_getError fc (fc_setTouched fc k b f) k' = fc_getError fc f k'"
    "fc_isValid fc f \<longleftrightarrow> (\<forall>k. fc_getError fc f k = None)"
  using assms unfolding form_laws_def by blast+

definition name_ok :: "string \<Rightarrow> bool" where
  "name_ok n \<longleftrightarrow> length n \<le> 63 \<and> dns_subdomain n"

lemma name_ok_iff: "name_validation_effect tr True n = Some None \<longleftrightarrow> name_ok n"
  by (simp add: name_validation_effect_def name_ok_def name_regex_iff NAME_FIELD_MAX_LENGTH_def)

lemma name_ok_nonempty: "name_ok n \<Longrightarrow> n \<noteq> []"
  by (auto simp: name_ok_def dns_subdomain_def dns_label_def)

definition name_error :: "translator \<Rightarrow> string \<Rightarrow> string option" where
  "name_error tr n = the (name_validation_effect tr True n)"

lemma validation_touched: "name_validation_effect tr True n = Some (name_error tr n)"
  "name_validation_effect tr False n = None"
  by (simp_all add: name_error_def name_validation_effect_def)

lemma name_error_iff: "name_error tr n = None \<longleftrightarrow> name_ok n"
  using name_ok_iff [of tr n] by (simp add: validation_touched)

text \<open>What a form must satisfy before a render: errors only on the name, and only once it is touched.\<close>

definition form_pre :: "'f form_context \<Rightarrow> 'f \<Rightarrow> bool" where
  "form_pre fc f \<longleftrightarrow> (\<forall>k. fc_getError fc f k \<noteq> None \<longrightarrow> k = ''name'' \<and> fc_isTouched fc f ''name'')"

lemma fp_dispatch_fields [simp]:
  "fp_form (fp_dispatch acts p) = fp_form p" "fp_luns (fp_dispatch acts p) = fp_luns p"
  "fp_memo (fp_dispatch acts p) = fp_memo p" "fp_env (fp_dispatch acts p) = fp_env p"
  "fp_inFlight (fp_dispatch acts p) = fp_inFlight p" "fp_healthy (fp_dispatch acts p) = fp_healthy p"
  "fp_pending (fp_dispatch acts p) = fp_pending p" "fp_sent (fp_dispatch acts p) = fp_sent p"
  "fp_visited (fp_dispatch acts p) = fp_visited p" "fp_store (fp_dispatch acts p) = foldl reduce_or_keep (fp_store p) acts"
  by (simp_all add: fp_dispatch_def)

lemma cta_effect_store:
  "foldl reduce_or_keep st (claim_cta_effect v n luns) = st\<lparr>cta := (cta st)\<lparr>isDisabled := Some (claim_cta_disabled v n luns)\<rparr>\<rparr>"
  by (simp add: claim_cta_effect_def reduce_or_keep_def spread_cta_def split: option.splits)

lemma commit_fields:
  "fp_luns (form_commit tr fc acts p) = fp_luns p" "fp_env (form_commit tr fc acts p) = fp_env p"
  "fp_inFlight (form_commit tr fc acts p) = fp_inFlight p" "fp_healthy (form_commit tr fc acts p) = fp_healthy p"
  "fp_pending (form_commit tr fc acts p) = fp_pending p" "fp_sent (form_commit tr fc acts p) = fp_sent p"
  "fp_visited (form_commit tr fc acts p) = fp_visited p"
  "fp_memo (form_commit tr fc acts p) = Some (claim_useCallback (fp_memo p) (fp_render fc p))"
  "isDisabled (cta (fp_store (form_commit tr fc acts p))) =
     Some (claim_cta_disabled (fc_isValid fc (fp_form p)) (fp_name fc p) (fp_luns p))"
  by (simp_all add: form_commit_def cta_effect_store Let_def)

lemma commit_form:
  assumes "form_laws fc"
  shows "fc_getValue fc (fp_form (form_commit tr fc acts p)) k = fc_getValue fc (fp_form p) k"
    "fc_isTouched fc (fp_form (form_commit tr fc acts p)) k = fc_isTouched fc (fp_form p) k"
    "fc_getError fc (fp_form (form_commit tr fc acts p)) k =
       (if k = ''name'' \<and> fc_isTouched fc (fp_form p) ''name'' then name_error tr (fp_name fc p)
        else fc_getError fc (fp_form p) k)"
    "fp_name fc (form_commit tr fc acts p) = fp_name fc p"
proof -
  have form: "fp_form (form_commit tr fc acts p) =
      (if fc_isTouched fc (fp_form p) ''name'' then fc_setError fc ''name'' (name_error tr (fp_name fc p)) (fp_form p)
       else fp_form p)"
    by (simp add: form_commit_def validation_touched Let_def)
  show "fc_getValue fc (fp_form (form_commit tr fc acts p)) k = fc_getValue fc (fp_form p) k" for k
    by (simp add: form form_simps [OF assms])
  then show "fp_name fc (form_commit tr fc acts p) = fp_name fc p" by (simp add: fp_name_def)
  show "fc_isTouched fc (fp_form (form_commit tr fc acts p)) k = fc_isTouched fc (fp_form p) k"
    "fc_getError fc (fp_form (form_commit tr fc acts p)) k =
       (if k = ''name'' \<and> fc_isTouched fc (fp_form p) ''name'' then name_error tr (fp_name fc p)
        else fc_getError fc (fp_form p) k)"
    by (simp_all add: form form_simps [OF assms])
qed

lemma valid_after_commit:
  assumes "form_laws fc" "form_pre fc (fp_form p)"
  shows "fc_isValid fc (fp_form (form_commit tr fc acts p)) \<longleftrightarrow>
     \<not> fc_isTouched fc (fp_form p) ''name'' \<or> name_ok (fp_name fc p)"
  using assms(2) unfolding form_simps(10) [OF assms(1)] commit_form [OF assms(1)]
  by (auto simp: form_pre_def name_error_iff)

lemma form_pre_commit:
  "form_laws fc \<Longrightarrow> form_pre fc (fp_form p) \<Longrightarrow> form_pre fc (fp_form (form_commit tr fc acts p))"
  by (auto simp: form_pre_def commit_form split: if_splits)

lemma useCallback_again: "claim_useCallback (Some (claim_useCallback m r)) r' =
    (if callback_deps r' = callback_deps r then claim_useCallback m r else r')"
  by (auto simp: claim_useCallback_def split: option.splits)

lemma fp_name_update [simp]:
  "fp_name fc (p\<lparr>fp_luns := l\<rparr>) = fp_name fc p" "fp_name fc (p\<lparr>fp_healthy := b\<rparr>) = fp_name fc p"
  by (simp_all add: fp_name_def)

lemma settle_fields:
  assumes "form_laws fc"
  shows "fp_luns (form_settle tr fc acts L p) = L (fp_luns p)" "fp_env (form_settle tr fc acts L p) = fp_env p"
    "fp_inFlight (form_settle tr fc acts L p) = fp_inFlight p" "fp_healthy (form_settle tr fc acts L p) = fp_healthy p"
    "fp_pending (form_settle tr fc acts L p) = fp_pending p" "fp_sent (form_settle tr fc acts L p) = fp_sent p"
    "fp_visited (form_settle tr fc acts L p) = fp_visited p" "fp_name fc (form_settle tr fc acts L p) = fp_name fc p"
    "fc_isTouched fc (fp_form (form_settle tr fc acts L p)) k = fc_isTouched fc (fp_form p) k"
    "fp_memo (form_settle tr fc acts L p) = Some (claim_useCallback (fp_memo p) (fp_render fc p))"
  by (simp_all add: form_settle_def commit_fields commit_form [OF assms] useCallback_again callback_deps_iff
      fp_render_def Let_def)

lemma settle_button:
  assumes "form_laws fc" "form_pre fc (fp_form p)" "q = form_settle tr fc acts L p"
  shows "fc_isValid fc (fp_form q) \<longleftrightarrow> \<not> fc_isTouched fc (fp_form p) ''name'' \<or> name_ok (fp_name fc p)"
    "isDisabled (cta (fp_store q)) = Some (claim_cta_disabled (fc_isValid fc (fp_form q)) (fp_name fc p) (L (fp_luns p)))"
    "form_pre fc (fp_form q)"
proof -
  let ?p' = "form_commit tr fc acts p" and ?L = "\<lambda>p'. p'\<lparr>fp_luns := L (fp_luns p')\<rparr>"
  have pre': "form_pre fc (fp_form (?L ?p'))"
    using form_pre_commit [OF assms(1,2)] by simp
  have q: "q = form_commit tr fc [] (?L ?p')" by (simp add: assms(3) form_settle_def Let_def)
  show valid: "fc_isValid fc (fp_form q) \<longleftrightarrow> \<not> fc_isTouched fc (fp_form p) ''name'' \<or> name_ok (fp_name fc p)"
    unfolding q valid_after_commit [OF assms(1) pre'] by (simp add: commit_form [OF assms(1)])
  show "isDisabled (cta (fp_store q)) = Some (claim_cta_disabled (fc_isValid fc (fp_form q)) (fp_name fc p) (L (fp_luns p)))"
  proof -
    have "isDisabled (cta (fp_store q)) =
        Some (claim_cta_disabled (fc_isValid fc (fp_form (?L ?p'))) (fp_name fc (?L ?p')) (fp_luns (?L ?p')))"
      unfolding q by (rule commit_fields)
    moreover have "fc_isValid fc (fp_form (?L ?p')) = fc_isValid fc (fp_form q)"
      unfolding valid by (simp add: valid_after_commit [OF assms(1,2)])
    ultimately show ?thesis by (simp add: commit_fields(1) commit_form(4) [OF assms(1)])
  qed
  show "form_pre fc (fp_form q)"
    unfolding q by (rule form_pre_commit [OF assms(1) pre'])
qed

text \<open>A third render changes nothing: neither the page nor anything the form answers.\<close>

lemma form_settled:
  assumes "form_laws fc" "form_pre fc (fp_form p)" "q = form_settle tr fc acts L p"
  shows "fp_store (form_commit tr fc [] q) = fp_store q" "fp_memo (form_commit tr fc [] q) = fp_memo q"
    "fp_luns (form_commit tr fc [] q) = fp_luns q" "fc_getValue fc (fp_form (form_commit tr fc [] q)) k = fc_getValue fc (fp_form q) k"
    "fc_isTouched fc (fp_form (form_commit tr fc [] q)) k = fc_isTouched fc (fp_form q) k"
    "fc_getError fc (fp_form (form_commit tr fc [] q)) k = fc_getError fc (fp_form q) k"
proof -
  note q = settle_fields [OF assms(1), of tr acts L p, folded assms(3)] settle_button [OF assms]
  have "fp_store (form_commit tr fc [] q) =
      (fp_store q)\<lparr>cta := (cta (fp_store q))\<lparr>isDisabled := Some (claim_cta_disabled (fc_isValid fc (fp_form q)) (fp_name fc q) (fp_luns q))\<rparr>\<rparr>"
    by (simp add: form_commit_def cta_effect_store Let_def)
  also have "\<dots> = fp_store q" using q(1,8,12) by (cases "fp_store q"; cases "cta (fp_store q)") simp
  finally show "fp_store (form_commit tr fc [] q) = fp_store q" .
  show "fp_memo (form_commit tr fc [] q) = fp_memo q"
    using q(2,8,10) by (simp add: commit_fields useCallback_again callback_deps_iff fp_render_def)
  show "fp_luns (form_commit tr fc [] q) = fp_luns q" by (simp add: commit_fields)
  show "fc_getValue fc (fp_form (form_commit tr fc [] q)) k = fc_getValue fc (fp_form q) k"
    "fc_isTouched fc (fp_form (form_commit tr fc [] q)) k = fc_isTouched fc (fp_form q) k"
    by (simp_all add: commit_form [OF assms(1)])
  let ?p' = "form_commit tr fc acts p"
  have "fc_getError fc (fp_form q) ''name'' = name_error tr (fp_name fc p)" if "fc_isTouched fc (fp_form q) ''name''"
    using that unfolding assms(3) form_settle_def Let_def by (simp add: commit_form [OF assms(1)])
  then show "fc_getError fc (fp_form (form_commit tr fc [] q)) k = fc_getError fc (fp_form q) k"
    using q(8) by (simp add: commit_form [OF assms(1)])
qed

subsection \<open>The invariant\<close>

definition claim_inv :: "'f form_context \<Rightarrow> 'f claim_page \<Rightarrow> bool" where
  "claim_inv fc p \<longleftrightarrow> form_pre fc (fp_form p) \<and>
     (fc_isTouched fc (fp_form p) ''name'' \<or> fp_name fc p = []) \<and>
     (fc_isValid fc (fp_form p) \<longleftrightarrow> \<not> fc_isTouched fc (fp_form p) ''name'' \<or> name_ok (fp_name fc p)) \<and>
     isDisabled (cta (fp_store p)) = Some (claim_cta_disabled (fc_isValid fc (fp_form p)) (fp_name fc p) (fp_luns p)) \<and>
     (\<exists>cb. fp_memo p = Some cb \<and> cb_env cb = fp_env p \<and> cb_fileSystemName cb = fp_name fc p)"

lemma useCallback_deps: "callback_deps (claim_useCallback m r) = callback_deps r"
  by (auto simp: claim_useCallback_def split: option.splits)

lemma settle_inv:
  assumes "form_laws fc" "form_pre fc (fp_form p)" "fc_isTouched fc (fp_form p) ''name'' \<or> fp_name fc p = []"
  shows "claim_inv fc (form_settle tr fc acts L p)"
  using settle_button [OF assms(1,2) refl, of tr acts L] settle_fields [OF assms(1), of tr acts L p]
    useCallback_deps [of "fp_memo p" "fp_render fc p"] assms(3)
  by (simp add: claim_inv_def callback_deps_iff fp_render_def)

lemma fp_run_effects_fields [simp]:
  "fp_form (fp_run_effects es p) = fp_form p" "fp_luns (fp_run_effects es p) = fp_luns p"
  "fp_memo (fp_run_effects es p) = fp_memo p" "fp_env (fp_run_effects es p) = fp_env p"
  "fp_inFlight (fp_run_effects es p) = fp_inFlight p" "fp_healthy (fp_run_effects es p) = fp_healthy p"
  "fp_sent (fp_run_effects es p) = fp_sent p" "fp_pending (fp_run_effects es p) = fp_pending p"
  "fp_visited (fp_run_effects es p) = fp_visited p @ visited es"
  "fp_store (fp_run_effects es p) = foldl reduce_or_keep (fp_store p) (dispatched es)"
  by (simp_all add: fp_run_effects_def)

lemma submit_fields [simp]:
  "fp_form (submit_claim tr p) = fp_form p" "fp_luns (submit_claim tr p) = fp_luns p"
  "fp_env (submit_claim tr p) = fp_env p" "fp_memo (submit_claim tr p) = fp_memo p"
  by (simp_all add: submit_claim_def Let_def split: option.splits)

text \<open>Only typing changes the form.\<close>

lemma handler_form:
  "fp_form (claim_handler g t tr fc p e) =
     (case e of TypeName n \<Rightarrow> fc_setTouched fc ''name'' True (fc_setValue fc ''name'' n (fp_form p)) | _ \<Rightarrow> fp_form p)"
  by (cases e) (simp_all add: handleFileSystemNameChange_def handleSelectLun_def handleSelectAllLuns_def
      handleSubmitForm_def split: option.splits)

lemma handler_pre:
  assumes "form_laws fc" "form_pre fc (fp_form p)" "fc_isTouched fc (fp_form p) ''name'' \<or> fp_name fc p = []"
  shows "form_pre fc (fp_form (claim_handler g t tr fc p e))"
    "fc_isTouched fc (fp_form (claim_handler g t tr fc p e)) ''name'' \<or> fp_name fc (claim_handler g t tr fc p e) = []"
  using assms(2,3) unfolding form_pre_def fp_name_def handler_form
  by (auto simp: form_simps [OF assms(1)] split: claim_event.splits)

lemma claim_step_inv:
  assumes "form_laws fc" "claim_inv fc p"
  shows "claim_inv fc (claim_step g t tr fc p e)"
proof (cases "fp_visited p = []")
  case True
  have pre: "form_pre fc (fp_form p)" "fc_isTouched fc (fp_form p) ''name'' \<or> fp_name fc p = []"
    using assms(2) by (simp_all add: claim_inv_def)
  from True settle_inv [OF assms(1) handler_pre [OF assms(1) pre]] show ?thesis
    by (simp add: claim_step_def)
next
  case False
  with assms(2) show ?thesis by (auto simp: claim_step_def claim_inv_def fp_name_def split: claim_event.splits)
qed

interpretation claim_page: machine "claim_step g t tr fc" "\<lambda>p. form_laws fc \<and> claim_inv fc p" for g t tr fc
  by unfold_locales (simp add: claim_step_inv)

lemma claim_mount_inv: "form_laws fc \<Longrightarrow> form_empty fc f \<Longrightarrow> claim_inv fc (claim_mount g t tr fc f disks nodes b)"
  unfolding claim_mount_def by (rule settle_inv) (simp_all add: form_empty_def form_pre_def fp_name_def)

lemma claim_run_inv:
  assumes "form_laws fc" "form_empty fc f"
  shows "claim_inv fc (foldl (claim_step g t tr fc) (claim_mount g t tr fc f disks nodes b) es)"
  using claim_page.run_inv [of fc "claim_mount g t tr fc f disks nodes b" g t tr es] claim_mount_inv [OF assms] assms(1)
  by blast

lemma claim_inv_memo:
  "claim_inv fc p \<Longrightarrow> \<exists>cb. fp_memo p = Some cb \<and> cb_env cb = fp_env p \<and> cb_fileSystemName cb = fp_name fc p"
  by (simp add: claim_inv_def)

subsection \<open>Which LUNs are submitted\<close>

text \<open>Events that leave the page, the name and the other dependencies of the callback as they are.\<close>

fun quiet :: "claim_event \<Rightarrow> bool" where
  "quiet (ClickLun _ _) = True" | "quiet (ClickAllLuns _) = True" | "quiet (LunsData _ _ _ _) = True"
| "quiet (DaemonData _) = True" | "quiet CloseClaimAlert = True" | "quiet _ = False"

lemma quiet_handler:
  assumes "quiet e"
  shows "fp_env (claim_handler g t tr fc p e) = fp_env p" "fp_name fc (claim_handler g t tr fc p e) = fp_name fc p"
    "fp_memo (claim_handler g t tr fc p e) = fp_memo p" "fp_sent (claim_handler g t tr fc p e) = fp_sent p"
    "fp_visited (claim_handler g t tr fc p e) = fp_visited p" "fp_inFlight (claim_handler g t tr fc p e) = fp_inFlight p"
  using assms by (cases e; simp add: fp_name_def handleSelectLun_def handleSelectAllLuns_def split: option.splits)+

lemma quiet_step:
  assumes "form_laws fc" "claim_inv fc p" "fp_visited p = []" "quiet e"
  shows "fp_memo (claim_step g t tr fc p e) = fp_memo p" "fp_sent (claim_step g t tr fc p e) = fp_sent p"
    "fp_visited (claim_step g t tr fc p e) = []" "fp_inFlight (claim_step g t tr fc p e) = fp_inFlight p"
proof -
  obtain cb where cb: "fp_memo p = Some cb" "cb_env cb = fp_env p" "cb_fileSystemName cb = fp_name fc p"
    using claim_inv_memo [OF assms(2)] by blast
  then have "claim_useCallback (fp_memo p) (fp_render fc (claim_handler g t tr fc p e)) = cb"
    by (simp add: claim_useCallback_def callback_deps_iff fp_render_def quiet_handler [OF assms(4)])
  with cb(1) assms(3) show "fp_memo (claim_step g t tr fc p e) = fp_memo p" "fp_sent (claim_step g t tr fc p e) = fp_sent p"
    "fp_visited (claim_step g t tr fc p e) = []" "fp_inFlight (claim_step g t tr fc p e) = fp_inFlight p"
    by (simp_all add: claim_step_def settle_fields [OF assms(1)] quiet_handler [OF assms(4)])
qed

lemma quiet_run:
  assumes "form_laws fc" "claim_inv fc p" "fp_visited p = []" "\<forall>e \<in> set es. quiet e"
  shows "fp_memo (foldl (claim_step g t tr fc) p es) = fp_memo p \<and> fp_sent (foldl (claim_step g t tr fc) p es) = fp_sent p \<and>
     fp_visited (foldl (claim_step g t tr fc) p es) = [] \<and> fp_inFlight (foldl (claim_step g t tr fc) p es) = fp_inFlight p"
  using assms(2-)
proof (induction es arbitrary: p)
  case (Cons e es)
  then show ?case
    using quiet_step [OF assms(1) Cons.prems(1,2), of e g t tr] claim_step_inv [OF assms(1) Cons.prems(1), of g t tr e] by simp
qed simp

text \<open>Typing another name renews the callback, with the LUNs of that moment.\<close>

lemma type_step:
  assumes "form_laws fc" "claim_inv fc p" "fp_visited p = []" "n \<noteq> fp_name fc p"
    and q: "q = claim_step g t tr fc p (TypeName n)"
  shows "\<exists>cb. fp_memo q = Some cb \<and> cb_fileSystemName cb = n \<and> cb_luns cb = fp_luns p"
    "fp_sent q = fp_sent p" "fp_visited q = []" "fp_inFlight q = fp_inFlight p" "fp_luns q = fp_luns p"
    "fp_name fc q = n" "fc_isTouched fc (fp_form q) ''name''" "fp_healthy q = fp_healthy p"
proof -
  let ?p = "claim_handler g t tr fc p (TypeName n)"
  have p: "fp_luns ?p = fp_luns p" "fp_env ?p = fp_env p" "fp_memo ?p = fp_memo p" "fp_sent ?p = fp_sent p"
    "fp_visited ?p = fp_visited p" "fp_inFlight ?p = fp_inFlight p" "fp_healthy ?p = fp_healthy p"
    "fp_name fc ?p = n" "fc_isTouched fc (fp_form ?p) ''name''"
    by (simp_all add: handleFileSystemNameChange_def fp_name_def form_simps [OF assms(1)])
  obtain cb where cb: "fp_memo p = Some cb" "cb_fileSystemName cb = fp_name fc p"
    using claim_inv_memo [OF assms(2)] by blast
  then have "claim_useCallback (fp_memo ?p) (fp_render fc ?p) = fp_render fc ?p"
    using assms(4) p by (simp add: claim_useCallback_def callback_deps_iff fp_render_def)
  then show "\<exists>cb. fp_memo q = Some cb \<and> cb_fileSystemName cb = n \<and> cb_luns cb = fp_luns p"
    using assms(3) p by (simp add: q claim_step_def settle_fields [OF assms(1)] fp_render_def del: claim_handler.simps)
  show "fp_sent q = fp_sent p" "fp_visited q = []" "fp_inFlight q = fp_inFlight p" "fp_luns q = fp_luns p"
    "fp_name fc q = n" "fc_isTouched fc (fp_form q) ''name''" "fp_healthy q = fp_healthy p"
    using assms(3) p by (simp_all add: q claim_step_def settle_fields [OF assms(1)] del: claim_handler.simps)
qed

lemma submit_step:
  assumes "form_laws fc" "fp_visited p = []" "can_submit p" "\<not> fp_inFlight p" "fp_memo p = Some cb"
  shows "fp_sent (claim_step g t tr fc p ClickSubmit) = fp_sent p @
     [file_system_claim_request (cb_fileSystemName cb) (submitted_devices cb) (Some SPECTRUM_SCALE_NAMESPACE)]"
  using assms(2-) by (simp add: claim_step_def settle_fields [OF assms(1)] handleSubmitForm_def submit_claim_def Let_def)

lemma selected_paths_simps:
  "selected_paths [] = []"
  "selected_paths (l # ls) = (if lun_isSelected l then lun_path l # selected_paths ls else selected_paths ls)"
  by (simp_all add: selected_paths_def)

lemma selected_after_click: "lun \<in> set luns \<Longrightarrow> lun_path lun \<in> set (selected_paths (setSelected lun True luns))"
proof -
  assume lun: "lun \<in> set luns"
  have "lun_path lun \<in> set (selected_paths (select_first (lun_path lun) True ls))" if "lun \<in> set ls" for ls
    using that by (induction ls) (auto simp: selected_paths_simps)
  with lun show ?thesis
    by (auto simp: setSelected_def find_None_iff split: option.splits)
qed

lemma enabled_iff:
  assumes "claim_inv fc p"
  shows "isDisabled (cta (fp_store p)) = Some False \<longleftrightarrow> name_ok (fp_name fc p) \<and> selected_paths (fp_luns p) \<noteq> []"
    "isDisabled (cta (fp_store p)) \<noteq> None"
proof -
  have "isDisabled (cta (fp_store p)) = Some (claim_cta_disabled (fc_isValid fc (fp_form p)) (fp_name fc p) (fp_luns p))"
    "fc_isTouched fc (fp_form p) ''name'' \<or> fp_name fc p = []"
    "fc_isValid fc (fp_form p) \<longleftrightarrow> \<not> fc_isTouched fc (fp_form p) ''name'' \<or> name_ok (fp_name fc p)"
    using assms by (simp_all add: claim_inv_def)
  then show "isDisabled (cta (fp_store p)) = Some False \<longleftrightarrow> name_ok (fp_name fc p) \<and> selected_paths (fp_luns p) \<noteq> []"
    "isDisabled (cta (fp_store p)) \<noteq> None"
    using name_ok_nonempty by (auto simp: claim_cta_disabled_def selected_paths_def filter_empty_conv list_all_iff)
qed

subsection \<open>A form, and an example page\<close>

definition simple_form :: "(string js_object \<times> string option js_object \<times> bool js_object) form_context" where
  "simple_form =
     \<lparr>fc_getValue = \<lambda>(v, e, t) k. nullish (obj_get v k) [],
      fc_setValue = \<lambda>k x (v, e, t). (obj_set k x v, e, t),
      fc_getError = \<lambda>(v, e, t) k. nullish (obj_get e k) None,
      fc_setError = \<lambda>k x (v, e, t). (v, obj_set k x e, t),
      fc_isTouched = \<lambda>(v, e, t) k. nullish (obj_get t k) False,
      fc_setTouched = \<lambda>k b (v, e, t). (v, e, obj_set k b t),
      fc_isValid = \<lambda>(v, e, t). list_all (\<lambda>k. nullish (obj_get e k) None = None) (map fst e)\<rparr>"

lemma simple_form_laws: "form_laws simple_form"
proof -
  have "nullish (obj_get e k) None = None" if "\<forall>x \<in> set e. nullish (obj_get e (fst x)) None = None"
    for e :: "string option js_object" and k
  proof (cases "obj_get e k")
    case (Some a)
    then have "(k, a) \<in> set e" by (simp add: obj_get_def map_of_SomeD)
    with that have "nullish (obj_get e (fst (k, a))) None = None" by blast
    then show ?thesis by simp
  qed simp
  then show ?thesis
    by (auto simp: form_laws_def simple_form_def obj_get_set list_all_iff)
qed

lemma simple_form_empty: "form_empty simple_form ([], [], [])"
  by (simp add: form_empty_def simple_form_def)

definition example_claim_page where
  "example_claim_page =
     claim_mount (\<lambda>x u v. x) (\<lambda>_. []) (\<lambda>k _. k) simple_form ([], [], []) (example_disks []) example_nodes False"

text \<open>The page once the daemons are reported healthy.\<close>

lemma example_claim_fields:
  defines "p \<equiv> claim_step (\<lambda>x u v. x) (\<lambda>_. []) (\<lambda>k _. k) simple_form example_claim_page (DaemonData example_daemons)"
  shows "fp_visited p = []" "fp_healthy p" "\<not> fp_inFlight p" "fp_sent p = []" "fp_name simple_form p = []"
    "fp_luns p = keep_selection [] (makeLuns (\<lambda>x u v. x) (\<lambda>_. []) example_lvdrs [])"
proof -
  note mount = settle_fields [OF simple_form_laws]
  have m: "fp_visited example_claim_page = []" "\<not> fp_inFlight example_claim_page" "fp_sent example_claim_page = []"
    "fp_name simple_form example_claim_page = []"
    "fp_luns example_claim_page = keep_selection [] (makeLuns (\<lambda>x u v. x) (\<lambda>_. []) example_lvdrs [])"
    unfolding example_claim_page_def claim_mount_def mount
    by (simp_all add: fp_name_def simple_form_def luns_effect_def example_disks_def example_nodes_def)
  have "daemon_health_effect example_daemons b" for b
    using daemon_health_iff [OF example_daemons_loaded] example_daemon_healthy by simp
  with m show "fp_visited p = []" "fp_healthy p" "\<not> fp_inFlight p" "fp_sent p = []" "fp_name simple_form p = []"
    "fp_luns p = keep_selection [] (makeLuns (\<lambda>x u v. x) (\<lambda>_. []) example_lvdrs [])"
    unfolding p_def by (simp_all add: claim_step_def mount)
qed

lemma example_luns_offered:
  "map lun_path (makeLuns g t example_lvdrs []) = [''/dev/sdb'', ''/dev/sdc'']"
  using arg_cong [OF example_luns(1) [of g t], of "map fst"] by (simp add: comp_def)

lemma keep_nothing: "selected_paths (keep_selection [] new) = []"
  by (simp add: selected_paths_def keep_selection_def filter_empty_conv)

lemma example_name_ok: "length ''fs-1'' \<le> 63 \<and> dns_subdomain ''fs-1''"
  by (simp add: dns_subdomain_def dns_label_def label_chars_def alnum_chars_def)

subsection \<open>Properties\<close>

text \<open>C10: In every reachable state of the claim page the submit button of the rendered screen is enabled exactly
  when the name is at most 63 characters long and an RFC 1123 subdomain, at least one LUN is selected, and
  the daemons are healthy (the first one, as last loaded); the flag in the store is defined and stands for
  the name and the selection. It does not matter what was typed, clicked and reported before, in any order;
  the form context is any with the documented behaviour.\<close>

theorem claim_page_button:
  assumes "form_laws fc" "form_empty fc f"
    and "p = foldl (claim_step g t tr fc) (claim_mount g t tr fc f disks nodes b) es"
    and "vm = useFileSystemClaimsCreateScreenViewModel tr C (fp_store p)"
  shows "(\<exists>button \<in> set (elements ''Button'' (FileSystemClaimsCreateScreen vm
        (useFileSystemClaimsCreateButtonViewModel tr (fp_healthy p)) (FileSystemClaimsCreateForm tr (cr_formId vm) fvm))).
      view_attr ''type'' button = Some (AText ''submit'') \<and> view_attr ''isAriaDisabled'' button = Some (ABool False)) =
     (length (fp_name fc p) \<le> 63 \<and> dns_subdomain (fp_name fc p) \<and> selected_paths (fp_luns p) \<noteq> [] \<and> fp_healthy p) \<and>
   (isDisabled (cta (fp_store p)) = Some False) =
     (length (fp_name fc p) \<le> 63 \<and> dns_subdomain (fp_name fc p) \<and> selected_paths (fp_luns p) \<noteq> []) \<and>
   isDisabled (cta (fp_store p)) \<noteq> None"
proof -
  note enabled = enabled_iff [OF claim_run_inv [OF assms(1,2), of g t tr disks nodes b es], folded assms(3)]
  have loading: "attr_of k (opt_attr ''isLoading'' a @ ps) = (if k = ''isLoading'' \<and> a \<noteq> None then a else attr_of k ps)" for k a ps
    by (simp add: opt_attr_def split: option.splits)
  have "(\<exists>button \<in> set (elements ''Button'' (FileSystemClaimsCreateScreen vm
        (useFileSystemClaimsCreateButtonViewModel tr (fp_healthy p)) (FileSystemClaimsCreateForm tr (cr_formId vm) fvm))).
      view_attr ''type'' button = Some (AText ''submit'') \<and> view_attr ''isAriaDisabled'' button = Some (ABool False)) =
    (\<exists>button \<in> set (filter (\<lambda>b. view_attr ''type'' b = Some (AText ''submit'')) (elements ''Button'' (FileSystemClaimsCreateScreen vm
        (useFileSystemClaimsCreateButtonViewModel tr (fp_healthy p)) (FileSystemClaimsCreateForm tr (cr_formId vm) fvm)))).
      view_attr ''isAriaDisabled'' button = Some (ABool False))"
    by auto
  also have "\<dots> = (isDisabled (cta (fp_store p)) \<noteq> Some True \<and> fp_healthy p)"
    unfolding screen_submit_button [OF assms(4)]
    by (cases "isDisabled (cta (fp_store p))") (simp_all add: loading)
  finally show ?thesis using enabled by (cases "isDisabled (cta (fp_store p))") (auto simp: name_ok_def)
qed

theorem claim_page_button_witness:
  "isDisabled (cta (fp_store (foldl (claim_step (\<lambda>x u v. x) (\<lambda>_. []) (\<lambda>k _. k) simple_form) example_claim_page []))) = Some True"
proof -
  let ?p = "foldl (claim_step (\<lambda>x u v. x) (\<lambda>_. []) (\<lambda>k _. k) simple_form) example_claim_page []"
  have "fp_name simple_form ?p = []"
    by (simp add: example_claim_page_def claim_mount_def settle_fields [OF simple_form_laws])
      (simp add: fp_name_def simple_form_def)
  then have "\<not> dns_subdomain (fp_name simple_form ?p)" by (simp add: dns_subdomain_def dns_label_def)
  moreover have p: "?p = foldl (claim_step (\<lambda>x u v. x) (\<lambda>_. []) (\<lambda>k _. k) simple_form)
      (claim_mount (\<lambda>x u v. x) (\<lambda>_. []) (\<lambda>k _. k) simple_form ([], [], []) (example_disks []) example_nodes False) []"
    by (simp only: example_claim_page_def)
  ultimately have "isDisabled (cta (fp_store ?p)) \<noteq> Some False" "isDisabled (cta (fp_store ?p)) \<noteq> None"
    using claim_page_button [OF simple_form_laws simple_form_empty p refl] by blast+
  then show ?thesis by (cases "isDisabled (cta (fp_store ?p))") auto
qed

text \<open>C11: What a submission asks for: the claim has the name last typed and the LUNs that were selected at
  that moment. Selecting and deselecting LUNs, new data, a dismissed alert, in any order, change the
  table and the button but not the claim, since the memoised callback is not renewed.\<close>

theorem claim_page_submits:
  assumes "form_laws fc" "form_empty fc f"
    and "p = foldl (claim_step g t tr fc) (claim_mount g t tr fc f disks nodes b) before"
    and "fp_visited p = []" "n \<noteq> fp_name fc p" "\<forall>e \<in> set later. quiet e"
    and "q = foldl (claim_step g t tr fc) p (TypeName n # later)" "can_submit q" "\<not> fp_inFlight q"
  shows "fp_sent (claim_step g t tr fc q ClickSubmit) =
     fp_sent p @ [file_system_claim_request n (selected_paths (fp_luns p)) (Some ''ibm-spectrum-scale'')]"
proof -
  have inv: "claim_inv fc p" unfolding assms(3) by (rule claim_run_inv [OF assms(1,2)])
  let ?p1 = "claim_step g t tr fc p (TypeName n)"
  note typed = type_step [OF assms(1) inv assms(4,5) refl, of g t tr]
  from typed(1) obtain cb where cb: "fp_memo ?p1 = Some cb" "cb_fileSystemName cb = n" "cb_luns cb = fp_luns p" by blast
  note quiet = quiet_run [OF assms(1) claim_step_inv [OF assms(1) inv] typed(3) assms(6), of g t tr]
  have q: "q = foldl (claim_step g t tr fc) ?p1 later" by (simp add: assms(7))
  from submit_step [OF assms(1) _ assms(8,9), of cb g t tr] quiet cb typed(2) show ?thesis
    by (simp add: q submitted_devices_def SPECTRUM_SCALE_NAMESPACE_def)
qed

text \<open>The page after the daemons were reported, with nothing selected yet.\<close>

definition example_healthy_page where
  "example_healthy_page = claim_step (\<lambda>x u v. x) (\<lambda>_. []) (\<lambda>k _. k) simple_form example_claim_page (DaemonData example_daemons)"

lemmas healthy_page = example_claim_fields [folded example_healthy_page_def]

lemma healthy_page_run:
  "example_healthy_page = foldl (claim_step (\<lambda>x u v. x) (\<lambda>_. []) (\<lambda>k _. k) simple_form)
     (claim_mount (\<lambda>x u v. x) (\<lambda>_. []) (\<lambda>k _. k) simple_form ([], [], []) (example_disks []) example_nodes False)
     [DaemonData example_daemons]"
  by (simp add: example_healthy_page_def example_claim_page_def)

lemma healthy_page_name: "''fs-1'' \<noteq> fp_name simple_form example_healthy_page"
  by (simp add: healthy_page)

text \<open>Typing a valid name and then clicking a LUN enables the button.\<close>

lemma type_then_click:
  assumes "form_laws fc" "claim_inv fc p" "fp_visited p = []" "n \<noteq> fp_name fc p" "name_ok n" "lun \<in> set (fp_luns p)"
    and q: "q = foldl (claim_step g t tr fc) p [TypeName n, ClickLun lun True]"
  shows "isDisabled (cta (fp_store q)) = Some False" "lun_path lun \<in> set (selected_paths (fp_luns q))"
    "fp_healthy q = fp_healthy p" "fp_inFlight q = fp_inFlight p"
proof -
  let ?p1 = "claim_step g t tr fc p (TypeName n)"
  note typed = type_step [OF assms(1-4) refl, of g t tr]
  have q': "q = claim_step g t tr fc ?p1 (ClickLun lun True)" by (simp add: q)
  have inv1: "claim_inv fc ?p1" and inv: "claim_inv fc q"
    unfolding q' using claim_step_inv [OF assms(1)] assms(2) by blast+
  have luns: "fp_luns q = setSelected lun True (fp_luns p)" and name: "fp_name fc q = n"
    using typed by (simp_all add: q' claim_step_def settle_fields [OF assms(1)] handleSelectLun_def)
  then show path: "lun_path lun \<in> set (selected_paths (fp_luns q))"
    using selected_after_click [OF assms(6)] by simp
  then show "isDisabled (cta (fp_store q)) = Some False"
    using enabled_iff(1) [OF inv] assms(5) name by auto
  show "fp_healthy q = fp_healthy p" "fp_inFlight q = fp_inFlight p"
    using typed by (simp_all add: q' claim_step_def settle_fields [OF assms(1)] handleSelectLun_def)
qed

theorem claim_page_submits_witness:
  "fp_sent (claim_step (\<lambda>x u v. x) (\<lambda>_. []) (\<lambda>k _. k) simple_form
     (foldl (claim_step (\<lambda>x u v. x) (\<lambda>_. []) (\<lambda>k _. k) simple_form) example_healthy_page
       [TypeName ''fs-1'', ClickLun (hd (fp_luns example_healthy_page)) True]) ClickSubmit) =
   [file_system_claim_request ''fs-1'' [] (Some ''ibm-spectrum-scale'')]"
proof -
  let ?step = "claim_step (\<lambda>x u v. x) (\<lambda>_. []) (\<lambda>k _. k) simple_form" and ?lun = "hd (fp_luns example_healthy_page)"
  let ?q = "foldl ?step example_healthy_page (TypeName ''fs-1'' # [ClickLun ?lun True])"
  have inv: "claim_inv simple_form example_healthy_page"
    unfolding healthy_page_run by (rule claim_run_inv [OF simple_form_laws simple_form_empty])
  have "map lun_path (fp_luns example_healthy_page) = [''/dev/sdb'', ''/dev/sdc'']"
    by (simp add: healthy_page keep_selection_fields example_luns_offered)
  then have lun: "?lun \<in> set (fp_luns example_healthy_page)" by (cases "fp_luns example_healthy_page") auto
  note click = type_then_click [OF simple_form_laws inv healthy_page(1) healthy_page_name _ lun refl,
      of "\<lambda>x u v. x" "\<lambda>_. []" "\<lambda>k _. k"]
  have ok: "can_submit ?q" "\<not> fp_inFlight ?q"
    using click example_name_ok healthy_page(2,3) by (simp_all only: can_submit_def name_ok_def) simp_all
  show ?thesis
    using claim_page_submits [OF simple_form_laws simple_form_empty healthy_page_run healthy_page(1) healthy_page_name _ refl ok]
    by (simp add: healthy_page keep_nothing)
qed

text \<open>C26: The consequence for a user who types the name first and then selects a LUN: the button is enabled, the
  LUN is shown as selected, and the claim that is sent asks for no device at all.\<close>

theorem claim_without_devices:
  assumes "form_laws fc" "form_empty fc f"
    and "p = foldl (claim_step g t tr fc) (claim_mount g t tr fc f disks nodes b) before"
    and "fp_visited p = []" "fp_healthy p" "\<not> fp_inFlight p" "selected_paths (fp_luns p) = []"
    and "n \<noteq> fp_name fc p" "length n \<le> 63" "dns_subdomain n" "lun \<in> set (fp_luns p)"
  shows "let q = foldl (claim_step g t tr fc) p [TypeName n, ClickLun lun True] in
     isDisabled (cta (fp_store q)) = Some False \<and> lun_path lun \<in> set (selected_paths (fp_luns q)) \<and>
     fp_sent (claim_step g t tr fc q ClickSubmit) =
       fp_sent p @ [file_system_claim_request n [] (Some ''ibm-spectrum-scale'')]"
proof -
  let ?q = "foldl (claim_step g t tr fc) p [TypeName n, ClickLun lun True]"
  have inv: "claim_inv fc p" unfolding assms(3) by (rule claim_run_inv [OF assms(1,2)])
  have "name_ok n" using assms(9,10) by (simp add: name_ok_def)
  note click = type_then_click [OF assms(1) inv assms(4,8) this assms(11) refl, of g t tr]
  let ?p1 = "claim_step g t tr fc p (TypeName n)"
  note typed = type_step [OF assms(1) inv assms(4,8) refl, of g t tr]
  from typed(1) obtain cb where cb: "fp_memo ?p1 = Some cb" "cb_fileSystemName cb = n" "cb_luns cb = fp_luns p" by blast
  have "fp_memo ?q = Some cb \<and> fp_sent ?q = fp_sent p \<and> fp_visited ?q = []"
    using quiet_run [OF assms(1) claim_step_inv [OF assms(1) inv] typed(3), of "[ClickLun lun True]" g t tr]
      cb(1) typed(2) by simp
  with submit_step [OF assms(1), of ?q cb g t tr] click assms(5-7) cb show ?thesis
    by (simp add: can_submit_def submitted_devices_def SPECTRUM_SCALE_NAMESPACE_def Let_def del: foldl_Cons)
qed

theorem claim_without_devices_witness:
  "\<exists>lun \<in> set (fp_luns example_healthy_page).
     isDisabled (cta (fp_store (foldl (claim_step (\<lambda>x u v. x) (\<lambda>_. []) (\<lambda>k _. k) simple_form) example_healthy_page
       [TypeName ''fs-1'', ClickLun lun True]))) = Some False"
proof -
  let ?lun = "hd (fp_luns example_healthy_page)"
  have "map lun_path (fp_luns example_healthy_page) = [''/dev/sdb'', ''/dev/sdc'']"
    by (simp add: healthy_page keep_selection_fields example_luns_offered)
  then have lun: "?lun \<in> set (fp_luns example_healthy_page)" by (cases "fp_luns example_healthy_page") auto
  have none: "selected_paths (fp_luns example_healthy_page) = []" by (simp add: healthy_page keep_nothing)
  show ?thesis
    using claim_without_devices [OF simple_form_laws simple_form_empty healthy_page_run healthy_page(1-3) none
        healthy_page_name example_name_ok [THEN conjunct1] example_name_ok [THEN conjunct2] lun] lun
    by (auto simp only: Let_def)
qed



end
