(* ===== verification/I18n_Defaults.thy ===== *)
theory I18n_Defaults
  imports Js_Prelude
begin

section \<open>English defaults of the locale files\<close>

text \<open>
  \<open>console/scripts/i18n/set-english-defaults.ts\<close>: a locale file maps keys to texts, and an empty
  text is replaced by one made from its key. \<open>pluralize\<close> is a third-party package, a parameter.
  Here a file is the object it holds; its text and the disk are in \<open>I18n_Files\<close>.
\<close>

definition determineRule :: "string \<Rightarrow> nat" where
  "determineRule key =
     (if js_includes key ''WithCount_plural'' then 0
      else if js_includes key ''WithCount'' then 1
      else if js_includes key ''_plural'' then 2
      else 3)"

definition english_default :: "(string \<Rightarrow> string) \<Rightarrow> string \<Rightarrow> string" where
  "english_default pluralize key =
     (let rule = determineRule key in
      if rule = 0 then ''{{count}} '' @ pluralize (js_before key ''WithCount_plural'')
      else if rule = 1 then ''{{count}} '' @ js_before key ''WithCount''
      else if rule = 2 then pluralize (js_before key ''_plural'')
      else key)"

definition updated_text :: "(string \<Rightarrow> string) \<Rightarrow> string \<Rightarrow> string \<Rightarrow> string" where
  "updated_text pluralize key text = (if text = [] then english_default pluralize key else text)"

definition updateFile :: "(string \<Rightarrow> string) \<Rightarrow> string js_object \<Rightarrow> string js_object" where
  "updateFile pluralize file =
     foldl (\<lambda>updatedFile key. obj_set key (updated_text pluralize key (nullish (obj_get file key) [])) updatedFile)
       [] (map fst (object_entries file))"

subsection \<open>Lemmas\<close>

lemma foldl_obj_set:
  "distinct ks \<Longrightarrow> fst ` set obj \<inter> set ks = {} \<Longrightarrow>
     foldl (\<lambda>acc k. obj_set k (f k) acc) obj ks = obj @ map (\<lambda>k. (k, f k)) ks"
proof (induction ks arbitrary: obj)
  case (Cons k ks)
  then have "fst ` set (obj @ [(k, f k)]) \<inter> set ks = {}" by auto
  with Cons show ?case by (simp add: obj_set_new)
qed simp

lemma updateFile_map:
  assumes ok: "obj_ok file"
  shows "updateFile pluralize file = map (\<lambda>(k, v). (k, updated_text pluralize k v)) (object_entries file)"
proof -
  have get: "nullish (obj_get file k) [] = v" if "(k, v) \<in> set (object_entries file)" for k v
    using that ok by (simp add: obj_get_def obj_ok_def)
  have "updateFile pluralize file =
      map (\<lambda>k. (k, updated_text pluralize k (nullish (obj_get file k) []))) (map fst (object_entries file))"
    unfolding updateFile_def by (subst foldl_obj_set) (simp_all add: distinct_object_entries ok)
  also have "\<dots> = map (\<lambda>(k, v). (k, updated_text pluralize k v)) (object_entries file)"
    using get by auto
  finally show ?thesis .
qed

lemma object_entries_idem: "object_entries (object_entries obj) = object_entries obj"
proof -
  let ?A = "filter (\<lambda>e. is_array_index (fst e)) obj" and ?k = "\<lambda>e::string \<times> 'a. decimal_value (fst e)"
  have "filter (\<lambda>e. is_array_index (fst e)) (sort_key ?k ?A) = sort_key ?k ?A"
    by (rule filter_True) auto
  moreover have "filter (\<lambda>e. \<not> is_array_index (fst e)) (sort_key ?k ?A) = []"
    by (rule filter_False) auto
  ultimately show ?thesis
    by (simp add: object_entries_def sort_key_id_if_sorted)
qed

lemma object_entries_map_values:
  "object_entries (map (\<lambda>(k, v). (k, g k v)) obj) = map (\<lambda>(k, v). (k, g k v)) (object_entries obj)"
proof -
  let ?g = "\<lambda>(k, v). (k, g k v)"
  have s: "sort_key (\<lambda>e. decimal_value (fst e)) (map ?g xs) = map ?g (sort_key (\<lambda>e. decimal_value (fst e)) xs)" for xs
  proof (induction xs)
    case (Cons x xs)
    have "insort_key (\<lambda>e. decimal_value (fst e)) (?g x) (map ?g ys) =
        map ?g (insort_key (\<lambda>e. decimal_value (fst e)) x ys)" for ys
      by (induction ys) (auto split: prod.splits)
    with Cons show ?case by simp
  qed simp
  show ?thesis
    unfolding object_entries_def by (simp add: s filter_map comp_def split_beta)
qed

lemma updated_text_idem: "updated_text p k (updated_text p k v) = updated_text p k v"
  by (simp add: updated_text_def)

lemma obj_ok_updateFile: "obj_ok file \<Longrightarrow> obj_ok (updateFile p file)"
  by (simp add: updateFile_map obj_ok_def comp_def split_beta distinct_object_entries [unfolded obj_ok_def])

lemma updateFile_twice:
  assumes "obj_ok file"
  shows "updateFile p (updateFile p file) = updateFile p file"
  using assms obj_ok_updateFile [OF assms, of p]
  by (simp add: updateFile_map object_entries_map_values object_entries_idem updated_text_idem split_beta)

lemma obj_get_entries: "obj_ok obj \<Longrightarrow> obj_get (object_entries obj) k = obj_get obj k"
  using distinct_object_entries [of obj] unfolding obj_get_def obj_ok_def
  by (metis map_of_eqI map_of_inject_set set_object_entries)

lemma defaults_filled:
  assumes "obj_ok file"
  shows "map fst (updateFile pluralize file) = map fst (object_entries file) \<and>
     (\<forall>k. obj_get (updateFile pluralize file) k =
        map_option (\<lambda>v. if v = [] then english_default pluralize k else v) (obj_get file k)) \<and>
     updateFile pluralize (updateFile pluralize file) = updateFile pluralize file"
proof -
  have "obj_get (map (\<lambda>(k, v). (k, g k v)) es) k = map_option (g k) (obj_get es k)"
    for g :: "string \<Rightarrow> string \<Rightarrow> string" and es k
    by (induction es) (auto simp: obj_get_def)
  then have "obj_get (updateFile pluralize file) k =
      map_option (\<lambda>v. if v = [] then english_default pluralize k else v) (obj_get file k)" for k
    by (simp add: updateFile_map [OF assms] obj_get_entries [OF assms] updated_text_def [abs_def])
  moreover have "map fst (updateFile pluralize file) = map fst (object_entries file)"
    by (simp add: updateFile_map [OF assms] comp_def split_beta)
  ultimately show ?thesis using updateFile_twice [OF assms] by blast
qed

end
