(* ===== verification/Json_Text.thy ===== *)
theory Json_Text
  imports Js_Prelude
begin

section \<open>JSON text of an object of strings\<close>

text \<open>
  \<open>JSON.stringify(obj, null, 2)\<close> and \<open>JSON.parse\<close>, as \<open>console/scripts/i18n/set-english-defaults.ts\<close>
  uses them on locale files: one object whose values are strings. Parsing any other text, a nested
  value or an escape of a character above 255 included, gives \<open>None\<close>.
\<close>

definition quote_char :: char where "quote_char = CHR 0x22"
definition escape_char :: char where "escape_char = CHR 0x5C"

subsection \<open>Writing\<close>

definition hex_digit :: "nat \<Rightarrow> char" where
  "hex_digit n = ''0123456789abcdef'' ! n"

text \<open>The characters with a short escape, and the letters that stand for them.\<close>

definition short_escapes :: "(char \<times> char) list" where
  "short_escapes = [(quote_char, quote_char), (escape_char, escape_char), (CHR 0x08, CHR ''b''), (CHR 0x0C, CHR ''f''),
     (CHR 0x0A, CHR ''n''), (CHR 0x0D, CHR ''r''), (CHR 0x09, CHR ''t'')]"

definition json_char :: "char \<Rightarrow> string" where
  "json_char c =
     (case map_of short_escapes c of
        Some e \<Rightarrow> [escape_char, e]
      | None \<Rightarrow>
          if (of_char c :: nat) < 32 then
            [escape_char, CHR ''u'', CHR ''0'', CHR ''0'', hex_digit (of_char c div 16), hex_digit (of_char c mod 16)]
          else [c])"

definition json_string :: "string \<Rightarrow> string" where
  "json_string s = quote_char # concat (map json_char s) @ [quote_char]"

definition json_member :: "string \<times> string \<Rightarrow> string" where
  "json_member e = json_string (fst e) @ '': '' @ json_string (snd e)"

text \<open>The members after the first, each on its own line.\<close>

definition json_tail :: "(string \<times> string) list \<Rightarrow> string" where
  "json_tail es = concat (map (\<lambda>e. CHR '','' # CHR 0x0A # ''  '' @ json_member e) es) @ [CHR 0x0A, CHR ''}'']"

definition json_stringify :: "string js_object \<Rightarrow> string" where
  "json_stringify obj =
     (case object_entries obj of
        [] \<Rightarrow> ''{}''
      | e # es \<Rightarrow> CHR ''{'' # CHR 0x0A # ''  '' @ json_member e @ json_tail es)"

subsection \<open>Reading\<close>

definition hex_value :: "char \<Rightarrow> nat option" where
  "hex_value c =
     (let n = of_char c :: nat in
      if 48 \<le> n \<and> n \<le> 57 then Some (n - 48)
      else if 97 \<le> n \<and> n \<le> 102 then Some (n - 87)
      else if 65 \<le> n \<and> n \<le> 70 then Some (n - 55)
      else None)"

definition unicode_escape :: "char \<Rightarrow> char \<Rightarrow> char \<Rightarrow> char \<Rightarrow> char option" where
  "unicode_escape a b c d =
     (case (hex_value a, hex_value b, hex_value c, hex_value d) of
        (Some 0, Some 0, Some h, Some l) \<Rightarrow> Some (char_of (16 * h + l))
      | _ \<Rightarrow> None)"

definition short_unescape :: "char \<Rightarrow> char option" where
  "short_unescape e = map_of ((CHR ''/'', CHR ''/'') # map (\<lambda>(c, e). (e, c)) short_escapes) e"

text \<open>The characters of a string up to its closing quote, and the rest of the text.\<close>

fun json_chars :: "string \<Rightarrow> (string \<times> string) option" where
  "json_chars [] = None"
| "json_chars (c # cs) =
     (if c = quote_char then Some ([], cs)
      else if c = escape_char then
        (case cs of
           [] \<Rightarrow> None
         | e # ds \<Rightarrow>
             if e = CHR ''u'' then
               (case ds of
                  h1 # h2 # h3 # h4 # rest \<Rightarrow>
                    (case unicode_escape h1 h2 h3 h4 of
                       None \<Rightarrow> None
                     | Some x \<Rightarrow> map_option (\<lambda>(s, r). (x # s, r)) (json_chars rest))
                | _ \<Rightarrow> None)
             else
               (case short_unescape e of
                  None \<Rightarrow> None
                | Some x \<Rightarrow> map_option (\<lambda>(s, r). (x # s, r)) (json_chars ds)))
      else if (of_char c :: nat) < 32 then None
      else map_option (\<lambda>(s, r). (c # s, r)) (json_chars cs))"

definition is_space :: "char \<Rightarrow> bool" where
  "is_space c \<longleftrightarrow> c \<in> {CHR '' '', CHR 0x09, CHR 0x0A, CHR 0x0D}"

definition skip_space :: "string \<Rightarrow> string" where
  "skip_space s = dropWhile is_space s"

text \<open>One token: a given character, or a string, after white space.\<close>

definition expect :: "char \<Rightarrow> string \<Rightarrow> string option" where
  "expect c s = (case skip_space s of [] \<Rightarrow> None | x # r \<Rightarrow> if x = c then Some r else None)"

definition json_text :: "string \<Rightarrow> (string \<times> string) option" where
  "json_text s = Option.bind (expect quote_char s) json_chars"

lemma length_skip_space: "length (skip_space s) \<le> length s"
  by (simp add: skip_space_def length_dropWhile_le)

lemma length_expect: "expect c s = Some r \<Longrightarrow> length r < length s"
  using length_skip_space [of s] by (auto simp: expect_def split: list.splits if_splits)

lemma length_json_chars: "json_chars s = Some (x, r) \<Longrightarrow> length r < length s"
proof (induction s arbitrary: x r rule: json_chars.induct)
  case (2 c cs)
  then show ?case
    by (fastforce split: if_splits list.splits option.splits)
qed simp

lemma length_json_text: "json_text s = Some (x, r) \<Longrightarrow> length r < length s"
  using length_expect length_json_chars by (fastforce simp: json_text_def bind_eq_Some_conv)

text \<open>The members up to the closing brace.\<close>

function json_members :: "string js_object \<Rightarrow> string \<Rightarrow> (string js_object \<times> string) option" where
  "json_members obj s =
     (case json_text s of
        None \<Rightarrow> None
      | Some (k, r1) \<Rightarrow>
          (case expect CHR '':'' r1 of
             None \<Rightarrow> None
           | Some r2 \<Rightarrow>
               (case json_text r2 of
                  None \<Rightarrow> None
                | Some (v, r3) \<Rightarrow>
                    (case expect CHR '','' r3 of
                       Some r4 \<Rightarrow> json_members (obj_set k v obj) r4
                     | None \<Rightarrow> map_option (\<lambda>r. (obj_set k v obj, r)) (expect CHR ''}'' r3)))))"
  by pat_completeness auto
termination
  by (relation "measure (\<lambda>(obj, s). length s)")
    (auto dest!: length_json_text length_expect)

declare json_members.simps [simp del]

definition json_parse :: "string \<Rightarrow> string js_object option" where
  "json_parse s =
     (case expect CHR ''{'' s of
        None \<Rightarrow> None
      | Some r \<Rightarrow>
          (case (case expect CHR ''}'' r of Some r' \<Rightarrow> Some ([], r') | None \<Rightarrow> json_members [] r) of
             None \<Rightarrow> None
           | Some (obj, r') \<Rightarrow> if skip_space r' = [] then Some obj else None))"

subsection \<open>Lemmas\<close>

lemma hex_value_digit: "n < 16 \<Longrightarrow> hex_value (hex_digit n) = Some n"
proof -
  assume "n < 16"
  then have "n \<in> set [0..<16]" by simp
  then show ?thesis by (auto simp: upt_rec hex_value_def hex_digit_def)
qed

lemma unicode_escape_char:
  assumes "(of_char c :: nat) < 256"
  shows "unicode_escape (CHR ''0'') (CHR ''0'') (hex_digit (of_char c div 16)) (hex_digit (of_char c mod 16)) = Some c"
proof -
  have "(of_char c :: nat) div 16 < 16" using assms by (simp add: less_mult_imp_div_less)
  then have "hex_value (hex_digit (of_char c div 16)) = Some (of_char c div 16)" by (rule hex_value_digit)
  moreover have "hex_value (CHR ''0'') = Some 0" by (simp add: hex_value_def)
  ultimately show ?thesis by (simp add: unicode_escape_def hex_value_digit)
qed

lemma json_chars_char: "json_chars (json_char c @ r) = map_option (\<lambda>(s, r'). (c # s, r')) (json_chars r)"
proof (cases "map_of short_escapes c")
  case None
  then have "c \<noteq> quote_char" "c \<noteq> escape_char"
    by (auto simp: short_escapes_def split: if_splits)
  moreover have "escape_char \<noteq> quote_char" by (simp add: escape_char_def quote_char_def)
  moreover have "(of_char c :: nat) < 256" using range_nat_of_char by (metis atLeastLessThan_iff rangeI)
  ultimately show ?thesis
    using None unicode_escape_char [of c] by (cases "(of_char c :: nat) < 32") (simp_all add: json_char_def)
next
  case (Some e)
  have "e \<noteq> CHR ''u''" "short_unescape e = Some c"
    using Some
    by (auto simp: short_escapes_def short_unescape_def quote_char_def escape_char_def split: if_splits)
  moreover have "escape_char \<noteq> quote_char" by (simp add: escape_char_def quote_char_def)
  ultimately show ?thesis using Some by (simp add: json_char_def)
qed

lemma json_chars_written: "json_chars (concat (map json_char s) @ quote_char # r) = Some (s, r)"
  by (induction s) (simp_all add: json_chars_char)

lemma expect_here: "\<not> is_space c \<Longrightarrow> expect c (c # r) = Some r"
  by (simp add: expect_def skip_space_def)

lemma expect_space: "is_space x \<Longrightarrow> expect c (x # r) = expect c r"
  by (simp add: expect_def skip_space_def)

lemma expect_other: "\<not> is_space x \<Longrightarrow> x \<noteq> c \<Longrightarrow> expect c (x # r) = None"
  by (simp add: expect_def skip_space_def)

lemma json_text_space: "is_space x \<Longrightarrow> json_text (x # s) = json_text s"
  by (simp add: json_text_def expect_space)

lemma json_text_written: "json_text (json_string s @ r) = Some (s, r)"
proof -
  have "\<not> is_space quote_char" by (simp add: is_space_def quote_char_def)
  then show ?thesis by (simp add: json_text_def json_string_def expect_here json_chars_written)
qed

lemmas json_tokens = is_space_def expect_here expect_space expect_other json_text_space json_text_written

lemma json_members_step:
  "json_members obj (json_member e @ CHR '','' # r) = json_members (obj_set (fst e) (snd e) obj) r"
  "json_members obj (json_member e @ CHR 0x0A # CHR ''}'' # r) = Some (obj_set (fst e) (snd e) obj, r)"
  by (subst json_members.simps, simp add: json_member_def json_tokens)+

lemma json_members_space: "is_space x \<Longrightarrow> json_members obj (x # s) = json_members obj s"
  by (subst (1 2) json_members.simps) (simp add: json_text_space)

lemma json_members_written:
  "distinct (map fst (e # es)) \<Longrightarrow> fst ` set obj \<inter> fst ` set (e # es) = {} \<Longrightarrow>
   json_members obj (json_member e @ json_tail es) = Some (obj @ e # es, [])"
proof (induction es arbitrary: obj e)
  case Nil
  then show ?case by (simp add: json_tail_def json_members_step obj_set_new)
next
  case (Cons e' es)
  have set_e: "obj_set (fst e) (snd e) obj = obj @ [e]" using Cons.prems by (simp add: obj_set_new)
  have "json_members obj (json_member e @ json_tail (e' # es)) =
      json_members (obj @ [e]) (CHR 0x0A # ''  '' @ json_member e' @ json_tail es)"
    by (simp add: json_tail_def json_members_step set_e)
  also have "\<dots> = json_members (obj @ [e]) (json_member e' @ json_tail es)"
    by (simp add: json_members_space is_space_def)
  also have "\<dots> = Some ((obj @ [e]) @ e' # es, [])"
    using Cons.prems by (intro Cons.IH) auto
  finally show ?case by simp
qed

lemma json_round_trip:
  assumes "obj_ok obj"
  shows "json_parse (json_stringify obj) = Some (object_entries obj)"
proof (cases "object_entries obj")
  case Nil
  then show ?thesis by (simp add: json_parse_def json_stringify_def json_tokens skip_space_def)
next
  case (Cons e es)
  have d: "distinct (map fst (e # es))" using distinct_object_entries [OF assms] Cons by simp
  have "expect (CHR ''}'') (CHR 0x0A # ''  '' @ json_member e @ json_tail es) = None"
    by (simp add: json_member_def json_string_def expect_space is_space_def)
      (simp add: expect_other is_space_def quote_char_def)
  then show ?thesis
    using json_members_written [OF d, of "[]"] Cons
    by (simp add: json_parse_def json_stringify_def expect_here is_space_def json_members_space skip_space_def)
qed

end
