(* ===== verification/I18n_Files.thy ===== *)
theory I18n_Files
  imports I18n_Defaults Json_Text
begin

section \<open>The locale files on disk\<close>

text \<open>
  \<open>console/scripts/i18n/common.ts\<close> and the script \<open>set-english-defaults.ts\<close> as a process over a file
  system. Reading a file happens at once; listing a folder and writing a file are promises, pending
  until an event settles them. \<open>pluralize\<close>, a third-party package, and \<open>other\<close>, what
  \<open>JSON.parse\<close>, the key loop and \<open>JSON.stringify\<close> make of a text that \<^const>\<open>json_parse\<close> does not read
  (another JSON value, or \<open>None\<close> where they throw) or that has the key \<open>__proto__\<close>, are parameters.
\<close>

subsection \<open>Paths\<close>

text \<open>\<open>path.normalize\<close>, \<open>path.join\<close> with two arguments and \<open>path.basename\<close> of the POSIX paths.\<close>

definition path_segment :: "bool \<Rightarrow> string list \<Rightarrow> string \<Rightarrow> string list" where
  "path_segment absolute out seg =
     (if seg = [] \<or> seg = ''.'' then out
      else if seg = ''..'' then
        (if out \<noteq> [] \<and> last out \<noteq> ''..'' then butlast out else if absolute then out else out @ [seg])
      else out @ [seg])"

definition path_normalize :: "string \<Rightarrow> string" where
  "path_normalize p =
     (let absolute = (p \<noteq> [] \<and> hd p = CHR ''/'');
          trailing = (p \<noteq> [] \<and> last p = CHR ''/'');
          segments = foldl (path_segment absolute) [] (js_split CHR ''/'' p);
          slash = (if trailing then ''/'' else [])
      in if segments = [] then (if absolute then ''/'' else ''.'' @ slash)
         else (if absolute then ''/'' else []) @ js_join CHR ''/'' segments @ slash)"

definition path_join :: "string \<Rightarrow> string \<Rightarrow> string" where
  "path_join a b =
     (let parts = filter (\<lambda>s. s \<noteq> []) [a, b]
      in if parts = [] then ''.'' else path_normalize (js_join CHR ''/'' parts))"

definition path_basename :: "string \<Rightarrow> string" where
  "path_basename p = (case filter (\<lambda>s. s \<noteq> []) (js_split CHR ''/'' p) of [] \<Rightarrow> [] | ss \<Rightarrow> last ss)"

subsection \<open>State and operations\<close>

datatype folder_job = Process_Locales_Folder | Update_File

text \<open>A line of the console; of an error, its first argument: the second is the exception.\<close>

datatype console_line = Log string | Error string

record i18n_script =
  disk :: "string \<Rightarrow> string option"
  listing :: "(string \<times> folder_job) list"
  writing :: "(string \<times> string) list"
  console :: "console_line list"

text \<open>\<open>isDirectory\<close>, given what \<open>lstatSync\<close> finds (\<open>None\<close> where it throws), and \<open>deleteFile\<close>, given whether
  \<open>unlinkSync\<close> succeeds.\<close>

definition isDirectory :: "bool option \<Rightarrow> bool" where
  "isDirectory stat = (case stat of Some d \<Rightarrow> d | None \<Rightarrow> False)"

definition deleteFile :: "bool \<Rightarrow> string \<Rightarrow> i18n_script \<Rightarrow> i18n_script" where
  "deleteFile unlinks filePath st =
     (if unlinks then st\<lparr>disk := (disk st)(filePath := None)\<rparr>
      else st\<lparr>console := console st @ [Error (''Failed to delete file '' @ filePath @ '':'')]\<rparr>)"

text \<open>\<open>parseFolder\<close> up to its \<open>await\<close>; the rest is \<open>parse_files\<close> below.\<close>

definition parseFolder :: "string \<Rightarrow> folder_job \<Rightarrow> i18n_script \<Rightarrow> i18n_script" where
  "parseFolder directory job st = st\<lparr>listing := listing st @ [(directory, job)]\<rparr>"

text \<open>The new text of a file, or \<open>None\<close> where \<open>updateFile\<close> throws.\<close>

definition update_text :: "(string \<Rightarrow> string) \<Rightarrow> (string \<Rightarrow> string option) \<Rightarrow> string \<Rightarrow> string option" where
  "update_text pluralize other s =
     (case json_parse s of
        Some file \<Rightarrow>
          if obj_get file ''__proto__'' = None then Some (json_stringify (updateFile pluralize file)) else other s
      | None \<Rightarrow> other s)"

definition updated_file ::
  "(string \<Rightarrow> string) \<Rightarrow> (string \<Rightarrow> string option) \<Rightarrow> (string \<Rightarrow> string option) \<Rightarrow> string \<Rightarrow> string option" where
  "updated_file pluralize other d fileName = Option.bind (d fileName) (update_text pluralize other)"

text \<open>The function \<open>parseFolder\<close> is given, on one entry of the folder: the new state, or \<open>None\<close> where it throws.\<close>

definition folder_job_run ::
  "(string \<Rightarrow> string) \<Rightarrow> (string \<Rightarrow> string option) \<Rightarrow> folder_job \<Rightarrow> string \<Rightarrow> i18n_script \<Rightarrow> i18n_script option" where
  "folder_job_run pluralize other job filePath st =
     (case job of
        Process_Locales_Folder \<Rightarrow>
          Some (if path_basename filePath = ''en'' then parseFolder filePath Update_File st else st)
      | Update_File \<Rightarrow>
          map_option (\<lambda>s. st\<lparr>writing := writing st @ [(filePath, s)]\<rparr>)
            (updated_file pluralize other (disk st) filePath))"

definition folder_error :: "string \<Rightarrow> console_line" where
  "folder_error directory = Error (''Failed to parseFolder '' @ directory @ '':'')"

fun parse_files ::
  "(string \<Rightarrow> string) \<Rightarrow> (string \<Rightarrow> string option) \<Rightarrow> folder_job \<Rightarrow> string \<Rightarrow> string list \<Rightarrow> i18n_script \<Rightarrow> i18n_script" where
  "parse_files pluralize other job directory [] st = st"
| "parse_files pluralize other job directory (f # fs) st =
     (case folder_job_run pluralize other job (path_join directory f) st of
        Some st' \<Rightarrow> parse_files pluralize other job directory fs st'
      | None \<Rightarrow> st\<lparr>console := console st @ [folder_error directory]\<rparr>)"

text \<open>
  The events: the \<open>n\<close>-th pending listing gives its names, or fails; the \<open>n\<close>-th pending write succeeds,
  or fails and leaves the file with some content, or none.
\<close>

datatype disk_event = Listed nat "string list option" | Written nat | Write_Failed nat "string option"

definition drop_nth :: "nat \<Rightarrow> 'a list \<Rightarrow> 'a list" where
  "drop_nth n xs = take n xs @ drop (Suc n) xs"

fun script_step ::
  "(string \<Rightarrow> string) \<Rightarrow> (string \<Rightarrow> string option) \<Rightarrow> i18n_script \<Rightarrow> disk_event \<Rightarrow> i18n_script" where
  "script_step pluralize other st (Listed n names) =
     (if n < length (listing st) then
        (let st' = st\<lparr>listing := drop_nth n (listing st)\<rparr>; directory = fst (listing st ! n) in
         case names of
           Some fs \<Rightarrow> parse_files pluralize other (snd (listing st ! n)) directory fs st'
         | None \<Rightarrow> st'\<lparr>console := console st' @ [folder_error directory]\<rparr>)
      else st)"
| "script_step pluralize other st (Written n) =
     (if n < length (writing st) then
        st\<lparr>writing := drop_nth n (writing st), disk := (disk st)(fst (writing st ! n) \<mapsto> snd (writing st ! n))\<rparr>
      else st)"
| "script_step pluralize other st (Write_Failed n left) =
     (if n < length (writing st) then
        st\<lparr>writing := drop_nth n (writing st), disk := (disk st)(fst (writing st ! n) := left),
           console := console st @ [Error (fst (writing st ! n))]\<rparr>
      else st)"

text \<open>The script, up to its last line; what it started goes on after it.\<close>

definition script_start :: "string \<Rightarrow> (string \<Rightarrow> string option) \<Rightarrow> i18n_script" where
  "script_start pwd d =
     (let st = parseFolder (path_join pwd ''locales'') Process_Locales_Folder
                 \<lparr>disk = d, listing = [], writing = [], console = [Log ''Setting EN defaults...'']\<rparr>
      in st\<lparr>console := console st @ [Log ''Done'']\<rparr>)"

subsection \<open>Lemmas\<close>

text \<open>Names as \<open>readdir\<close> gives them, and paths that \<open>path.join\<close> has made of such names.\<close>

definition entry_name :: "string \<Rightarrow> bool" where
  "entry_name f \<longleftrightarrow> f \<noteq> [] \<and> f \<noteq> ''.'' \<and> f \<noteq> ''..'' \<and> CHR ''/'' \<notin> set f"

definition plain_path :: "string list \<Rightarrow> string" where
  "plain_path segs = CHR ''/'' # js_join CHR ''/'' segs"

lemma js_split_joined:
  "segs \<noteq> [] \<Longrightarrow> \<forall>x\<in>set segs. CHR ''/'' \<notin> set x \<Longrightarrow> js_split CHR ''/'' (js_join CHR ''/'' segs) = segs"
proof (induction segs)
  case (Cons x xs)
  then show ?case by (cases xs) (simp_all add: js_split_no_sep js_split_append)
qed simp

lemma js_join_snoc: "segs \<noteq> [] \<Longrightarrow> js_join c segs @ c # f = js_join c (segs @ [f])"
proof (induction segs)
  case (Cons x xs)
  then show ?case by (cases xs) simp_all
qed simp

lemma foldl_path_segment:
  "list_all entry_name segs \<Longrightarrow> foldl (path_segment a) out segs = out @ segs"
  by (induction segs arbitrary: out) (simp_all add: path_segment_def entry_name_def)

lemma last_js_join: "segs \<noteq> [] \<Longrightarrow> last segs \<noteq> [] \<Longrightarrow> js_join c segs \<noteq> [] \<and> last (js_join c segs) = last (last segs)"
proof (induction segs)
  case (Cons x xs)
  then show ?case by (cases xs) auto
qed simp

lemma path_join_plain:
  assumes segs: "segs \<noteq> []" "list_all entry_name segs" and f: "entry_name f"
  shows "path_join (plain_path segs) f = plain_path (segs @ [f])"
proof -
  let ?all = "segs @ [f]"
  have all: "list_all entry_name ?all" using segs f by simp
  then have no_sep: "\<forall>x\<in>set ?all. CHR ''/'' \<notin> set x" by (auto simp: list_all_iff entry_name_def)
  have "f \<noteq> []" using f by (simp add: entry_name_def)
  then have last: "js_join CHR ''/'' ?all \<noteq> []" "last (js_join CHR ''/'' ?all) = last f"
    using last_js_join [of ?all] by simp_all
  have "last f \<noteq> CHR ''/''" using f last_in_set [of f] unfolding entry_name_def by metis
  then have "path_normalize (CHR ''/'' # js_join CHR ''/'' ?all) = CHR ''/'' # js_join CHR ''/'' ?all"
    using last js_split_joined [OF _ no_sep] foldl_path_segment [OF all]
    by (simp add: path_normalize_def path_segment_def)
  moreover have "plain_path segs @ CHR ''/'' # f = CHR ''/'' # js_join CHR ''/'' ?all"
    using js_join_snoc [OF segs(1)] by (simp add: plain_path_def)
  ultimately show ?thesis using \<open>f \<noteq> []\<close> by (simp add: path_join_def plain_path_def)
qed

lemma path_basename_plain:
  assumes "segs \<noteq> []" "list_all entry_name segs"
  shows "path_basename (plain_path segs) = last segs"
proof -
  have "js_split CHR ''/'' (plain_path segs) = [] # segs"
    using assms js_split_joined [of segs] by (auto simp: plain_path_def list_all_iff entry_name_def)
  moreover have "filter (\<lambda>s. s \<noteq> []) segs = segs"
    using assms(2) by (intro filter_True) (auto simp: list_all_iff entry_name_def)
  ultimately show ?thesis using assms(1) by (simp add: path_basename_def split: list.splits)
qed

text \<open>The folder of the locales, from an absolute working directory.\<close>

abbreviation locales_path :: "string list \<Rightarrow> string \<Rightarrow> string" where
  "locales_path cwd f \<equiv> plain_path (cwd @ [''locales'', f])"

lemma json_parse_ok:
  assumes "json_parse s = Some obj"
  shows "obj_ok obj"
proof -
  have "json_members o1 t = Some (o2, r) \<Longrightarrow> obj_ok o1 \<Longrightarrow> obj_ok o2" for o1 t o2 r
  proof (induction "length t" arbitrary: o1 t rule: less_induct)
    case less
    note parsed = less.prems(1) [unfolded json_members.simps [of o1 t]]
    obtain k r1 where k: "json_text t = Some (k, r1)" using parsed by (cases "json_text t") auto
    obtain r2 where r2: "expect CHR '':'' r1 = Some r2" using parsed k by (cases "expect CHR '':'' r1") auto
    obtain v r3 where v: "json_text r2 = Some (v, r3)" using parsed k r2 by (cases "json_text r2") auto
    have kv: "length r3 < length t"
      using length_json_text [OF k] length_expect [OF r2] length_json_text [OF v] by simp
    have rest: "(case expect CHR '','' r3 of
           Some r4 \<Rightarrow> json_members (obj_set k v o1) r4
         | None \<Rightarrow> map_option (\<lambda>r. (obj_set k v o1, r)) (expect CHR ''}'' r3)) = Some (o2, r)"
      using parsed k r2 v by simp
    have ok: "obj_ok (obj_set k v o1)" using less.prems(2) by (rule obj_ok_set)
    show ?case
    proof (cases "expect CHR '','' r3")
      case None
      with rest ok show ?thesis by auto
    next
      case (Some r4)
      then have "length r4 < length t" using length_expect kv by fastforce
      with less.hyps ok rest Some show ?thesis by auto
    qed
  qed
  then show ?thesis using assms by (auto simp: json_parse_def split: option.splits prod.splits if_splits)
qed

lemma updateFile_entries: "obj_ok obj \<Longrightarrow> object_entries (updateFile p obj) = updateFile p obj"
  by (simp add: updateFile_map object_entries_map_values object_entries_idem)

lemma obj_get_updateFile_None: "obj_ok obj \<Longrightarrow> obj_get (updateFile p obj) k = None \<longleftrightarrow> obj_get obj k = None"
  using obj_get_entries [of obj k, symmetric]
  by (simp add: updateFile_map) (force simp: obj_get_def map_of_eq_None_iff)

lemma drop_nth_simps [simp]:
  "drop_nth 0 (x # xs) = xs" "drop_nth (Suc n) (x # xs) = x # drop_nth n xs" "drop_nth n [] = []"
  by (simp_all add: drop_nth_def)

subsection \<open>Listing a folder\<close>

lemma parse_files_locales:
  "parse_files p other Process_Locales_Folder dir fs st =
     st\<lparr>listing := listing st @
         map (\<lambda>f. (path_join dir f, Update_File)) (filter (\<lambda>f. path_basename (path_join dir f) = ''en'') fs)\<rparr>"
  by (induction fs arbitrary: st) (simp_all add: folder_job_run_def parseFolder_def)

lemma parse_files_update:
  "\<forall>f\<in>set fs. updated_file p other (disk st) (path_join dir f) \<noteq> None \<Longrightarrow>
   parse_files p other Update_File dir fs st =
     st\<lparr>writing := writing st @
         map (\<lambda>f. (path_join dir f, the (updated_file p other (disk st) (path_join dir f)))) fs\<rparr>"
  by (induction fs arbitrary: st) (auto simp: folder_job_run_def)

lemma parse_files_stops:
  "\<forall>f\<in>set fs. updated_file p other (disk st) (path_join dir f) \<noteq> None \<Longrightarrow>
   updated_file p other (disk st) (path_join dir g) = None \<Longrightarrow>
   parse_files p other Update_File dir (fs @ g # gs) st =
     st\<lparr>writing := writing st @
         map (\<lambda>f. (path_join dir f, the (updated_file p other (disk st) (path_join dir f)))) fs,
        console := console st @ [folder_error dir]\<rparr>"
  by (induction fs arbitrary: st) (auto simp: folder_job_run_def)

text \<open>The disk once every pending write has succeeded.\<close>

definition settled_disk :: "i18n_script \<Rightarrow> string \<Rightarrow> string option" where
  "settled_disk st = disk st ++ map_of (writing st)"

lemma map_of_drop_nth:
  "distinct (map fst xs) \<Longrightarrow> n < length xs \<Longrightarrow> d(fst (xs ! n) \<mapsto> snd (xs ! n)) ++ map_of (drop_nth n xs) = d ++ map_of xs"
proof (induction xs arbitrary: n)
  case (Cons x xs)
  show ?case
  proof (cases n)
    case 0
    have "fst x \<notin> dom (map_of xs)" using Cons.prems(1) by (simp add: dom_map_of_conv_image_fst)
    then show ?thesis using 0 by (auto simp: map_add_def fun_eq_iff split: option.splits)
  next
    case (Suc m)
    have "d(fst (xs ! m) \<mapsto> snd (xs ! m)) ++ map_of (drop_nth m xs) = d ++ map_of xs"
      using Cons.prems Suc by (intro Cons.IH) simp_all
    then show ?thesis by (simp only: Suc nth_Cons_Suc drop_nth_simps map_of.simps map_add_upd)
  qed
qed simp

lemma distinct_drop_nth: "distinct (map fst xs) \<Longrightarrow> distinct (map fst (drop_nth n xs))"
proof -
  assume d: "distinct (map fst xs)"
  have "map fst (drop_nth n xs) = drop_nth n (map fst xs)"
    by (simp add: drop_nth_def take_map drop_map)
  moreover have "distinct (drop_nth n ys)" if "distinct ys" for ys :: "'a list"
    using that set_take_disj_set_drop_if_distinct [of ys n "Suc n"] by (simp add: drop_nth_def)
  ultimately show ?thesis using d by simp
qed

lemma written_settles:
  assumes "distinct (map fst (writing st))"
  shows "settled_disk (script_step p other st (Written n)) = settled_disk st \<and>
     distinct (map fst (writing (script_step p other st (Written n)))) \<and>
     listing (script_step p other st (Written n)) = listing st \<and>
     console (script_step p other st (Written n)) = console st"
  using assms map_of_drop_nth [of "writing st" n] distinct_drop_nth [of "writing st" n]
  by (simp add: settled_disk_def)

lemma all_written_settles:
  "distinct (map fst (writing st)) \<Longrightarrow>
   settled_disk (foldl (script_step p other) st (map Written ns)) = settled_disk st \<and>
   listing (foldl (script_step p other) st (map Written ns)) = listing st \<and>
   console (foldl (script_step p other) st (map Written ns)) = console st"
proof (induction ns arbitrary: st)
  case (Cons n ns)
  then show ?case using written_settles [of st p other n] by simp
qed simp

lemma writes_can_finish: "\<exists>ns. writing (foldl (script_step p other) st (map Written ns)) = []"
proof (induction "length (writing st)" arbitrary: st)
  case 0
  then have "writing (foldl (script_step p other) st (map Written [])) = []" by simp
  then show ?case by blast
next
  case (Suc m)
  have "length (writing (script_step p other st (Written 0))) = m"
    using Suc.hyps(2) by (cases "writing st") simp_all
  then obtain ns where "writing (foldl (script_step p other) (script_step p other st (Written 0)) (map Written ns)) = []"
    using Suc.hyps(1) by blast
  then have "writing (foldl (script_step p other) st (map Written (0 # ns))) = []" by simp
  then show ?case by blast
qed

subsection \<open>The two listings of the script\<close>

definition en_path :: "string list \<Rightarrow> string \<Rightarrow> string" where
  "en_path cwd f = plain_path (cwd @ [''locales'', ''en'', f])"

lemma entry_name_en [simp]: "entry_name ''locales''" "entry_name ''en''"
  by (simp_all add: entry_name_def)

lemma en_path_join:
  assumes "cwd \<noteq> []" "list_all entry_name cwd"
  shows "path_join (plain_path cwd) ''locales'' = plain_path (cwd @ [''locales''])"
    and "entry_name f \<Longrightarrow> path_join (plain_path (cwd @ [''locales''])) f = plain_path (cwd @ [''locales'', f])"
    and "entry_name f \<Longrightarrow> path_join (plain_path (cwd @ [''locales'', ''en''])) f = en_path cwd f"
  using assms path_join_plain [of cwd "''locales''"] path_join_plain [of "cwd @ [''locales'']" f]
    path_join_plain [of "cwd @ [''locales'', ''en'']" f] by (simp_all add: en_path_def)

lemma en_path_basename: "list_all entry_name cwd \<Longrightarrow> entry_name f \<Longrightarrow> path_basename (en_path cwd f) = f"
  using path_basename_plain [of "cwd @ [''locales'', ''en'', f]"] by (simp add: en_path_def)

lemma en_path_inject:
  "list_all entry_name cwd \<Longrightarrow> entry_name f \<Longrightarrow> entry_name g \<Longrightarrow> en_path cwd f = en_path cwd g \<Longrightarrow> f = g"
  using en_path_basename by metis

lemma first_listing:
  assumes cwd: "cwd \<noteq> []" "list_all entry_name cwd"
    and names: "list_all entry_name names" "filter (\<lambda>f. f = ''en'') names = [''en'']"
  shows "script_step p other (script_start (plain_path cwd) d) (Listed 0 (Some names)) =
     \<lparr>disk = d, listing = [(plain_path (cwd @ [''locales'', ''en'']), Update_File)], writing = [],
      console = [Log ''Setting EN defaults...'', Log ''Done'']\<rparr>"
proof -
  let ?L = "plain_path (cwd @ [''locales''])"
  have "path_basename (path_join ?L f) = f" if "f \<in> set names" for f
    using that names(1) cwd path_basename_plain [of "cwd @ [''locales'', f]"]
    by (simp add: en_path_join list_all_iff)
  then have "filter (\<lambda>f. path_basename (path_join ?L f) = ''en'') names = [''en'']"
    using names(2) by (simp cong: filter_cong)
  then show ?thesis
    using en_path_join(1) [OF cwd] en_path_join(2) [OF cwd, of "''en''"]
    by (simp add: script_start_def parseFolder_def parse_files_locales Let_def)
qed

lemma second_listing:
  assumes cwd: "cwd \<noteq> []" "list_all entry_name cwd" and fs: "list_all entry_name fs"
    and ok: "\<forall>f\<in>set fs. updated_file p other d (en_path cwd f) \<noteq> None"
  shows "script_step p other
       \<lparr>disk = d, listing = [(plain_path (cwd @ [''locales'', ''en'']), Update_File)], writing = [], console = lines\<rparr>
       (Listed 0 (Some fs)) =
     \<lparr>disk = d, listing = [], writing = map (\<lambda>f. (en_path cwd f, the (updated_file p other d (en_path cwd f)))) fs,
      console = lines\<rparr>"
proof -
  have join: "path_join (plain_path (cwd @ [''locales'', ''en''])) f = en_path cwd f" if "f \<in> set fs" for f
    using that fs en_path_join(3) [OF cwd] by (simp add: list_all_iff)
  then show ?thesis using ok by (simp add: parse_files_update cong: map_cong)
qed

lemma map_of_paths:
  "map_of (map (\<lambda>f. (g f, h (g f))) fs) path = (if path \<in> g ` set fs then Some (h path) else None)"
  by (induction fs) auto

subsection \<open>Properties\<close>

text \<open>C39: On a locale file of texts the script writes a file that JSON reads back: the same keys, with the
  array-index keys first as \<open>Object.keys\<close> lists them, every text that is not empty, and the default of
  its key for an empty one. On the file it has written the script changes nothing, to the character.\<close>

theorem locale_file_settled:
  assumes "json_parse s = Some file" and "obj_get file ''__proto__'' = None"
  shows "\<exists>s' file'. update_text pluralize other s = Some s' \<and> json_parse s' = Some file' \<and>
     map fst file' = map fst (object_entries file) \<and>
     (\<forall>k. obj_get file' k = map_option (\<lambda>v. if v = [] then english_default pluralize k else v) (obj_get file k)) \<and>
     update_text pluralize other s' = Some s'"
proof -
  have ok: "obj_ok file" using assms(1) by (rule json_parse_ok)
  then have ok': "obj_ok (updateFile pluralize file)" by (rule obj_ok_updateFile)
  have parsed: "json_parse (json_stringify (updateFile pluralize file)) = Some (updateFile pluralize file)"
    using json_round_trip [OF ok'] ok by (simp add: updateFile_entries)
  moreover have "obj_get (updateFile pluralize file) ''__proto__'' = None"
    using ok assms(2) by (simp add: obj_get_updateFile_None)
  ultimately have again: "update_text pluralize other (json_stringify (updateFile pluralize file)) =
      Some (json_stringify (updateFile pluralize file))"
    using ok by (simp add: update_text_def updateFile_twice)
  show ?thesis
  proof (intro exI conjI)
    show "update_text pluralize other s = Some (json_stringify (updateFile pluralize file))"
      using assms by (simp add: update_text_def)
    show "map fst (updateFile pluralize file) = map fst (object_entries file)"
      and "\<forall>k. obj_get (updateFile pluralize file) k =
        map_option (\<lambda>v. if v = [] then english_default pluralize k else v) (obj_get file k)"
      using defaults_filled [OF ok] by simp_all
  qed (rule parsed again)+
qed

theorem locale_file_settled_witness:
  "\<exists>s' file'. update_text (\<lambda>s. s @ ''s'') (\<lambda>_. None) (json_stringify [(''node_plural'', [])]) = Some s' \<and>
     json_parse s' = Some file' \<and> obj_get file' ''node_plural'' = Some ''nodes''"
proof -
  have parsed: "json_parse (json_stringify [(''node_plural'', [])]) = Some [(''node_plural'', [])]"
    by (subst json_round_trip) (simp_all add: obj_ok_def object_entries_def is_array_index_def)
  have no_proto: "obj_get [(''node_plural'', [] :: string)] ''__proto__'' = None" by (simp add: obj_get_def)
  obtain s' file' where written:
    "update_text (\<lambda>s. s @ ''s'') (\<lambda>_. None) (json_stringify [(''node_plural'', [])]) = Some s'" "json_parse s' = Some file'"
    and all: "\<forall>k. obj_get file' k = map_option (\<lambda>v. if v = [] then english_default (\<lambda>s. s @ ''s'') k else v)
        (obj_get [(''node_plural'', [])] k)"
    using locale_file_settled [OF parsed no_proto, of "\<lambda>s. s @ ''s''" "\<lambda>_. None"]
    by (elim exE conjE) (rule that)
  have "obj_get [(''node_plural'', [] :: string)] ''node_plural'' = Some []" by (simp add: obj_get_def)
  moreover have "english_default (\<lambda>s. s @ ''s'') ''node_plural'' = ''nodes''"
    by (simp add: english_default_def determineRule_def js_startsWith_def)
  ultimately have "obj_get file' ''node_plural'' = Some ''nodes''"
    using all [rule_format, of "''node_plural''"] by simp
  then show ?thesis using written by (intro exI conjI)
qed

text \<open>The script fills in the English files. When the folder of the locales has one entry \<open>en\<close> and every
  file of that folder can be read and parsed, then, in whatever order the writes finish, the disk
  ends with every one of these files updated and every other file as it was, and the console has no error.
  The writes can finish.\<close>

lemma script_updates_english:
  assumes cwd: "cwd \<noteq> []" "list_all entry_name cwd"
    and names: "list_all entry_name names" "filter (\<lambda>f. f = ''en'') names = [''en'']"
    and fs: "list_all entry_name fs" "distinct fs"
    and ok: "\<forall>f\<in>set fs. updated_file p other d (en_path cwd f) \<noteq> None"
  shows "\<exists>st. foldl (script_step p other) (script_start (plain_path cwd) d) [Listed 0 (Some names), Listed 0 (Some fs)] = st \<and>
     (\<exists>ns. writing (foldl (script_step p other) st (map Written ns)) = []) \<and>
     (\<forall>ns st'. foldl (script_step p other) st (map Written ns) = st' \<and> writing st' = [] \<longrightarrow>
        (\<forall>path. disk st' path =
           (if path \<in> en_path cwd ` set fs then updated_file p other d path else d path)) \<and>
        listing st' = [] \<and> console st' = [Log ''Setting EN defaults...'', Log ''Done''])"
proof -
  let ?st = "\<lparr>disk = d, listing = [], writing = map (\<lambda>f. (en_path cwd f, the (updated_file p other d (en_path cwd f)))) fs,
      console = [Log ''Setting EN defaults...'', Log ''Done'']\<rparr>"
  have listed: "foldl (script_step p other) (script_start (plain_path cwd) d) [Listed 0 (Some names), Listed 0 (Some fs)] = ?st"
    using first_listing [OF cwd names] second_listing [OF cwd fs(1) ok] by simp
  have "inj_on (en_path cwd) (set fs)"
    using en_path_inject [OF cwd(2)] fs(1) by (intro inj_onI) (auto simp: list_all_iff)
  then have "distinct (map fst (writing ?st))" using fs(2) by (simp add: comp_def distinct_map)
  note run = all_written_settles [OF this, of p other]
  have settled: "settled_disk ?st path = (if path \<in> en_path cwd ` set fs then updated_file p other d path else d path)" for path
    using ok by (auto simp: settled_disk_def map_add_def map_of_paths [of "en_path cwd" "\<lambda>q. the (updated_file p other d q)"])
  have "disk st' path = (if path \<in> en_path cwd ` set fs then updated_file p other d path else d path) \<and>
      listing st' = [] \<and> console st' = [Log ''Setting EN defaults...'', Log ''Done'']"
    if "foldl (script_step p other) ?st (map Written ns) = st'" "writing st' = []" for ns st' path
    using run [of ns] that settled [of path] by (simp add: settled_disk_def)
  then show ?thesis unfolding listed using writes_can_finish [of p other ?st] by blast
qed

text \<open>One file of the English folder that cannot be read or parsed stops the work on the folder: the files
  listed before it are written, neither it nor any file listed after it is, no file has changed yet, and
  the console says that the folder failed.\<close>

lemma bad_file_stops_folder:
  assumes pending: "n < length (listing st)" "listing st ! n = (directory, Update_File)"
    and before: "\<forall>f\<in>set fs. updated_file p other (disk st) (path_join directory f) \<noteq> None"
    and bad: "updated_file p other (disk st) (path_join directory g) = None"
  shows "script_step p other st (Listed n (Some (fs @ g # gs))) =
     st\<lparr>listing := drop_nth n (listing st),
        writing := writing st @
          map (\<lambda>f. (path_join directory f, the (updated_file p other (disk st) (path_join directory f)))) fs,
        console := console st @ [Error (''Failed to parseFolder '' @ directory @ '':'')]\<rparr>"
  using assms by (simp add: parse_files_stops folder_error_def)

end
