(* ===== verification/Plugin_Build.thy ===== *)
theory Plugin_Build
  imports Console_Constants I18n_Files
begin

section \<open>Localisation service and build of the plugin\<close>

text \<open>
  \<open>ui/services/use_localization_service.ts\<close>, with i18next as a parameter, and
  \<open>console/config/webpack.config.ts\<close>: the configuration as data, in the working directory and the
  mode it is built in. Regular expressions and headers are kept as their texts.
\<close>

subsection \<open>Localisation service\<close>

definition plugin_namespace :: string where
  "plugin_namespace = ''plugin__fusion-access-console''"

definition useLocalizationService :: "(string \<Rightarrow> 'a) \<Rightarrow> 'a" where
  "useLocalizationService useTranslation = useTranslation plugin_namespace"

text \<open>\<open>{ ...a, ...b }\<close>, an absent \<open>b\<close> adding nothing; then \<open>t\<close>.\<close>

definition obj_spread :: "'v js_object \<Rightarrow> 'v js_object option \<Rightarrow> 'v js_object" where
  "obj_spread a b = foldl (\<lambda>obj (k, v). obj_set k v obj) a (object_entries (nullish b []))"

definition t_plugin :: "(string \<Rightarrow> string js_object \<Rightarrow> string) \<Rightarrow> string \<Rightarrow> string js_object option \<Rightarrow> string" where
  "t_plugin i18n_t value options = i18n_t value (obj_spread [(''ns'', plugin_namespace)] options)"

lemma obj_get_foldl_set:
  "distinct (map fst es) \<Longrightarrow>
   obj_get (foldl (\<lambda>obj (k, v). obj_set k v obj) a es) k =
     (case map_of es k of Some v \<Rightarrow> Some v | None \<Rightarrow> obj_get a k)"
proof (induction es arbitrary: a)
  case (Cons e es)
  obtain k' v where "e = (k', v)" by fastforce
  then show ?case
    using Cons map_of_eq_None_iff [of es k'] by (auto simp: obj_get_set split: option.splits)
qed simp

lemma obj_get_spread:
  "obj_ok (nullish b []) \<Longrightarrow>
   obj_get (obj_spread a b) k = (case obj_get (nullish b []) k of Some v \<Rightarrow> Some v | None \<Rightarrow> obj_get a k)"
  using obj_get_entries [of "nullish b []" k]
  by (simp add: obj_spread_def obj_get_foldl_set distinct_object_entries) (simp add: obj_get_def)

text \<open>Options may name another namespace; without one, it is the plugin's.\<close>

lemma t_plugin_namespace:
  "obj_ok (nullish options []) \<Longrightarrow>
   obj_get (obj_spread [(''ns'', plugin_namespace)] options) ''ns'' =
     Some (case obj_get (nullish options []) ''ns'' of Some ns \<Rightarrow> ns | None \<Rightarrow> plugin_namespace)"
  by (simp add: obj_get_spread split: option.splits) (simp add: obj_get_def)

subsection \<open>Webpack configuration\<close>

record webpack_paths =
  path_src :: string
  path_dist :: string
  path_locales :: string
  path_nodeModules :: string
  path_tsconfig :: string

definition webpack_paths_of :: "string \<Rightarrow> webpack_paths" where
  "webpack_paths_of pwd =
     \<lparr>path_src = path_join pwd ''src'', path_dist = path_join pwd ''dist'', path_locales = path_join pwd ''locales'',
      path_nodeModules = path_join pwd ''node_modules'', path_tsconfig = path_join pwd ''tsconfig.json''\<rparr>"

definition isProd :: "string option \<Rightarrow> bool" where
  "isProd node_env \<longleftrightarrow> node_env = Some ''production''"

datatype module_rule =
    Ts_Rule string string string string
  | Css_Rule string "string list"
  | Asset_Rule string string string
  | Js_Rule string bool

datatype webpack_plugin =
    ConsoleRemotePlugin "extension list" pluginMetadata
  | CopyWebpackPlugin "(string \<times> string) list"

record webpack_output =
  out_path :: string
  out_filename :: string
  out_chunkFilename :: string

record webpack_dev_server =
  dev_static :: string
  dev_port :: nat
  dev_allowedHosts :: string
  dev_headers :: "string js_object"
  dev_writeToDisk :: bool

record webpack_config =
  wp_mode :: string
  wp_entry :: "string js_object"
  wp_context :: string
  wp_output :: webpack_output
  wp_extensions :: "string list"
  wp_modules :: "string list"
  wp_resolvePlugins :: "string list"
  wp_rules :: "module_rule list"
  wp_devServer :: webpack_dev_server
  wp_plugins :: "webpack_plugin list"
  wp_devtool :: "string option"
  wp_chunkIds :: string
  wp_minimize :: bool

definition module_rules :: "bool \<Rightarrow> webpack_paths \<Rightarrow> module_rule list" where
  "module_rules production paths =
     (let bs = escape_char in
     [Ts_Rule (bs # ''.(jsx?|tsx?)$'') (bs # ''/node_modules'' @ bs # ''/'') ''ts-loader'' (path_tsconfig paths),
      Css_Rule (bs # ''.(css)$'') [''style-loader'', ''css-loader''],
      Asset_Rule (bs # ''.(png|jpg|jpeg|gif|svg|woff2?|ttf|eot|otf)('' @ bs # ''?.*$|$)'') ''asset/resource''
        (if production then ''assets/[contenthash][ext]'' else ''assets/[name][ext]''),
      Js_Rule (bs # ''.(m?js)$'') False])"

definition dev_server :: "webpack_paths \<Rightarrow> webpack_dev_server" where
  "dev_server paths =
     \<lparr>dev_static = path_dist paths, dev_port = 9001, dev_allowedHosts = ''all'',
      dev_headers =
        [(''Access-Control-Allow-Origin'', ''*''),
         (''Access-Control-Allow-Methods'', ''GET, POST, PUT, DELETE, PATCH, OPTIONS''),
         (''Access-Control-Allow-Headers'', ''X-Requested-With, Content-Type, Authorization'')],
      dev_writeToDisk = True\<rparr>"

definition webpack_config_of :: "string \<Rightarrow> string option \<Rightarrow> string \<Rightarrow> string \<Rightarrow> webpack_config" where
  "webpack_config_of pwd node_env pkg_name pkg_version =
     (let paths = webpack_paths_of pwd; production = isProd node_env in
      \<lparr>wp_mode = (if production then ''production'' else ''development''),
       wp_entry = [],
       wp_context = path_src paths,
       wp_output =
         \<lparr>out_path = path_dist paths,
          out_filename = (if production then ''[name]-bundle-[hash].min.js'' else ''[name]-bundle.js''),
          out_chunkFilename = (if production then ''[name]-chunk-[chunkhash].min.js'' else ''[name]-chunk.js'')\<rparr>,
       wp_extensions = [''.ts'', ''.tsx'', ''.js'', ''.jsx''],
       wp_modules = [path_nodeModules paths],
       wp_resolvePlugins = [''TsconfigPathsPlugin''],
       wp_rules = module_rules production paths,
       wp_devServer = dev_server paths,
       wp_plugins =
         [ConsoleRemotePlugin (extensions pkg_name) (plugin_metadata pkg_name pkg_version),
          CopyWebpackPlugin [(path_locales paths, ''locales'')]],
       wp_devtool = (if production then None else Some ''source-map''),
       wp_chunkIds = (if production then ''deterministic'' else ''named''),
       wp_minimize = production\<rparr>)"

text \<open>
  The build copies the folder whose English files the script of \<open>I18n_Files\<close> fills in, from the same
  working directory.
\<close>

lemma build_copies_script_folder:
  "CopyWebpackPlugin [(d, ''locales'')] \<in> set (wp_plugins (webpack_config_of pwd env n v)) \<longleftrightarrow>
   listing (script_start pwd files) = [(d, Process_Locales_Folder)]"
  by (auto simp: webpack_config_of_def webpack_paths_of_def script_start_def parseFolder_def Let_def)

end
