(* ===== verification/I18n_Parser.thy ===== *)
theory I18n_Parser
  imports Plugin_Build
begin

section \<open>Extraction of the texts to translate\<close>

text \<open>
  \<open>console/config/i18next-parser.config.mjs\<close>, the configuration of i18next-parser as data, and
  \<open>console/config/i18n/lexers.mjs\<close>, its lexer for JSON files. The parser of the lexer
  (\<open>comment-json\<close>) is an argument: the value of a text, or the error it throws. It applies the
  reviver as \<open>JSON.parse\<close> does, to the members of a container in order and then to the container.
\<close>

subsection \<open>Configuration\<close>

datatype lexer = NamedLexer string | CustomJson

record parser_config =
  pc_input :: string
  pc_output :: string
  pc_sort :: bool
  pc_createOldCatalogs :: bool
  pc_keySeparator :: "string option"
  pc_locales :: "string list"
  pc_namespaceSeparator :: string
  pc_defaultNamespace :: string
  pc_defaultValue :: "string \<Rightarrow> string \<Rightarrow> string \<Rightarrow> string"
  pc_lexers :: "lexer list js_object"

text \<open>\<open>keySeparator: false\<close> is no separator.\<close>

definition parser_config_of :: "string \<Rightarrow> string \<Rightarrow> parser_config" where
  "parser_config_of pwd pkg_name =
     \<lparr>pc_input = pwd @ ''/src/**/*.{js,jsx,ts,tsx,json}'',
      pc_output = pwd @ ''/locales/$LOCALE/$NAMESPACE.json'',
      pc_sort = True,
      pc_createOldCatalogs = False,
      pc_keySeparator = None,
      pc_locales = [''en''],
      pc_namespaceSeparator = ''~'',
      pc_defaultNamespace = ''plugin__'' @ pkg_name,
      pc_defaultValue = (\<lambda>locale namespace key. key),
      pc_lexers =
        [(''hbs'', [NamedLexer ''HandlebarsLexer'']),
         (''handlebars'', [NamedLexer ''HandlebarsLexer'']),
         (''htm'', [NamedLexer ''HTMLLexer'']),
         (''html'', [NamedLexer ''HTMLLexer'']),
         (''mjs'', [NamedLexer ''JavascriptLexer'']),
         (''js'', [NamedLexer ''JavascriptLexer'']),
         (''ts'', [NamedLexer ''JavascriptLexer'']),
         (''jsx'', [NamedLexer ''JsxLexer'']),
         (''tsx'', [NamedLexer ''JsxLexer'']),
         (''json'', [CustomJson]),
         (''default'', [NamedLexer ''JavascriptLexer''])]\<rparr>"

subsection \<open>The lexer for JSON files\<close>

datatype json_value =
    JNull
  | JBool bool
  | JNumber string
  | JString string
  | JArray "json_value list"
  | JObject "(string \<times> json_value) list"

text \<open>
  The match of \<open>/^%(.+)%$/\<close>: the text between the outer percent signs when it is not empty and has no
  line terminator. Characters above 255 are outside the model, \<open>U+2028\<close> and \<open>U+2029\<close> among them.
\<close>

definition line_terminator :: "char \<Rightarrow> bool" where
  "line_terminator c \<longleftrightarrow> c = CHR 0x0A \<or> c = CHR 0x0D"

definition percent_match :: "string \<Rightarrow> string option" where
  "percent_match value =
     (case value of
        c # rest \<Rightarrow>
          if c = CHR ''%'' \<and> rest \<noteq> [] \<and> last rest = CHR ''%'' \<and> butlast rest \<noteq> [] \<and>
             \<not> list_ex line_terminator (butlast rest)
          then Some (butlast rest) else None
      | [] \<Rightarrow> None)"

text \<open>The reviver's effect on the list of keys, called on every value from the leaves up.\<close>

definition reviver :: "json_value \<Rightarrow> string list \<Rightarrow> string list" where
  "reviver value keys =
     (case value of
        JString s \<Rightarrow> (case percent_match s of Some k \<Rightarrow> if k \<noteq> [] then keys @ [k] else keys | None \<Rightarrow> keys)
      | _ \<Rightarrow> keys)"

fun revive :: "json_value \<Rightarrow> string list \<Rightarrow> string list"
  and revive_items :: "json_value list \<Rightarrow> string list \<Rightarrow> string list"
  and revive_members :: "(string \<times> json_value) list \<Rightarrow> string list \<Rightarrow> string list" where
  "revive (JArray vs) keys = reviver (JArray vs) (revive_items vs keys)"
| "revive (JObject ms) keys = reviver (JObject ms) (revive_members ms keys)"
| "revive v keys = reviver v keys"
| "revive_items [] keys = keys"
| "revive_items (v # vs) keys = revive_items vs (revive v keys)"
| "revive_members [] keys = keys"
| "revive_members ((k, v) # ms) keys = revive_members ms (revive v keys)"

text \<open>The keys, and the warning that is emitted with the error.\<close>

definition extract_keys ::
  "(string \<Rightarrow> js_error + json_value) \<Rightarrow> string \<Rightarrow> string \<Rightarrow> string list \<times> (string \<times> js_error) option" where
  "extract_keys jsonc_parse content filename =
     (case jsonc_parse content of
        Inr value \<Rightarrow> (revive value [], None)
      | Inl e \<Rightarrow> ([], Some (''Failed to parse as JSON: '' @ filename, e)))"

subsection \<open>Lemmas\<close>

text \<open>The strings of a value, as the reference for what is extracted.\<close>

fun json_strings :: "json_value \<Rightarrow> string list" where
  "json_strings (JString s) = [s]"
| "json_strings (JArray vs) = concat (map json_strings vs)"
| "json_strings (JObject ms) = concat (map (\<lambda>(k, v). json_strings v) ms)"
| "json_strings v = []"

lemma percent_match_iff:
  "percent_match s = Some k \<longleftrightarrow> s = CHR ''%'' # k @ ''%'' \<and> k \<noteq> [] \<and> \<not> list_ex line_terminator k"
  by (cases s) (auto simp: percent_match_def split: list.splits dest: append_butlast_last_id)

lemma percent_match_nonempty: "percent_match s \<noteq> Some []"
  by (simp add: percent_match_iff)

lemma reviver_keys:
  "reviver v keys = keys @ (case v of JString s \<Rightarrow> List.map_filter percent_match [s] | _ \<Rightarrow> [])"
  by (auto simp: reviver_def percent_match_nonempty map_filter_simps split: json_value.splits option.splits)

lemma revive_strings:
  "revive v keys = keys @ List.map_filter percent_match (json_strings v)"
  "revive_items vs keys = keys @ List.map_filter percent_match (concat (map json_strings vs))"
  "revive_members ms keys = keys @ List.map_filter percent_match (concat (map (\<lambda>(k, v). json_strings v) ms))"
  by (induction v keys and vs keys and ms keys rule: revive_revive_items_revive_members.induct)
    (simp_all add: reviver_keys map_filter_append)

lemma in_map_filter: "y \<in> set (List.map_filter f xs) \<longleftrightarrow> (\<exists>x \<in> set xs. f x = Some y)"
  by (induction xs) (auto split: option.splits)


text \<open>
  The name of the plugin's entry in the menu is written in the form the lexer looks for: read as a
  value it gives its key in the default namespace of the configuration.
\<close>

lemma menu_name_extracted:
  assumes "\<not> list_ex line_terminator pkg_name" "NavigationHref i nm href persp sec before \<in> set (extensions pkg_name)"
  shows "percent_match nm = Some (pc_defaultNamespace (parser_config_of pwd pkg_name) @
     pc_namespaceSeparator (parser_config_of pwd pkg_name) @ ''Fusion Access for SAN'')"
  using assms unfolding percent_match_iff
  by (auto simp: extensions_def parser_config_of_def line_terminator_def)

subsection \<open>Properties\<close>

text \<open>C40: The lexer for JSON files gives a key exactly when the text parses and some string value in it, at any
  depth, is the key between percent signs, the key being not empty and on one line; names of members
  give none. It warns exactly when the text does not parse.\<close>

theorem extracted_keys:
  "(k \<in> set (fst (extract_keys jsonc_parse content filename)) \<longleftrightarrow>
      (\<exists>v. jsonc_parse content = Inr v \<and> CHR ''%'' # k @ ''%'' \<in> set (json_strings v)) \<and>
      k \<noteq> [] \<and> \<not> list_ex line_terminator k) \<and>
   (snd (extract_keys jsonc_parse content filename) = None \<longleftrightarrow> (\<exists>v. jsonc_parse content = Inr v))"
  by (auto simp: extract_keys_def revive_strings in_map_filter percent_match_iff split: sum.splits)

end
