(* ===== verification/Console_Tests.thy ===== *)
theory Console_Tests
  imports Console_Constants
begin

section \<open>Support code of the console's integration tests\<close>

text \<open>
  \<open>console/integration-tests\<close>: the Cypress commands that \<open>support/login.ts\<close>, \<open>support/index.ts\<close> and the
  test enqueue, as data and in the order they run (those a \<open>then\<close> callback enqueues follow the
  command it waits for), and the settings of the plugin file. Cypress runs the commands; what the page
  answers (whether authentication is disabled, the modal of the tour) is an argument.
\<close>

datatype cypress =
    Visit string
  | ClearCookie string
  | TypeInto string string
  | Click string bool
  | ClickContaining string string bool
  | ShouldBeVisible string
  | UrlShouldInclude string
  | ShouldContain string string
  | ShouldExist string nat
  | Exec string
  | LogResult string
  | Reload

text \<open>\<open>Exec\<close> goes on when the command fails; \<open>LogResult\<close> is \<open>cy.log\<close> with a field of its result.\<close>

definition KUBEADMIN_USERNAME :: string where "KUBEADMIN_USERNAME = ''kubeadmin''"

text \<open>\<open>a || b\<close> of an optional string: an empty one is false too.\<close>

definition string_or :: "string option \<Rightarrow> string \<Rightarrow> string" where
  "string_or a b = (case a of Some s \<Rightarrow> if s = [] then b else s | None \<Rightarrow> b)"

definition login_form :: "string \<Rightarrow> string option \<Rightarrow> string option \<Rightarrow> cypress list" where
  "login_form bridge_password username password =
     [ClearCookie ''openshift-session-token'',
      TypeInto ''#inputUsername'' (string_or username KUBEADMIN_USERNAME),
      TypeInto ''#inputPassword'' (string_or password bridge_password),
      Click ''button[type=submit]'' False,
      ShouldBeVisible ''[data-test=\"username\"]'']"

definition login :: "string \<Rightarrow> bool \<Rightarrow> string option \<Rightarrow> string option \<Rightarrow> cypress list" where
  "login bridge_password authDisabled username password =
     Visit ''/'' # (if authDisabled then [] else login_form bridge_password username password)"

definition logout :: "bool \<Rightarrow> cypress list" where
  "logout authDisabled =
     (if authDisabled then []
      else [Click ''[data-test=\"username\"]'' False, ShouldBeVisible ''[data-test=\"log-out\"]'',
            Click ''[data-test=\"log-out\"]'' True])"

text \<open>\<open>checkErrors\<close> passes when the window keeps no error.\<close>

definition checkErrors :: "string option \<Rightarrow> bool" where
  "checkErrors windowError \<longleftrightarrow> string_or windowError [] = []"

definition baseUrl :: "string option \<Rightarrow> string" where
  "baseUrl bridge_base_address = string_or bridge_base_address ''http://localhost:9000/''"

definition isLocalDevEnvironment :: "string \<Rightarrow> bool" where
  "isLocalDevEnvironment base_url \<longleftrightarrow> js_includes base_url ''localhost''"

definition guidedTour_close :: "bool \<Rightarrow> cypress list" where
  "guidedTour_close modal_found =
     (if modal_found then [ClickContaining ''[data-test=\"tour-step-footer-secondary\"]'' ''Skip tour'' False] else [])"

definition guidedTour_isOpen :: "bool \<Rightarrow> cypress list" where
  "guidedTour_isOpen modal_found = (if modal_found then [ShouldBeVisible ''[data-test=\"guided-tour-modal\"]''] else [])"

text \<open>The one test of the suite.\<close>

definition example_page_test :: "cypress list" where
  "example_page_test =
     [Click ''[data-quickstart-id=\"qs-nav-home\"]'' False,
      ClickContaining ''[data-test=\"nav\"]'' ''Plugin Example'' False,
      UrlShouldInclude ''/example'',
      ShouldContain ''[data-test=\"example-page-title\"]'' ''Hello, Plugin!'']"

subsection \<open>The plugin file and the whole run\<close>

record cypress_settings =
  cy_preprocess_extensions :: "string list"
  cy_preprocess_loader :: "string \<times> string"
  cy_happyPackMode :: bool
  cy_transpileOnly :: bool
  cy_baseUrl :: string
  cy_kubeadmin_password :: "string option"

definition cypress_plugins :: "string option \<Rightarrow> string option \<Rightarrow> cypress_settings" where
  "cypress_plugins bridge_base_address bridge_password =
     \<lparr>cy_preprocess_extensions = [''.ts'', ''.tsx'', ''.js''],
      cy_preprocess_loader = (CHR 0x5C # ''.tsx?$'', ''ts-loader''),
      cy_happyPackMode = True, cy_transpileOnly = True,
      cy_baseUrl = baseUrl bridge_base_address,
      cy_kubeadmin_password = bridge_password\<rparr>"

text \<open>\<open>cypress.config.js\<close>; \<open>setupNodeEvents\<close> is the plugin file, in the environment it reads.\<close>

record cypress_config =
  cc_viewport :: "nat \<times> nat"
  cc_screenshotsFolder :: string
  cc_videosFolder :: string
  cc_video :: bool
  cc_reporter :: string
  cc_reporterConfigFile :: string
  cc_fixturesFolder :: string
  cc_defaultCommandTimeout :: nat
  cc_retries_runMode :: nat
  cc_retries_openMode :: nat
  cc_setupNodeEvents :: "string option \<Rightarrow> string option \<Rightarrow> cypress_settings"
  cc_specPattern :: string
  cc_supportFile :: string

definition cypress_config_of :: cypress_config where
  "cypress_config_of =
     \<lparr>cc_viewport = (1920, 1080), cc_screenshotsFolder = ''./screenshots'', cc_videosFolder = ''./videos'',
      cc_video = True, cc_reporter = ''../../node_modules/cypress-multi-reporters'',
      cc_reporterConfigFile = ''reporter-config.json'', cc_fixturesFolder = ''fixtures'',
      cc_defaultCommandTimeout = 30000, cc_retries_runMode = 1, cc_retries_openMode = 0,
      cc_setupNodeEvents = cypress_plugins,
      cc_specPattern = ''tests/**/*.cy.{js,jsx,ts,tsx}'', cc_supportFile = ''support/index.ts''\<rparr>"

definition PLUGIN_TEMPLATE_NAME :: string where
  "PLUGIN_TEMPLATE_NAME = ''console-plugin-template''"

definition installHelmChart :: "string \<Rightarrow> string \<Rightarrow> cypress list" where
  "installHelmChart pull_spec path =
     [Exec (''cd ../../console-plugin-template && '' @ path @ '' upgrade -i '' @ PLUGIN_TEMPLATE_NAME @
            '' charts/openshift-console-plugin -n '' @ PLUGIN_TEMPLATE_NAME @ '' --create-namespace --set plugin.image='' @ pull_spec),
      ShouldExist ''[data-test=\"refresh-web-console\"]'' 300000,
      Reload, Visit ''/dashboards'',
      LogResult ''Error installing helm chart: '', LogResult ''Successfully installed helm chart: '']"

definition deleteHelmChart :: "string \<Rightarrow> cypress list" where
  "deleteHelmChart path =
     [Exec (''cd ../../console-plugin-template && '' @ path @ '' uninstall '' @ PLUGIN_TEMPLATE_NAME @ '' -n '' @
            PLUGIN_TEMPLATE_NAME @ '' && oc delete namespaces '' @ PLUGIN_TEMPLATE_NAME),
      LogResult ''Error uninstalling helm chart: '', LogResult ''Successfully uninstalled helm chart: '']"

definition suite_before :: "bool \<Rightarrow> string \<Rightarrow> bool \<Rightarrow> bool \<Rightarrow> string \<Rightarrow> cypress list" where
  "suite_before localDev bridge_password authDisabled modal pull_spec =
     login bridge_password authDisabled None None @ guidedTour_isOpen modal @ guidedTour_close modal @
     (if \<not> localDev then
        [Exec ''cd ../../console-plugin-template && ./scripts/install-helm.sh'',
         LogResult ''Error installing helm binary: '',
         LogResult ''Successfully installed helm binary in \"/tmp\" directory: ''] @
        installHelmChart pull_spec ''/tmp/helm''
      else installHelmChart pull_spec ''helm'')"

definition suite_after :: "bool \<Rightarrow> bool \<Rightarrow> cypress list" where
  "suite_after localDev authDisabled =
     (if \<not> localDev then deleteHelmChart ''/tmp/helm'' else deleteHelmChart ''helm'') @ logout authDisabled"

subsection \<open>Lemmas\<close>

lemma login_without_auth: "login pw True u p = [Visit ''/'']" "logout True = []"
  by (simp_all add: login_def logout_def)

text \<open>With authentication, the user's own name and password are typed when they are given and not empty.\<close>

lemma login_with_auth:
  "u \<noteq> [] \<Longrightarrow> p \<noteq> [] \<Longrightarrow> TypeInto ''#inputUsername'' u \<in> set (login pw False (Some u) (Some p)) \<and>
     TypeInto ''#inputPassword'' p \<in> set (login pw False (Some u) (Some p))"
  "TypeInto ''#inputUsername'' ''kubeadmin'' \<in> set (login pw False None p')"
  by (simp_all add: login_def login_form_def string_or_def KUBEADMIN_USERNAME_def)

lemma local_by_default: "isLocalDevEnvironment (baseUrl None)"
  by (simp add: isLocalDevEnvironment_def baseUrl_def string_or_def js_startsWith_def)

text \<open>The test asks for a page that the plugin does not have: no path of it contains \<open>/example\<close>.\<close>

definition page_paths :: "extension list \<Rightarrow> string list" where
  "page_paths es = concat (map (\<lambda>e. case e of PageRoute exact p c \<Rightarrow> [p] | _ \<Rightarrow> []) es)"

lemma no_example_page:
  "UrlShouldInclude ''/example'' \<in> set example_page_test \<and>
   list_all (\<lambda>p. \<not> js_includes p ''/example'') (page_paths (extensions n))"
  by (simp add: example_page_test_def page_paths_def extensions_def js_startsWith_def)

text \<open>Every run installs the chart and deletes it with the same helm binary.\<close>

definition helm_of :: "cypress list \<Rightarrow> string \<Rightarrow> bool" where
  "helm_of cs path \<longleftrightarrow>
     list_ex (\<lambda>c. case c of
       Exec s \<Rightarrow> js_startsWith s (''cd ../../console-plugin-template && '' @ path @ '' '') | _ \<Rightarrow> False) cs"

lemma chart_deleted_as_installed:
  "helm_of (suite_before localDev pw auth modal spec) (if localDev then ''helm'' else ''/tmp/helm'') \<and>
   helm_of (suite_after localDev auth) (if localDev then ''helm'' else ''/tmp/helm'')"
  by (simp add: helm_of_def suite_before_def suite_after_def installHelmChart_def deleteHelmChart_def js_startsWith_def)

end
