(* ===== verification/Selection_Flow.thy ===== *)
theory Selection_Flow
  imports Cluster_Page
begin

section \<open>Selecting nodes: rows, API server and page together\<close>

text \<open>
  The page that creates a storage cluster composed with the rows of its table
  (\<open>storage_clusters_nodes_selection_table_row.tsx\<close>) and the API server that keeps the nodes. A click on
  a row sends a patch; the server applies it, which reaches the page through the watch, and answers
  it, which reaches the row, in either order. Row \<open>i\<close> shows the \<open>i\<close>-th worker node.

  Three restrictions are on the environment, not in the code: the set of worker nodes does not change
  while the page is shown, rows are not mounted anew (the table is not sorted or filtered), and other
  clients do not change the storage role (\<open>same_role\<close>).
\<close>

subsection \<open>State\<close>

text \<open>
  \<open>sf_feed\<close> are the states of the server the watch has not delivered yet, the oldest first;
  \<open>sf_applied\<close> are the rows whose patch the server has applied and not answered.
\<close>

record selection_flow =
  sf_server :: "Node list"
  sf_feed :: "Node list list"
  sf_rows :: "row_state list"
  sf_applied :: "nat set"
  sf_page :: cluster_page

text \<open>
  The two conversions of the memory a row makes when it renders, \<open>value.to("GiB")\<close> and
  \<open>value.to("best", "imperial").toString(2)\<close> of the \<open>convert\<close> package, are a parameter. A render captures
  the row's status and node and adds the warning about the memory.
\<close>

type_synonym memory_texts = "(js_number \<Rightarrow> string \<Rightarrow> js_error + js_number) \<times> (js_number \<Rightarrow> string \<Rightarrow> js_error + string)"

definition row_shown :: "memory_texts \<Rightarrow> Node \<Rightarrow> row_state \<Rightarrow> row_state" where
  "row_shown cv n s =
     (case row_render_view (fst cv) (snd cv) (row_render n s) of
        Inl _ \<Rightarrow> row_render n s
      | Inr (_, s') \<Rightarrow> s')"

definition loaded_nodes :: "Node list \<Rightarrow> Node repository" where
  "loaded_nodes nodes = \<lparr>repo_loaded = True, repo_error = None, repo_items = nodes\<rparr>"

definition flow_mount ::
  "memory_texts \<Rightarrow> translator \<Rightarrow> Node list \<Rightarrow> lvdr repository \<Rightarrow> bool \<Rightarrow> selection_flow" where
  "flow_mount cv tr nodes lvdrs inFlight =
     \<lparr>sf_server = nodes, sf_feed = [], sf_rows = map (\<lambda>n. row_shown cv n (row_mount n)) nodes, sf_applied = {},
      sf_page = page_mount tr (loaded_nodes nodes) lvdrs inFlight\<rparr>"

abbreviation mounted :: "selection_flow \<Rightarrow> bool" where
  "mounted s \<equiv> cp_visited (sf_page s) = []"

subsection \<open>Operations\<close>

text \<open>An event of row \<open>i\<close>, and the render after it. A low-memory warning disables the checkbox.\<close>

definition row_event :: "memory_texts \<Rightarrow> nat \<Rightarrow> (row_state \<Rightarrow> row_state) \<Rightarrow> selection_flow \<Rightarrow> selection_flow" where
  "row_event cv i f s =
     s\<lparr>sf_rows := (sf_rows s)[i := row_shown cv (closure_node (sf_rows s ! i)) (f (sf_rows s ! i))]\<rparr>"

definition row_patch :: "selection_flow \<Rightarrow> nat \<Rightarrow> patch_request" where
  "row_patch s i = hd (in_flight (sf_rows s ! i))"

definition server_update :: "nat \<Rightarrow> Node \<Rightarrow> selection_flow \<Rightarrow> selection_flow" where
  "server_update i n s = s\<lparr>sf_server := (sf_server s)[i := n], sf_feed := sf_feed s @ [(sf_server s)[i := n]]\<rparr>"

text \<open>The patch replaces all labels of the node with those computed from the row's node.\<close>

definition apply_patch :: "nat \<Rightarrow> selection_flow \<Rightarrow> selection_flow" where
  "apply_patch i s =
     (server_update i (with_labels (sf_server s ! i) (pr_labels (row_patch s i))) s)\<lparr>sf_applied := insert i (sf_applied s)\<rparr>"

definition on_page :: "translator \<Rightarrow> page_event \<Rightarrow> selection_flow \<Rightarrow> selection_flow" where
  "on_page tr e s = s\<lparr>sf_page := page_step tr (sf_page s) e\<rparr>"

definition deliver :: "memory_texts \<Rightarrow> translator \<Rightarrow> selection_flow \<Rightarrow> selection_flow" where
  "deliver cv tr s =
     (let nodes = hd (sf_feed s) in
      on_page tr (WatchUpdate (loaded_nodes nodes) (cp_lvdrs (sf_page s)) False False)
        (s\<lparr>sf_feed := tl (sf_feed s),
           sf_rows := (if mounted s then map2 (row_shown cv) nodes (sf_rows s) else sf_rows s)\<rparr>))"

text \<open>Which events of the page the flow leaves to it: all but the two it makes itself.\<close>

fun own_event :: "page_event \<Rightarrow> bool" where
  "own_event (WatchUpdate n l a b) = False"
| "own_event (RowPatchFailed e) = False"
| "own_event _ = True"

subsection \<open>The step relation\<close>

datatype flow_event =
    Toggle nat bool
  | Apply nat
  | Answer nat
  | Refuse nat thrown
  | Deliver
  | Relabel nat Node
  | Discovery "lvdr repository" bool
  | PageEvent page_event

text \<open>
  Another client may change a node's other labels and its status, but not its storage role, its name or
  whether it has metadata.
\<close>

definition same_role :: "Node \<Rightarrow> Node \<Rightarrow> bool" where
  "same_role n m \<longleftrightarrow> label_status n = label_status m \<and> (metadata n = None \<longleftrightarrow> metadata m = None) \<and>
     resource_name n = resource_name m"

text \<open>A click asks for the opposite of what the checkbox shows.\<close>

inductive flow_trans :: "memory_texts \<Rightarrow> translator \<Rightarrow> selection_flow \<Rightarrow> flow_event \<Rightarrow> selection_flow \<Rightarrow> bool"
  for cv tr where
  toggle: "mounted s \<Longrightarrow> i < length (sf_rows s) \<Longrightarrow> InsufficientMemory \<notin> row_warnings (sf_rows s ! i) \<Longrightarrow>
     b = (row_status (sf_rows s ! i) \<noteq> Selected) \<Longrightarrow>
     flow_trans cv tr s (Toggle i b) (row_event cv i (row_click b) s)"
| applied: "i < length (sf_rows s) \<Longrightarrow> in_flight (sf_rows s ! i) \<noteq> [] \<Longrightarrow> i \<notin> sf_applied s \<Longrightarrow>
     flow_trans cv tr s (Apply i) (apply_patch i s)"
| answered: "i \<in> sf_applied s \<Longrightarrow>
     flow_trans cv tr s (Answer i) (row_event cv i (row_resolved 0) (s\<lparr>sf_applied := sf_applied s - {i}\<rparr>))"
| refused: "i < length (sf_rows s) \<Longrightarrow> in_flight (sf_rows s ! i) \<noteq> [] \<Longrightarrow> i \<notin> sf_applied s \<Longrightarrow>
     flow_trans cv tr s (Refuse i e) (on_page tr (RowPatchFailed e) (row_event cv i (row_rejected 0) s))"
| delivered: "sf_feed s \<noteq> [] \<Longrightarrow> flow_trans cv tr s Deliver (deliver cv tr s)"
| relabelled: "i < length (sf_server s) \<Longrightarrow> same_role n (sf_server s ! i) \<Longrightarrow>
     flow_trans cv tr s (Relabel i n) (server_update i n s)"
| discovered: "flow_trans cv tr s (Discovery lvdrs a)
     (on_page tr (WatchUpdate (cp_nodes (sf_page s)) lvdrs False a) s)"
| page: "own_event e \<Longrightarrow> flow_trans cv tr s (PageEvent e) (on_page tr e s)"

inductive_cases flow_transE: "flow_trans cv tr s e s'"

text \<open>A run whose steps satisfy a condition; below, that a click comes only when the watch has caught up.\<close>

inductive flow_run ::
  "memory_texts \<Rightarrow> translator \<Rightarrow> (selection_flow \<Rightarrow> flow_event \<Rightarrow> bool) \<Rightarrow> selection_flow \<Rightarrow> selection_flow \<Rightarrow> bool"
  for cv tr ok where
  run_refl: "flow_run cv tr ok s s"
| run_step: "flow_run cv tr ok s t \<Longrightarrow> flow_trans cv tr t e u \<Longrightarrow> ok t e \<Longrightarrow> flow_run cv tr ok s u"

fun caught_up :: "selection_flow \<Rightarrow> flow_event \<Rightarrow> bool" where
  "caught_up s (Toggle i b) = (sf_feed s = [])"
| "caught_up s _ = True"

text \<open>
  A run of the user and the console alone: no patch is refused, no other client touches a node, and the
  discovery results stay as they are. Then a node's labels only change by the patch of a click.
\<close>

fun undisturbed :: "selection_flow \<Rightarrow> flow_event \<Rightarrow> bool" where
  "undisturbed s (Refuse i e) = False"
| "undisturbed s (Relabel i n) = False"
| "undisturbed s (Discovery l b) = False"
| "undisturbed s e = caught_up s e"

lemma undisturbed_caught_up: "undisturbed s e \<Longrightarrow> caught_up s e"
  by (cases e) simp_all

lemma flow_run_mono: "flow_run cv tr ok s t \<Longrightarrow> (\<And>s e. ok s e \<Longrightarrow> ok' s e) \<Longrightarrow> flow_run cv tr ok' s t"
  by (induction rule: flow_run.induct) (auto intro: flow_run.intros)

subsection \<open>A row and its node on the server\<close>

lemma row_shown_fields [simp]:
  "row_status (row_shown cv n s) = row_status s" "closure_status (row_shown cv n s) = row_status s"
  "closure_node (row_shown cv n s) = n" "in_flight (row_shown cv n s) = in_flight s"
  by (auto simp: row_shown_def row_render_view_def row_render_def split: sum.splits prod.splits)

definition checked_status :: "bool \<Rightarrow> row_status" where
  "checked_status b = (if b then Selected else Unselected)"

text \<open>
  An idle row shows the label of its node; the patch of a row was made on a node with the label the
  server has until the patch is applied, and the label asked for afterwards.
\<close>

definition row_fine :: "row_state \<Rightarrow> Node \<Rightarrow> bool \<Rightarrow> bool" where
  "row_fine r n applied \<longleftrightarrow> row_inv r \<and> requests_ok r \<and>
     (in_flight r = [] \<longrightarrow> \<not> applied \<and> row_status r = label_status n) \<and>
     (\<forall>q \<in> set (in_flight r). metadata (pr_node q) \<noteq> None \<and>
        label_status n = (if applied then checked_status (pr_checked q) else label_status (pr_node q)))"

lemma row_fine_mount: "row_fine (row_shown cv n (row_mount n)) n False"
  by (simp add: row_fine_def row_inv_def row_mount_def requests_ok_def)

lemma row_fine_render: "row_fine r n a \<Longrightarrow> row_fine (row_shown cv m r) n a"
  by (simp add: row_fine_def row_inv_def requests_ok_def)

lemma row_fine_relabel: "row_fine r n a \<Longrightarrow> label_status n' = label_status n \<Longrightarrow> row_fine r n' a"
  by (simp add: row_fine_def)

lemma row_fine_click:
  "row_fine r n a \<Longrightarrow> label_status (closure_node r) = label_status n \<Longrightarrow> metadata (closure_node r) \<noteq> None \<Longrightarrow>
     row_fine (row_shown cv m (row_click b r)) n a"
  by (auto simp: row_fine_def row_inv_def requests_ok_def row_click_def split: if_splits)

lemma row_fine_pending:
  assumes "row_fine r n a" "in_flight r \<noteq> []"
  obtains q where "in_flight r = [q]" "row_status r = SelectionPending"
    "pr_labels q = toggleNodeStorageRoleLabel (pr_node q) (pr_checked q)" "metadata (pr_node q) \<noteq> None"
    "label_status n = (if a then checked_status (pr_checked q) else label_status (pr_node q))"
  using assms by (cases "in_flight r") (auto simp: row_fine_def row_inv_def requests_ok_def split: if_splits)

lemma hasLabel_getLabels: "getLabels n = getLabels m \<Longrightarrow> hasLabel n l = hasLabel m l"
  by (simp add: hasLabel_def)

lemma label_after_patch:
  assumes "metadata n \<noteq> None" "metadata m \<noteq> None"
  shows "label_status (with_labels n (toggleNodeStorageRoleLabel m b)) = checked_status b"
proof -
  have "hasLabel (with_labels n (toggleNodeStorageRoleLabel m b)) STORAGE_ROLE_LABEL =
      hasLabel (with_labels m (toggleNodeStorageRoleLabel m b)) STORAGE_ROLE_LABEL"
    using assms by (intro hasLabel_getLabels) (simp add: getLabels_with_labels)
  with assms show ?thesis by (simp add: label_status_def checked_status_def hasLabel_toggle)
qed

lemma row_fine_apply:
  assumes "row_fine r n False" "in_flight r \<noteq> []" "metadata n \<noteq> None"
  shows "row_fine r (with_labels n (pr_labels (hd (in_flight r)))) True"
  using assms(1) by (rule row_fine_pending [OF _ assms(2)])
    (use assms in \<open>simp add: row_fine_def label_after_patch\<close>)

lemma row_fine_answer:
  assumes "row_fine r n True"
  shows "row_fine (row_shown cv m (row_resolved 0 r)) n False"
proof -
  have "in_flight r \<noteq> []" using assms by (auto simp: row_fine_def)
  with assms show ?thesis
    by (rule row_fine_pending)
      (simp add: row_fine_def row_inv_def requests_ok_def row_resolved_def remove_nth_def checked_status_def)
qed

lemma row_fine_refuse:
  assumes "row_fine r n False" "in_flight r \<noteq> []"
  shows "row_fine (row_shown cv m (row_rejected 0 r)) n False"
  using assms by (rule row_fine_pending)
    (simp add: row_fine_def row_inv_def requests_ok_def row_rejected_def remove_nth_def)

subsection \<open>The page in the flow\<close>

definition page_ok :: "cluster_page \<Rightarrow> bool" where
  "page_ok p \<longleftrightarrow> page_inv p \<and> repo_loaded (cp_nodes p) \<and>
     (repo_loaded (cp_lvdrs p) \<longrightarrow> cp_validated p = Some (repo_items (cp_nodes p), repo_items (cp_lvdrs p)))"

lemma page_step_mounted: "cp_visited (page_step tr p e) = [] \<Longrightarrow> cp_visited p = []"
  by (auto simp: page_step_def unmounted_step_def split: page_event.splits if_splits)

lemma own_event_fields:
  assumes "own_event e \<or> (\<exists>t. e = RowPatchFailed t)"
  shows "cp_nodes (page_step tr p e) = cp_nodes p \<and> cp_lvdrs (page_step tr p e) = cp_lvdrs p \<and>
     cp_validated (page_step tr p e) = cp_validated p"
  using assms
  by (cases e) (auto simp: page_step_def unmounted_step_def click_create_def close_alert_def Let_def split: option.splits)

lemma page_ok_own: "page_ok p \<Longrightarrow> own_event e \<or> (\<exists>t. e = RowPatchFailed t) \<Longrightarrow> page_ok (page_step tr p e)"
  using own_event_fields [of e tr p] by (simp add: page_ok_def page_step_inv)

lemma page_ok_update:
  assumes "page_inv p" "repo_loaded nodes" "cp_visited p = []"
  shows "page_ok (page_step tr p (WatchUpdate nodes lvdrs a b))"
    "cp_nodes (page_step tr p (WatchUpdate nodes lvdrs a b)) = nodes"
    "cp_lvdrs (page_step tr p (WatchUpdate nodes lvdrs a b)) = lvdrs"
proof -
  have fields: "cp_nodes (page_effects tr c d q) = cp_nodes q" "cp_lvdrs (page_effects tr c d q) = cp_lvdrs q" for c d q
    by (simp_all add: page_effects_def split_beta Let_def)
  show "page_ok (page_step tr p (WatchUpdate nodes lvdrs a b))"
    using page_step_inv [OF assms(1), of tr "WatchUpdate nodes lvdrs a b"] assms(2,3)
    by (simp add: page_ok_def page_step_def fields page_effects_cases page_loaded_def)
  show "cp_nodes (page_step tr p (WatchUpdate nodes lvdrs a b)) = nodes"
    "cp_lvdrs (page_step tr p (WatchUpdate nodes lvdrs a b)) = lvdrs"
    using assms(3) by (simp_all add: page_step_def fields)
qed

subsection \<open>The invariant of the flow\<close>

abbreviation shown_nodes :: "selection_flow \<Rightarrow> Node list" where
  "shown_nodes s \<equiv> repo_items (cp_nodes (sf_page s))"

definition sizes_ok :: "selection_flow \<Rightarrow> bool" where
  "sizes_ok s \<longleftrightarrow> length (sf_rows s) = length (sf_server s) \<and>
     (\<forall>ns \<in> set (shown_nodes s # sf_feed s). length ns = length (sf_server s) \<and> (\<forall>n \<in> set ns. metadata n \<noteq> None)) \<and>
     last (shown_nodes s # sf_feed s) = sf_server s"

definition rows_ok :: "selection_flow \<Rightarrow> bool" where
  "rows_ok s \<longleftrightarrow> sf_applied s \<subseteq> {..<length (sf_rows s)} \<and>
     (\<forall>i < length (sf_rows s). row_fine (sf_rows s ! i) (sf_server s ! i) (i \<in> sf_applied s) \<and>
        closure_node (sf_rows s ! i) = shown_nodes s ! i)"

definition flow_inv :: "selection_flow \<Rightarrow> bool" where
  "flow_inv s \<longleftrightarrow> (mounted s \<longrightarrow> page_ok (sf_page s) \<and> sizes_ok s \<and> rows_ok s)"

lemma flow_invD:
  assumes "flow_inv s" "mounted s"
  shows "page_ok (sf_page s)" "sizes_ok s" "rows_ok s"
  using assms by (simp_all add: flow_inv_def)

lemma rows_ok_fine:
  "rows_ok s \<Longrightarrow> i < length (sf_rows s) \<Longrightarrow> row_fine (sf_rows s ! i) (sf_server s ! i) (i \<in> sf_applied s)"
  by (simp add: rows_ok_def)

lemma server_metadata: "sizes_ok s \<Longrightarrow> n \<in> set (sf_server s) \<Longrightarrow> metadata n \<noteq> None"
  unfolding sizes_ok_def by (metis last_in_set list.distinct(1))

lemma row_event_fields [simp]:
  "sf_server (row_event cv i f s) = sf_server s" "sf_feed (row_event cv i f s) = sf_feed s"
  "sf_applied (row_event cv i f s) = sf_applied s" "sf_page (row_event cv i f s) = sf_page s"
  "length (sf_rows (row_event cv i f s)) = length (sf_rows s)"
  by (simp_all add: row_event_def)

lemma server_update_fields [simp]:
  "sf_server (server_update i n s) = (sf_server s)[i := n]" "sf_feed (server_update i n s) = sf_feed s @ [(sf_server s)[i := n]]"
  "sf_rows (server_update i n s) = sf_rows s" "sf_applied (server_update i n s) = sf_applied s"
  "sf_page (server_update i n s) = sf_page s"
  by (simp_all add: server_update_def)

lemma on_page_fields [simp]:
  "sf_server (on_page tr e s) = sf_server s" "sf_feed (on_page tr e s) = sf_feed s" "sf_rows (on_page tr e s) = sf_rows s"
  "sf_applied (on_page tr e s) = sf_applied s" "sf_page (on_page tr e s) = page_step tr (sf_page s) e"
  by (simp_all add: on_page_def)

lemma rows_ok_event:
  assumes "rows_ok s" "row_fine (row_shown cv (closure_node (sf_rows s ! i)) (f (sf_rows s ! i))) (sf_server s ! i) (i \<in> A)"
    "A - {i} = sf_applied s - {i}" "A \<subseteq> {..<length (sf_rows s)}"
  shows "rows_ok (row_event cv i f (s\<lparr>sf_applied := A\<rparr>))"
proof -
  have "row_fine (sf_rows t ! j) (sf_server s ! j) (j \<in> A) \<and> closure_node (sf_rows t ! j) = shown_nodes s ! j"
    if "j < length (sf_rows s)" "t = row_event cv i f (s\<lparr>sf_applied := A\<rparr>)" for j t
  proof (cases "j = i")
    case True
    then show ?thesis using assms(1,2) that by (simp add: rows_ok_def row_event_def)
  next
    case False
    then have "j \<in> A \<longleftrightarrow> j \<in> sf_applied s" using assms(3) by blast
    then show ?thesis using False assms(1) that by (simp add: rows_ok_def row_event_def)
  qed
  then show ?thesis using assms(4) by (simp add: rows_ok_def)
qed

lemma sizes_ok_server:
  assumes "sizes_ok s" "metadata n \<noteq> None"
  shows "sizes_ok (server_update i n s)"
proof -
  have "\<forall>m \<in> set ((sf_server s)[i := n]). metadata m \<noteq> None"
    using server_metadata [OF assms(1)] assms(2) set_update_subset_insert [of "sf_server s" i n] by blast
  then show ?thesis using assms(1) by (auto simp: sizes_ok_def)
qed

lemma flow_inv_mount: "\<forall>n \<in> set nodes. metadata n \<noteq> None \<Longrightarrow> flow_inv (flow_mount cv tr nodes lvdrs b)"
proof -
  assume meta: "\<forall>n \<in> set nodes. metadata n \<noteq> None"
  let ?p = "page_mount tr (loaded_nodes nodes) lvdrs b"
  have nodes: "cp_nodes ?p = loaded_nodes nodes" "cp_lvdrs ?p = lvdrs"
    by (simp_all add: page_mount_def page_effects_def split_beta Let_def)
  have "cp_validated ?p = (if repo_loaded lvdrs then Some (nodes, repo_items lvdrs) else None)"
    by (simp add: page_mount_def page_effects_cases page_loaded_def loaded_nodes_def)
  with nodes have "page_ok ?p" by (simp add: page_ok_def page_mount_inv loaded_nodes_def)
  then show ?thesis
    using meta nodes
    by (simp add: flow_inv_def flow_mount_def sizes_ok_def rows_ok_def row_fine_mount loaded_nodes_def)
qed

subsection \<open>Every step keeps it\<close>

lemma toggle_inv:
  assumes "flow_inv s" "mounted s" "i < length (sf_rows s)" "sf_feed s = []"
  shows "flow_inv (row_event cv i (row_click b) s)"
proof -
  note inv = flow_invD [OF assms(1,2)]
  have "sf_server s = shown_nodes s" using inv(2) assms(4) by (simp add: sizes_ok_def)
  moreover have "metadata (sf_server s ! i) \<noteq> None"
    using server_metadata [OF inv(2)] inv(2) assms(3) by (simp add: sizes_ok_def)
  ultimately have "row_fine (row_shown cv (closure_node (sf_rows s ! i)) (row_click b (sf_rows s ! i)))
      (sf_server s ! i) (i \<in> sf_applied s)"
    using inv(3) assms(3) by (intro row_fine_click) (simp_all add: rows_ok_def)
  from rows_ok_event [where i = i and f = "row_click b" and A = "sf_applied s", OF inv(3) this] have "rows_ok (row_event cv i (row_click b) s)"
    using inv(3) by (simp add: rows_ok_def)
  then show ?thesis using inv by (simp add: flow_inv_def sizes_ok_def)
qed

lemma rows_ok_server:
  assumes "rows_ok s" "i < length (sf_rows s)" "length (sf_rows s) = length (sf_server s)"
    "row_fine (sf_rows s ! i) n (i \<in> A)" "A - {i} = sf_applied s - {i}"
  shows "rows_ok ((server_update i n s)\<lparr>sf_applied := A\<rparr>)"
proof -
  have "A \<subseteq> {..<length (sf_rows s)}" using assms(1,2,5) by (auto simp: rows_ok_def)
  moreover have "row_fine (sf_rows s ! j) ((sf_server s)[i := n] ! j) (j \<in> A)" if "j < length (sf_rows s)" for j
  proof (cases "j = i")
    case False
    then have "j \<in> A \<longleftrightarrow> j \<in> sf_applied s" using assms(5) by blast
    then show ?thesis using False assms(1) that by (simp add: rows_ok_def)
  qed (use assms(2-4) in simp)
  ultimately show ?thesis using assms(1) by (simp add: rows_ok_def)
qed

lemma apply_inv:
  assumes "flow_inv s" "i < length (sf_rows s)" "in_flight (sf_rows s ! i) \<noteq> []" "i \<notin> sf_applied s"
  shows "flow_inv (apply_patch i s)"
proof (cases "mounted s")
  case True
  note inv = flow_invD [OF assms(1) True]
  let ?n = "with_labels (sf_server s ! i) (pr_labels (row_patch s i))"
  have len: "length (sf_rows s) = length (sf_server s)" using inv(2) by (simp add: sizes_ok_def)
  then have meta: "metadata (sf_server s ! i) \<noteq> None" using server_metadata [OF inv(2)] assms(2) by simp
  then have n: "metadata ?n \<noteq> None" by (simp add: with_labels_def)
  have "row_fine (sf_rows s ! i) (sf_server s ! i) False" using rows_ok_fine [OF inv(3) assms(2)] assms(4) by simp
  then have "row_fine (sf_rows s ! i) ?n True"
    using assms(3) meta unfolding row_patch_def by (rule row_fine_apply)
  then have "rows_ok (apply_patch i s)"
    unfolding apply_patch_def by (intro rows_ok_server [OF inv(3) assms(2) len]) auto
  moreover have "sizes_ok (apply_patch i s)"
    using sizes_ok_server [OF inv(2) n, of i] by (simp add: apply_patch_def sizes_ok_def)
  ultimately show ?thesis using inv(1) by (simp add: flow_inv_def apply_patch_def)
qed (simp add: flow_inv_def apply_patch_def)

lemma answer_inv:
  assumes "flow_inv s" "i \<in> sf_applied s"
  shows "flow_inv (row_event cv i (row_resolved 0) (s\<lparr>sf_applied := sf_applied s - {i}\<rparr>))"
proof (cases "mounted s")
  case True
  note inv = flow_invD [OF assms(1) True]
  have "row_fine (sf_rows s ! i) (sf_server s ! i) True"
    using inv(3) assms(2) by (auto simp: rows_ok_def)
  from row_fine_answer [OF this] have
    "row_fine (row_shown cv (closure_node (sf_rows s ! i)) (row_resolved 0 (sf_rows s ! i)))
       (sf_server s ! i) (i \<in> sf_applied s - {i})" by simp
  from rows_ok_event [where i = i and f = "row_resolved 0" and A = "sf_applied s - {i}", OF inv(3) this] have
    "rows_ok (row_event cv i (row_resolved 0) (s\<lparr>sf_applied := sf_applied s - {i}\<rparr>))"
    using inv(3) by (auto simp: rows_ok_def)
  then show ?thesis using inv by (simp add: flow_inv_def sizes_ok_def)
qed (simp add: flow_inv_def)

lemma on_page_inv:
  assumes "flow_inv s" "own_event e \<or> (\<exists>t. e = RowPatchFailed t)"
  shows "flow_inv (on_page tr e s)"
proof (cases "mounted (on_page tr e s)")
  case True
  then have "mounted s" using page_step_mounted by simp
  note inv = flow_invD [OF assms(1) this]
  show ?thesis
    using inv page_ok_own [OF inv(1) assms(2)] own_event_fields [OF assms(2), of tr "sf_page s"]
    by (simp add: flow_inv_def sizes_ok_def rows_ok_def)
qed (simp add: flow_inv_def)

lemma refuse_inv:
  assumes "flow_inv s" "i < length (sf_rows s)" "in_flight (sf_rows s ! i) \<noteq> []" "i \<notin> sf_applied s"
  shows "flow_inv (row_event cv i (row_rejected 0) s)"
proof (cases "mounted s")
  case True
  note inv = flow_invD [OF assms(1) True]
  have "row_fine (sf_rows s ! i) (sf_server s ! i) False"
    using rows_ok_fine [OF inv(3) assms(2)] assms(4) by simp
  from row_fine_refuse [OF this assms(3)] have
    "row_fine (row_shown cv (closure_node (sf_rows s ! i)) (row_rejected 0 (sf_rows s ! i)))
       (sf_server s ! i) (i \<in> sf_applied s)" using assms(4) by simp
  from rows_ok_event [where i = i and f = "row_rejected 0" and A = "sf_applied s", OF inv(3) this] have "rows_ok (row_event cv i (row_rejected 0) s)"
    using inv(3) by (simp add: rows_ok_def)
  then show ?thesis using inv by (simp add: flow_inv_def sizes_ok_def)
qed (simp add: flow_inv_def)

lemma deliver_inv:
  assumes "flow_inv s" "sf_feed s \<noteq> []"
  shows "flow_inv (deliver cv tr s)"
proof (cases "mounted (deliver cv tr s)")
  case True
  then have m: "mounted s" using page_step_mounted by (simp add: deliver_def Let_def)
  note inv = flow_invD [OF assms(1) m]
  obtain ns rest where feed: "sf_feed s = ns # rest" using assms(2) by (cases "sf_feed s") auto
  have len: "length ns = length (sf_rows s)" using inv(2) feed by (simp add: sizes_ok_def)
  have "page_inv (sf_page s)" using inv(1) by (simp add: page_ok_def)
  note upd = page_ok_update [OF this _ m, of "loaded_nodes ns" tr "cp_lvdrs (sf_page s)" False False]
  have loaded: "repo_loaded (loaded_nodes ns)" "repo_items (loaded_nodes ns) = ns" by (simp_all add: loaded_nodes_def)
  have "rows_ok (deliver cv tr s)"
    using inv(3) len upd(2) [OF loaded(1)] m
    by (simp add: rows_ok_def deliver_def feed Let_def row_fine_render loaded(2))
  moreover have "sizes_ok (deliver cv tr s)"
    using inv(2) len upd(2) [OF loaded(1)] m by (simp add: sizes_ok_def deliver_def feed Let_def loaded(2))
  moreover have "page_ok (sf_page (deliver cv tr s))"
    using upd(1) [OF loaded(1)] by (simp add: deliver_def feed Let_def)
  ultimately show ?thesis by (simp add: flow_inv_def)
qed (simp add: flow_inv_def)

lemma relabel_inv:
  assumes "flow_inv s" "i < length (sf_server s)" "same_role n (sf_server s ! i)"
  shows "flow_inv (server_update i n s)"
proof (cases "mounted s")
  case True
  note inv = flow_invD [OF assms(1) True]
  have len: "length (sf_rows s) = length (sf_server s)" using inv(2) by (simp add: sizes_ok_def)
  have "metadata n \<noteq> None" using assms(2,3) server_metadata [OF inv(2), of "sf_server s ! i"] by (simp add: same_role_def)
  note sizes = sizes_ok_server [OF inv(2) this]
  have "row_fine (sf_rows s ! i) n (i \<in> sf_applied s)"
    using inv(3) assms(2,3) len row_fine_relabel [of "sf_rows s ! i" "sf_server s ! i" _ n]
    by (simp add: rows_ok_def same_role_def)
  from rows_ok_server [where A = "sf_applied s", OF inv(3) _ len this] have "rows_ok (server_update i n s)"
    using assms(2) len by (simp add: server_update_def)
  then show ?thesis using inv(1) sizes by (simp add: flow_inv_def)
qed (simp add: flow_inv_def)

lemma discovery_inv:
  assumes "flow_inv s"
  shows "flow_inv (on_page tr (WatchUpdate (cp_nodes (sf_page s)) lvdrs False a) s)"
proof (cases "mounted (on_page tr (WatchUpdate (cp_nodes (sf_page s)) lvdrs False a) s)")
  case True
  then have m: "mounted s" using page_step_mounted by simp
  note inv = flow_invD [OF assms m]
  then show ?thesis
    using page_ok_update [OF _ _ m, of "cp_nodes (sf_page s)" tr lvdrs False a]
    by (simp add: flow_inv_def page_ok_def sizes_ok_def rows_ok_def)
qed (simp add: flow_inv_def)

lemma flow_trans_inv: "flow_trans cv tr s e s' \<Longrightarrow> flow_inv s \<Longrightarrow> caught_up s e \<Longrightarrow> flow_inv s'"
  by (induction rule: flow_trans.induct)
    (auto intro!: toggle_inv apply_inv answer_inv on_page_inv refuse_inv deliver_inv relabel_inv discovery_inv)

lemma flow_run_inv: "flow_run cv tr caught_up s s' \<Longrightarrow> flow_inv s \<Longrightarrow> flow_inv s'"
  by (induction rule: flow_run.induct) (blast intro: flow_trans_inv)+

subsection \<open>A quiet flow\<close>

definition idle :: "selection_flow \<Rightarrow> bool" where
  "idle s \<longleftrightarrow> (\<forall>r \<in> set (sf_rows s). in_flight r = [])"

definition quiet_flow :: "selection_flow \<Rightarrow> bool" where
  "quiet_flow s \<longleftrightarrow> idle s \<and> sf_feed s = []"

definition checked_rows :: "selection_flow \<Rightarrow> Node list" where
  "checked_rows s = map fst (filter (\<lambda>(n, r). row_status r = Selected) (zip (sf_server s) (sf_rows s)))"

lemma zip_filter_status:
  "length ns = length rs \<Longrightarrow> \<forall>i < length rs. row_status (rs ! i) = label_status (ns ! i) \<Longrightarrow>
   map fst (filter (\<lambda>(n, r). row_status r = Selected) (zip ns rs)) = selectedNodes ns"
proof (induction ns rs rule: list_induct2)
  case (Cons n ns r rs)
  from Cons.prems have "row_status r = label_status n" "\<forall>i < length rs. row_status (rs ! i) = label_status (ns ! i)"
    by (force dest: spec [of _ 0], force dest: spec [of _ "Suc i" for i])
  with Cons.IH show ?case by (simp add: selectedNodes_def label_status_def)
qed (simp add: selectedNodes_def)

lemma quiet_checked:
  assumes "flow_inv s" "mounted s" "quiet_flow s"
  shows "checked_rows s = selectedNodes (sf_server s)" "shown_nodes s = sf_server s"
proof -
  note inv = flow_invD [OF assms(1,2)]
  have "row_status (sf_rows s ! i) = label_status (sf_server s ! i)" if "i < length (sf_rows s)" for i
    using rows_ok_fine [OF inv(3) that] assms(3) that by (simp add: quiet_flow_def idle_def row_fine_def)
  then show "checked_rows s = selectedNodes (sf_server s)"
    using inv(2) unfolding checked_rows_def by (intro zip_filter_status) (simp_all add: sizes_ok_def)
  show "shown_nodes s = sf_server s" using inv(2) assms(3) by (simp add: sizes_ok_def quiet_flow_def)
qed

lemma quiet_button:
  assumes "flow_inv s" "mounted s" "quiet_flow s" "repo_loaded (cp_lvdrs (sf_page s))"
  shows "isDisabled (cta (cp_store (sf_page s))) =
     Some (counts_missing (page_counts (sf_server s) (repo_items (cp_lvdrs (sf_page s)))))"
  using flow_invD(1) [OF assms(1,2)] quiet_checked(2) [OF assms(1-3)] assms(4)
  by (simp add: page_ok_def page_inv_def)

subsection \<open>Settling\<close>

lemma flow_run_trans: "flow_run cv tr ok t u \<Longrightarrow> flow_run cv tr ok s t \<Longrightarrow> flow_run cv tr ok s u"
  by (induction rule: flow_run.induct) (auto intro: flow_run.run_step)

lemma flow_run_one: "flow_trans cv tr s e t \<Longrightarrow> ok s e \<Longrightarrow> flow_run cv tr ok s t"
  by (rule flow_run.run_step [OF flow_run.run_refl])

lemma page_run: "own_event e \<Longrightarrow> flow_run cv tr undisturbed s (on_page tr e s)"
  by (rule flow_run_one [OF flow_trans.page]) simp_all

text \<open>Nodes with enough memory for their rows to be clicked, and rows that have not warned.\<close>

definition memory_ok :: "memory_texts \<Rightarrow> Node \<Rightarrow> bool" where
  "memory_ok cv n \<longleftrightarrow> row_warnings (row_shown cv n (row_mount n)) = {}"

definition calm :: "memory_texts \<Rightarrow> selection_flow \<Rightarrow> bool" where
  "calm cv s \<longleftrightarrow> (\<forall>r \<in> set (sf_rows s). row_warnings r = {}) \<and>
     (\<forall>ns \<in> set (shown_nodes s # sf_feed s). \<forall>n \<in> set ns. memory_ok cv n)"

lemma row_shown_calm: "memory_ok cv n \<Longrightarrow> row_warnings r = {} \<Longrightarrow> row_warnings (row_shown cv n r) = {}"
  by (auto simp: memory_ok_def row_shown_def row_render_view_def row_memory_def row_render_def row_mount_def Let_def
      split: sum.splits prod.splits if_splits)

lemma getMemory_with_labels: "getMemory (with_labels n ls) = getMemory n"
  by (simp add: getMemory_def node_capacity_def with_labels_def)

lemma memory_ok_with_labels: "memory_ok cv n \<Longrightarrow> memory_ok cv (with_labels n ls)"
  by (auto simp: memory_ok_def row_shown_def row_render_view_def row_memory_def row_render_def row_mount_def
      getMemory_with_labels Let_def split: sum.splits prod.splits if_splits)

text \<open>A run that leaves the page as it was, but for the nodes it shows and their labels.\<close>

definition settles :: "memory_texts \<Rightarrow> translator \<Rightarrow> selection_flow \<Rightarrow> selection_flow \<Rightarrow> bool" where
  "settles cv tr s t \<longleftrightarrow> flow_run cv tr undisturbed s t \<and> mounted t \<and> calm cv t \<and>
     cp_lvdrs (sf_page t) = cp_lvdrs (sf_page s) \<and> cp_sent (sf_page t) = cp_sent (sf_page s) \<and>
     map resource_name (sf_server t) = map resource_name (sf_server s)"

lemma settles_trans: "settles cv tr s t \<Longrightarrow> settles cv tr t u \<Longrightarrow> settles cv tr s u"
  by (auto simp: settles_def intro: flow_run_trans)

lemma settles_refl: "mounted s \<Longrightarrow> calm cv s \<Longrightarrow> settles cv tr s s"
  by (simp add: settles_def flow_run.run_refl)

lemma settles_inv: "settles cv tr s t \<Longrightarrow> flow_inv s \<Longrightarrow> flow_inv t"
  by (auto simp: settles_def intro: flow_run_inv flow_run_mono undisturbed_caught_up)

lemma calm_row_event:
  assumes "calm cv s" "rows_ok s" "sizes_ok s" "i < length (sf_rows s)" "row_warnings (f (sf_rows s ! i)) = {}"
  shows "calm cv (row_event cv i f (s\<lparr>sf_applied := A\<rparr>))"
proof -
  have "closure_node (sf_rows s ! i) \<in> set (shown_nodes s)"
    using assms(2-4) by (simp add: rows_ok_def sizes_ok_def)
  then have "row_warnings (row_shown cv (closure_node (sf_rows s ! i)) (f (sf_rows s ! i))) = {}"
    using assms(1,5) by (intro row_shown_calm) (simp_all add: calm_def)
  moreover have "\<forall>r \<in> set ((sf_rows s)[i := x]). row_warnings r = {}" if "row_warnings x = {}" for x
    using that assms(1) set_update_subset_insert [of "sf_rows s" i x] by (auto simp: calm_def)
  ultimately show ?thesis using assms(1) by (simp add: calm_def row_event_def)
qed

lemma row_ops_warnings:
  "row_warnings (row_click b r) = row_warnings r" "row_warnings (row_resolved i r) = row_warnings r"
  by (simp_all add: row_click_def row_resolved_def)

lemma apply_settles:
  assumes "flow_inv s" "mounted s" "calm cv s" "i < length (sf_rows s)" "in_flight (sf_rows s ! i) \<noteq> []" "i \<notin> sf_applied s"
  shows "settles cv tr s (apply_patch i s)"
proof -
  let ?n = "with_labels (sf_server s ! i) (pr_labels (row_patch s i))"
  note inv = flow_invD [OF assms(1,2)]
  have i: "i < length (sf_server s)" using inv(2) assms(4) by (simp add: sizes_ok_def)
  have mem: "\<forall>n \<in> set (sf_server s). memory_ok cv n"
    using inv(2) assms(3) unfolding sizes_ok_def calm_def by (metis last_in_set list.distinct(1))
  then have "\<forall>n \<in> set ((sf_server s)[i := ?n]). memory_ok cv n"
    using i set_update_subset_insert [of "sf_server s" i ?n] memory_ok_with_labels [of cv "sf_server s ! i"] by auto
  then have "calm cv (apply_patch i s)" using assms(3) by (auto simp: calm_def apply_patch_def)
  moreover have "resource_name ?n = resource_name (sf_server s ! i)"
    by (cases "metadata (sf_server s ! i)") (simp_all add: with_labels_def resource_name_def)
  then have "map resource_name ((sf_server s)[i := ?n]) = map resource_name (sf_server s)"
    using i by (simp add: map_update list_update_same_conv)
  ultimately show ?thesis
    using flow_run_one [where ok = undisturbed, OF flow_trans.applied [OF assms(4-6)]] assms(2)
    by (simp add: settles_def apply_patch_def)
qed

lemma answer_settles:
  assumes "flow_inv s" "mounted s" "calm cv s" "i \<in> sf_applied s"
    and t: "t = row_event cv i (row_resolved 0) (s\<lparr>sf_applied := sf_applied s - {i}\<rparr>)"
  shows "settles cv tr s t" "in_flight (sf_rows t ! i) = []" "i < length (sf_rows s)" "sf_server t = sf_server s"
    "j \<noteq> i \<Longrightarrow> sf_rows t ! j = sf_rows s ! j" "length (sf_rows t) = length (sf_rows s)"
proof -
  note inv = flow_invD [OF assms(1,2)]
  show i: "i < length (sf_rows s)" using inv(3) assms(4) by (auto simp: rows_ok_def)
  have r: "row_warnings (sf_rows s ! i) = {}" using assms(3) i by (simp add: calm_def)
  show "settles cv tr s t"
    using flow_run_one [where ok = undisturbed, OF flow_trans.answered [OF assms(4)]]
      calm_row_event [OF assms(3) inv(3,2) i, of "row_resolved 0"] r assms(2)
    by (simp add: settles_def t row_ops_warnings)
  have "row_fine (sf_rows s ! i) (sf_server s ! i) True" using rows_ok_fine [OF inv(3) i] assms(4) by simp
  then have "length (in_flight (sf_rows s ! i)) = 1"
    by (auto simp: row_fine_def row_inv_def split: if_splits)
  then show "in_flight (sf_rows t ! i) = []"
    using i by (cases "in_flight (sf_rows s ! i)") (simp_all add: t row_event_def row_resolved_def remove_nth_def)
qed (simp_all add: t row_event_def)

text \<open>The patch of one row is applied and answered.\<close>

lemma row_settles:
  assumes "flow_inv s" "mounted s" "calm cv s" "i < length (sf_rows s)" "in_flight (sf_rows s ! i) = [q]"
  shows "\<exists>t. settles cv tr s t \<and> length (sf_rows t) = length (sf_rows s) \<and> in_flight (sf_rows t ! i) = [] \<and>
     (\<forall>j. j \<noteq> i \<longrightarrow> sf_rows t ! j = sf_rows s ! j \<and> sf_server t ! j = sf_server s ! j) \<and>
     label_status (sf_server t ! i) = checked_status (pr_checked q)"
proof -
  obtain u where u: "settles cv tr s u" "i \<in> sf_applied u" "sf_rows u = sf_rows s"
    "\<forall>j. j \<noteq> i \<longrightarrow> sf_server u ! j = sf_server s ! j"
  proof (cases "i \<in> sf_applied s")
    case True
    then show ?thesis using that settles_refl [OF assms(2,3)] by blast
  next
    case False
    have "settles cv tr s (apply_patch i s)" using apply_settles assms False by simp
    then show ?thesis using that by (simp add: apply_patch_def)
  qed
  have inv: "flow_inv u" "mounted u" "calm cv u"
    using u(1) settles_inv [OF u(1) assms(1)] by (simp_all add: settles_def)
  note ans = answer_settles [OF inv u(2) refl]
  have "row_fine (sf_rows u ! i) (sf_server u ! i) True"
    using rows_ok_fine [OF flow_invD(3) [OF inv(1,2)] ans(3)] u(2) by simp
  then have "label_status (sf_server u ! i) = checked_status (pr_checked q)"
    using assms(5) u(3) by (simp add: row_fine_def)
  then show ?thesis
    using settles_trans [OF u(1) ans(1)] ans(2,4-6) u(3,4)
    by (intro exI [of _ "row_event cv i (row_resolved 0) (u\<lparr>sf_applied := sf_applied u - {i}\<rparr>)"]) simp
qed

lemma deliver_settles:
  assumes "flow_inv s" "mounted s" "calm cv s" "sf_feed s \<noteq> []"
  shows "settles cv tr s (deliver cv tr s)" "sf_server (deliver cv tr s) = sf_server s"
    "map in_flight (sf_rows (deliver cv tr s)) = map in_flight (sf_rows s)" "sf_feed (deliver cv tr s) = tl (sf_feed s)"
proof -
  note inv = flow_invD [OF assms(1,2)]
  obtain ns rest where feed: "sf_feed s = ns # rest" using assms(4) by (cases "sf_feed s") auto
  have len: "length ns = length (sf_rows s)" using inv(2) feed by (simp add: sizes_ok_def)
  have "page_inv (sf_page s)" using inv(1) by (simp add: page_ok_def)
  note upd = page_ok_update [OF this _ assms(2), of "loaded_nodes ns" tr "cp_lvdrs (sf_page s)" False False]
  have loaded: "repo_loaded (loaded_nodes ns)" "repo_items (loaded_nodes ns) = ns" by (simp_all add: loaded_nodes_def)
  have page: "cp_visited (page_step tr (sf_page s) (WatchUpdate n l a b)) = []"
    "cp_sent (page_step tr (sf_page s) (WatchUpdate n l a b)) = cp_sent (sf_page s)" for n l a b
    using assms(2) by (simp_all add: page_step_def page_effects_cases)
  have mem: "\<forall>n \<in> set ns. memory_ok cv n" using assms(3) feed by (simp add: calm_def)
  have "\<forall>r \<in> set (map2 (row_shown cv) ns (sf_rows s)). row_warnings r = {}"
  proof
    fix r assume "r \<in> set (map2 (row_shown cv) ns (sf_rows s))"
    then obtain n r' where "(n, r') \<in> set (zip ns (sf_rows s))" and r: "r = row_shown cv n r'" by auto
    then have "n \<in> set ns" "r' \<in> set (sf_rows s)" by (auto dest: set_zip_leftD set_zip_rightD)
    with mem assms(3) show "row_warnings r = {}" unfolding r by (intro row_shown_calm) (simp_all add: calm_def)
  qed
  then have "calm cv (deliver cv tr s)"
    using assms(2,3) upd(2) [OF loaded(1)] by (simp add: calm_def deliver_def feed Let_def loaded(2))
  then show "settles cv tr s (deliver cv tr s)"
    using flow_run_one [where ok = undisturbed, OF flow_trans.delivered [OF assms(4)]] upd(3) [OF loaded(1)] page
    by (simp add: settles_def deliver_def Let_def feed)
  show "map in_flight (sf_rows (deliver cv tr s)) = map in_flight (sf_rows s)"
    using assms(2) len by (intro nth_equalityI) (simp_all add: deliver_def feed Let_def)
qed (simp_all add: deliver_def Let_def)

lemma feed_settles:
  "flow_inv s \<Longrightarrow> mounted s \<Longrightarrow> calm cv s \<Longrightarrow>
   \<exists>t. settles cv tr s t \<and> sf_feed t = [] \<and> sf_server t = sf_server s \<and> map in_flight (sf_rows t) = map in_flight (sf_rows s)"
proof (induction "length (sf_feed s)" arbitrary: s)
  case 0
  then show ?case by (intro exI [of _ s]) (simp add: settles_refl)
next
  case (Suc n)
  then have ne: "sf_feed s \<noteq> []" by auto
  note d = deliver_settles [OF Suc.prems ne, of tr]
  have "flow_inv (deliver cv tr s)" "mounted (deliver cv tr s)" "calm cv (deliver cv tr s)"
    using settles_inv [OF d(1) Suc.prems(1)] d(1) by (simp_all add: settles_def)
  moreover have "n = length (sf_feed (deliver cv tr s))" using Suc.hyps(2) d(4) by simp
  ultimately obtain t where
    t: "settles cv tr (deliver cv tr s) t" "sf_feed t = []" "sf_server t = sf_server s"
      "map in_flight (sf_rows t) = map in_flight (sf_rows s)"
    using Suc.hyps(1) [of "deliver cv tr s"] d(2-3) by auto
  then show ?case using settles_trans [OF d(1) t(1)] by blast
qed

lemma rows_settle:
  "flow_inv s \<Longrightarrow> mounted s \<Longrightarrow> calm cv s \<Longrightarrow> \<exists>t. settles cv tr s t \<and> idle t"
proof (induction "card {i. i < length (sf_rows s) \<and> in_flight (sf_rows s ! i) \<noteq> []}" arbitrary: s rule: less_induct)
  case less
  let ?P = "\<lambda>s. {i. i < length (sf_rows s) \<and> in_flight (sf_rows s ! i) \<noteq> []}"
  show ?case
  proof (cases "idle s")
    case True
    then show ?thesis using settles_refl less.prems by blast
  next
    case False
    then obtain i where i: "i < length (sf_rows s)" "in_flight (sf_rows s ! i) \<noteq> []"
      by (auto simp: idle_def in_set_conv_nth)
    obtain q where q: "in_flight (sf_rows s ! i) = [q]"
      using row_fine_pending [OF rows_ok_fine [OF flow_invD(3) [OF less.prems(1,2)] i(1)] i(2)] by metis
    obtain t where t: "settles cv tr s t" "length (sf_rows t) = length (sf_rows s)" "in_flight (sf_rows t ! i) = []"
      "\<forall>j. j \<noteq> i \<longrightarrow> sf_rows t ! j = sf_rows s ! j"
      using row_settles [OF less.prems i(1) q, of tr] by blast
    have "?P t \<subset> ?P s" using t(2-4) i by auto
    then have "card (?P t) < card (?P s)" by (intro psubset_card_mono) simp_all
    moreover have "flow_inv t" "mounted t" "calm cv t"
      using settles_inv [OF t(1) less.prems(1)] t(1) by (simp_all add: settles_def)
    ultimately obtain u where "settles cv tr t u" "idle u" using less.hyps by blast
    then show ?thesis using settles_trans [OF t(1)] by blast
  qed
qed

lemma flow_settles:
  assumes "flow_inv s" "mounted s" "calm cv s"
  shows "\<exists>t. settles cv tr s t \<and> quiet_flow t"
proof -
  obtain u where u: "settles cv tr s u" "idle u" using rows_settle [OF assms] by blast
  have "flow_inv u" "mounted u" "calm cv u" using settles_inv [OF u(1) assms(1)] u(1) by (simp_all add: settles_def)
  from feed_settles [OF this, of tr] obtain t where
    t: "settles cv tr u t" "sf_feed t = []" "map in_flight (sf_rows t) = map in_flight (sf_rows u)" by blast
  then have "idle t" using u(2) by (metis (no_types, lifting) idle_def image_iff list.set_map)
  then show ?thesis using settles_trans [OF u(1) t(1)] t(2) by (auto simp: quiet_flow_def)
qed

lemma lvdrs_of_nodes_names:
  assumes "map resource_name ns = map resource_name ms"
  shows "lvdrs_of_nodes ns ls = lvdrs_of_nodes ms ls"
proof -
  have "find (\<lambda>n. resource_name n = k) xs \<noteq> None \<longleftrightarrow> k \<in> set (map resource_name xs)" for k and xs :: "Node list"
    by (induction xs) auto
  then show ?thesis by (simp only: lvdrs_of_nodes_def assms)
qed

text \<open>A click on a box of a quiet flow puts one patch in flight.\<close>

lemma click_settles:
  assumes "flow_inv s" "mounted s" "calm cv s" "quiet_flow s" "i < length (sf_rows s)" "row_status (sf_rows s ! i) \<noteq> checked_status b"
  shows "settles cv tr s (row_event cv i (row_click b) s)"
    "\<exists>q. in_flight (sf_rows (row_event cv i (row_click b) s) ! i) = [q] \<and> pr_checked q = b"
proof -
  note inv = flow_invD [OF assms(1,2)]
  have r: "row_warnings (sf_rows s ! i) = {}" using assms(3,5) by (simp add: calm_def)
  have idle: "in_flight (sf_rows s ! i) = []" using assms(4,5) by (simp add: quiet_flow_def idle_def)
  have fine: "row_fine (sf_rows s ! i) (sf_server s ! i) (i \<in> sf_applied s)" by (rule rows_ok_fine [OF inv(3) assms(5)])
  then have "closure_status (sf_rows s ! i) \<noteq> SelectionPending" using idle by (auto simp: row_fine_def row_inv_def split: if_splits)
  then show "\<exists>q. in_flight (sf_rows (row_event cv i (row_click b) s) ! i) = [q] \<and> pr_checked q = b"
    using idle assms(5) by (simp add: row_event_def row_click_def)
  have "row_status (sf_rows s ! i) = label_status (sf_server s ! i)" using fine idle by (simp add: row_fine_def)
  then have "b = (row_status (sf_rows s ! i) \<noteq> Selected)"
    using assms(6) by (auto simp: checked_status_def label_status_def split: if_splits)
  then have "flow_trans cv tr s (Toggle i b) (row_event cv i (row_click b) s)"
    using assms(2,5) r by (intro flow_trans.toggle) simp_all
  moreover have "calm cv (row_event cv i (row_click b) s)"
    using calm_row_event [OF assms(3) inv(3,2) assms(5), where f = "row_click b" and A = "sf_applied s"] r
    by (simp add: row_ops_warnings)
  ultimately show "settles cv tr s (row_event cv i (row_click b) s)"
    using flow_run_one [where ok = undisturbed] assms(2,4) by (simp add: settles_def quiet_flow_def)
qed

text \<open>Setting the box of one row in a quiet flow, up to the next quiet state.\<close>

lemma set_row:
  assumes "flow_inv s" "mounted s" "calm cv s" "quiet_flow s" "i < length (sf_rows s)"
  shows "\<exists>t. settles cv tr s t \<and> quiet_flow t \<and> label_status (sf_server t ! i) = checked_status b \<and>
     (\<forall>j. j \<noteq> i \<longrightarrow> sf_server t ! j = sf_server s ! j)"
proof (cases "row_status (sf_rows s ! i) = checked_status b")
  case True
  have "in_flight (sf_rows s ! i) = []" using assms(4,5) by (simp add: quiet_flow_def idle_def)
  then have "label_status (sf_server s ! i) = checked_status b"
    using rows_ok_fine [OF flow_invD(3) [OF assms(1,2)] assms(5)] True by (simp add: row_fine_def)
  then show ?thesis using settles_refl [OF assms(2,3)] assms(4) by blast
next
  case False
  let ?s = "row_event cv i (row_click b) s"
  note click = click_settles [OF assms False]
  from click(2) obtain q where q: "in_flight (sf_rows ?s ! i) = [q]" "pr_checked q = b" by blast
  have inv1: "flow_inv ?s" "mounted ?s" "calm cv ?s"
    using settles_inv [OF click(1) assms(1)] click(1) by (simp_all add: settles_def)
  have i: "i < length (sf_rows ?s)" using assms(5) by simp
  obtain t where t: "settles cv tr ?s t" "length (sf_rows t) = length (sf_rows s)" "in_flight (sf_rows t ! i) = []"
    "\<forall>j. j \<noteq> i \<longrightarrow> sf_rows t ! j = sf_rows ?s ! j \<and> sf_server t ! j = sf_server s ! j"
    "label_status (sf_server t ! i) = checked_status b"
    using row_settles [OF inv1 i q(1), of tr] q(2) by auto
  have "in_flight (sf_rows t ! j) = []" if "j < length (sf_rows s)" for j
    using t(3,4) assms(4) that by (cases "j = i") (simp_all add: row_event_def quiet_flow_def idle_def)
  then have idle_t: "idle t" using t(2) by (auto simp: idle_def in_set_conv_nth)
  have "flow_inv t" "mounted t" "calm cv t" using settles_inv [OF t(1) inv1(1)] t(1) by (simp_all add: settles_def)
  from feed_settles [OF this, of tr] obtain u where
    u: "settles cv tr t u" "sf_feed u = []" "sf_server u = sf_server t" "map in_flight (sf_rows u) = map in_flight (sf_rows t)"
    by blast
  have "idle u" using idle_t u(4) by (metis (no_types, lifting) idle_def image_iff list.set_map)
  then show ?thesis
    using settles_trans [OF settles_trans [OF click(1) t(1)] u(1)] u(2,3) t(4,5) by (auto simp: quiet_flow_def)
qed

lemma set_rows:
  assumes "flow_inv s" "mounted s" "calm cv s" "quiet_flow s" "k \<le> length (sf_rows s)"
  shows "\<exists>t. settles cv tr s t \<and> quiet_flow t \<and> (\<forall>i < k. label_status (sf_server t ! i) = checked_status (i \<in> I))"
  using assms(5)
proof (induction k)
  case 0
  then show ?case using settles_refl assms by blast
next
  case (Suc k)
  then obtain t where t: "settles cv tr s t" "quiet_flow t" "\<forall>i < k. label_status (sf_server t ! i) = checked_status (i \<in> I)" by auto
  have inv: "flow_inv t" "mounted t" "calm cv t" using settles_inv [OF t(1) assms(1)] t(1) by (simp_all add: settles_def)
  have "length (sf_server t) = length (sf_server s)" using t(1) unfolding settles_def by (metis length_map)
  then have "k < length (sf_rows t)"
    using Suc.prems flow_invD(2) [OF assms(1,2)] flow_invD(2) [OF inv(1,2)] by (simp add: sizes_ok_def)
  from set_row [OF inv t(2) this, of tr "k \<in> I"] obtain u where
    u: "settles cv tr t u" "quiet_flow u" "label_status (sf_server u ! k) = checked_status (k \<in> I)"
      "\<forall>j. j \<noteq> k \<longrightarrow> sf_server u ! j = sf_server t ! j" by blast
  then have "\<forall>i < Suc k. label_status (sf_server u ! i) = checked_status (i \<in> I)" using t(3) by (auto simp: less_Suc_eq)
  then show ?case using settles_trans [OF t(1) u(1)] u(2) by blast
qed

text \<open>From anywhere the flow can settle with any set of boxes checked.\<close>

lemma rows_chosen:
  assumes "flow_inv s" "mounted s" "calm cv s"
  shows "\<exists>t. settles cv tr s t \<and> flow_inv t \<and> mounted t \<and> quiet_flow t \<and> map resource_name (sf_server t) = map resource_name (sf_server s) \<and>
     (\<forall>i < length (sf_server t). label_status (sf_server t ! i) = checked_status (i \<in> I))"
proof -
  obtain q where q: "settles cv tr s q" "quiet_flow q" using flow_settles [OF assms] by blast
  have inv_q: "flow_inv q" "mounted q" "calm cv q" using settles_inv [OF q(1) assms(1)] q(1) by (simp_all add: settles_def)
  obtain t where t: "settles cv tr q t" "quiet_flow t" "\<forall>i < length (sf_rows q). label_status (sf_server t ! i) = checked_status (i \<in> I)"
    using set_rows [OF inv_q q(2) order_refl] by blast
  note st = settles_trans [OF q(1) t(1)]
  have "length (sf_rows q) = length (sf_server t)"
    using t(1) flow_invD(2) [OF inv_q(1,2)] unfolding settles_def sizes_ok_def by (metis length_map)
  then show ?thesis using settles_inv [OF st assms(1)] st t(2,3) by (intro exI [of _ t]) (simp add: settles_def)
qed

lemma selected_nths:
  assumes "\<forall>i < length ns. label_status (ns ! i) = checked_status (i \<in> I)"
  shows "selectedNodes ns = nths ns I"
proof -
  have "hasLabel (ns ! i) STORAGE_ROLE_LABEL = (i \<in> I)" if "i < length ns" for i
    using assms that by (auto simp: label_status_def checked_status_def split: if_splits)
  then have "nths ns {i. i < length ns \<and> hasLabel (ns ! i) STORAGE_ROLE_LABEL} = nths ns I"
    unfolding nths_def by (intro arg_cong [of _ _ "map fst"] filter_cong) (auto simp: in_set_zip)
  then show ?thesis by (simp add: selectedNodes_def filter_eq_nths)
qed

subsection \<open>An example\<close>

definition example_texts :: memory_texts where
  "example_texts = (\<lambda>v u. Inr v, \<lambda>v u. Inr [])"

definition example_flow :: "Node list \<Rightarrow> selection_flow" where
  "example_flow nodes = flow_mount example_texts (\<lambda>k _. k) nodes example_discovery False"

lemma flow_mount_fields:
  "sf_server (flow_mount cv tr nodes lvdrs b) = nodes" "sf_feed (flow_mount cv tr nodes lvdrs b) = []"
  "sf_rows (flow_mount cv tr nodes lvdrs b) = map (\<lambda>n. row_shown cv n (row_mount n)) nodes"
  "sf_applied (flow_mount cv tr nodes lvdrs b) = {}"
  "cp_visited (sf_page (flow_mount cv tr nodes lvdrs b)) = []" "cp_sent (sf_page (flow_mount cv tr nodes lvdrs b)) = []"
  "cp_lvdrs (sf_page (flow_mount cv tr nodes lvdrs b)) = lvdrs"
  "shown_nodes (flow_mount cv tr nodes lvdrs b) = nodes"
  by (simp_all add: flow_mount_def page_mount_def page_effects_def loaded_nodes_def split_beta Let_def)

lemma flow_mount_quiet: "quiet_flow (flow_mount cv tr nodes lvdrs b)"
  by (simp add: quiet_flow_def idle_def flow_mount_fields row_mount_def)

lemma flow_mount_calm: "\<forall>n \<in> set nodes. memory_ok cv n \<Longrightarrow> calm cv (flow_mount cv tr nodes lvdrs b)"
  by (simp add: calm_def flow_mount_fields memory_ok_def)

lemma example_node_memory: "memory_ok cv (example_node n ls)"
  by (simp add: memory_ok_def row_shown_def row_render_view_def row_memory_def row_render_def row_mount_def getMemory_def
      node_capacity_def example_node_def Let_def)

subsection \<open>Properties\<close>

text \<open>C4: What the user sees is what the cluster gets. Rows, server and watch may interleave in any way, requests may
  be refused and other clients may change other labels: whenever no patch is pending and the watch has
  caught up, the checked rows are exactly the labelled nodes of the server, the table shows these nodes, and
  the button is enabled exactly when three rows are checked and their nodes share a disk. This assumes that
  a box is only clicked when the watch has caught up.\<close>

theorem checked_rows_are_selected:
  assumes "flow_run cv tr caught_up (flow_mount cv tr nodes lvdrs b) s" "\<forall>n \<in> set nodes. metadata n \<noteq> None"
    and "mounted s" "quiet_flow s"
  shows "checked_rows s = selectedNodes (sf_server s) \<and> shown_nodes s = sf_server s \<and>
     (repo_loaded (cp_lvdrs (sf_page s)) \<longrightarrow>
        isDisabled (cta (cp_store (sf_page s))) =
          Some (\<not> (3 \<le> length (checked_rows s) \<and>
                    1 \<le> sharedDisksCount (repo_items (cp_lvdrs (sf_page s))) (checked_rows s))))"
proof -
  have inv: "flow_inv s" using flow_run_inv [OF assms(1) flow_inv_mount [OF assms(2)]] .
  show ?thesis
    using quiet_checked [OF inv assms(3,4)] quiet_button [OF inv assms(3,4)]
    by (auto simp: counts_missing_def page_counts_def requirements_missing_def too_few_disks_def too_few_nodes_def
        MINIMUM_AMOUNT_OF_NODES_def MINIMUM_AMOUNT_OF_SHARED_DISKS_def)
qed

theorem checked_rows_are_selected_witness:
  "checked_rows (example_flow (repo_items checked_workers)) = repo_items checked_workers \<and>
   isDisabled (cta (cp_store (sf_page (example_flow (repo_items checked_workers))))) = Some False"
proof -
  let ?ns = "repo_items checked_workers"
  have meta: "\<forall>n \<in> set ?ns. metadata n \<noteq> None"
    by (simp add: checked_workers_def example_workers_def check_node_def with_labels_def example_node_def)
  have sel: "selectedNodes ?ns = ?ns"
    using check_node_selected [OF example_workers_meta(4)] by (simp add: checked_workers_def)
  have shared: "1 \<le> sharedDisksCount (repo_items example_discovery) ?ns"
    using example_discovered shared_count_ge_1 [of ?ns "repo_items example_discovery" "''w1''"]
    by (simp add: checked_workers_def check_node_lvdrs)
  have len: "length ?ns = 3" by (simp add: checked_workers_def example_workers_def)
  have "quiet_flow (example_flow ?ns)" "mounted (example_flow ?ns)"
    by (simp_all add: example_flow_def flow_mount_quiet flow_mount_fields)
  show ?thesis
    using checked_rows_are_selected [OF flow_run.run_refl meta, of example_texts "\<lambda>k _. k" example_discovery False]
      sel shared len by (simp add: flow_mount_quiet flow_mount_fields example_flow_def example_workers_meta(2))
qed

text \<open>C6: The goal can be reached by clicking, from anywhere: on a mounted page where all nodes have enough
  memory, whatever has happened so far, take any set of at least three of its worker nodes that has two
  discovery results or more, all reporting one device. Then the user and the console alone can go on (the
  pending patches settle, boxes are clicked, their patches are accepted and delivered, the button is
  clicked and its request accepted) so that one request is sent, the user is on the claims page, and the
  request's node selector matches exactly the nodes of that set on the server.\<close>

theorem clicks_reach_cluster:
  assumes run: "flow_run cv tr caught_up (flow_mount cv tr nodes lvdrs b) s" "\<forall>n \<in> set nodes. metadata n \<noteq> None"
    and s: "mounted s" "calm cv s" "repo_loaded (cp_lvdrs (sf_page s))"
    and chosen: "I \<subseteq> {..<length (sf_server s)}" "3 \<le> card I"
      "2 \<le> length (lvdrs_of_nodes (nths (sf_server s) I) (repo_items (cp_lvdrs (sf_page s))))"
      "\<forall>l \<in> set (lvdrs_of_nodes (nths (sf_server s) I) (repo_items (cp_lvdrs (sf_page s)))). w \<in> reported_wwns l"
  shows "\<exists>t. flow_run cv tr undisturbed s t \<and> cp_visited (sf_page t) = [FileSystemClaimsHome] \<and>
     cp_sent (sf_page t) = cp_sent (sf_page s) @ [storage_cluster_request] \<and>
     length (sf_server t) = length (sf_server s) \<and>
     (\<forall>i < length (sf_server t). matches_labels (sf_server t ! i) storage_nodeSelector = (i \<in> I))"
proof -
  have inv: "flow_inv s" using flow_run_inv [OF run(1) flow_inv_mount [OF run(2)]] .
  obtain t where st: "settles cv tr s t" and inv_t: "flow_inv t" "mounted t" and quiet: "quiet_flow t"
    and names: "map resource_name (sf_server t) = map resource_name (sf_server s)"
    and labels: "\<forall>i < length (sf_server t). label_status (sf_server t ! i) = checked_status (i \<in> I)"
    using rows_chosen [OF inv s(1,2)] by blast
  have match: "matches_labels (sf_server t ! i) storage_nodeSelector = (i \<in> I)" if "i < length (sf_server t)" for i
    using labels that by (auto simp: label_status_def checked_status_def storage_nodeSelector_def obj_from_entries_distinct
        matches_labels_def hasLabel_match [OF storage_role_label_has_eq] split: if_splits)
  have len: "length (sf_server t) = length (sf_server s)" using names by (metis length_map)
  let ?lvdrs = "repo_items (cp_lvdrs (sf_page t))"
  note sel = selected_nths [OF labels]
  have lv: "cp_lvdrs (sf_page t) = cp_lvdrs (sf_page s)" using st by (simp add: settles_def)
  have "map resource_name (nths (sf_server t) I) = map resource_name (nths (sf_server s) I)"
    using names by (simp add: nths_map flip: nths_map)
  then have "lvdrs_of_nodes (nths (sf_server t) I) ls = lvdrs_of_nodes (nths (sf_server s) I) ls" for ls
    by (rule lvdrs_of_nodes_names)
  then have "1 \<le> sharedDisksCount ?lvdrs (selectedNodes (sf_server t))"
    using chosen(3,4) lv unfolding sel by (intro shared_count_ge_1 [where w = w]) simp_all
  moreover have "{i. i < length (sf_server t) \<and> i \<in> I} = I" using chosen(1) len by auto
  then have "3 \<le> length (selectedNodes (sf_server t))" using chosen(2) by (simp add: sel length_nths)
  ultimately have "\<not> counts_missing (page_counts (sf_server t) ?lvdrs)"
    by (simp add: counts_missing_def page_counts_def requirements_missing_def too_few_disks_def
        too_few_nodes_def MINIMUM_AMOUNT_OF_NODES_def MINIMUM_AMOUNT_OF_SHARED_DISKS_def)
  then have "isDisabled (cta (cp_store (sf_page t))) \<noteq> Some True"
    using quiet_button [OF inv_t quiet] s(3) lv by simp
  note create = creation_run [OF inv_t(2) this, of tr storage_cluster_request]
  let ?u = "on_page tr (CreationSettled (Resolved storage_cluster_request)) (on_page tr ClickCreate (on_page tr (ModelUpdate False) t))"
  have "flow_run cv tr undisturbed t ?u"
    by (intro flow_run_trans [OF page_run] page_run) simp_all
  moreover have "flow_run cv tr undisturbed s t" "cp_sent (sf_page t) = cp_sent (sf_page s)" using st by (simp_all add: settles_def)
  ultimately show ?thesis
    using create match len by (intro exI [of _ ?u]) (simp add: Let_def flow_run_trans)
qed

theorem clicks_reach_cluster_witness:
  "\<exists>t. flow_run example_texts (\<lambda>k _. k) undisturbed (example_flow (repo_items example_workers)) t \<and>
     cp_visited (sf_page t) = [FileSystemClaimsHome] \<and> cp_sent (sf_page t) = [storage_cluster_request]"
proof -
  let ?s = "flow_mount example_texts (\<lambda>k _. k) (repo_items example_workers) example_discovery False"
  have calm: "calm example_texts ?s"
    by (rule flow_mount_calm) (simp add: example_workers_def example_node_memory)
  have len: "length (repo_items example_workers) = 3" by (simp add: example_workers_def)
  then have all: "nths (repo_items example_workers) {..<3} = repo_items example_workers" by (intro nths_all) simp
  have "\<exists>t. flow_run example_texts (\<lambda>k _. k) undisturbed ?s t \<and> cp_visited (sf_page t) = [FileSystemClaimsHome] \<and>
      cp_sent (sf_page t) = cp_sent (sf_page ?s) @ [storage_cluster_request] \<and>
      length (sf_server t) = length (sf_server ?s) \<and>
      (\<forall>i < length (sf_server t). matches_labels (sf_server t ! i) storage_nodeSelector = (i \<in> {..<3}))"
    by (rule clicks_reach_cluster [OF flow_run.run_refl example_workers_meta(4) _ calm, where w = "''w1''"])
      (use example_workers_meta example_discovered all len in \<open>simp_all add: flow_mount_fields\<close>)
  then show ?thesis by (auto simp: example_flow_def flow_mount_fields)
qed

end
