(* ===== verification/Selection_Races.thy ===== *)
theory Selection_Races
  imports Selection_Flow
begin

section \<open>Races between rows, watch and other clients\<close>

text \<open>
  Two runs of \<open>Selection_Flow\<close> that end badly: a patch that was sent before the watch had caught up and
  is refused leaves the row with the wrong state for good, and a patch takes back the labels another
  client has set since the row was rendered.
\<close>

subsection \<open>A page with one node\<close>

text \<open>The flow with one worker node, given its row, the node on the server and what the watch still holds.\<close>

definition single :: "memory_texts \<Rightarrow> selection_flow \<Rightarrow> Node \<Rightarrow> Node list \<Rightarrow> row_state \<Rightarrow> bool \<Rightarrow> bool" where
  "single cv s n feed r applied \<longleftrightarrow> sf_server s = [n] \<and> sf_feed s = map (\<lambda>m. [m]) feed \<and> sf_rows s = [r] \<and>
     sf_applied s = (if applied then {0} else {}) \<and> mounted s \<and> row_warnings r = {} \<and> memory_ok cv (closure_node r) \<and>
     closure_status r = row_status r"

lemma single_mount: "memory_ok cv n \<Longrightarrow> single cv (flow_mount cv tr [n] lvdrs b) n [] (row_shown cv n (row_mount n)) False"
  by (simp add: single_def flow_mount_fields memory_ok_def)

lemma shown_warnings: "memory_ok cv n \<Longrightarrow> row_warnings r = {} \<Longrightarrow> row_warnings (row_shown cv n r) = {}"
  by (rule row_shown_calm)

lemma single_toggle:
  assumes "single cv s n feed r False" "row_status r \<noteq> SelectionPending" "b = (row_status r \<noteq> Selected)"
  shows "\<exists>t. flow_trans cv tr s (Toggle 0 b) t \<and> single cv t n feed (row_shown cv (closure_node r) (row_click b r)) False"
  using assms flow_trans.toggle [of s 0 b cv tr]
  by (intro exI [of _ "row_event cv 0 (row_click b) s"])
    (simp add: single_def row_event_def shown_warnings row_ops_warnings)

lemma single_apply:
  assumes "single cv s n feed r False" "in_flight r = [q]"
  shows "\<exists>t. flow_trans cv tr s (Apply 0) t \<and>
     single cv t (with_labels n (pr_labels q)) (feed @ [with_labels n (pr_labels q)]) r True"
  using assms flow_trans.applied [of 0 s cv tr]
  by (intro exI [of _ "apply_patch 0 s"]) (simp add: single_def apply_patch_def row_patch_def server_update_def)

lemma single_answer:
  assumes "single cv s n feed r True"
  shows "\<exists>t. flow_trans cv tr s (Answer 0) t \<and>
     single cv t n feed (row_shown cv (closure_node r) (row_resolved 0 r)) False"
  using assms flow_trans.answered [of 0 s cv tr]
  by (intro exI [of _ "row_event cv 0 (row_resolved 0) (s\<lparr>sf_applied := sf_applied s - {0}\<rparr>)"])
    (simp add: single_def row_event_def shown_warnings row_ops_warnings)

lemma page_stays:
  "cp_visited p = [] \<Longrightarrow> cp_visited (page_step tr p (WatchUpdate n l a b)) = []"
  "cp_visited p = [] \<Longrightarrow> cp_visited (page_step tr p (RowPatchFailed e)) = []"
  by (simp_all add: page_step_def page_effects_cases)

lemma single_refuse:
  assumes "single cv s n feed r False" "in_flight r = [q]"
  shows "\<exists>t. flow_trans cv tr s (Refuse 0 e) t \<and>
     single cv t n feed (row_shown cv (closure_node r) (row_rejected 0 r)) False"
  using assms flow_trans.refused [of 0 s cv tr e] page_stays(2) [of "sf_page s" tr e]
  by (intro exI [of _ "on_page tr (RowPatchFailed e) (row_event cv 0 (row_rejected 0) s)"])
    (simp add: single_def row_event_def on_page_def shown_warnings row_rejected_def)

lemma page_nodes:
  "cp_visited p = [] \<Longrightarrow> cp_nodes (page_step tr p (WatchUpdate n l a b)) = n"
  by (simp add: page_step_def) (simp add: page_effects_def split_beta Let_def)

lemma single_deliver:
  assumes "single cv s n (m # feed) r a" "memory_ok cv m"
  shows "\<exists>t. flow_trans cv tr s Deliver t \<and> single cv t n feed (row_shown cv m r) a \<and> shown_nodes t = [m]"
  using assms flow_trans.delivered [of s cv tr] page_stays(1) [of "sf_page s" tr] page_nodes [of "sf_page s" tr]
  by (intro exI [of _ "deliver cv tr s"])
    (simp add: single_def deliver_def on_page_def shown_warnings loaded_nodes_def Let_def)

lemma single_relabel:
  assumes "single cv s n feed r a" "same_role m n"
  shows "\<exists>t. flow_trans cv tr s (Relabel 0 m) t \<and> single cv t m (feed @ [m]) r a"
  using assms flow_trans.relabelled [of 0 s m cv tr]
  by (intro exI [of _ "server_update 0 m s"]) (simp add: single_def server_update_def)

text \<open>A run with the events of its steps.\<close>

inductive flow_path ::
  "memory_texts \<Rightarrow> translator \<Rightarrow> selection_flow \<Rightarrow> flow_event list \<Rightarrow> selection_flow \<Rightarrow> bool" for cv tr where
  path_stay: "flow_path cv tr s [] s"
| path_go: "flow_trans cv tr s e t \<Longrightarrow> flow_path cv tr t es u \<Longrightarrow> flow_path cv tr s (e # es) u"

lemma path_snoc: "flow_path cv tr s es t \<Longrightarrow> flow_trans cv tr t e u \<Longrightarrow> flow_path cv tr s (es @ [e]) u"
  by (induction rule: flow_path.induct) (auto intro: flow_path.intros)

lemma path_then:
  "flow_path cv tr s es t \<Longrightarrow> \<exists>u. flow_trans cv tr t e u \<and> P u \<Longrightarrow> \<exists>u. flow_path cv tr s (es @ [e]) u \<and> P u"
  by (blast intro: path_snoc)

lemma path_mount_toggle:
  assumes "label_status n = Unselected" "memory_ok cv n"
  shows "\<exists>s. flow_path cv tr (flow_mount cv tr [n] lvdrs b) [Toggle 0 True] s \<and>
     single cv s n [] (row_shown cv n (row_click True (row_shown cv n (row_mount n)))) False"
proof -
  have "\<exists>s. flow_trans cv tr (flow_mount cv tr [n] lvdrs b) (Toggle 0 True) s \<and>
      single cv s n [] (row_shown cv n (row_click True (row_shown cv n (row_mount n)))) False"
    using single_toggle [OF single_mount [OF assms(2), of tr lvdrs b], of True tr] assms(1) by (simp add: row_mount_def)
  from path_then [OF flow_path.path_stay this] show ?thesis by simp
qed

lemma single_quiet: "single cv s n [] r False \<Longrightarrow> in_flight r = [] \<Longrightarrow> quiet_flow s"
  by (simp add: single_def quiet_flow_def idle_def)

subsection \<open>Properties\<close>

text \<open>C22: A row can keep showing the wrong state. An unlabelled node is checked, the patch is applied and answered;
  before the watch delivers that, its box is cleared again and this patch is refused: the row falls back to
  the label it was rendered with. When the watch has delivered the label, everything has settled: the box is
  clear, but the node has the label and the page counts it as selected.\<close>

theorem stale_refusal:
  assumes "label_status n = Unselected" "metadata n \<noteq> None" "memory_ok cv n"
  shows "\<exists>s. flow_path cv tr (flow_mount cv tr [n] lvdrs b)
       [Toggle 0 True, Apply 0, Answer 0, Toggle 0 False, Refuse 0 e, Deliver] s \<and>
     mounted s \<and> quiet_flow s \<and> row_status (sf_rows s ! 0) = Unselected \<and> checked_rows s = [] \<and>
     selectedNodes (shown_nodes s) = sf_server s \<and> length (sf_server s) = 1"
proof -
  let ?n1 = "with_labels n (toggleNodeStorageRoleLabel n True)"
  let ?r0 = "row_shown cv n (row_mount n)"
  let ?r1 = "row_shown cv n (row_click True ?r0)"
  let ?r2 = "row_shown cv n (row_resolved 0 ?r1)"
  let ?r3 = "row_shown cv n (row_click False ?r2)"
  let ?r4 = "row_shown cv n (row_rejected 0 ?r3)"
  note mount = row_mount_def row_click_def row_resolved_def row_rejected_def remove_nth_def
  have n1: "label_status ?n1 = Selected" "memory_ok cv ?n1"
    using label_after_patch [OF assms(2,2)] memory_ok_with_labels [OF assms(3)] by (simp_all add: checked_status_def)
  have r1: "in_flight ?r1 = [\<lparr>pr_checked = True, pr_node = n, pr_labels = toggleNodeStorageRoleLabel n True\<rparr>]"
    using assms(1) by (simp add: mount)
  then have r2: "row_status ?r2 = Selected" "in_flight ?r2 = []" by (simp_all add: row_resolved_def remove_nth_def)
  then have r3: "in_flight ?r3 = [\<lparr>pr_checked = False, pr_node = n, pr_labels = toggleNodeStorageRoleLabel n False\<rparr>]"
    by (simp add: row_click_def)
  then have r4: "row_status ?r4 = Unselected" "in_flight ?r4 = []"
    using assms(1) by (simp_all add: row_rejected_def remove_nth_def)
  have sel: "selectedNodes [?n1] = [?n1]" using n1(1) by (simp add: selectedNodes_def label_status_def split: if_splits)
  let ?s0 = "flow_mount cv tr [n] lvdrs b"
  obtain s1 where s1: "flow_path cv tr ?s0 [Toggle 0 True] s1" "single cv s1 n [] ?r1 False"
    using path_mount_toggle [OF assms(1,3)] by blast
  obtain s2 where s2: "flow_path cv tr ?s0 [Toggle 0 True, Apply 0] s2" "single cv s2 ?n1 [?n1] ?r1 True"
    using path_then [OF s1(1) single_apply [OF s1(2) r1]] by auto
  obtain s3 where s3: "flow_path cv tr ?s0 [Toggle 0 True, Apply 0, Answer 0] s3" "single cv s3 ?n1 [?n1] ?r2 False"
    using path_then [OF s2(1) single_answer [OF s2(2)]] by auto
  obtain s4 where s4: "flow_path cv tr ?s0 [Toggle 0 True, Apply 0, Answer 0, Toggle 0 False] s4" "single cv s4 ?n1 [?n1] ?r3 False"
    using path_then [OF s3(1) single_toggle [OF s3(2)]] r2(1) by auto
  obtain s5 where s5: "flow_path cv tr ?s0 [Toggle 0 True, Apply 0, Answer 0, Toggle 0 False, Refuse 0 e] s5"
    "single cv s5 ?n1 [?n1] ?r4 False"
    using path_then [OF s4(1) single_refuse [OF s4(2) r3, of tr e]] by auto
  obtain s where s: "flow_path cv tr ?s0 [Toggle 0 True, Apply 0, Answer 0, Toggle 0 False, Refuse 0 e, Deliver] s"
    "single cv s ?n1 [] (row_shown cv ?n1 ?r4) False" "shown_nodes s = [?n1]"
    using path_then [OF s5(1) single_deliver [OF s5(2) n1(2)]] by auto
  show ?thesis
    using s sel single_quiet [OF s(2)] r4 by (intro exI [of _ s]) (simp add: single_def checked_rows_def)
qed

theorem stale_refusal_witness:
  "\<exists>s. flow_path example_texts (\<lambda>k _. k) (flow_mount example_texts (\<lambda>k _. k) [example_node ''n0'' []] example_discovery False)
       [Toggle 0 True, Apply 0, Answer 0, Toggle 0 False, Refuse 0 (ThrownString ''conflict''), Deliver] s \<and>
     row_status (sf_rows s ! 0) = Unselected \<and> selectedNodes (shown_nodes s) = sf_server s"
  using stale_refusal [of "example_node ''n0'' []" example_texts "\<lambda>k _. k" example_discovery False "ThrownString ''conflict''"]
  by (auto simp: label_status_def example_node_meta example_node_memory)

text \<open>C21: A patch takes back other clients' labels: after a click on a box, another client sets a label on its
  node and the watch delivers that to the page; then the patch of the click is applied and answered, and the
  label is gone, since the patch replaces the whole label map with the one computed at the click.\<close>

theorem concurrent_label_lost:
  assumes "label_status n = Unselected" "metadata n \<noteq> None" "memory_ok cv n"
    and k: "obj_get (getLabels n) k = None" "k \<noteq> label_key STORAGE_ROLE_LABEL"
    and m: "m = with_labels n (obj_set k v (getLabels n))"
  shows "\<exists>s. flow_path cv tr (flow_mount cv tr [n] lvdrs b) [Toggle 0 True, Relabel 0 m, Deliver] s \<and>
     sf_server s = [m] \<and> shown_nodes s = [m] \<and> obj_get (getLabels m) k = Some v \<and>
     (\<exists>t. flow_path cv tr s [Apply 0, Answer 0] t \<and> mounted t \<and> idle t \<and>
        label_status (sf_server t ! 0) = Selected \<and> obj_get (getLabels (sf_server t ! 0)) k = None)"
proof -
  let ?s0 = "flow_mount cv tr [n] lvdrs b"
  let ?r0 = "row_shown cv n (row_mount n)"
  let ?r1 = "row_shown cv n (row_click True ?r0)" and ?m1 = "with_labels m (toggleNodeStorageRoleLabel n True)"
  let ?r2 = "row_shown cv m ?r1"
  have labels: "getLabels m = obj_set k v (getLabels n)" unfolding m by (rule getLabels_with_labels [OF assms(2)])
  have role: "hasLabel m STORAGE_ROLE_LABEL = hasLabel n STORAGE_ROLE_LABEL"
    using k(2) by (simp add: hasLabel_match [OF storage_role_label_has_eq] labels obj_get_set del: storage_role_key)
  have same: "same_role m n"
    using assms(2) role by (cases "metadata n") (auto simp: same_role_def label_status_def m with_labels_def resource_name_def)
  have m_ok: "memory_ok cv m" "metadata m \<noteq> None"
    using memory_ok_with_labels [OF assms(3)] assms(2) by (auto simp: m with_labels_def)
  have r1: "in_flight ?r1 = [\<lparr>pr_checked = True, pr_node = n, pr_labels = toggleNodeStorageRoleLabel n True\<rparr>]"
    using assms(1) by (simp add: row_mount_def row_click_def)
  obtain s1 where s1: "flow_path cv tr ?s0 [Toggle 0 True] s1" "single cv s1 n [] ?r1 False"
    using path_mount_toggle [OF assms(1,3)] by blast
  obtain s2 where s2: "flow_path cv tr ?s0 [Toggle 0 True, Relabel 0 m] s2" "single cv s2 m [m] ?r1 False"
    using path_then [OF s1(1) single_relabel [OF s1(2) same]] by auto
  obtain s where s: "flow_path cv tr ?s0 [Toggle 0 True, Relabel 0 m, Deliver] s" "single cv s m [] ?r2 False" "shown_nodes s = [m]"
    using path_then [OF s2(1) single_deliver [OF s2(2) m_ok(1)]] by auto
  have pending: "in_flight ?r2 = [\<lparr>pr_checked = True, pr_node = n, pr_labels = toggleNodeStorageRoleLabel n True\<rparr>]"
    using r1 by simp
  obtain s4 where s4: "flow_path cv tr s [Apply 0] s4" "single cv s4 ?m1 [?m1] ?r2 True"
    using path_then [OF flow_path.path_stay single_apply [OF s(2) pending, of tr]] by auto
  obtain t where t: "flow_path cv tr s [Apply 0, Answer 0] t" "single cv t ?m1 [?m1] (row_shown cv m (row_resolved 0 ?r2)) False"
    using path_then [OF s4(1) single_answer [OF s4(2)]] by auto
  have "obj_get (getLabels ?m1) k = None"
    using k m_ok(2) by (simp add: getLabels_with_labels obj_get_toggle del: storage_role_key)
  moreover have "label_status ?m1 = Selected" using label_after_patch [OF m_ok(2) assms(2)] by (simp add: checked_status_def)
  moreover have "mounted t" "idle t" "sf_server t = [?m1]"
    using t(2) r1 by (simp_all add: single_def idle_def row_resolved_def remove_nth_def)
  moreover have "sf_server s = [m]" using s(2) by (simp add: single_def)
  ultimately show ?thesis using s(1,3) t(1) labels by (intro exI [of _ s] conjI exI [of _ t]) (simp_all add: obj_get_set)
qed

theorem concurrent_label_lost_witness:
  "\<exists>m s. flow_path example_texts (\<lambda>k _. k) (flow_mount example_texts (\<lambda>k _. k) [example_node ''n0'' []] example_discovery False)
       [Toggle 0 True, Relabel 0 m, Deliver] s \<and> obj_get (getLabels (hd (sf_server s))) ''zone'' = Some ''a'' \<and>
     (\<exists>t. flow_path example_texts (\<lambda>k _. k) s [Apply 0, Answer 0] t \<and> obj_get (getLabels (sf_server t ! 0)) ''zone'' = None)"
proof -
  let ?n = "example_node ''n0'' []" and ?tr = "\<lambda>k _. k :: string"
  have fresh: "obj_get (getLabels ?n) ''zone'' = None" "''zone'' \<noteq> label_key STORAGE_ROLE_LABEL"
    by (simp_all add: example_node_def getLabels_def obj_get_def)
  have "label_status ?n = Unselected" by (simp add: label_status_def example_node_meta)
  moreover have "metadata ?n \<noteq> None" by (simp add: example_node_meta)
  moreover have "memory_ok example_texts ?n" by (simp add: example_node_memory)
  ultimately obtain s m where s: "flow_path example_texts ?tr (flow_mount example_texts ?tr [?n] example_discovery False)
      [Toggle 0 True, Relabel 0 m, Deliver] s" "sf_server s = [m]" "obj_get (getLabels m) ''zone'' = Some ''a''"
    "\<exists>t. flow_path example_texts ?tr s [Apply 0, Answer 0] t \<and> mounted t \<and> idle t \<and>
       label_status (sf_server t ! 0) = Selected \<and> obj_get (getLabels (sf_server t ! 0)) ''zone'' = None"
    using concurrent_label_lost [where v = "''a''" and tr = ?tr and lvdrs = example_discovery and b = False, OF _ _ _ fresh refl]
    by blast
  then show ?thesis by (intro exI [of _ m] exI [of _ s]) auto
qed

end
