(* ===== verification/Navigation.thy ===== *)
theory Navigation
  imports Claim_Screens Nodes_Selection
begin

section \<open>Navigation between the pages\<close>

text \<open>
  The pages of \<open>Cluster_Screens\<close> and \<open>Claim_Screens\<close> behind their routes. Where the administrator is is a
  URL, a plain text: the console looks it up in the plugin's page routes, takes the module that the
  route's code reference names among the exposed modules, and shows the component its file exports; a
  URL without a route, or a reference to a module that is not exposed, shows nothing of the plugin.
  What a page shows is computed from the data its hooks last gave; \<open>Redirect\<close> elements, the enabled
  buttons that push a path, the menu entry and the creating callbacks lead from URL to URL, whatever
  URL they name. Redirects are followed by a partial function, so that ending is a theorem; the
  administrator's ways through the console are runs of a step relation in which the data may change
  at any time.
\<close>

subsection \<open>What a page shows\<close>

text \<open>The results of the hooks of the five screens, and the store of the page that is shown.\<close>

record console_data =
  cd_fusionAccess :: fusion_access_repository
  cd_clusters :: storage_clusters_repository
  cd_claims :: "FileSystemClaim repository"
  cd_daemonHealthy :: bool
  cd_store :: State
  cd_nodesTable :: nodes_table_vm
  cd_createForm :: create_form_vm

text \<open>The one tab of the claims page. The SDK's table shows its \<open>EmptyMsg\<close> when the data is loaded and empty.\<close>

definition claims_tab :: "translator \<Rightarrow> console_data \<Rightarrow> view" where
  "claims_tab tr d =
     (let vm = useFileSystemClaimsTableViewModel tr (cd_claims d) in
      if ct_loaded vm \<and> ct_error vm = None \<and> ct_fileSystemClaims vm = [] then
        FileSystemClaimsTableEmptyState tr (useFileSystemClaimsCreateButtonViewModel tr (cd_daemonHealthy d))
      else VNull)"

definition claims_home_view :: "translator \<Rightarrow> console_data \<Rightarrow> view list" where
  "claims_home_view tr d =
     (let vm = useFileSystemClaimsHomeScreenViewModel tr (cd_claims d) (cd_clusters d) (cd_store d) in
      FileSystemClaimsHomeScreen tr vm (useFileSystemClaimsCreateButtonViewModel tr (cd_daemonHealthy d)) #
      (if ch_loaded vm \<and> ch_error vm = None then [claims_tab tr d] else []))"

definition claims_create_view :: "translator \<Rightarrow> console_data \<Rightarrow> view" where
  "claims_create_view tr d =
     (let vm = useFileSystemClaimsCreateScreenViewModel tr (cd_clusters d) (cd_store d) in
      FileSystemClaimsCreateScreen vm (useFileSystemClaimsCreateButtonViewModel tr (cd_daemonHealthy d))
        (FileSystemClaimsCreateForm tr (cr_formId vm) (cd_createForm d)))"

text \<open>The component that each file of \<open>exposedModules\<close> exports.\<close>

definition default_exports :: "translator \<Rightarrow> console_data \<Rightarrow> (string \<times> view list) list" where
  "default_exports tr d =
     [(''./ui/fusion-access/views/fusion_access_home_screen.tsx'',
         [FusionAccessHomeScreen tr (useFusionAccessHomeScreenViewModel (cd_fusionAccess d) (cd_clusters d))]),
      (''./ui/storage-clusters/views/storage_clusters_home_screen.tsx'',
         [StorageClustersHomeScreen tr (cd_store d) (cd_clusters d)]),
      (''./ui/storage-clusters/views/storage_clusters_create_screen.tsx'',
         [StorageClustersCreateScreen tr (cd_store d) (StorageClustersNodesSelectionTable tr (cd_nodesTable d))]),
      (''./ui/file-system-claims/views/file_system_claims_home_screen.tsx'', claims_home_view tr d),
      (''./ui/file-system-claims/views/file_system_claims_create_screen.tsx'', [claims_create_view tr d])]"

subsection \<open>Routes\<close>

text \<open>\<open>package.json\<close> gives the name and the version.\<close>

definition package_name :: string where
  "package_name = ''fusion-access-console''"

definition package_version :: string where
  "package_version = ''0.0.1''"

text \<open>
  The console's router, as documented: a route that names the URL itself goes before a route whose
  path ends in \<open>/*\<close>, which serves the path before it and everything below.
\<close>

definition route_names :: "string \<Rightarrow> extension \<Rightarrow> bool" where
  "route_names url e \<longleftrightarrow> (case e of PageRoute _ r _ \<Rightarrow> r = url | _ \<Rightarrow> False)"

definition route_covers :: "string \<Rightarrow> extension \<Rightarrow> bool" where
  "route_covers url e \<longleftrightarrow>
     (case e of
        PageRoute _ r _ \<Rightarrow>
          (let below = take (length r - 2) r in r = below @ ''/*'' \<and> (url = below \<or> js_startsWith url (below @ ''/'')))
      | _ \<Rightarrow> False)"

definition page_route :: "string \<Rightarrow> extension option" where
  "page_route url =
     (case List.find (route_names url) (extensions package_name) of
        Some e \<Rightarrow> Some e
      | None \<Rightarrow> List.find (route_covers url) (extensions package_name))"

definition page_module :: "string \<Rightarrow> string option" where
  "page_module url =
     Option.bind (page_route url)
       (\<lambda>e. map_of (plugin_exposedModules (plugin_metadata package_name package_version)) (route_codeRef e))"

definition page_views :: "translator \<Rightarrow> console_data \<Rightarrow> string \<Rightarrow> view list" where
  "page_views tr d url =
     (case Option.bind (page_module url) (map_of (default_exports tr d)) of None \<Rightarrow> [] | Some vs \<Rightarrow> vs)"

subsection \<open>Redirects and links\<close>

definition redirect_of :: "translator \<Rightarrow> console_data \<Rightarrow> string \<Rightarrow> string option" where
  "redirect_of tr d url =
     (case concat (map redirects (page_views tr d url)) of
        AText to # _ \<Rightarrow> Some to
      | _ \<Rightarrow> None)"

partial_function (option) follow :: "translator \<Rightarrow> console_data \<Rightarrow> string \<Rightarrow> string option" where
  "follow tr d url = (case redirect_of tr d url of None \<Rightarrow> Some url | Some to \<Rightarrow> follow tr d to)"

text \<open>Where a click on a button leads: nowhere while the button is disabled.\<close>

definition disabled_button :: "view \<Rightarrow> bool" where
  "disabled_button b \<longleftrightarrow>
     view_attr ''isDisabled'' b = Some (ABool True) \<or> view_attr ''isAriaDisabled'' b = Some (ABool True)"

definition button_target :: "view \<Rightarrow> string option" where
  "button_target b =
     (if disabled_button b then None
      else case view_attr ''onClick'' b of Some (AHandler (GoTo url)) \<Rightarrow> Some url | _ \<Rightarrow> None)"

definition links :: "translator \<Rightarrow> console_data \<Rightarrow> string \<Rightarrow> string list" where
  "links tr d url = List.map_filter button_target (concat (map (elements ''Button'') (page_views tr d url)))"

subsection \<open>Steps\<close>

text \<open>
  A page that is entered mounts with the initial store. The plugin's entry in the console's menu is
  always there; the browser's history is not modelled. The creating callbacks navigate when the
  service answers; both creating buttons have to be enabled by the store, and the one for claims by
  the daemons and by the form that the page shows. An answer that arrives after its page was left is a
  behaviour of \<open>Cluster_Page\<close> (\<open>late_redirect\<close>).
\<close>

datatype nav_event =
    DataChanged console_data
  | MenuClicked
  | Followed
  | Clicked string
  | ClusterSubmitted "Cluster promise"
  | ClaimSubmitted string "Lun list" "FileSystemClaim promise"

definition enter :: "translator \<Rightarrow> console_data \<Rightarrow> string \<Rightarrow> console_data \<times> string" where
  "enter tr d url = (d\<lparr>cd_store := initialState tr\<rparr>, url)"

inductive nav_step :: "translator \<Rightarrow> console_data \<times> string \<Rightarrow> nav_event \<Rightarrow> console_data \<times> string \<Rightarrow> bool"
  for tr where
  data_changed: "nav_step tr (d, url) (DataChanged d') (d', url)"
| menu_clicked:
    "NavigationHref i nm href persp sec before \<in> set (extensions package_name) \<Longrightarrow>
     nav_step tr (d, url) MenuClicked (enter tr d href)"
| followed: "redirect_of tr d url = Some to \<Longrightarrow> nav_step tr (d, url) Followed (enter tr d to)"
| clicked: "to \<in> set (links tr d url) \<Longrightarrow> nav_step tr (d, url) (Clicked to) (enter tr d to)"
| cluster_submitted:
    "isDisabled (cta (cd_store d)) \<noteq> Some True \<Longrightarrow>
     q \<in> set (visited (useStorageClustersCreateUseCase tr (\<lambda>_. answer) False)) \<Longrightarrow>
     nav_step tr (d, url_path StorageClustersCreate) (ClusterSubmitted answer) (enter tr d (url_path q))"
| claim_submitted:
    "redirect_of tr d (url_path FileSystemClaimsCreate) = None \<Longrightarrow> cd_daemonHealthy d \<Longrightarrow>
     isDisabled (cta (cd_store d)) \<noteq> Some True \<Longrightarrow>
     q \<in> set (visited (useFileSystemClaimsCreateUseCase tr (\<lambda>_. answer) False name luns)) \<Longrightarrow>
     nav_step tr (d, url_path FileSystemClaimsCreate) (ClaimSubmitted name luns answer) (enter tr d (url_path q))"

inductive nav_run ::
  "translator \<Rightarrow> console_data \<times> string \<Rightarrow> nav_event list \<Rightarrow> console_data \<times> string \<Rightarrow> bool" for tr where
  nav_stay: "nav_run tr s [] s"
| nav_go: "nav_step tr s e t \<Longrightarrow> nav_run tr t es u \<Longrightarrow> nav_run tr s (e # es) u"

inductive_cases menu_clickedE: "nav_step tr s MenuClicked t"
inductive_cases nav_goE: "nav_run tr s (e # es) t"

subsection \<open>The redirects and links of each page\<close>

lemma extension_list: "extensions package_name =
    [NavigationHref ''main'' ''%plugin__fusion-access-console~Fusion Access for SAN%'' (url_path FusionAccessHome)
       ''admin'' ''storage'' ''persistentvolumes'',
     PageRoute True (url_path FusionAccessHome) ''FusionAccessHomeScreen'',
     PageRoute True (url_path StorageClustersHome @ ''/*'') ''StorageClustersHomeScreen'',
     PageRoute True (url_path StorageClustersCreate) ''StorageClustersCreateScreen'',
     PageRoute True (url_path FileSystemClaimsHome @ ''/*'') ''FileSystemClaimsHomeScreen'',
     PageRoute True (url_path FileSystemClaimsCreate) ''FileSystemClaimsCreateScreen'']"
  by (simp add: extensions_def package_name_def)

text \<open>Each path of \<open>UrlPaths\<close> shows the screen of its name; the paths of the old file systems pages show
  nothing.\<close>

lemma path_modules:
  "page_module (url_path FusionAccessHome) = Some ''./ui/fusion-access/views/fusion_access_home_screen.tsx''"
  "page_module (url_path StorageClustersHome) = Some ''./ui/storage-clusters/views/storage_clusters_home_screen.tsx''"
  "page_module (url_path StorageClustersCreate) = Some ''./ui/storage-clusters/views/storage_clusters_create_screen.tsx''"
  "page_module (url_path FileSystemClaimsHome) = Some ''./ui/file-system-claims/views/file_system_claims_home_screen.tsx''"
  "page_module (url_path FileSystemClaimsCreate) = Some ''./ui/file-system-claims/views/file_system_claims_create_screen.tsx''"
  "page_module (url_path FileSystemsHome) = None"
  "page_module (url_path FileSystemsCreate) = None"
  by (simp_all add: page_module_def page_route_def extensions_def package_name_def plugin_metadata_def
      route_names_def route_covers_def js_startsWith_def)

lemma path_views:
  "page_views tr d (url_path FusionAccessHome) =
     [FusionAccessHomeScreen tr (useFusionAccessHomeScreenViewModel (cd_fusionAccess d) (cd_clusters d))]"
  "page_views tr d (url_path StorageClustersHome) = [StorageClustersHomeScreen tr (cd_store d) (cd_clusters d)]"
  "page_views tr d (url_path StorageClustersCreate) =
     [StorageClustersCreateScreen tr (cd_store d) (StorageClustersNodesSelectionTable tr (cd_nodesTable d))]"
  "page_views tr d (url_path FileSystemClaimsHome) = claims_home_view tr d"
  "page_views tr d (url_path FileSystemClaimsCreate) = [claims_create_view tr d]"
  "page_views tr d (url_path FileSystemsHome) = []"
  "page_views tr d (url_path FileSystemsCreate) = []"
  by (simp_all only: page_views_def path_modules bind.simps option.case default_exports_def map_of.simps)
    (simp_all add: fun_upd_apply)

lemma every_page_a_path: "\<exists>p. page_module url = page_module (url_path p)"
proof (cases "page_route url")
  case None
  then have "page_module url = None" by (simp add: page_module_def)
  then show ?thesis by (intro exI [of _ FileSystemsHome]) (simp only: path_modules)
next
  case (Some e)
  then have e: "e \<in> set (extensions package_name)" "route_names url e \<or> route_covers url e"
    by (auto simp: page_route_def dest: find_Some_D split: option.splits)
  from e(2) have "\<exists>x r c. e = PageRoute x r c" by (cases e) (auto simp: route_names_def route_covers_def)
  moreover have "page_module url =
      map_of (plugin_exposedModules (plugin_metadata package_name package_version)) (route_codeRef e)"
    by (simp add: page_module_def Some)
  ultimately have "page_module url \<in> {page_module (url_path FusionAccessHome), page_module (url_path StorageClustersHome),
      page_module (url_path StorageClustersCreate), page_module (url_path FileSystemClaimsHome),
      page_module (url_path FileSystemClaimsCreate)}"
    using e(1) unfolding path_modules by (auto simp: extension_list plugin_metadata_def)
  then show ?thesis by blast
qed

lemma redirect_of_cong: "page_module url = page_module url' \<Longrightarrow> redirect_of tr d url = redirect_of tr d url'"
  by (simp add: redirect_of_def page_views_def)

lemma url_path_eq [simp]: "(url_path p = url_path q) = (p = q)"
  by (cases p; cases q) simp_all

declare url_path.simps [simp del]

lemma table_elements:
  "n \<in> {''Redirect'', ''Button''} \<Longrightarrow> elements n (StorageClustersNodesSelectionTable tr vm) = []"
  by (auto simp: StorageClustersNodesSelectionTable_def StorageClustersNodesSelectionEmptyState_def)

lemma cluster_screens_redirects:
  "redirects (StorageClustersHomeScreen tr store C) = []"
  "redirects (StorageClustersCreateScreen tr store (StorageClustersNodesSelectionTable tr vm)) = []"
  by (simp_all add: redirects_def StorageClustersHomeScreen_def StorageClustersCreateScreen_def
      StorageClusterEmptyState_def StorageClustersCreateButton_def cta_props_def list_page_elements
      alert_elements plain_page_def async_cases table_elements map_filter_simps split: option.splits)

lemma entry_redirects_to:
  "redirect_of tr d (url_path FusionAccessHome) =
     (let vm = useFusionAccessHomeScreenViewModel (cd_fusionAccess d) (cd_clusters d) in
      if fh_loaded vm \<and> fh_error vm = None then
        Some (url_path (if fh_hasStorageClusterNotBeenCreated vm then StorageClustersHome else FileSystemClaimsHome))
      else None)"
  unfolding redirect_of_def path_views by (simp add: home_screen_redirects url_path.simps Let_def)

lemma create_claim_redirects_to:
  "redirect_of tr d (url_path FileSystemClaimsCreate) =
     (if scr_hasNotBeenCreated (cd_clusters d) then Some (url_path StorageClustersHome) else None)"
  unfolding redirect_of_def path_views
  by (simp add: claims_create_view_def claim_screens_navigation url_path.simps Let_def)

lemma claims_tab_elements:
  "redirects (claims_tab tr d) = []"
  "List.map_filter button_target (elements ''Button'' (claims_tab tr d)) =
     (if repo_loaded (cd_claims d) \<and> repo_error (cd_claims d) = None \<and> repo_items (cd_claims d) = [] \<and> cd_daemonHealthy d
      then [url_path FileSystemClaimsCreate] else [])"
  by (simp_all add: claims_tab_def redirects_def FileSystemClaimsTableEmptyState_def useFileSystemClaimsTableViewModel_def
      useFileSystemClaimsCreateButtonViewModel_def redirect_handler_def button_target_def disabled_button_def
      create_button_elements learn_more_button_def map_filter_simps)

lemma other_pages_stay:
  "p \<noteq> FusionAccessHome \<Longrightarrow> p \<noteq> FileSystemClaimsCreate \<Longrightarrow> redirect_of tr d (url_path p) = None"
  by (cases p) (simp_all add: redirect_of_def path_views cluster_screens_redirects claims_home_view_def
      claim_screens_navigation claims_tab_elements Let_def)

lemmas redirect_pages = entry_redirects_to create_claim_redirects_to other_pages_stay

lemma button_targets:
  "button_target (VEl ''Button'' [Attr ''variant'' v, Attr ''onClick'' (AHandler ReloadWindow)] vs) = None"
  "button_target (StorageClustersCreateButton tr [Attr ''onClick'' (AHandler (redirect_handler p))]) = Some (url_path p)"
  "button_target (StorageClustersCreateButton tr (cta_props c @ [Attr ''onClick'' (AHandler (UseCase u))])) = None"
  "button_target (learn_more_button tr) = None"
  "button_target (VEl ''Button'' [Attr ''variant'' v, Attr ''onClick'' (AHandler (redirect_handler p))] vs) = Some (url_path p)"
  by (simp_all add: button_target_def disabled_button_def StorageClustersCreateButton_def learn_more_button_def
      redirect_handler_def cta_props_def opt_attr_def split: option.splits)

text \<open>Where the buttons of a page lead, in the order they are rendered.\<close>

fun page_links :: "console_data \<Rightarrow> UrlPaths \<Rightarrow> UrlPaths list" where
  "page_links d StorageClustersHome =
     (if scr_loaded (cd_clusters d) \<and> scr_error (cd_clusters d) = None then [StorageClustersCreate] else [])"
| "page_links d StorageClustersCreate = [StorageClustersHome]"
| "page_links d FileSystemClaimsHome =
     (if \<not> cd_daemonHealthy d then []
      else if repo_items (cd_claims d) \<noteq> [] then [FileSystemClaimsCreate]
      else if repo_loaded (cd_claims d) \<and> scr_loaded (cd_clusters d) \<and>
        repo_error (cd_claims d) = None \<and> scr_error (cd_clusters d) = None then [FileSystemClaimsCreate]
      else [])"
| "page_links d FileSystemClaimsCreate = [FileSystemClaimsHome]"
| "page_links d _ = []"

lemma fallback_links [simp]:
  "List.map_filter button_target (elements ''Button'' (DefaultErrorFallback tr e)) = []"
  "List.map_filter button_target (elements ''Button'' (DefaultLoadingFallback tr)) = []"
  by (simp_all add: error_fallback_buttons button_targets map_filter_simps)

lemma entry_links: "links tr d (url_path FusionAccessHome) = []"
  by (simp add: links_def path_views FusionAccessHomeScreen_def list_page_elements alert_elements plain_page_def async_cases
      Redirect_to_def map_filter_append map_filter_simps split: option.splits)

lemma cluster_home_links: "links tr d (url_path StorageClustersHome) = map url_path (page_links d StorageClustersHome)"
proof -
  have "elements ''Button'' (StorageClusterEmptyState tr h) =
      [StorageClustersCreateButton tr [Attr ''onClick'' (AHandler h)], learn_more_button tr]" for h
    by (simp add: StorageClusterEmptyState_def StorageClustersCreateButton_def learn_more_button_def)
  then show ?thesis
    by (simp add: links_def path_views StorageClustersHomeScreen_def list_page_elements alert_elements plain_page_def async_cases
        button_targets map_filter_append map_filter_simps split: option.splits)
qed

lemma cluster_create_links: "links tr d (url_path StorageClustersCreate) = map url_path (page_links d StorageClustersCreate)"
  by (simp add: links_def path_views StorageClustersCreateScreen_def list_page_elements alert_elements table_elements
      cancel_button_def StorageClustersCreateButton_def cta_props_def map_filter_simps
      button_target_def disabled_button_def redirect_handler_def opt_attr_def
      split: option.splits)

lemma claims_home_links: "links tr d (url_path FileSystemClaimsHome) = map url_path (page_links d FileSystemClaimsHome)"
  by (auto simp: links_def path_views claims_home_view_def claims_tab_elements FileSystemClaimsHomeScreen_def
      useFileSystemClaimsHomeScreenViewModel_def useFileSystemClaimsCreateButtonViewModel_def list_page_elements
      alert_elements async_cases js_or_None_iff map_filter_append Let_def button_target_def disabled_button_def
      redirect_handler_def split: option.splits)

lemma claims_create_links: "links tr d (url_path FileSystemClaimsCreate) = map url_path (page_links d FileSystemClaimsCreate)"
  by (simp add: links_def path_views claims_create_view_def FileSystemClaimsCreateScreen_def form_buttons
      useFileSystemClaimsCreateScreenViewModel_def cancel_button_def list_page_elements alert_elements
      map_filter_append Let_def button_target_def disabled_button_def Redirect_to_def opt_attr_def
      redirect_handler_def split: option.splits)

lemma links_page: "links tr d (url_path p) = map url_path (page_links d p)"
  by (cases p) (simp_all only: entry_links cluster_home_links cluster_create_links claims_home_links
      claims_create_links page_links.simps, simp_all add: links_def path_views)

subsection \<open>Runs\<close>

lemma cluster_visits: "visited (useStorageClustersCreateUseCase tr (\<lambda>_. answer) False) =
    (case answer of Resolved _ \<Rightarrow> [FileSystemClaimsHome] | _ \<Rightarrow> [])"
  by (simp add: cluster_use_case_eq cluster_creation.visits)

lemma claim_visits: "visited (useFileSystemClaimsCreateUseCase tr (\<lambda>_. answer) False name luns) =
    (case answer of Resolved _ \<Rightarrow> [FileSystemClaimsHome] | _ \<Rightarrow> [])"
  by (simp add: claim_use_case_eq claim_creation.visits)

lemma menu_target:
  "NavigationHref i nm href persp sec before \<in> set (extensions package_name) \<Longrightarrow> href = url_path FusionAccessHome"
  by (simp add: extension_list)

text \<open>A set of pages closed under the events that occur is never left.\<close>

lemma nav_run_stays:
  assumes "nav_run tr s es t" "snd s \<in> A" "list_all P es"
    and "\<And>s e t. nav_step tr s e t \<Longrightarrow> P e \<Longrightarrow> snd s \<in> A \<Longrightarrow> snd t \<in> A"
  shows "snd t \<in> A"
  using assms(1-3) by (induction rule: nav_run.induct) (auto dest: assms(4))

definition leaves_cluster_pages :: "nav_event \<Rightarrow> bool" where
  "leaves_cluster_pages e \<longleftrightarrow> (case e of ClusterSubmitted _ \<Rightarrow> True | MenuClicked \<Rightarrow> True | _ \<Rightarrow> False)"

abbreviation cluster_pages :: "string set" where
  "cluster_pages \<equiv> url_path ` {StorageClustersHome, StorageClustersCreate}"

lemma cluster_pages_closed:
  "nav_step tr s e t \<Longrightarrow> \<not> leaves_cluster_pages e \<Longrightarrow> snd s \<in> cluster_pages \<Longrightarrow> snd t \<in> cluster_pages"
  by (induction rule: nav_step.induct)
    (auto simp: enter_def leaves_cluster_pages_def links_page redirect_pages split: if_splits)

abbreviation served_pages :: "string set" where
  "served_pages \<equiv> url_path ` (- {FileSystemsHome, FileSystemsCreate})"

lemma served_pages_closed: "nav_step tr s e t \<Longrightarrow> snd s \<in> served_pages \<Longrightarrow> snd t \<in> served_pages"
proof (induction rule: nav_step.induct)
  case (followed d url to)
  then obtain p where "url = url_path p" by auto
  with followed show ?case by (cases p) (auto simp: enter_def redirect_pages Let_def split: if_splits)
next
  case (clicked to d url)
  then obtain p where "url = url_path p" by auto
  with clicked show ?case by (cases p) (auto simp: enter_def links_page split: if_splits)
next
  case (menu_clicked i nm href persp sec before d url)
  then have "href = url_path FusionAccessHome" by (blast dest: menu_target)
  then show ?case by (simp add: enter_def)
qed (auto simp: enter_def cluster_visits claim_visits split: promise.splits)

lemma served_page_shown:
  assumes "url \<in> served_pages"
  shows "(\<exists>e file. page_route url = Some e \<and>
       (route_codeRef e, file) \<in> set (plugin_exposedModules (plugin_metadata package_name package_version))) \<and>
     page_views tr d url \<noteq> []"
proof -
  from assms obtain p where p: "url = url_path p" "p \<notin> {FileSystemsHome, FileSystemsCreate}" by auto
  then have "page_module url \<noteq> None" by (cases p) (simp_all add: path_modules)
  then have "\<exists>e file. page_route url = Some e \<and>
       (route_codeRef e, file) \<in> set (plugin_exposedModules (plugin_metadata package_name package_version))"
    by (auto simp: page_module_def bind_eq_Some_conv dest: map_of_SomeD)
  moreover have "page_views tr d url \<noteq> []"
    using p by (cases p) (simp_all add: path_views claims_home_view_def Let_def)
  ultimately show ?thesis by blast
qed

text \<open>The data of a console without a storage cluster, and of one with a cluster that runs.\<close>

definition fresh_console :: "console_data \<Rightarrow> bool" where
  "fresh_console d \<longleftrightarrow> far_isReady (cd_fusionAccess d) \<and> far_loaded (cd_fusionAccess d) \<and>
     far_error (cd_fusionAccess d) = None \<and> scr_loaded (cd_clusters d) \<and> scr_error (cd_clusters d) = None \<and>
     scr_hasNotBeenCreated (cd_clusters d)"

definition cluster_runs :: "console_data \<Rightarrow> bool" where
  "cluster_runs d \<longleftrightarrow> scr_loaded (cd_clusters d) \<and> scr_error (cd_clusters d) = None \<and>
     \<not> scr_hasNotBeenCreated (cd_clusters d) \<and> cd_daemonHealthy d \<and>
     repo_loaded (cd_claims d) \<and> repo_error (cd_claims d) = None"

definition can_press :: "console_data \<Rightarrow> bool" where
  "can_press d \<longleftrightarrow> isDisabled (cta (cd_store d)) \<noteq> Some True"

subsection \<open>Properties\<close>

text \<open>C19: Following redirects from any of the console's paths ends: from the entry page at the cluster page or the
  claims page once everything is loaded, from the page for creating a claim at the cluster page when
  there is no cluster, and from any other page right there. Whatever the URL, a redirect leads to a
  page that does not redirect again, so it is at most one redirect.\<close>

theorem redirects_end:
  "follow tr d (url_path p) = Some (url_path
     (let F = cd_fusionAccess d; C = cd_clusters d in
      if p = FusionAccessHome \<and> far_loaded F \<and> scr_loaded C \<and> far_isReady F \<and> far_error F = None \<and> scr_error C = None
      then (if scr_hasNotBeenCreated C then StorageClustersHome else FileSystemClaimsHome)
      else if p = FileSystemClaimsCreate \<and> scr_hasNotBeenCreated C then StorageClustersHome
      else p)) \<and>
   Option.bind (follow tr d (url_path p)) (redirect_of tr d) = None \<and>
   Option.bind (redirect_of tr d url) (redirect_of tr d) = None"
proof -
  have stop: "follow tr d q = Some q" if "redirect_of tr d q = None" for q
    using that by (simp add: follow.simps)
  have once: "Option.bind (redirect_of tr d (url_path q)) (redirect_of tr d) = None" for q
    by (cases q) (simp_all add: redirect_pages Let_def)
  have "follow tr d (url_path p) =
      (case redirect_of tr d (url_path p) of None \<Rightarrow> Some (url_path p) | Some to \<Rightarrow> Some to)"
    using once [of p] by (subst follow.simps) (auto simp: stop split: option.splits)
  moreover obtain q where "redirect_of tr d url = redirect_of tr d (url_path q)"
    using every_page_a_path redirect_of_cong by blast
  ultimately show ?thesis using once [of q]
    by (cases p) (simp_all add: redirect_pages useFusionAccessHomeScreenViewModel_def js_or_None_iff Let_def)
qed

text \<open>C18: From the entry page to the first claim: on a console without a cluster the redirect, the create button,
  an accepted request for a cluster, the claims page's button once the watches show that the cluster
  runs, and an accepted request for a claim lead back to the claims page.\<close>

theorem first_claim_journey:
  assumes "fresh_console d0" "can_press d1" "cluster_runs d2" "cluster_runs d3" "can_press d3"
  shows "nav_run tr (d0, url_path FusionAccessHome)
     [Followed, Clicked (url_path StorageClustersCreate), DataChanged d1, ClusterSubmitted (Resolved c),
      DataChanged d2, Clicked (url_path FileSystemClaimsCreate), DataChanged d3, ClaimSubmitted name luns (Resolved f)]
     (d3\<lparr>cd_store := initialState tr\<rparr>, url_path FileSystemClaimsHome)"
proof -
  let ?r = "\<lambda>d. d\<lparr>cd_store := initialState tr\<rparr>"
  have "nav_step tr (d0, url_path FusionAccessHome) Followed (?r d0, url_path StorageClustersHome)"
    using assms(1) nav_step.followed [of tr d0 "url_path FusionAccessHome" "url_path StorageClustersHome"]
    by (simp add: enter_def redirect_pages fresh_console_def useFusionAccessHomeScreenViewModel_def js_or_None_iff)
  moreover have "nav_step tr (?r d0, url_path StorageClustersHome) (Clicked (url_path StorageClustersCreate)) (?r d0, url_path StorageClustersCreate)"
    using assms(1) nav_step.clicked [of "url_path StorageClustersCreate" tr "?r d0" "url_path StorageClustersHome"]
    by (simp add: enter_def links_page fresh_console_def)
  moreover have "nav_step tr (?r d0, url_path StorageClustersCreate) (DataChanged d1) (d1, url_path StorageClustersCreate)"
    by (rule nav_step.data_changed)
  moreover have "nav_step tr (d1, url_path StorageClustersCreate) (ClusterSubmitted (Resolved c)) (?r d1, url_path FileSystemClaimsHome)"
    using assms(2) nav_step.cluster_submitted [of d1 FileSystemClaimsHome tr "Resolved c"]
    by (simp add: enter_def can_press_def cluster_visits)
  moreover have "nav_step tr (?r d1, url_path FileSystemClaimsHome) (DataChanged d2) (d2, url_path FileSystemClaimsHome)"
    by (rule nav_step.data_changed)
  moreover have "nav_step tr (d2, url_path FileSystemClaimsHome) (Clicked (url_path FileSystemClaimsCreate)) (?r d2, url_path FileSystemClaimsCreate)"
    using assms(3) nav_step.clicked [of "url_path FileSystemClaimsCreate" tr d2 "url_path FileSystemClaimsHome"]
    by (simp add: enter_def links_page cluster_runs_def)
  moreover have "nav_step tr (?r d2, url_path FileSystemClaimsCreate) (DataChanged d3) (d3, url_path FileSystemClaimsCreate)"
    by (rule nav_step.data_changed)
  moreover have "nav_step tr (d3, url_path FileSystemClaimsCreate) (ClaimSubmitted name luns (Resolved f)) (?r d3, url_path FileSystemClaimsHome)"
    using assms(4,5) nav_step.claim_submitted [of tr d3 FileSystemClaimsHome "Resolved f" name luns]
    by (simp add: enter_def can_press_def cluster_runs_def claim_visits redirect_pages)
  ultimately show ?thesis by (blast intro: nav_run.intros)
qed

definition example_console :: "bool \<Rightarrow> bool \<Rightarrow> console_data" where
  "example_console created pressable =
     \<lparr>cd_fusionAccess = \<lparr>far_loaded = True, far_error = None, far_fusionAccess = Some ready_fusion_access, far_isReady = True\<rparr>,
      cd_clusters = example_clusters\<lparr>scr_loaded := True, scr_error := None, scr_hasNotBeenCreated := \<not> created\<rparr>,
      cd_claims = \<lparr>repo_loaded = True, repo_error = None, repo_items = []\<rparr>,
      cd_daemonHealthy = True,
      cd_store = (initialState (\<lambda>k _. k))\<lparr>cta := \<lparr>isDisabled = Some (\<not> pressable), isLoading = Some False\<rparr>\<rparr>,
      cd_nodesTable = \<lparr>nt_columns = [], nt_loaded = True, nt_error = None, nt_workerNodes = [], nt_selectedNodes = [],
        nt_sharedDisksCount = 0, nt_sharedDisksCountMessage = []\<rparr>,
      cd_createForm = \<lparr>cf_fileSystemName = [], cf_errorMessage = None, cf_luns_loaded = True, cf_luns = []\<rparr>\<rparr>"

lemma example_console_states:
  "fresh_console (example_console False b)" "can_press (example_console c True)" "cluster_runs (example_console True b)"
  by (simp_all add: example_console_def fresh_console_def can_press_def cluster_runs_def)

theorem first_claim_journey_witness:
  "\<exists>d. nav_run (\<lambda>k _. k) (example_console False False, url_path FusionAccessHome)
     [Followed, Clicked (url_path StorageClustersCreate), DataChanged (example_console False True),
      ClusterSubmitted (Resolved storage_cluster_request), DataChanged (example_console True False),
      Clicked (url_path FileSystemClaimsCreate), DataChanged (example_console True True),
      ClaimSubmitted ''fs'' [] (Resolved example_claim)] (d, url_path FileSystemClaimsHome)"
  using first_claim_journey [OF example_console_states(1,2,3,3,2)] by blast

text \<open>C37: The cluster pages do not lead on: from the cluster page, without an accepted request for a cluster and
  without the console's menu, no redirect and no button leads anywhere but to the page for creating a
  cluster and back, whatever the watches deliver, an existing cluster included.\<close>

theorem cluster_pages_lead_back:
  assumes "nav_run tr (d, url_path StorageClustersHome) es (d', url)" "list_all (\<lambda>e. \<not> leaves_cluster_pages e) es"
  shows "url \<in> {url_path StorageClustersHome, url_path StorageClustersCreate}"
  using nav_run_stays [OF assms(1) _ assms(2), of cluster_pages] cluster_pages_closed by fastforce

theorem cluster_pages_lead_back_witness:
  "\<exists>es. nav_run (\<lambda>k _. k) (example_console True False, url_path StorageClustersHome) es
       ((example_console True False)\<lparr>cd_store := initialState (\<lambda>k _. k)\<rparr>, url_path StorageClustersCreate) \<and>
     url_path StorageClustersCreate \<in> {url_path StorageClustersHome, url_path StorageClustersCreate}"
proof -
  have run: "nav_run (\<lambda>k _. k) (example_console True False, url_path StorageClustersHome)
      [Clicked (url_path StorageClustersCreate)]
      ((example_console True False)\<lparr>cd_store := initialState (\<lambda>k _. k)\<rparr>, url_path StorageClustersCreate)"
    using nav_step.clicked [of "url_path StorageClustersCreate" "\<lambda>k _. k" "example_console True False"
        "url_path StorageClustersHome"]
    by (auto intro!: nav_run.intros simp: links_page enter_def example_console_def)
  from cluster_pages_lead_back [OF run] run show ?thesis by (auto simp: leaves_cluster_pages_def)
qed

text \<open>C36: Wherever the administrator starts, once the console's menu entry is clicked every URL that the menu entry,
  redirects, buttons and the creating flows lead to is served by a page route of the plugin whose code
  reference is one of its exposed modules, and that module's screen is shown.\<close>

theorem reached_pages_served:
  assumes "nav_run tr (d, start) (MenuClicked # es) (d', url)"
  shows "(\<exists>e file. page_route url = Some e \<and>
       (route_codeRef e, file) \<in> set (plugin_exposedModules (plugin_metadata package_name package_version))) \<and>
     page_views tr d' url \<noteq> []"
proof -
  from assms obtain s where run: "nav_step tr (d, start) MenuClicked s" "nav_run tr s es (d', url)"
    by (auto elim: nav_goE)
  from run(1) have "snd s = url_path FusionAccessHome"
    by (auto simp: enter_def elim!: menu_clickedE dest: menu_target)
  then have "snd (d', url) \<in> served_pages"
    using nav_run_stays [OF run(2), of served_pages "\<lambda>_. True"] served_pages_closed by (auto simp: list_all_iff)
  then show ?thesis using served_page_shown by simp
qed

lemma example_redirected:
  "nav_run (\<lambda>k _. k) (example_console True False, ''/k8s/cluster/projects'') [MenuClicked, Followed]
     ((example_console True False)\<lparr>cd_store := initialState (\<lambda>k _. k)\<rparr>, url_path FileSystemClaimsHome)"
proof -
  let ?d = "(example_console True False)\<lparr>cd_store := initialState (\<lambda>k _. k)\<rparr>"
  have "nav_step (\<lambda>k _. k) (example_console True False, ''/k8s/cluster/projects'') MenuClicked
      (enter (\<lambda>k _. k) (example_console True False) (url_path FusionAccessHome))"
    by (rule nav_step.menu_clicked) (auto simp: extension_list)
  moreover have "redirect_of (\<lambda>k _. k) ?d (url_path FusionAccessHome) = Some (url_path FileSystemClaimsHome)"
    by (simp add: redirect_pages example_console_def useFusionAccessHomeScreenViewModel_def js_or_None_iff)
  then have "nav_step (\<lambda>k _. k) (?d, url_path FusionAccessHome) Followed (?d, url_path FileSystemClaimsHome)"
    using nav_step.followed [of "\<lambda>k _. k" ?d "url_path FusionAccessHome"] by (simp add: enter_def)
  ultimately show ?thesis by (auto simp: enter_def intro: nav_run.intros)
qed

theorem reached_pages_served_witness:
  "page_views (\<lambda>k _. k) ((example_console True False)\<lparr>cd_store := initialState (\<lambda>k _. k)\<rparr>)
     (url_path FileSystemClaimsHome) \<noteq> []"
  using reached_pages_served [OF example_redirected] by blast

end
