(* ===== verification/Render_Loop.thy ===== *)
theory Render_Loop
  imports Cluster_Page Claim_Page
begin

section \<open>Identity of values and rendering again\<close>

text \<open>
  React compares dependencies and states by identity. \<open>useNormalizedK8sWatchResource\<close> runs
  \<open>normalizeResult\<close> at every render and the repositories put \<open>result.data ?? []\<close> around it, so an error
  made there and the array that stands for missing data are new objects at every render, while what
  the SDK gives stays the same object until the watch changes. Here a value that effects depend on is a
  reference, a dispatch or a \<open>setState\<close> that leaves a new state behind asks for another render, and a page
  renders until its effects leave the state alone. The question is when it settles, with the
  watches at rest. \<open>dispatch\<close> and \<open>t\<close> are the same at every render.
\<close>

subsection \<open>References\<close>

datatype reference = Given nat | Made nat

text \<open>An object the SDK gave, with its version, or one made in the render with that number.\<close>

record 'r watched =
  wt_result :: "'r list WatchK8sResult"
  wt_version :: nat

definition watched_repository :: "'r watched \<Rightarrow> 'r repository" where
  "watched_repository w = list_repository (normalizeResult (wt_result w))"

definition data_ref :: "nat \<Rightarrow> 'r watched \<Rightarrow> reference" where
  "data_ref n w = (case nw_data (normalizeResult (wt_result w)) of Some _ \<Rightarrow> Given (wt_version w) | None \<Rightarrow> Made n)"

definition error_ref :: "nat \<Rightarrow> 'r watched \<Rightarrow> reference option" where
  "error_ref n w =
     (case nw_error (normalizeResult (wt_result w)) of
        None \<Rightarrow> None
      | Some _ \<Rightarrow> (case snd (snd (wt_result w)) of WatchError _ \<Rightarrow> Some (Given (wt_version w)) | _ \<Rightarrow> Some (Made n)))"

text \<open>Missing data and errors that are not \<open>Error\<close> objects are made at every render.\<close>

definition data_missing :: "'r watched \<Rightarrow> bool" where
  "data_missing w \<longleftrightarrow> nw_data (normalizeResult (wt_result w)) = None"

definition error_made :: "'r watched \<Rightarrow> bool" where
  "error_made w \<longleftrightarrow> nw_error (normalizeResult (wt_result w)) \<noteq> None \<and> (\<forall>e. snd (snd (wt_result w)) \<noteq> WatchError e)"

fun older :: "nat \<Rightarrow> reference \<Rightarrow> bool" where
  "older n (Given v) = True"
| "older n (Made m) = (m < n)"

subsection \<open>Dispatching and rendering\<close>

text \<open>
  Whether the reducer leaves another state object behind: Immer keeps the old one when nothing was
  assigned a different value; \<open>cta\<close> and the alerts are assigned new objects.
\<close>

fun changes_store :: "State \<Rightarrow> Actions \<Rightarrow> bool" where
  "changes_store s (UpdateDocTitle title) = (title \<noteq> docTitle s)"
| "changes_store s (AddAlert a) = True"
| "changes_store s DismissAlert = (alerts s \<noteq> [])"
| "changes_store s (UpdateCta c) = True"
| "changes_store s (OtherAction ty) = False"

fun store_changed :: "State \<Rightarrow> Actions list \<Rightarrow> bool" where
  "store_changed s [] = False"
| "store_changed s (a # as) = (changes_store s a \<or> store_changed (reduce_or_keep s a) as)"

text \<open>A pass is a render with its effects; it says whether they ask for another render.\<close>

partial_function (option) settle :: "('s \<Rightarrow> 's \<times> bool) \<Rightarrow> 's \<Rightarrow> 's option" where
  "settle pass s = (case pass s of (s', again) \<Rightarrow> if again then settle pass s' else Some s')"

text \<open>
  The contract of a page at rest: whether it is restless depends on what the watches give alone; a
  restless page asks for another render in every pass, any other has nothing left to do in the second,
  which leaves what is seen of the state as it was.
\<close>

locale rendering =
  fixes pass :: "'s \<Rightarrow> 's \<times> bool" and inv :: "'s \<Rightarrow> bool" and restless :: bool and seen :: "'s \<Rightarrow> 'v"
  assumes inv_pass: "inv s \<Longrightarrow> inv (fst (pass s))"
    and again: "inv s \<Longrightarrow> restless \<Longrightarrow> snd (pass s)"
    and rest: "inv s \<Longrightarrow> \<not> restless \<Longrightarrow> \<not> snd (pass (fst (pass s)))"
    and rest_seen: "inv s \<Longrightarrow> \<not> restless \<Longrightarrow> seen (fst (pass (fst (pass s)))) = seen (fst (pass s))"
begin

lemma restless_never:
  assumes "restless" "inv s"
  shows "settle pass s = None"
proof -
  have "\<not> inv s" if "settle pass s = Some y" for s y
    by (rule settle.raw_induct [where P = "\<lambda>f s y. f = pass \<longrightarrow> \<not> inv s", OF _ that, simplified])
      (use assms(1) inv_pass again in \<open>fastforce split: prod.splits if_splits\<close>)
  with assms(2) show ?thesis by (cases "settle pass s") auto
qed

lemma calm_settles:
  assumes "\<not> restless" "inv s"
  shows "map_option seen (settle pass s) = Some (seen (fst (pass s)))"
proof -
  have "settle pass (fst (pass s)) = Some (fst (pass (fst (pass s))))"
    using rest [OF assms(2,1)] by (subst settle.simps) (simp add: case_prod_beta)
  then show ?thesis using rest_seen [OF assms(2,1)] by (subst settle.simps) (simp add: case_prod_beta)
qed

lemma settles_in:
  "inv s \<Longrightarrow> map_option seen (settle pass s) = (if restless then None else Some (seen (fst (pass s))))"
  using restless_never calm_settles by simp

end

lemma ref_facts:
  "older n (data_ref n w) = (\<not> data_missing w)"
  "older (Suc n) (data_ref n w)"
  "error_ref n w = (if error_made w then Some (Made n)
     else if nw_error (normalizeResult (wt_result w)) = None then None else Some (Given (wt_version w)))"
  by (auto simp: data_ref_def data_missing_def error_ref_def error_made_def split: option.splits watch_error.splits)

subsection \<open>The LUNs hook\<close>

text \<open>
  \<open>useLunsUseCase\<close> at rest: its state, the store it dispatches to, the memoised result of
  \<open>useStorageNodesLvdrs\<close> with its dependencies, and the dependencies its three effects last ran with.
\<close>

record luns_watches =
  lw_disks :: "LocalDisk watched"
  lw_lvdrs :: "lvdr watched"
  lw_nodes :: "Node watched"

type_synonym luns_deps = "reference option \<times> reference option \<times> reference \<times> bool \<times> reference \<times> bool"

record luns_hook =
  lh_renders :: nat
  lh_luns :: "Lun list"
  lh_store :: State
  lh_memo :: "((reference \<times> reference) \<times> reference) option"
  lh_deps :: "luns_deps option"

definition luns_snl :: "luns_watches \<Rightarrow> storage_nodes_lvdrs" where
  "luns_snl W = useStorageNodesLvdrs (watched_repository (lw_lvdrs W)) (watched_repository (lw_nodes W))"

text \<open>\<open>useMemo\<close>: the old result while the dependencies are the same.\<close>

definition memo_ref :: "nat \<Rightarrow> 'd \<Rightarrow> ('d \<times> reference) option \<Rightarrow> reference" where
  "memo_ref n deps memo = (case memo of Some (d, r) \<Rightarrow> if d = deps then r else Made n | None \<Rightarrow> Made n)"

definition snl_deps :: "luns_watches \<Rightarrow> nat \<Rightarrow> reference \<times> reference" where
  "snl_deps W n = (data_ref n (lw_lvdrs W), data_ref n (lw_nodes W))"

definition luns_deps_of :: "luns_watches \<Rightarrow> luns_hook \<Rightarrow> luns_deps" where
  "luns_deps_of W h =
     (let n = lh_renders h in
      (error_ref n (lw_disks W), js_or (error_ref n (lw_lvdrs W)) (error_ref n (lw_nodes W)),
       data_ref n (lw_disks W), repo_loaded (watched_repository (lw_disks W)),
       memo_ref n (snl_deps W n) (lh_memo h), snl_loaded (luns_snl W)))"

text \<open>
  A pass: the error effects run when their error is another object, the third one when one of its
  dependencies is; that one sets the LUNs, a new array each time, when everything has loaded.
\<close>

definition luns_pass ::
  "translator \<Rightarrow> unit_converter \<Rightarrow> (js_number \<Rightarrow> string) \<Rightarrow> luns_watches \<Rightarrow> luns_hook \<Rightarrow> luns_hook \<times> bool" where
  "luns_pass tr g t W h =
     (let n = lh_renders h; disks = watched_repository (lw_disks W); nodes = luns_snl W;
          (e1, e2, e3) = luns_deps_of W h;
          acts = (if map_option fst (lh_deps h) = Some e1 then [] else local_disks_error_effect tr (repo_error disks)) @
                 (if map_option (\<lambda>d. fst (snd d)) (lh_deps h) = Some e2 then [] else lvdrs_error_effect tr (snl_error nodes));
          sets = (map_option (\<lambda>d. snd (snd d)) (lh_deps h) \<noteq> Some e3 \<and> repo_loaded disks \<and> snl_loaded nodes)
      in (\<lparr>lh_renders = Suc n,
           lh_luns = (if sets then luns_effect g t disks nodes (lh_luns h) else lh_luns h),
           lh_store = foldl reduce_or_keep (lh_store h) acts,
           lh_memo = Some (snl_deps W n, memo_ref n (snl_deps W n) (lh_memo h)),
           lh_deps = Some (e1, e2, e3)\<rparr>,
          store_changed (lh_store h) acts \<or> sets))"

definition luns_mounted :: "State \<Rightarrow> luns_hook" where
  "luns_mounted s = \<lparr>lh_renders = 0, lh_luns = [], lh_store = s, lh_memo = None, lh_deps = None\<rparr>"

text \<open>What keeps the hook from settling.\<close>

definition luns_restless :: "luns_watches \<Rightarrow> bool" where
  "luns_restless W \<longleftrightarrow>
     error_made (lw_disks W) \<or> error_made (lw_lvdrs W) \<or>
     (nw_error (normalizeResult (wt_result (lw_lvdrs W))) = None \<and> error_made (lw_nodes W)) \<or>
     (repo_loaded (watched_repository (lw_disks W)) \<and> snl_loaded (luns_snl W) \<and>
      (data_missing (lw_disks W) \<or> data_missing (lw_lvdrs W) \<or> data_missing (lw_nodes W)))"

text \<open>Every reference the hook has kept was made in an earlier render.\<close>

definition luns_inv :: "luns_hook \<Rightarrow> bool" where
  "luns_inv h \<longleftrightarrow>
     (\<forall>(d, r) \<in> set_option (lh_memo h). older (lh_renders h) (fst d) \<and> older (lh_renders h) (snd d) \<and> older (lh_renders h) r) \<and>
     (\<forall>(e1, e2, r1, b1, r2, b2) \<in> set_option (lh_deps h).
        list_all (older (lh_renders h)) (List.map_filter (\<lambda>x. x) [e1, e2] @ [r1, r2]))"

lemma older_Suc: "older n r \<Longrightarrow> older (Suc n) r"
  by (cases r) simp_all

lemma error_ref_older: "error_ref n w = Some r \<Longrightarrow> older (Suc n) r"
  by (auto simp: ref_facts split: if_splits)

lemma error_ref_made: "error_made w \<Longrightarrow> error_ref n w = Some (Made n)"
  by (simp add: ref_facts)

lemma error_ref_kept: "\<not> error_made w \<Longrightarrow> error_ref n w = error_ref m w"
  by (simp add: ref_facts)

lemma data_ref_missing: "data_missing w \<Longrightarrow> data_ref n w = Made n"
  by (simp add: data_ref_def data_missing_def)

lemma data_ref_kept: "\<not> data_missing w \<Longrightarrow> data_ref n w = data_ref m w"
  by (auto simp: data_ref_def data_missing_def split: option.splits)

lemma memo_ref_older:
  assumes "luns_inv h"
  shows "older (Suc (lh_renders h)) (memo_ref (lh_renders h) d (lh_memo h))"
  using assms older_Suc by (fastforce simp: memo_ref_def luns_inv_def split: option.splits)

lemmas luns_pass_unfold = luns_pass_def luns_deps_of_def Let_def

lemma luns_inv_pass:
  assumes "luns_inv h"
  shows "luns_inv (fst (luns_pass tr g t W h))"
proof -
  have "older (Suc (lh_renders h)) r"
    if "js_or (error_ref (lh_renders h) v) (error_ref (lh_renders h) w) = Some r" for v w r
    using that error_ref_older [of _ v] error_ref_older [of _ w] by (cases "error_ref (lh_renders h) v") auto
  then show ?thesis
    using memo_ref_older [OF assms] error_ref_older [of _ "lw_disks W"]
    by (auto simp: luns_inv_def luns_pass_unfold snl_deps_def ref_facts(2) split: option.splits)
qed

text \<open>A made error gives another dependency in every pass, and its effect adds an alert.\<close>

lemma add_error_changes: "store_changed s (as @ AddAlert a # bs)"
  by (induction as arbitrary: s) simp_all

lemma made_is_new:
  assumes "luns_inv h"
  shows "map_option fst (lh_deps h) \<noteq> Some (Some (Made (lh_renders h)))"
    "map_option (\<lambda>d. fst (snd d)) (lh_deps h) \<noteq> Some (Some (Made (lh_renders h)))"
    "map_option (\<lambda>d. snd (snd d)) (lh_deps h) \<noteq> Some (Made (lh_renders h), b1, r2, b2)"
    "map_option (\<lambda>d. snd (snd d)) (lh_deps h) \<noteq> Some (r1, b1, Made (lh_renders h), b2)"
  using assms by (cases "lh_deps h"; auto simp: luns_inv_def split: option.splits)+

lemma memo_ref_new:
  assumes "luns_inv h" "\<not> older (lh_renders h) (fst d) \<or> \<not> older (lh_renders h) (snd d)"
  shows "memo_ref (lh_renders h) d (lh_memo h) = Made (lh_renders h)"
  using assms by (auto simp: memo_ref_def luns_inv_def split: option.splits)

lemma memo_ref_same [simp]: "memo_ref n d (Some (d, r)) = r"
  by (simp add: memo_ref_def)

lemma snl_error_made:
  assumes "error_made (lw_lvdrs W) \<or> nw_error (normalizeResult (wt_result (lw_lvdrs W))) = None \<and> error_made (lw_nodes W)"
  shows "js_or (error_ref n (lw_lvdrs W)) (error_ref n (lw_nodes W)) = Some (Made n)"
    "\<exists>e. snl_error (luns_snl W) = Some e"
  using assms
  by (auto simp: ref_facts error_made_def luns_snl_def useStorageNodesLvdrs_def watched_repository_def list_repository_def)

lemma luns_again:
  assumes inv: "luns_inv h" and "luns_restless W"
  shows "snd (luns_pass tr g t W h)"
proof -
  let ?n = "lh_renders h"
  note new = made_is_new [OF inv]
  consider (disks) "error_made (lw_disks W)"
    | (nodes) "error_made (lw_lvdrs W) \<or> nw_error (normalizeResult (wt_result (lw_lvdrs W))) = None \<and> error_made (lw_nodes W)"
    | (loaded) "repo_loaded (watched_repository (lw_disks W))" "snl_loaded (luns_snl W)"
      "data_missing (lw_disks W) \<or> data_missing (lw_lvdrs W) \<or> data_missing (lw_nodes W)"
    using assms(2) unfolding luns_restless_def by blast
  then show ?thesis
  proof cases
    case disks
    then obtain e where "repo_error (watched_repository (lw_disks W)) = Some e"
      by (auto simp: error_made_def watched_repository_def list_repository_def)
    then show ?thesis
      using disks new(1) by (auto simp: luns_pass_unfold error_ref_made local_disks_error_effect_def)
  next
    case nodes
    then obtain e where "snl_error (luns_snl W) = Some e" using snl_error_made(2) by blast
    then show ?thesis
      using snl_error_made(1) [OF nodes] new(2)
      by (simp add: luns_pass_unfold lvdrs_error_effect_def add_error_changes)
  next
    case loaded
    have "data_ref ?n (lw_disks W) = Made ?n \<or> memo_ref ?n (snl_deps W ?n) (lh_memo h) = Made ?n" (is ?refs)
      using loaded(3)
    proof (elim disjE)
      show "data_missing (lw_disks W) \<Longrightarrow> ?refs" by (simp add: data_ref_missing)
    qed (rule disjI2, rule memo_ref_new [OF inv], simp add: snl_deps_def data_ref_missing)+
    then show ?thesis using loaded(1,2) new(3,4) by (elim disjE) (simp_all add: luns_pass_unfold)
  qed
qed

text \<open>Without them the dependencies of the second pass are those of the first, where they matter.\<close>

lemma luns_deps_kept:
  assumes "\<not> luns_restless W"
  shows "error_ref (Suc (lh_renders h)) (lw_disks W) = error_ref (lh_renders h) (lw_disks W)"
    "js_or (error_ref (Suc (lh_renders h)) (lw_lvdrs W)) (error_ref (Suc (lh_renders h)) (lw_nodes W)) =
      js_or (error_ref (lh_renders h) (lw_lvdrs W)) (error_ref (lh_renders h) (lw_nodes W))"
    "repo_loaded (watched_repository (lw_disks W)) \<Longrightarrow> snl_loaded (luns_snl W) \<Longrightarrow>
      data_ref (Suc (lh_renders h)) (lw_disks W) = data_ref (lh_renders h) (lw_disks W) \<and>
      snl_deps W (Suc (lh_renders h)) = snl_deps W (lh_renders h)"
proof -
  show "error_ref (Suc (lh_renders h)) (lw_disks W) = error_ref (lh_renders h) (lw_disks W)"
    using assms error_ref_kept by (auto simp: luns_restless_def)
  show "js_or (error_ref (Suc (lh_renders h)) (lw_lvdrs W)) (error_ref (Suc (lh_renders h)) (lw_nodes W)) =
      js_or (error_ref (lh_renders h) (lw_lvdrs W)) (error_ref (lh_renders h) (lw_nodes W))"
    using assms by (auto simp: luns_restless_def ref_facts js_or_def split: option.splits)
  show "repo_loaded (watched_repository (lw_disks W)) \<Longrightarrow> snl_loaded (luns_snl W) \<Longrightarrow>
      data_ref (Suc (lh_renders h)) (lw_disks W) = data_ref (lh_renders h) (lw_disks W) \<and>
      snl_deps W (Suc (lh_renders h)) = snl_deps W (lh_renders h)"
    using assms data_ref_kept [of "lw_disks W"] data_ref_kept [of "lw_lvdrs W"] data_ref_kept [of "lw_nodes W"]
    by (auto simp: luns_restless_def snl_deps_def)
qed

lemma luns_rest: "\<not> luns_restless W \<Longrightarrow> \<not> snd (luns_pass tr g t W (fst (luns_pass tr g t W h)))"
  using luns_deps_kept [of W h] by (auto simp: luns_pass_unfold)

lemma luns_rest_seen:
  assumes "\<not> luns_restless W"
  shows "lh_luns (fst (luns_pass tr g t W (fst (luns_pass tr g t W h)))) = lh_luns (fst (luns_pass tr g t W h))"
    "lh_store (fst (luns_pass tr g t W (fst (luns_pass tr g t W h)))) = lh_store (fst (luns_pass tr g t W h))"
  using luns_deps_kept [OF assms, of h] by (auto simp: luns_pass_unfold)

interpretation luns_loop: rendering "luns_pass tr g t W" luns_inv "luns_restless W" "\<lambda>h. (lh_luns h, lh_store h)" for tr g t W
  by unfold_locales (simp_all add: luns_inv_pass luns_again luns_rest luns_rest_seen)

lemma luns_inv_mounted: "luns_inv (luns_mounted s)"
  by (simp add: luns_inv_def luns_mounted_def)

subsection \<open>The page that creates a cluster\<close>

text \<open>The table's effects as \<open>Cluster_Page\<close> runs them, the two about errors told by identity what is new.\<close>

record cluster_watches =
  cw_lvdrs :: "lvdr watched"
  cw_nodes :: "Node watched"

record cluster_render =
  cr_renders :: nat
  cr_page :: cluster_page
  cr_errors :: "(reference option \<times> reference option) option"

definition page_acts :: "translator \<Rightarrow> bool \<Rightarrow> bool \<Rightarrow> cluster_page \<Rightarrow> Actions list" where
  "page_acts tr newLvdrsError newNodesError p =
     (let (loaded, n, s) = page_deps p in
      (if newLvdrsError then table_lvdrs_error_effect tr (repo_error (cp_lvdrs p)) else []) @
      (if newNodesError then table_nodes_error_effect tr (repo_error (cp_nodes p)) else []) @
      (if cp_deps p = Some (loaded, n, s) then []
       else useValidateMinimumRequirements tr loaded n s (alerts (cp_store p))))"

definition cluster_pass :: "translator \<Rightarrow> cluster_watches \<Rightarrow> cluster_render \<Rightarrow> cluster_render \<times> bool" where
  "cluster_pass tr W h =
     (let n = cr_renders h;
          e1 = error_ref n (cw_lvdrs W); e2 = error_ref n (cw_nodes W);
          new1 = (map_option fst (cr_errors h) \<noteq> Some e1); new2 = (map_option snd (cr_errors h) \<noteq> Some e2);
          p = (cr_page h)\<lparr>cp_nodes := watched_repository (cw_nodes W), cp_lvdrs := watched_repository (cw_lvdrs W)\<rparr>
      in (\<lparr>cr_renders = Suc n, cr_page = page_effects tr new1 new2 p, cr_errors = Some (e1, e2)\<rparr>,
          store_changed (cp_store p) (page_acts tr new1 new2 p)))"

definition cluster_mounted :: "translator \<Rightarrow> bool \<Rightarrow> cluster_render" where
  "cluster_mounted tr inFlight =
     \<lparr>cr_renders = 0,
      cr_page = \<lparr>cp_store = initialState tr, cp_nodes = \<lparr>repo_loaded = False, repo_error = None, repo_items = []\<rparr>,
        cp_lvdrs = \<lparr>repo_loaded = False, repo_error = None, repo_items = []\<rparr>, cp_deps = None, cp_inFlight = inFlight,
        cp_pending = 0, cp_validated = None, cp_sent = [], cp_visited = []\<rparr>,
      cr_errors = None\<rparr>"

definition cluster_restless :: "cluster_watches \<Rightarrow> bool" where
  "cluster_restless W \<longleftrightarrow> error_made (cw_lvdrs W) \<or> error_made (cw_nodes W)"

definition cluster_inv :: "cluster_render \<Rightarrow> bool" where
  "cluster_inv h \<longleftrightarrow>
     (\<forall>(e1, e2) \<in> set_option (cr_errors h). list_all (older (cr_renders h)) (List.map_filter (\<lambda>x. x) [e1, e2]))"

text \<open>The actions are those the effects of the page dispatch.\<close>

lemma page_effects_acts:
  "page_effects tr a b p =
     (page_dispatch (page_acts tr a b p) p)
       \<lparr>cp_deps := Some (page_deps p),
        cp_validated := (if page_loaded p then Some (repo_items (cp_nodes p), repo_items (cp_lvdrs p)) else cp_validated p)\<rparr>"
  by (simp add: page_effects_def page_acts_def page_deps_def Let_def split_beta)

lemmas cluster_pass_unfold = cluster_pass_def page_effects_acts page_dispatch_def Let_def

lemma cluster_inv_pass: "cluster_inv (fst (cluster_pass tr W h))"
  using error_ref_older [of _ "cw_lvdrs W"] error_ref_older [of _ "cw_nodes W"]
  by (auto simp: cluster_inv_def cluster_pass_unfold split: option.splits)

lemma cluster_again:
  assumes "cluster_inv h" "cluster_restless W"
  shows "snd (cluster_pass tr W h)"
proof -
  have new: "map_option fst (cr_errors h) \<noteq> Some (Some (Made (cr_renders h)))"
    "map_option snd (cr_errors h) \<noteq> Some (Some (Made (cr_renders h)))"
    using assms(1) by (cases "cr_errors h"; auto simp: cluster_inv_def split: option.splits)+
  from assms(2) consider "error_made (cw_lvdrs W)" | "error_made (cw_nodes W)"
    by (auto simp: cluster_restless_def)
  then show ?thesis
  proof cases
    case 1
    then obtain e where "repo_error (watched_repository (cw_lvdrs W)) = Some e"
      by (auto simp: error_made_def watched_repository_def list_repository_def)
    with 1 new(1) show ?thesis
      by (simp add: cluster_pass_def page_acts_def Let_def split_beta error_ref_made table_lvdrs_error_effect_def)
  next
    case 2
    then obtain e where "repo_error (watched_repository (cw_nodes W)) = Some e"
      by (auto simp: error_made_def watched_repository_def list_repository_def)
    with 2 new(2) show ?thesis
      by (simp add: cluster_pass_def page_acts_def Let_def split_beta error_ref_made table_nodes_error_effect_def
          add_error_changes)
  qed
qed

lemma cluster_second:
  assumes "\<not> cluster_restless W"
  shows "\<not> snd (cluster_pass tr W (fst (cluster_pass tr W h)))"
    "cr_page (fst (cluster_pass tr W (fst (cluster_pass tr W h)))) = cr_page (fst (cluster_pass tr W h))"
proof -
  let ?h = "fst (cluster_pass tr W h)"
  let ?p = "cr_page ?h"
  have fields: "cr_renders ?h = Suc (cr_renders h)"
    "cr_errors ?h = Some (error_ref (Suc (cr_renders h)) (cw_lvdrs W), error_ref (Suc (cr_renders h)) (cw_nodes W))"
    "cp_nodes ?p = watched_repository (cw_nodes W)" "cp_lvdrs ?p = watched_repository (cw_lvdrs W)"
    "cp_deps ?p = Some (page_deps ?p)"
    "page_loaded ?p \<Longrightarrow> cp_validated ?p = Some (repo_items (cp_nodes ?p), repo_items (cp_lvdrs ?p))"
    using assms error_ref_kept [of "cw_lvdrs W"] error_ref_kept [of "cw_nodes W"]
    by (simp_all add: cluster_pass_unfold cluster_restless_def page_deps_def page_loaded_def)
  have same: "?p\<lparr>cp_nodes := watched_repository (cw_nodes W), cp_lvdrs := watched_repository (cw_lvdrs W)\<rparr> = ?p"
    using fields(3,4) by simp
  have acts: "page_acts tr False False ?p = []"
    using fields(5) by (simp add: page_acts_def split_beta)
  show "\<not> snd (cluster_pass tr W ?h)"
    unfolding cluster_pass_def [of tr W ?h] Let_def same using fields(1,2) acts by simp
  show "cr_page (fst (cluster_pass tr W ?h)) = ?p"
    unfolding cluster_pass_def [of tr W ?h] Let_def same using fields(1,2,5,6) acts
    by (simp add: page_effects_acts page_dispatch_def)
qed

interpretation cluster_loop: rendering "cluster_pass tr W" cluster_inv "cluster_restless W" cr_page for tr W
  by unfold_locales (simp_all add: cluster_inv_pass cluster_again cluster_second)

subsection \<open>Properties\<close>

text \<open>When the LocalDisks cannot be loaded but the discovery results and the nodes can, the hook renders for ever.\<close>

lemma failed_disks_never_settle:
  assumes "repo_error (watched_repository (lw_disks W)) \<noteq> None"
    "repo_loaded (watched_repository (lw_lvdrs W))" "repo_loaded (watched_repository (lw_nodes W))"
  shows "settle (luns_pass tr g t W) (luns_mounted s) = None"
proof -
  have "luns_restless W"
    using assms normalize_error_no_data [of "wt_result (lw_disks W)"] normalize_error_loaded [of "wt_result (lw_disks W)"]
    by (auto simp: luns_restless_def data_missing_def watched_repository_def list_repository_def luns_snl_def
        useStorageNodesLvdrs_def)
  then show ?thesis by (rule luns_loop.restless_never [OF _ luns_inv_mounted])
qed

text \<open>C16: With its watches at rest, the LUNs hook settles unless everything has loaded and one of the three watches
  has no data, or an error it reports is made anew at every render (one the SDK does not give as an
  \<open>Error\<close>; of the two that are combined, the first counts). When it settles, the LUNs and the store are
  those after one run of its effects; otherwise it renders for ever.\<close>

theorem luns_hook_settles:
  "map_option (\<lambda>h. (lh_luns h, lh_store h)) (settle (luns_pass tr g t W) (luns_mounted s)) =
     (let disks = watched_repository (lw_disks W); nodes = luns_snl W in
      if error_made (lw_disks W) \<or> error_made (lw_lvdrs W) \<or>
         (nw_error (normalizeResult (wt_result (lw_lvdrs W))) = None \<and> error_made (lw_nodes W)) \<or>
         (repo_loaded disks \<and> snl_loaded nodes \<and>
          (data_missing (lw_disks W) \<or> data_missing (lw_lvdrs W) \<or> data_missing (lw_nodes W)))
      then None
      else Some (luns_effect g t disks nodes [],
        foldl reduce_or_keep s (luns_hook_actions tr (LunsData disks nodes True True))))"
proof -
  have "lh_luns (fst (luns_pass tr g t W (luns_mounted s))) =
      luns_effect g t (watched_repository (lw_disks W)) (luns_snl W) []"
    by (simp add: luns_pass_unfold luns_mounted_def luns_effect_def)
  moreover have "lh_store (fst (luns_pass tr g t W (luns_mounted s))) = foldl reduce_or_keep s
      (luns_hook_actions tr (LunsData (watched_repository (lw_disks W)) (luns_snl W) True True))"
    by (simp add: luns_pass_unfold luns_mounted_def)
  ultimately show ?thesis
    using luns_loop.settles_in [OF luns_inv_mounted, of tr g t W s] by (simp add: luns_restless_def Let_def)
qed

text \<open>C17: With its watches at rest, the page that creates a cluster settles exactly when no error is made anew at
  every render, and then it is the mounted page of the machine \<open>Cluster_Page\<close>; otherwise it renders for
  ever.\<close>

theorem cluster_page_settles:
  "map_option cr_page (settle (cluster_pass tr W) (cluster_mounted tr inFlight)) =
     (if error_made (cw_lvdrs W) \<or> error_made (cw_nodes W) then None
      else Some (page_mount tr (watched_repository (cw_nodes W)) (watched_repository (cw_lvdrs W)) inFlight))"
proof -
  have "cluster_inv (cluster_mounted tr inFlight)" by (simp add: cluster_inv_def cluster_mounted_def)
  moreover have "cr_page (fst (cluster_pass tr W (cluster_mounted tr inFlight))) =
      page_mount tr (watched_repository (cw_nodes W)) (watched_repository (cw_lvdrs W)) inFlight"
    by (simp add: cluster_pass_def cluster_mounted_def page_mount_def Let_def)
  ultimately show ?thesis
    using cluster_loop.settles_in [of "cluster_mounted tr inFlight" tr W] by (simp add: cluster_restless_def)
qed

end
