(* ===== verification/Memoised.thy ===== *)
theory Memoised
  imports Claim_Screens Nodes_Selection
begin

section \<open>Memoised values\<close>

text \<open>
  \<open>useMemo\<close>: a cell keeps the value with the dependencies it was computed for. The value shown is the
  one for the current data, after any renders, when the dependencies determine it; this is the contract
  of the locale. It is met by the status of a row of claims, whose dependencies are four fields of
  two conditions, and by the message below the table of nodes, whose dependencies are two counts. The
  view model of the row is composed here.
\<close>

definition useMemo :: "('d \<times> 'v) option \<Rightarrow> 'd \<Rightarrow> 'v \<Rightarrow> 'd \<times> 'v" where
  "useMemo cell deps fresh =
     (case cell of Some (d, v) \<Rightarrow> if d = deps then (d, v) else (deps, fresh) | None \<Rightarrow> (deps, fresh))"

fun memo_renders :: "('p \<Rightarrow> 'd) \<Rightarrow> ('p \<Rightarrow> 'v) \<Rightarrow> 'p list \<Rightarrow> ('d \<times> 'v) option \<Rightarrow> ('d \<times> 'v) option" where
  "memo_renders deps compute [] cell = cell"
| "memo_renders deps compute (p # ps) cell =
     memo_renders deps compute ps (Some (useMemo cell (deps p) (compute p)))"

locale memoised =
  fixes deps :: "'p \<Rightarrow> 'd" and compute :: "'p \<Rightarrow> 'v"
  assumes covers: "deps p = deps q \<Longrightarrow> compute p = compute q"
begin

lemma cell_current:
  assumes "cell = None \<or> (\<exists>q. cell = Some (deps q, compute q))"
  shows "useMemo cell (deps p) (compute p) = (deps p, compute p)"
  using assms
proof (elim disjE exE)
  fix q
  assume "cell = Some (deps q, compute q)"
  then show ?thesis using covers [of q p] by (simp add: useMemo_def)
qed (simp add: useMemo_def)

lemma renders_current: "memo_renders deps compute (ps @ [p]) None = Some (deps p, compute p)"
proof -
  have "memo_renders deps compute (ps @ [p]) cell = Some (deps p, compute p)"
    if "cell = None \<or> (\<exists>q. cell = Some (deps q, compute q))" for cell
    using that
  proof (induction ps arbitrary: cell)
    case (Cons q ps)
    then show ?case by (simp add: cell_current) blast
  qed (simp add: cell_current)
  then show ?thesis by blast
qed

end

subsection \<open>The row of a claim\<close>

definition ready_condition :: "FileSystemClaim \<Rightarrow> Condition option" where
  "ready_condition c = find (\<lambda>k. condition_type k = ''Ready'') (claim_conditions c)"

definition blocked_condition :: "FileSystemClaim \<Rightarrow> Condition option" where
  "blocked_condition c = find (\<lambda>k. condition_type k = ''DeletionBlocked'') (claim_conditions c)"

text \<open>The dependency list of the status; \<open>t\<close> is the same at every render.\<close>

definition claim_status_deps ::
  "FileSystemClaim \<Rightarrow> ConditionStatus option \<times> string option \<times> ConditionStatus option \<times> string option" where
  "claim_status_deps c =
     (map_option condition_status (blocked_condition c), map_option condition_message (ready_condition c),
      map_option condition_status (ready_condition c), map_option condition_reason (ready_condition c))"

record claim_row_vm =
  rw_fileSystemName :: "string option"
  rw_status :: claim_status
  rw_rawCapacity :: string

definition useFileSystemClaimsTableRowViewModel ::
  "translator \<Rightarrow> FileSystemClaim \<Rightarrow> Filesystem list \<Rightarrow> js_error + claim_row_vm" where
  "useFileSystemClaimsTableRowViewModel tr fileSystemClaim fileSystems =
     (case rawCapacity fileSystems of
        Inl e \<Rightarrow> Inl e
      | Inr c \<Rightarrow> Inr \<lparr>rw_fileSystemName = getName fileSystemClaim, rw_status = claim_row_status tr fileSystemClaim,
          rw_rawCapacity = c\<rparr>)"

lemma claim_status_covered:
  assumes "claim_status_deps c = claim_status_deps d"
  shows "claim_row_status tr c = claim_row_status tr d"
proof -
  have "condition_is (ready_condition c) s = condition_is (ready_condition d) s"
    "condition_is (blocked_condition c) s = condition_is (blocked_condition d) s"
    "condition_reason_is (ready_condition c) r = condition_reason_is (ready_condition d) r"
    "map_option condition_message (ready_condition c) = map_option condition_message (ready_condition d)" for s r
    using assms by (simp_all add: claim_status_deps_def condition_is_def condition_reason_is_def)
  then show ?thesis
    unfolding claim_row_status_def Let_def ready_condition_def [symmetric] blocked_condition_def [symmetric] by simp
qed

interpretation row_status_memo: memoised claim_status_deps "claim_row_status tr" for tr
  by unfold_locales (rule claim_status_covered)

text \<open>The status a row shows is that of the claim it was last rendered with, whatever it showed before.\<close>

lemma row_status_current:
  "map_option snd (memo_renders claim_status_deps (claim_row_status tr) (cs @ [c]) None) = Some (claim_row_status tr c)"
  by (simp add: row_status_memo.renders_current)

text \<open>The row renders, or throws, as its view model does.\<close>

lemma row_view_model_throws:
  "(\<exists>e. useFileSystemClaimsTableRowViewModel tr c fss = Inl e) \<longleftrightarrow> (\<exists>e. rawCapacity fss = Inl e)"
  by (simp add: useFileSystemClaimsTableRowViewModel_def split: sum.splits)

subsection \<open>The message below the table of nodes\<close>

definition message_deps :: "Node list \<times> lvdr list \<Rightarrow> nat \<times> nat" where
  "message_deps p = (length (selectedNodes (fst p)), sharedDisksCount (snd p) (selectedNodes (fst p)))"

definition table_message :: "translator \<Rightarrow> Node list \<times> lvdr list \<Rightarrow> string" where
  "table_message tr p =
     sharedDisksCountMessage tr (length (selectedNodes (fst p))) (sharedDisksCount (snd p) (selectedNodes (fst p)))"

interpretation message_memo: memoised message_deps "table_message tr" for tr
  by unfold_locales (simp add: message_deps_def table_message_def)

text \<open>The message shown is the one \<open>nodes_table_view_model\<close> computes for the current data.\<close>

lemma message_current:
  "map_option snd (memo_renders message_deps (table_message tr) (ps @ [(repo_items nodes, repo_items lvdrs)]) None) =
     Some (nt_sharedDisksCountMessage (nodes_table_view_model tr lvdrs nodes))"
  by (simp add: message_memo.renders_current nodes_table_view_model_def table_message_def Let_def)

end
