(* ===== verification/Selection_Spec.thy ===== *)
theory Selection_Spec
  imports Selection_Flow
begin

section \<open>What selecting nodes promises\<close>

text \<open>
  An abstract specification of the boxes: a set of selected nodes, changed by requests that flip one
  box each and are granted or denied. Rows, patches, the API server, the watch and the page of
  \<open>Selection_Flow\<close> implement it: a forward simulation maps every run of the flow to a run of the
  boxes, and what a row shows is what the specification says.
\<close>

subsection \<open>Forward simulation\<close>

text \<open>Every step of the implementation is a step of the specification or leaves its state alone.\<close>

locale forward_simulation =
  fixes cstep :: "'s \<Rightarrow> 'e \<Rightarrow> 's \<Rightarrow> bool" and astep :: "'a \<Rightarrow> 'a \<Rightarrow> bool" and abs :: "'s \<Rightarrow> 'a" and inv :: "'s \<Rightarrow> bool"
  assumes keeps: "inv s \<Longrightarrow> cstep s e t \<Longrightarrow> inv t"
    and simulates: "inv s \<Longrightarrow> cstep s e t \<Longrightarrow> abs t = abs s \<or> astep (abs s) (abs t)"
begin

lemma run_simulated:
  assumes "(\<lambda>s t. \<exists>e. cstep s e t)\<^sup>*\<^sup>* s t" "inv s"
  shows "inv t \<and> astep\<^sup>*\<^sup>* (abs s) (abs t)"
  using assms
proof (induction rule: rtranclp_induct)
  case (step t u)
  then obtain e where "cstep t e u" "inv t" "astep\<^sup>*\<^sup>* (abs s) (abs t)" by blast
  then show ?case using keeps simulates [of t e u] by (auto intro: rtranclp.rtrancl_into_rtrancl)
qed simp

end

subsection \<open>The boxes\<close>

text \<open>
  \<open>bs_asked\<close> are the boxes with a request that has not ended, \<open>bs_granted\<close> those of them whose request
  has taken effect.
\<close>

record boxes =
  bs_members :: "nat set"
  bs_asked :: "nat set"
  bs_granted :: "nat set"

definition flip_box :: "nat \<Rightarrow> nat set \<Rightarrow> nat set" where
  "flip_box i M = (if i \<in> M then M - {i} else insert i M)"

inductive box_step :: "nat \<Rightarrow> boxes \<Rightarrow> boxes \<Rightarrow> bool" for n where
  ask: "i < n \<Longrightarrow> i \<notin> bs_asked b \<Longrightarrow> box_step n b (b\<lparr>bs_asked := insert i (bs_asked b)\<rparr>)"
| grant: "i \<in> bs_asked b \<Longrightarrow> i \<notin> bs_granted b \<Longrightarrow>
     box_step n b (b\<lparr>bs_members := flip_box i (bs_members b), bs_granted := insert i (bs_granted b)\<rparr>)"
| finish: "i \<in> bs_granted b \<Longrightarrow>
     box_step n b (b\<lparr>bs_asked := bs_asked b - {i}, bs_granted := bs_granted b - {i}\<rparr>)"
| deny: "i \<in> bs_asked b \<Longrightarrow> i \<notin> bs_granted b \<Longrightarrow> box_step n b (b\<lparr>bs_asked := bs_asked b - {i}\<rparr>)"

definition box_shown :: "boxes \<Rightarrow> nat \<Rightarrow> row_status" where
  "box_shown b i = (if i \<in> bs_asked b then SelectionPending else checked_status (i \<in> bs_members b))"

subsection \<open>The abstraction\<close>

definition labelled :: "Node list \<Rightarrow> nat set" where
  "labelled nodes = {i. i < length nodes \<and> label_status (nodes ! i) = Selected}"

definition boxes_of :: "selection_flow \<Rightarrow> boxes" where
  "boxes_of s =
     \<lparr>bs_members = labelled (sf_server s),
      bs_asked = {i. i < length (sf_rows s) \<and> in_flight (sf_rows s ! i) \<noteq> []},
      bs_granted = sf_applied s\<rparr>"

text \<open>A pending patch asks for the opposite of the label of the node it was computed from.\<close>

definition patches_flip :: "selection_flow \<Rightarrow> bool" where
  "patches_flip s \<longleftrightarrow> (\<forall>r \<in> set (sf_rows s). \<forall>q \<in> set (in_flight r). pr_checked q = (label_status (pr_node q) \<noteq> Selected))"

definition boxes_inv :: "selection_flow \<Rightarrow> bool" where
  "boxes_inv s \<longleftrightarrow> mounted s \<and> flow_inv s \<and> patches_flip s"

definition mounted_trans ::
  "memory_texts \<Rightarrow> translator \<Rightarrow> selection_flow \<Rightarrow> flow_event \<Rightarrow> selection_flow \<Rightarrow> bool" where
  "mounted_trans cv tr s e t \<longleftrightarrow> flow_trans cv tr s e t \<and> caught_up s e \<and> mounted t"

lemma mounted_before: "flow_trans cv tr s e t \<Longrightarrow> mounted t \<Longrightarrow> mounted s"
  by (induction rule: flow_trans.induct)
    (auto dest: page_step_mounted simp: row_event_def apply_patch_def deliver_def server_update_def Let_def)

lemma checked_status_simps [simp]:
  "checked_status b = Selected \<longleftrightarrow> b" "checked_status b \<noteq> SelectionPending" "label_status n \<noteq> SelectionPending"
  by (simp_all add: checked_status_def label_status_def)

lemma checked_label: "checked_status (label_status n = Selected) = label_status n"
  by (simp add: checked_status_def label_status_def)

subsection \<open>Simulation of each step\<close>

lemma patches_flip_event:
  assumes "patches_flip s" "\<forall>q \<in> set (in_flight (f (sf_rows s ! i))). pr_checked q = (label_status (pr_node q) \<noteq> Selected)"
  shows "patches_flip (row_event cv i f (s\<lparr>sf_applied := A\<rparr>))" "patches_flip (row_event cv i f s)"
  using assms by (auto simp: patches_flip_def row_event_def dest!: set_update_subset_insert [THEN subsetD])

lemma patches_flip_row:
  "patches_flip s \<Longrightarrow> i < length (sf_rows s) \<Longrightarrow> q \<in> set (in_flight (sf_rows s ! i)) \<Longrightarrow>
     pr_checked q = (label_status (pr_node q) \<noteq> Selected)"
  unfolding patches_flip_def using nth_mem by blast

text \<open>The facts of the flow's invariant about row \<open>i\<close>.\<close>

lemma boxes_invD:
  assumes "boxes_inv s" "i < length (sf_rows s)"
  shows "row_fine (sf_rows s ! i) (sf_server s ! i) (i \<in> sf_applied s)" "i < length (sf_server s)"
    "metadata (sf_server s ! i) \<noteq> None" "row_inv (sf_rows s ! i)"
    "sf_feed s = [] \<Longrightarrow> closure_node (sf_rows s ! i) = sf_server s ! i"
proof -
  have inv: "sizes_ok s" "rows_ok s" using assms(1) by (simp_all add: boxes_inv_def flow_inv_def)
  show "row_fine (sf_rows s ! i) (sf_server s ! i) (i \<in> sf_applied s)" using rows_ok_fine [OF inv(2) assms(2)] .
  then show "row_inv (sf_rows s ! i)" by (simp add: row_fine_def)
  show len: "i < length (sf_server s)" using inv(1) assms(2) by (simp add: sizes_ok_def)
  then show "metadata (sf_server s ! i) \<noteq> None" using server_metadata [OF inv(1)] by simp
  show "sf_feed s = [] \<Longrightarrow> closure_node (sf_rows s ! i) = sf_server s ! i"
    using inv assms(2) by (simp add: sizes_ok_def rows_ok_def)
qed

lemma toggle_simulated:
  assumes "boxes_inv s" "i < length (sf_rows s)" "sf_feed s = []" "b = (row_status (sf_rows s ! i) \<noteq> Selected)"
  shows "patches_flip (row_event cv i (row_click b) s)"
    "boxes_of (row_event cv i (row_click b) s) = boxes_of s \<or>
     box_step (length (sf_server s)) (boxes_of s) (boxes_of (row_event cv i (row_click b) s))"
proof -
  note row = boxes_invD [OF assms(1,2)]
  let ?r = "sf_rows s ! i"
  have flips: "patches_flip s" using assms(1) by (simp add: boxes_inv_def)
  have pending: "closure_status ?r = SelectionPending \<longleftrightarrow> in_flight ?r \<noteq> []"
    using row(4) by (auto simp: row_inv_def split: if_splits)
  have idle: "row_status ?r = label_status (closure_node ?r)" if "in_flight ?r = []"
    using row(1,5) assms(3) that by (simp add: row_fine_def)
  show "patches_flip (row_event cv i (row_click b) s)"
    using patches_flip_row [OF flips assms(2)] idle pending assms(4)
    by (intro patches_flip_event [OF flips]) (auto simp: row_click_def)
  show "boxes_of (row_event cv i (row_click b) s) = boxes_of s \<or>
      box_step (length (sf_server s)) (boxes_of s) (boxes_of (row_event cv i (row_click b) s))"
  proof (cases "in_flight ?r = []")
    case True
    then have "boxes_of (row_event cv i (row_click b) s) = (boxes_of s)\<lparr>bs_asked := insert i (bs_asked (boxes_of s))\<rparr>"
      using assms(2) pending by (auto simp: boxes_of_def row_event_def row_click_def nth_list_update)
    moreover have "i \<notin> bs_asked (boxes_of s)" using True by (simp add: boxes_of_def)
    ultimately show ?thesis using box_step.ask [OF row(2), of "boxes_of s"] by simp
  next
    case False
    then show ?thesis using assms(2) pending by (auto simp: boxes_of_def row_event_def row_click_def nth_list_update)
  qed
qed

lemma labelled_update:
  "i < length ns \<Longrightarrow> labelled (ns[i := n]) = (if label_status n = Selected then insert i (labelled ns) else labelled ns - {i})"
  by (auto simp: labelled_def nth_list_update)

lemma apply_simulated:
  assumes "boxes_inv s" "i < length (sf_rows s)" "in_flight (sf_rows s ! i) \<noteq> []" "i \<notin> sf_applied s"
  shows "box_step n (boxes_of s) (boxes_of (apply_patch i s))"
proof -
  note row = boxes_invD [OF assms(1,2)]
  let ?n = "with_labels (sf_server s ! i) (pr_labels (row_patch s i))"
  obtain q where q: "in_flight (sf_rows s ! i) = [q]" "label_status (sf_server s ! i) = label_status (pr_node q)"
    "metadata (pr_node q) \<noteq> None" "pr_labels q = toggleNodeStorageRoleLabel (pr_node q) (pr_checked q)"
    by (rule row_fine_pending [OF row(1) assms(3)]) (use assms(4) in simp)
  have "pr_checked q = (label_status (pr_node q) \<noteq> Selected)"
    using patches_flip_row [OF _ assms(2)] assms(1) q(1) by (simp add: boxes_inv_def)
  then have "label_status ?n = checked_status (label_status (sf_server s ! i) \<noteq> Selected)"
    using q row(3) by (simp add: row_patch_def label_after_patch)
  moreover have "i \<in> labelled (sf_server s) \<longleftrightarrow> label_status (sf_server s ! i) = Selected"
    using row(2) by (simp add: labelled_def)
  ultimately have "labelled ((sf_server s)[i := ?n]) = flip_box i (labelled (sf_server s))"
    using row(2) by (simp add: labelled_update flip_box_def)
  then have "boxes_of (apply_patch i s) = (boxes_of s)\<lparr>bs_members := flip_box i (bs_members (boxes_of s)),
      bs_granted := insert i (bs_granted (boxes_of s))\<rparr>"
    by (simp add: boxes_of_def apply_patch_def)
  moreover have "i \<in> bs_asked (boxes_of s)" "i \<notin> bs_granted (boxes_of s)"
    using assms(2-4) by (simp_all add: boxes_of_def)
  ultimately show ?thesis using box_step.grant [of i "boxes_of s"] by simp
qed

text \<open>An answer or a refusal takes the one request of the row away.\<close>

lemma settled_row:
  assumes "boxes_inv s" "i < length (sf_rows s)" "in_flight (sf_rows s ! i) \<noteq> []"
    "in_flight (f (sf_rows s ! i)) = remove_nth 0 (in_flight (sf_rows s ! i))"
  shows "patches_flip (row_event cv i f (s\<lparr>sf_applied := A\<rparr>))"
    "boxes_of (row_event cv i f (s\<lparr>sf_applied := A\<rparr>)) =
       (boxes_of s)\<lparr>bs_asked := bs_asked (boxes_of s) - {i}, bs_granted := A\<rparr>"
proof -
  obtain q where q: "in_flight (sf_rows s ! i) = [q]"
    by (rule row_fine_pending [OF boxes_invD(1) [OF assms(1,2)] assms(3)])
  then have none: "in_flight (f (sf_rows s ! i)) = []" using assms(4) by (simp add: remove_nth_def)
  show "patches_flip (row_event cv i f (s\<lparr>sf_applied := A\<rparr>))"
    using assms(1) none by (intro patches_flip_event) (simp_all add: boxes_inv_def)
  show "boxes_of (row_event cv i f (s\<lparr>sf_applied := A\<rparr>)) =
      (boxes_of s)\<lparr>bs_asked := bs_asked (boxes_of s) - {i}, bs_granted := A\<rparr>"
    using none assms(2) by (auto simp: boxes_of_def row_event_def nth_list_update)
qed

lemma answer_simulated:
  assumes "boxes_inv s" "i \<in> sf_applied s"
  shows "patches_flip (row_event cv i (row_resolved 0) (s\<lparr>sf_applied := sf_applied s - {i}\<rparr>))"
    "box_step n (boxes_of s) (boxes_of (row_event cv i (row_resolved 0) (s\<lparr>sf_applied := sf_applied s - {i}\<rparr>)))"
proof -
  have i: "i < length (sf_rows s)" using assms by (auto simp: boxes_inv_def flow_inv_def rows_ok_def)
  then have "in_flight (sf_rows s ! i) \<noteq> []"
    using boxes_invD(1) [OF assms(1) i] assms(2) by (auto simp: row_fine_def)
  note row = settled_row [OF assms(1) i this, of "row_resolved 0"]
  show "patches_flip (row_event cv i (row_resolved 0) (s\<lparr>sf_applied := sf_applied s - {i}\<rparr>))"
    by (rule row) (simp add: row_resolved_def)
  have "boxes_of (row_event cv i (row_resolved 0) (s\<lparr>sf_applied := sf_applied s - {i}\<rparr>)) =
      (boxes_of s)\<lparr>bs_asked := bs_asked (boxes_of s) - {i}, bs_granted := bs_granted (boxes_of s) - {i}\<rparr>"
    by (subst row(2)) (simp_all add: row_resolved_def boxes_of_def)
  moreover have "i \<in> bs_granted (boxes_of s)" using assms(2) by (simp add: boxes_of_def)
  ultimately show "box_step n (boxes_of s) (boxes_of (row_event cv i (row_resolved 0) (s\<lparr>sf_applied := sf_applied s - {i}\<rparr>)))"
    using box_step.finish by metis
qed

lemma refuse_simulated:
  assumes "boxes_inv s" "i < length (sf_rows s)" "in_flight (sf_rows s ! i) \<noteq> []" "i \<notin> sf_applied s"
  shows "patches_flip (row_event cv i (row_rejected 0) s)"
    "box_step n (boxes_of s) (boxes_of (row_event cv i (row_rejected 0) s))"
proof -
  note row = settled_row [OF assms(1-3), of "row_rejected 0" cv "sf_applied s", simplified]
  show "patches_flip (row_event cv i (row_rejected 0) s)"
    by (rule row) (simp add: row_rejected_def)
  have "boxes_of (row_event cv i (row_rejected 0) s) = (boxes_of s)\<lparr>bs_asked := bs_asked (boxes_of s) - {i}\<rparr>"
    by (subst row(2)) (simp_all add: row_rejected_def boxes_of_def)
  moreover have "i \<in> bs_asked (boxes_of s)" "i \<notin> bs_granted (boxes_of s)" using assms(2-4) by (simp_all add: boxes_of_def)
  ultimately show "box_step n (boxes_of s) (boxes_of (row_event cv i (row_rejected 0) s))"
    using box_step.deny by metis
qed

lemma deliver_simulated:
  assumes "boxes_inv s" "sf_feed s \<noteq> []"
  shows "patches_flip (deliver cv tr s)" "boxes_of (deliver cv tr s) = boxes_of s"
proof -
  obtain ns rest where feed: "sf_feed s = ns # rest" using assms(2) by (cases "sf_feed s") auto
  have len: "length ns = length (sf_rows s)" and m: "mounted s"
    using assms(1) feed by (simp_all add: boxes_inv_def flow_inv_def sizes_ok_def)
  have rows: "sf_rows (deliver cv tr s) = map2 (row_shown cv) ns (sf_rows s)"
    using m by (simp add: deliver_def feed Let_def)
  then have same: "map in_flight (sf_rows (deliver cv tr s)) = map in_flight (sf_rows s)"
    using len by (intro nth_equalityI) simp_all
  then have "\<exists>r' \<in> set (sf_rows s). in_flight r' = in_flight r" if "r \<in> set (sf_rows (deliver cv tr s))" for r
    using that by (metis (no_types, lifting) image_iff image_set)
  then show "patches_flip (deliver cv tr s)"
    using assms(1) unfolding boxes_inv_def patches_flip_def by metis
  show "boxes_of (deliver cv tr s) = boxes_of s"
    using rows len by (auto simp: boxes_of_def) (auto simp: deliver_def Let_def)
qed

lemma relabel_simulated:
  assumes "i < length (sf_server s)" "same_role n (sf_server s ! i)"
  shows "boxes_of (server_update i n s) = boxes_of s"
proof -
  have "labelled ((sf_server s)[i := n]) = labelled (sf_server s)"
    using assms by (auto simp: labelled_update same_role_def) (auto simp: labelled_def)
  then show ?thesis by (simp add: boxes_of_def)
qed

lemma boxes_page [simp]:
  "boxes_of (on_page tr e s) = boxes_of s" "patches_flip (on_page tr e s) = patches_flip s"
  by (simp_all add: boxes_of_def patches_flip_def)

lemma patches_flip_server [simp]:
  "patches_flip (server_update i n s) = patches_flip s" "patches_flip (apply_patch i s) = patches_flip s"
  by (simp_all add: patches_flip_def apply_patch_def)

lemma flow_trans_simulated:
  assumes "boxes_inv s" "flow_trans cv tr s e t" "caught_up s e" "length (sf_server s) = n"
  shows "patches_flip t \<and> (boxes_of t = boxes_of s \<or> box_step n (boxes_of s) (boxes_of t))"
  using assms(2)
proof (cases rule: flow_trans.cases)
  case (toggle i b)
  then show ?thesis using toggle_simulated [OF assms(1) toggle(4) _ toggle(6)] assms(3,4) by simp
qed (use assms in \<open>simp_all add: apply_simulated answer_simulated refuse_simulated deliver_simulated relabel_simulated\<close>,
  use assms in \<open>simp_all add: boxes_inv_def\<close>)

lemma server_length: "flow_trans cv tr s e t \<Longrightarrow> length (sf_server t) = length (sf_server s)"
  by (induction rule: flow_trans.induct) (auto simp: apply_patch_def deliver_def Let_def)

text \<open>The number of nodes is fixed by the abstract machine.\<close>

interpretation boxes_sim: forward_simulation "mounted_trans cv tr" "box_step n" boxes_of
  "\<lambda>s. boxes_inv s \<and> length (sf_server s) = n" for cv tr n
proof
  fix s e t
  assume inv: "boxes_inv s \<and> length (sf_server s) = n" and step: "mounted_trans cv tr s e t"
  then have trans: "flow_trans cv tr s e t" "caught_up s e" "mounted t" by (simp_all add: mounted_trans_def)
  note sim = flow_trans_simulated [of s cv tr e t n]
  have "flow_inv t" using flow_trans_inv [OF trans(1) _ trans(2)] inv by (simp add: boxes_inv_def)
  then show "boxes_inv t \<and> length (sf_server t) = n"
    using sim inv trans server_length [OF trans(1)] by (simp add: boxes_inv_def)
  show "boxes_of t = boxes_of s \<or> box_step n (boxes_of s) (boxes_of t)" using sim inv trans by blast
qed

text \<open>A run that ends on the mounted page was on it all the time.\<close>

lemma run_mounted:
  "flow_run cv tr caught_up s t \<Longrightarrow> mounted t \<Longrightarrow> (\<lambda>s t. \<exists>e. mounted_trans cv tr s e t)\<^sup>*\<^sup>* s t \<and> mounted s"
proof (induction rule: flow_run.induct)
  case (run_step s t e u)
  then have "mounted_trans cv tr t e u" "mounted t" by (auto simp: mounted_trans_def dest: mounted_before)
  with run_step.IH show ?case by (auto intro: rtranclp.rtrancl_into_rtrancl)
qed simp

lemma boxes_mount:
  assumes "\<forall>n \<in> set nodes. metadata n \<noteq> None" "mounted (flow_mount cv tr nodes lvdrs b)"
  shows "boxes_inv (flow_mount cv tr nodes lvdrs b)"
    "boxes_of (flow_mount cv tr nodes lvdrs b) = \<lparr>bs_members = labelled nodes, bs_asked = {}, bs_granted = {}\<rparr>"
  using assms flow_inv_mount [OF assms(1), of cv tr lvdrs b]
  by (auto simp: boxes_inv_def patches_flip_def boxes_of_def flow_mount_fields row_mount_def)

subsection \<open>Properties\<close>

text \<open>C5: The boxes are what they seem: whatever rows, server, watch, other clients and page do, as long as a box is
  only clicked when the watch has caught up, a run on the mounted page is a run of the abstract boxes,
  in which every request flips exactly its own box, once, or is denied; and every row shows the state
  of its box: pending while it has a request, selected or not otherwise.\<close>

theorem flow_refines_boxes:
  assumes "flow_run cv tr caught_up (flow_mount cv tr nodes lvdrs b) s" "\<forall>n \<in> set nodes. metadata n \<noteq> None" "mounted s"
  shows "(box_step (length nodes))\<^sup>*\<^sup>* \<lparr>bs_members = labelled nodes, bs_asked = {}, bs_granted = {}\<rparr> (boxes_of s) \<and>
     map row_status (sf_rows s) = map (box_shown (boxes_of s)) [0..<length nodes]"
proof -
  let ?s0 = "flow_mount cv tr nodes lvdrs b"
  from run_mounted [OF assms(1,3)] have run: "(\<lambda>s t. \<exists>e. mounted_trans cv tr s e t)\<^sup>*\<^sup>* ?s0 s" "mounted ?s0" by simp_all
  note mount = boxes_mount [OF assms(2) run(2)]
  have "(boxes_inv s \<and> length (sf_server s) = length nodes) \<and> (box_step (length nodes))\<^sup>*\<^sup>* (boxes_of ?s0) (boxes_of s)"
    using mount(1) by (intro boxes_sim.run_simulated [OF run(1)]) (simp add: flow_mount_fields)
  then have s: "boxes_inv s" "length (sf_server s) = length nodes"
    "(box_step (length nodes))\<^sup>*\<^sup>* (boxes_of ?s0) (boxes_of s)" by simp_all
  then have len: "length (sf_rows s) = length nodes" by (simp add: boxes_inv_def flow_inv_def sizes_ok_def)
  have "row_status (sf_rows s ! i) = box_shown (boxes_of s) i" if i: "i < length nodes" for i
  proof -
    note row = boxes_invD [OF s(1), of i]
    show ?thesis
      using row(1,2,4) i len
      by (auto simp: row_fine_def row_inv_def box_shown_def boxes_of_def labelled_def checked_label split: if_splits)
  qed
  then have "map row_status (sf_rows s) = map (box_shown (boxes_of s)) [0..<length nodes]"
    using len by (intro nth_equalityI) simp_all
  with s(3) mount(2) show ?thesis by simp
qed

theorem flow_refines_boxes_witness:
  "\<exists>s. (box_step 1)\<^sup>*\<^sup>* \<lparr>bs_members = {}, bs_asked = {}, bs_granted = {}\<rparr> (boxes_of s) \<and>
     bs_asked (boxes_of s) = {0} \<and> map row_status (sf_rows s) = [SelectionPending]"
proof -
  let ?n = "example_node ''n0'' []" and ?tr = "\<lambda>k _. k :: string"
  let ?mount = "flow_mount example_texts ?tr [?n] example_discovery False"
  let ?click = "row_event example_texts 0 (row_click True) ?mount"
  have unlabelled: "label_status ?n = Unselected" by (simp add: label_status_def example_node_meta)
  have "row_warnings (row_shown example_texts ?n (row_mount ?n)) = {}"
    by (rule row_shown_calm) (simp_all add: example_node_memory row_mount_def)
  then have "flow_trans example_texts ?tr ?mount (Toggle 0 True) ?click"
    using unlabelled by (intro flow_trans.toggle) (simp_all add: flow_mount_fields row_mount_def)
  then have run: "flow_run example_texts ?tr caught_up ?mount ?click"
    by (rule flow_run_one) (simp add: flow_mount_fields)
  have asked: "bs_asked (boxes_of ?click) = {0}"
    using unlabelled by (auto simp: boxes_of_def row_event_def flow_mount_fields row_click_def row_mount_def)
  have "labelled [?n] = {}" using unlabelled by (auto simp: labelled_def)
  moreover have "\<forall>n \<in> set [?n]. metadata n \<noteq> None" "mounted ?click" by (simp_all add: example_node_meta flow_mount_fields)
  ultimately show ?thesis
    using flow_refines_boxes [OF run] asked by (intro exI [of _ ?click]) (simp add: box_shown_def)
qed

end
