(* ===== verification/End_To_End.thy ===== *)
theory End_To_End
  imports Selection_Flow Claim_Page
begin

section \<open>From the boxes to the devices of a claim\<close>

text \<open>
  The two pages are joined by the cluster: the boxes of the first label nodes, and the second lists the
  LUNs of the nodes its watch selects by label (\<open>useStorageNodesLvdrs\<close> of \<open>use_luns_use_case.ts\<close>).
\<close>

subsection \<open>The watches of both pages\<close>

text \<open>
  What the console's watch of nodes gives once it has loaded: for a label selector, the nodes of the
  cluster that match it. This is the documented behaviour of \<open>useK8sWatchResource\<close>.
\<close>

definition serves_nodes :: "Node watch \<Rightarrow> Node list \<Rightarrow> bool" where
  "serves_nodes watch nodes \<longleftrightarrow>
     (\<forall>sel. watch (no_options\<lparr>wo_isList := Some True, wo_groupVersionKind := Some node_gvk, wo_matchLabels := Some sel\<rparr>) =
        (Some (filter (\<lambda>n. matches_labels n sel) nodes), True, WatchUndefined))"

lemma worker_label_split: "WORKER_NODE_ROLE_LABEL = ''node-role.kubernetes.io/worker'' @ ''='' @ []"
  by (simp add: WORKER_NODE_ROLE_LABEL_def)

lemma role_labels:
  "CHR ''='' \<in> set WORKER_NODE_ROLE_LABEL" "CHR ''='' \<in> set STORAGE_ROLE_LABEL"
  "label_key WORKER_NODE_ROLE_LABEL = ''node-role.kubernetes.io/worker''"
proof -
  show "label_key WORKER_NODE_ROLE_LABEL = ''node-role.kubernetes.io/worker''"
    unfolding worker_label_split by (rule label_parts_eq) simp_all
qed (simp_all add: WORKER_NODE_ROLE_LABEL_def storage_role_label_has_eq)

lemma served_labelled:
  assumes "serves_nodes watch nodes" "distinct (map label_key ls)" "\<forall>l \<in> set ls. CHR ''='' \<in> set l"
  shows "repo_items (useNodesRepository watch no_options (Some ls)) = filter (\<lambda>n. \<forall>l \<in> set ls. hasLabel n l) nodes"
proof -
  have "watch (useWatchNodes_options no_options (Some ls)) =
      (Some (filter (\<lambda>n. matches_labels n (makeMatchLabelsSelector ls)) nodes), True, WatchUndefined)"
    using assms(1) by (simp add: serves_nodes_def useWatchNodes_options_def)
  then show ?thesis
    by (simp add: useNodesRepository_def useNormalizedK8sWatchResource_def list_repository_def normalizeResult_def
        selector_selects_labelled [OF assms(2,3)] Let_def)
qed


text \<open>The second page's nodes are the selected ones among the first page's.\<close>

lemma storage_nodes_selected:
  assumes "serves_nodes watch nodes"
  shows "repo_items (useNodesRepository watch no_options (Some storage_node_labels)) =
     selectedNodes (repo_items (useNodesRepository watch no_options (Some [WORKER_NODE_ROLE_LABEL])))"
  using role_labels by (simp add: storage_node_labels_def served_labelled [OF assms] selectedNodes_def conj_commute)

lemma storage_lvdrs_of:
  "l \<in> set (snl_data (useStorageNodesLvdrs results nodes)) \<longleftrightarrow>
     l \<in> set (repo_items results) \<and> (\<exists>n \<in> set (repo_items nodes). resource_name n = lvdr_nodeName l)"
  by (auto simp: useStorageNodesLvdrs_def find_None_iff)

subsection \<open>What a claim can ask for\<close>

definition claim_devices :: "FileSystemClaim \<Rightarrow> string list" where
  "claim_devices c = nullish (Option.bind (fileSystemClaim_spec c) fileSystemClaimSpec_devices) []"

lemma claim_devices_request [simp]: "claim_devices (file_system_claim_request n ds ns) = ds"
  by (simp add: claim_devices_def file_system_claim_request_def)

text \<open>The table, the memoised callback and the requests sent have LUNs of \<open>L\<close> only.\<close>

definition offers :: "(string \<times> string) set \<Rightarrow> 'f claim_page \<Rightarrow> bool" where
  "offers L p \<longleftrightarrow> set (listed (fp_luns p)) \<subseteq> L \<and>
     (\<forall>cb. fp_memo p = Some cb \<longrightarrow> set (listed (cb_luns cb)) \<subseteq> L) \<and>
     (\<forall>c \<in> set (fp_sent p). set (claim_devices c) \<subseteq> fst ` L)"

lemma selected_listed: "set (listed luns) \<subseteq> L \<Longrightarrow> set (selected_paths luns) \<subseteq> fst ` L"
  by (force simp: selected_paths_def listed_def)

lemma offers_settle:
  assumes "form_laws fc" "offers L p" "\<And>luns. set (listed luns) \<subseteq> L \<Longrightarrow> set (listed (S luns)) \<subseteq> L"
  shows "offers L (form_settle tr fc acts S p)"
  using assms(2,3) by (auto simp: offers_def settle_fields [OF assms(1)] claim_useCallback_def fp_render_def split: option.splits)

lemma offers_submit: "offers L p \<Longrightarrow> offers L (submit_claim tr p)"
  using selected_listed [of _ L]
  by (auto simp: offers_def submit_claim_def submitted_devices_def Let_def split: option.splits)

lemma offers_handler: "offers L p \<Longrightarrow> offers L (claim_handler g t tr fc p e)"
  using offers_submit [of L p tr]
  by (cases e)
    (auto simp: offers_def handleFileSystemNameChange_def handleSelectLun_def handleSelectAllLuns_def handleSubmitForm_def
      split: option.splits)

text \<open>Loaded reports all have the same devices and disks.\<close>

definition reports_only :: "LocalDisk repository \<Rightarrow> storage_nodes_lvdrs \<Rightarrow> claim_event \<Rightarrow> bool" where
  "reports_only disks nodes e \<longleftrightarrow>
     (\<forall>d n a b. e = LunsData d n a b \<and> repo_loaded d \<and> snl_loaded n \<longrightarrow>
        repo_items d = repo_items disks \<and> snl_data n = snl_data nodes)"

abbreviation offered_luns where
  "offered_luns g t disks nodes \<equiv> set (listed (makeLuns g t (snl_data nodes) (repo_items disks)))"

lemma hook_within:
  "reports_only disks nodes e \<Longrightarrow> set (listed luns) \<subseteq> offered_luns g t disks nodes \<Longrightarrow>
   set (listed (luns_hook_state g t e luns)) \<subseteq> offered_luns g t disks nodes"
  by (cases e) (auto simp: reports_only_def luns_effect_def)

lemma offers_step:
  assumes "form_laws fc" "offers (offered_luns g t disks nodes) p" "reports_only disks nodes e"
  shows "offers (offered_luns g t disks nodes) (claim_step g t tr fc p e)"
proof (cases "fp_visited p = []")
  case True
  with offers_settle [OF assms(1) offers_handler [OF assms(2)] hook_within [OF assms(3)]] show ?thesis
    by (simp add: claim_step_def)
next
  case False
  with assms(2) show ?thesis by (auto simp: claim_step_def offers_def split: claim_event.splits)
qed

lemma offers_mount:
  "form_laws fc \<Longrightarrow> offers (offered_luns g t disks nodes) (claim_mount g t tr fc f disks nodes b)"
  unfolding claim_mount_def by (rule offers_settle) (simp_all add: offers_def listed_def [of "[]"] luns_effect_def)

lemma offers_run:
  assumes "form_laws fc" "\<forall>e \<in> set es. reports_only disks nodes e" "offers (offered_luns g t disks nodes) p"
  shows "offers (offered_luns g t disks nodes) (foldl (claim_step g t tr fc) p es)"
  using assms(2,3) by (induction es arbitrary: p) (simp_all add: offers_step [OF assms(1)])

lemma sent_device:
  assumes "form_laws fc" "\<forall>e \<in> set es. reports_only disks nodes e" "wwns_once (snl_data nodes)"
    and "c \<in> set (fp_sent (foldl (claim_step g t tr fc) (claim_mount g t tr fc f disks nodes b) es))" "d \<in> set (claim_devices c)"
  shows "\<exists>l \<in> set (snl_data nodes). \<exists>x \<in> set (lvdr_devices l). discoveredDevice_path x = d \<and>
     (\<forall>k \<in> set (snl_data nodes). discoveredDevice_WWN x \<in> reported_wwns k) \<and>
     discoveredDevice_WWN x \<notin> disk_names (repo_items disks)"
proof -
  have "set (claim_devices c) \<subseteq> fst ` offered_luns g t disks nodes"
    using offers_run [OF assms(1,2) offers_mount [OF assms(1)]] assms(4) unfolding offers_def by blast
  with assms(5) obtain w where "(d, w) \<in> offered_luns g t disks nodes" by fastforce
  then show ?thesis by (rule listed_device [OF assms(3)])
qed

text \<open>Conversely, a listed LUN can be claimed: by a click on it, then typing a name, then the button.\<close>

lemma selected_only_click:
  assumes "lun \<in> set luns" "selected_paths luns = []"
  shows "selected_paths (setSelected lun True luns) = [lun_path lun]"
proof -
  have "selected_paths (select_first (lun_path lun) True ls) = [lun_path lun]"
    if "lun_path lun \<in> lun_path ` set ls" "selected_paths ls = []" for ls
    using that by (induction ls) (auto simp: selected_paths_simps split: if_splits)
  with assms show ?thesis by (auto simp: setSelected_def find_None_iff split: option.splits)
qed

lemma claim_sent:
  assumes fc: "form_laws fc" and p: "claim_inv fc p" "fp_visited p = []" "\<not> fp_inFlight p" "selected_paths (fp_luns p) = []"
    and lun: "lun \<in> set (fp_luns p)" and healthy: "daemon_health_effect daemons (fp_healthy p)"
    and n: "n \<noteq> fp_name fc p" "name_ok n"
  shows "fp_sent (foldl (claim_step g t tr fc) p [DaemonData daemons, ClickLun lun True, TypeName n, ClickSubmit]) =
     fp_sent p @ [file_system_claim_request n [lun_path lun] (Some SPECTRUM_SCALE_NAMESPACE)]"
proof -
  let ?step = "claim_step g t tr fc"
  let ?d = "?step p (DaemonData daemons)" let ?p = "?step ?d (ClickLun lun True)" let ?q = "?step ?p (TypeName n)"
  have inv: "claim_inv fc ?d" "claim_inv fc ?p" using claim_step_inv [OF fc] p(1) by blast+
  have d: "fp_visited ?d = []" "fp_healthy ?d" "\<not> fp_inFlight ?d" "fp_name fc ?d = fp_name fc p" "fp_luns ?d = fp_luns p"
    "fp_sent ?d = fp_sent p"
    using p healthy by (simp_all add: claim_step_def settle_fields [OF fc])
  then have p': "fp_visited ?p = []" "fp_healthy ?p" "\<not> fp_inFlight ?p" "n \<noteq> fp_name fc ?p"
    "selected_paths (fp_luns ?p) = [lun_path lun]" "fp_sent ?p = fp_sent p"
    using selected_only_click [OF lun p(4)] n(1)
    by (simp_all add: claim_step_def settle_fields [OF fc] handleSelectLun_def)
  note typed = type_step [OF fc inv(2) p'(1,4) refl, of g t tr]
  from typed(1) obtain cb where cb: "fp_memo ?q = Some cb" "cb_fileSystemName cb = n" "cb_luns cb = fp_luns ?p" by blast
  have "can_submit ?q"
    using enabled_iff(1) [OF claim_step_inv [OF fc inv(2)], of g t tr "TypeName n"] typed(5-8) p'(2,5) n(2)
    by (simp add: can_submit_def)
  from submit_step [OF fc typed(3) this _ cb(1), of g t tr] typed(2,4) p'(3,5,6) cb(2,3)
  show ?thesis by (simp add: submitted_devices_def)
qed

lemma mounted_page:
  assumes "form_laws fc" "form_empty fc f" "repo_loaded disks" "snl_loaded nodes"
    and p: "p = claim_mount g t tr fc f disks nodes b"
  shows "claim_inv fc p" "fp_visited p = []" "fp_inFlight p = b" "selected_paths (fp_luns p) = []" "fp_name fc p = []"
    "fp_sent p = []" "listed (fp_luns p) = listed (makeLuns g t (snl_data nodes) (repo_items disks))"
proof -
  show "claim_inv fc p" unfolding p by (rule claim_mount_inv [OF assms(1,2)])
  show "fp_visited p = []" "fp_inFlight p = b" "selected_paths (fp_luns p) = []" "fp_name fc p = []"
    "fp_sent p = []" "listed (fp_luns p) = listed (makeLuns g t (snl_data nodes) (repo_items disks))"
    unfolding p claim_mount_def settle_fields [OF assms(1)] using assms(2-4)
    by (simp_all add: luns_effect_def keep_nothing fp_name_def form_empty_def)
qed


subsection \<open>An example\<close>

text \<open>A cluster whose two nodes are workers and checked, and a claim that is sent from the second page.\<close>

definition checked_worker :: "string \<Rightarrow> Node" where
  "checked_worker name = example_node name [(''node-role.kubernetes.io/worker'', []), (''scale.spectrum.ibm.com/role'', ''storage'')]"

definition example_cluster :: "Node list" where
  "example_cluster = [checked_worker ''n0'', checked_worker ''n1'', example_node ''master'' []]"

definition example_watch :: "Node watch" where
  "example_watch o' =
     (Some (filter (\<lambda>n. matches_labels n (nullish (wo_matchLabels o') [])) example_cluster), True, WatchUndefined)"

lemma example_served: "serves_nodes example_watch example_cluster"
  by (simp add: serves_nodes_def example_watch_def)

lemma example_labels:
  "hasLabel (checked_worker n) WORKER_NODE_ROLE_LABEL" "hasLabel (checked_worker n) STORAGE_ROLE_LABEL"
  "\<not> hasLabel (example_node n []) l" "resource_name (checked_worker n) = Some n" "metadata (checked_worker n) \<noteq> None"
  "label_value WORKER_NODE_ROLE_LABEL = Some []"
proof -
  show v: "label_value WORKER_NODE_ROLE_LABEL = Some []"
    unfolding worker_label_split by (rule label_parts_eq) simp_all
  show "hasLabel (checked_worker n) WORKER_NODE_ROLE_LABEL" "hasLabel (checked_worker n) STORAGE_ROLE_LABEL"
    by (simp_all add: hasLabel_match role_labels v checked_worker_def example_node_def getLabels_def obj_get_def)
qed (simp_all add: checked_worker_def example_node_def hasLabel_def getLabels_def resource_name_def)

lemma example_pages:
  "repo_items (useNodesRepository example_watch no_options (Some [WORKER_NODE_ROLE_LABEL])) = [checked_worker ''n0'', checked_worker ''n1'']"
  "useStorageNodesLvdrs example_discovery (useNodesRepository example_watch no_options (Some storage_node_labels)) = example_nodes"
proof -
  show workers: "repo_items (useNodesRepository example_watch no_options (Some [WORKER_NODE_ROLE_LABEL])) =
      [checked_worker ''n0'', checked_worker ''n1'']"
    by (subst served_labelled [OF example_served]) (simp_all add: role_labels example_cluster_def example_labels)
  have storage: "repo_items (useNodesRepository example_watch no_options (Some storage_node_labels)) =
      [checked_worker ''n0'', checked_worker ''n1'']"
    by (simp add: storage_nodes_selected [OF example_served] workers selectedNodes_def example_labels)
  have "repo_loaded (useNodesRepository example_watch no_options ls)" "repo_error (useNodesRepository example_watch no_options ls) = None" for ls
    by (simp_all add: useNodesRepository_def useNormalizedK8sWatchResource_def list_repository_def normalizeResult_def example_watch_def Let_def)
  then show "useStorageNodesLvdrs example_discovery (useNodesRepository example_watch no_options (Some storage_node_labels)) = example_nodes"
    by (simp add: useStorageNodesLvdrs_def storage example_discovery_def example_nodes_def example_lvdrs_def example_labels js_or_def)
qed

abbreviation settled_example :: selection_flow where
  "settled_example \<equiv> flow_mount example_texts (\<lambda>k _. k) [checked_worker ''n0'', checked_worker ''n1''] example_discovery False"

lemma settled_example:
  "\<forall>n \<in> set [checked_worker ''n0'', checked_worker ''n1'']. metadata n \<noteq> None"
  "mounted settled_example" "quiet_flow settled_example"
  "shown_nodes settled_example = repo_items (useNodesRepository example_watch no_options (Some [WORKER_NODE_ROLE_LABEL]))"
  "wwns_once (snl_data example_nodes)"
  by (simp_all add: checked_worker_def example_node_def flow_mount_fields flow_mount_quiet example_nodes_def example_wwns_once)
    (simp_all add: example_pages checked_worker_def example_node_def)

lemma example_healthy: "daemon_health_effect example_daemons b"
  using daemon_health_iff [OF example_daemons_loaded] example_daemon_healthy by simp

lemma example_claim_sent:
  "fp_sent (foldl (claim_step (\<lambda>x u v. x) (\<lambda>_. []) (\<lambda>k _. k) simple_form) example_claim_page
     [DaemonData example_daemons, ClickLun (hd (fp_luns example_claim_page)) True, TypeName ''fs-1'', ClickSubmit]) =
   [file_system_claim_request ''fs-1'' [''/dev/sdb''] (Some SPECTRUM_SCALE_NAMESPACE)]"
proof -
  have "repo_loaded (example_disks [])" "snl_loaded example_nodes" by (simp_all add: example_disks_def example_nodes_def)
  note page = mounted_page [OF simple_form_laws simple_form_empty this example_claim_page_def]
  have "map fst (listed (fp_luns example_claim_page)) = map fst [(''/dev/sdb'', ''w1''), (''/dev/sdc'', ''w2'')]"
    using example_luns(1) unfolding page(7) by (simp add: listed_def example_nodes_def example_disks_def)
  then have "map lun_path (fp_luns example_claim_page) = [''/dev/sdb'', ''/dev/sdc'']" by (simp add: listed_def comp_def)
  then have lun: "hd (fp_luns example_claim_page) \<in> set (fp_luns example_claim_page)"
    "lun_path (hd (fp_luns example_claim_page)) = ''/dev/sdb''"
    by (cases "fp_luns example_claim_page"; auto)+
  have n: "name_ok ''fs-1''" using example_name_ok by (simp add: name_ok_def)
  show ?thesis
    using claim_sent [OF simple_form_laws page(1,2) _ page(4) lun(1) example_healthy _ n] page(3,5,6) lun(2) by simp
qed

subsection \<open>Properties\<close>

lemma checked_lvdrs:
  assumes "flow_run cv tr caught_up (flow_mount cv tr workers lvdrs b) s" "\<forall>n \<in> set workers. metadata n \<noteq> None"
    and "mounted s" "quiet_flow s" "serves_nodes watch nodes"
    and "shown_nodes s = repo_items (useNodesRepository watch no_options (Some [WORKER_NODE_ROLE_LABEL]))"
  shows "l \<in> set (snl_data (useStorageNodesLvdrs results (useNodesRepository watch no_options (Some storage_node_labels)))) \<longleftrightarrow>
     l \<in> set (repo_items results) \<and> (\<exists>n \<in> set (checked_rows s). resource_name n = lvdr_nodeName l)"
proof -
  have inv: "flow_inv s" using flow_run_inv [OF assms(1) flow_inv_mount [OF assms(2)]] .
  show ?thesis
    using quiet_checked [OF inv assms(3,4)] assms(6)
    by (simp add: storage_lvdrs_of storage_nodes_selected [OF assms(5)])
qed

text \<open>C3: From the boxes to the devices. When the first page has settled, after a run in which a box was only
  clicked once the watch had caught up, and the second page is opened on the same cluster, then whatever
  is typed, clicked, dismissed and submitted on it, every device a claim asks for is in a discovery result
  of a node whose box is checked, every discovery result of a checked node reports its WWN, and no
  LocalDisk has it. A checked node without a discovery result counts for nothing here. This assumes that
  both pages see the nodes that match their label selectors, that later loaded reports do not change the
  devices, and that no discovery result has a WWN twice.\<close>

theorem claims_use_checked_nodes:
  assumes "flow_run cv tr caught_up (flow_mount cv tr workers lvdrs b) s" "\<forall>n \<in> set workers. metadata n \<noteq> None"
    and "mounted s" "quiet_flow s"
    and watch: "serves_nodes watch nodes"
      "shown_nodes s = repo_items (useNodesRepository watch no_options (Some [WORKER_NODE_ROLE_LABEL]))"
    and snl: "snl = useStorageNodesLvdrs results (useNodesRepository watch no_options (Some storage_node_labels))"
      "wwns_once (snl_data snl)"
    and form: "form_laws fc" "\<forall>e \<in> set es. reports_only disks snl e"
    and claim: "c \<in> set (fp_sent (foldl (claim_step g t tr' fc) (claim_mount g t tr' fc f disks snl b') es))"
      "d \<in> set (claim_devices c)"
  shows "\<exists>x. discoveredDevice_path x = d \<and> discoveredDevice_WWN x \<notin> disk_names (repo_items disks) \<and>
     (\<exists>n \<in> set (checked_rows s). \<exists>l \<in> set (repo_items results). resource_name n = lvdr_nodeName l \<and> x \<in> set (lvdr_devices l)) \<and>
     (\<forall>n \<in> set (checked_rows s). \<forall>l \<in> set (repo_items results).
        resource_name n = lvdr_nodeName l \<longrightarrow> discoveredDevice_WWN x \<in> reported_wwns l)"
proof -
  have snl_iff: "l \<in> set (snl_data snl) \<longleftrightarrow>
      l \<in> set (repo_items results) \<and> (\<exists>n \<in> set (checked_rows s). resource_name n = lvdr_nodeName l)" for l
    unfolding snl(1) by (rule checked_lvdrs [OF assms(1-4) watch])
  from sent_device [OF form snl(2) claim] obtain l x where
    x: "l \<in> set (snl_data snl)" "x \<in> set (lvdr_devices l)" "discoveredDevice_path x = d"
      "\<forall>k \<in> set (snl_data snl). discoveredDevice_WWN x \<in> reported_wwns k" "discoveredDevice_WWN x \<notin> disk_names (repo_items disks)"
    by blast
  from x(1) obtain n where "n \<in> set (checked_rows s)" "resource_name n = lvdr_nodeName l" "l \<in> set (repo_items results)"
    by (auto simp: snl_iff)
  with x show ?thesis by (auto simp: snl_iff intro!: exI [of _ x])
qed

theorem claims_use_checked_nodes_witness:
  "\<exists>x. discoveredDevice_path x = ''/dev/sdb'' \<and>
     (\<exists>n \<in> set (checked_rows settled_example). \<exists>l \<in> set example_lvdrs.
        resource_name n = lvdr_nodeName l \<and> x \<in> set (lvdr_devices l))"
proof -
  let ?es = "[DaemonData example_daemons, ClickLun (hd (fp_luns example_claim_page)) True, TypeName ''fs-1'', ClickSubmit]"
  let ?c = "file_system_claim_request ''fs-1'' [''/dev/sdb''] (Some SPECTRUM_SCALE_NAMESPACE)"
  have c: "?c \<in> set (fp_sent (foldl (claim_step (\<lambda>x u v. x) (\<lambda>_. []) (\<lambda>k _. k) simple_form)
       (claim_mount (\<lambda>x u v. x) (\<lambda>_. []) (\<lambda>k _. k) simple_form ([], [], []) (example_disks []) example_nodes False) ?es))"
    "''/dev/sdb'' \<in> set (claim_devices ?c)"
    using example_claim_sent by (simp_all add: example_claim_page_def)
  have "\<forall>e \<in> set ?es. reports_only (example_disks []) example_nodes e" by (simp add: reports_only_def)
  from claims_use_checked_nodes [OF flow_run.run_refl settled_example(1-3) example_served settled_example(4)
      example_pages(2) [symmetric] settled_example(5) simple_form_laws this c]
  show ?thesis by (auto simp: example_discovery_def)
qed



end
