(* ===== verification/Spec2Isabelle.thy ===== *)
theory Spec2Isabelle
  imports Alert_Queue Lun_Selection Number_Bounds Cluster_Page Claim_Page I18n_Parser Console_Tests Selection_Races
    Navigation Render_Loop Memoised Selection_Spec End_To_End
begin

text \<open>
  The console plugin of the Fusion Access for SAN operator, modelled and verified.

  \<^bold>\<open>The program.\<close> The repository holds an OpenShift operator (Go) and a plugin of the OpenShift
  console (TypeScript, under \<open>src/console\<close>). The plugin lets an administrator select the worker nodes
  of a storage cluster, create the cluster, and create file system claims on the LUNs the nodes share.
  This development models the plugin. Its layers, bottom up:

  \<^item> resource types generated from the custom resource definitions (\<open>console/src/shared/types\<close>);
  \<^item> constants, resource kinds, the plugin's routes (\<open>constants.ts\<close>, \<open>data/models\<close>,
    \<open>config/dynamic-plugin.config.ts\<close>);
  \<^item> a normalised watch of the SDK and one repository per resource kind (\<open>shared/utils\<close>,
    \<open>data/repositories\<close>, \<open>data/services\<close>);
  \<^item> the page's store of alerts and the button state (\<open>shared/store\<close>);
  \<^item> use cases: the list of LUNs and the selection, creating a cluster, creating a claim, the routes
    (\<open>domain/use-cases\<close>);
  \<^item> view models and views of the screens (\<open>ui\<close>, \<open>shared/components\<close>).

  A view model reads repositories, which read watches; it dispatches actions to the store of its page,
  and the page renders the first alert and the button state of that store. Creating and patching go
  through the SDK, and the watches bring the result back. Beside the plugin there are the script that
  fills in the English texts (\<open>console/scripts/i18n\<close>), the build (\<open>console/config\<close>) and the support code
  of the integration tests.

  \<^bold>\<open>Theories.\<close>

  \<^item> \<open>Js_Prelude\<close>: errors, nullish values, arrays, strings, plain objects, \<open>Object.groupBy\<close>; the locales
    \<open>string_record\<close> (a record with string keys), \<open>machine\<close> (steps that keep an invariant) and
    \<open>refined_machine\<close> (a machine with an abstraction to a specification).
  \<^item> \<open>Js_Regexp\<close>: anchored regular expressions, a matcher by derivatives and its language.
  \<^item> \<open>Js_Number\<close>: non-negative doubles with rounding, integer parsing, \<open>toFixed(2)\<close>.
  \<^item> \<open>K8s_Types\<close>, \<open>Crd_Types\<close>, \<open>Crd_Scale\<close>: the resource types, one record per interface, an optional
    property as an option and a union of literals as a datatype.
  \<^item> \<open>Console_Constants\<close>, \<open>Resource_Common\<close> (name, labels, the storage role label), \<open>Store\<close>,
    \<open>Watch_Resource\<close>, \<open>Repositories\<close> (locale \<open>watched_list\<close>).
  \<^item> \<open>Luns\<close>: \<open>use_luns_use_case.ts\<close>; \<open>Create_Flows\<close>: the two creating callbacks (locale
    \<open>creating_callback\<close>) and the memoised submit callback.
  \<^item> \<open>Node_Memory\<close>, \<open>Nodes_Selection\<close>, \<open>Node_Row\<close>: quantities, the table of nodes and its validation
    effect, the state machine of one row.
  \<^item> \<open>File_System_Claims\<close>: name validation, the claim's status, raw capacity, dashboard link.
  \<^item> \<open>Components\<close>, \<open>Cluster_Screens\<close>, \<open>Claim_Screens\<close>: rendered elements as data, the shared components
    and the screens.
  \<^item> \<open>Alert_Queue\<close> and \<open>Lun_Selection\<close>: abstract specifications of the store's alerts and of the LUN
    selection, refined by \<open>Store\<close> and \<open>Luns\<close>; \<open>Number_Bounds\<close>: errors of the numbers shown, and bounds
    of the counts.
  \<^item> \<open>Cluster_Page\<close> and \<open>Claim_Page\<close>: the two creating pages as machines, each with its store, its
    effects in the order React runs them, its creating callback and the events of watches, user and
    requests.
  \<^item> \<open>Selection_Flow\<close>: the page for creating a cluster with the rows of its table, the nodes on the API
    server and the watch that brings changes back, as one step relation; \<open>Selection_Races\<close>: two runs of
    it that end badly; \<open>Selection_Spec\<close> (locale \<open>forward_simulation\<close>): abstract boxes, each flipped by a
    request that is granted once or denied, and the proof that the relation implements them.
  \<^item> \<open>End_To_End\<close>: both creating pages on one cluster, from the boxes to the devices of a claim.
  \<^item> \<open>Render_Loop\<close> (locale \<open>rendering\<close>): the two pages between renders, with dependencies compared by
    identity; the machines above are told by their events when a dependency is another object.
  \<^item> \<open>Memoised\<close> (locale \<open>memoised\<close>): memoised values whose dependencies determine them, and the view model of a
    row of claims.
  \<^item> \<open>Navigation\<close>: URLs looked up in the plugin's page routes and exposed modules, the rendered screens
    behind them, following redirects, and the ways redirects, buttons, the menu entry and the creating
    callbacks lead from URL to URL.
  \<^item> \<open>Json_Text\<close> (the JSON text of an object of strings), \<open>I18n_Defaults\<close> (the texts of one locale file) and
    \<open>I18n_Files\<close> (\<open>scripts/i18n/common.ts\<close> and \<open>set-english-defaults.ts\<close> as a process over a disk).
  \<^item> \<open>Plugin_Build\<close>: \<open>ui/services/use_localization_service.ts\<close> and \<open>config/webpack.config.ts\<close>;
    \<open>I18n_Parser\<close>: \<open>config/i18next-parser.config.mjs\<close> and the lexer \<open>config/i18n/lexers.mjs\<close>;
    \<open>Console_Tests\<close>: \<open>integration-tests\<close>, the commands of its support code and \<open>cypress.config.js\<close> as data.

  \<^bold>\<open>How state corresponds.\<close> A React hook with local state is a state and its steps: \<open>luns_step\<close> (the
  \<open>useState\<close> of \<open>useLunsUseCase\<close>), \<open>row_state\<close> (status, captured status and node, warnings, unsettled
  patches of a table row), \<open>kebab_state\<close>. A page is a record of its store, the data its watches last gave,
  the dependencies its effects last ran with and the requests still pending (\<open>cluster_page\<close>,
  \<open>claim_page\<close>); \<open>selection_flow\<close> adds the rows, the nodes on the server, the updates of the watch that
  are still to come and the patches applied but not answered. Fields for history record what was sent and
  visited. An effect is a function to the actions it dispatches. An asynchronous callback is the list of its effects up to the first \<open>await\<close> that never settles. A value
  the code captures in a closure is a separate field, so that stale closures are visible. A thrown
  error is \<open>Inl\<close>, an \<open>Error\<close> returned as a value too. What a request is rejected with may be anything
  (\<open>thrown\<close>: an \<open>Error\<close>, a string, a value that counts as absent, another object); the code casts it to a string, and
  an alert with another object as its description throws when it is rendered (\<open>VThrow\<close>).

  \<^bold>\<open>What is shown.\<close> The alerts refine a queue with one place in front for the requirements, and none of them
  starves; the button of the cluster page follows the requirements after any history, so a
  request for a cluster is only sent for nodes that meet them, and a failed one can be repeated. The LUNs
  offered are the devices in all discovery results of the storage nodes and not in use, with the counting
  rule the code really uses (exactly these when no discovery result has a WWN twice, \<open>wwns_once\<close>); the
  selection refines a set of WWNs and survives updates. The rendered button of the claim page is enabled
  exactly for an accepted name, a selection and healthy daemons, in every reachable state. The creating
  callbacks have the promised outcomes, and two of their defects are stated as theorems: a submission
  before the resource model is loaded never ends, and the submit callback keeps an old selection, so that
  a claim without devices can be sent. A node row has at most one patch in flight and settles to the
  node's label, the cluster's node selector is the selection.

  Rows, server, watch and page together, as long as a box is clicked only when the watch has caught up
  with the server (\<open>caught_up\<close>): when nothing is in flight, the checked boxes, the page's selection and the
  labels on the server agree; the whole is a simulation of boxes that requests flip one by one, and every
  row shows its box; and from any history clicks lead to a cluster on exactly the nodes one chooses, for any
  choice of three or more whose discovery results, at least two, share a device, when the environment does
  not interfere meanwhile (\<open>undisturbed\<close>). Without the condition a refused patch can leave a box wrong for
  good, and in any case a patch takes back labels set by others meanwhile; both are stated with their
  events in order (\<open>flow_path\<close>). Across both pages, under \<open>caught_up\<close>, \<open>wwns_once\<close> and for reports that do
  not change the devices, a claim only asks for devices that all discovery results of the checked nodes
  have and no LocalDisk uses, and each of these can be claimed.

  Quantities keep their number of bytes up to the rounding of doubles, the capacity of a LUN is its size in
  GiB, the name field accepts RFC 1123 subdomains, watch results have the documented outcomes. With
  the watches at rest the pages settle in the state their machines give, except for the cases, stated
  exactly, in which an array or an error made anew at every render makes them render for ever. No URL
  takes more than one redirect, every URL reached from the menu entry has a route to an exposed module, a first claim
  can be made from the entry page of a console without a cluster, and the cluster pages lead only to each
  other. The locale script writes files that read back with the defaults filled in, is idempotent on
  them, and stops at a file it cannot read; the lexer extracts exactly the texts between percent signs.

  \<^bold>\<open>Parameters, bounds and fuel.\<close> Third-party code is an argument: the translation function \<open>tr\<close>, the
  watch, \<open>k8sCreate\<close>, \<open>k8sPatch\<close> (its settling is the environment of the row), the unit conversions of
  \<open>convert\<close> (a function of the number and the two units; \<open>converts_bytes\<close> states what is documented of bytes and GiB),
  \<open>pluralize\<close>, Emotion's \<open>cx\<close>, i18next, the parser \<open>comment-json\<close>, the form context (a record of
  its functions with the documented laws \<open>form_laws\<close>). The API server, in \<open>Selection_Flow\<close>, applies a patch as
  a whole or refuses it, and the watch delivers every state in order; other clients change labels and status
  but not the storage role, the set of workers is fixed and rows are not mounted anew, which are
  restrictions of this environment and not of the code; in \<open>End_To_End\<close> a watch with a label
  selector gives the nodes that match it (\<open>serves_nodes\<close>); the console's router follows a \<open>Redirect\<close> and
  takes a route that names a URL before one that covers it with \<open>/*\<close>. No fuel is used: recursion is structural or has a measure, and what may not
  end (the loop of the creating functions, following redirects, rendering until nothing changes) is a \<open>partial_function\<close> with
  \<open>None\<close> for not ending. Strings are lists of characters below 256; integers are exact below \<open>2 ^ 53\<close>.

  \<^bold>\<open>Not modelled.\<close> The operator and its device finder (Go), styling
  attributes of elements, JSON values other than objects of strings (a parameter of the script), and
  the interfaces of \<open>openshift/4.19/types.ts\<close> the plugin does not use.
\<close>

section \<open>Properties across components\<close>

text \<open>From the checkbox to the cluster: when the patch of a row succeeds, the patched node counts as a
  selected node of the table, and matches the node selector of the storage cluster that is created
  next, exactly when its box was checked.\<close>

lemma checked_nodes_join_cluster:
  assumes "row_reachable n s" "r \<in> set (in_flight s)" "metadata (pr_node r) \<noteq> None"
  shows "let node' = with_labels (pr_node r) (pr_labels r) in
     (node' \<in> set (selectedNodes (others @ [node']))) = pr_checked r \<and>
     matches_labels node' storage_nodeSelector = pr_checked r"
proof -
  let ?n = "with_labels (pr_node r) (pr_labels r)"
  have l: "hasLabel ?n STORAGE_ROLE_LABEL = pr_checked r"
    using requests_ok_reachable [OF assms(1)] assms(2,3) by (simp add: requests_ok_def hasLabel_toggle)
  have "matches_labels ?n storage_nodeSelector = hasLabel ?n STORAGE_ROLE_LABEL"
    by (simp add: storage_nodeSelector_def obj_from_entries_distinct matches_labels_def
        hasLabel_match [OF storage_role_label_has_eq])
  with l show ?thesis by (auto simp: selectedNodes_def Let_def)
qed

end
